(* ===== verification/Prelude.thy ===== *)
theory Prelude
  imports Main "HOL-Library.Finite_Map" "HOL-Library.Char_ord" "HOL-Library.List_Lexorder"
begin

section \<open>Shared vocabulary of the development\<close>

text \<open>
  The types, lemma collections and generic facts the component theories share:
  Go values (\<^verbatim>\<open>int32\<close>, \<^verbatim>\<open>int64\<close>, byte strings, maps, JSON documents), Go errors with
  \<^verbatim>\<open>fmt.Errorf("...: %w")\<close> wrapping and the \<^verbatim>\<open>apierrors\<close> reasons the operator tests, and
  facts about finite maps used as label sets.

  Integers of the source (\<^verbatim>\<open>int32\<close> replica counts, ports and seconds, \<^verbatim>\<open>int64\<close>
  generations) are \<open>int\<close>: the only arithmetic the source performs on them is a division by
  five and comparisons, neither of which can leave the width, and the one range check
  (\<^verbatim>\<open>strconv.ParseInt(..., 32)\<close>) is written out. Go strings are byte strings, that is
  \<open>string\<close>. A Go map is a finite map; a nil map, like an empty one, is \<open>fmempty\<close>, and a nil
  slice, like an empty one, is \<open>[]\<close>.
\<close>

type_synonym int32 = int
type_synonym int64 = int
type_synonym strmap = "(string, string) fmap"
type_synonym time = int

named_theorems go_defs \<open>models of Go standard-library functions\<close>
named_theorems build_defs \<open>builders of Kubernetes objects\<close>
named_theorems ctrl_defs \<open>reconciler operations\<close>

subsection \<open>JSON documents\<close>

text \<open>
  The content of an \<^verbatim>\<open>unstructured.Unstructured\<close>, and the representation of every
  user-supplied API value the operator passes through without looking inside
  (tolerations, affinity, extra network-policy rules, ...).
\<close>

datatype json =
    JNull
  | JBool bool
  | JInt int
  | JStr string
  | JArr "json list"
  | JObj "(string, json) fmap"

subsection \<open>Errors\<close>

text \<open>
  A Go \<^verbatim>\<open>error\<close>: an API status error with the reason the operator distinguishes, any other
  error, or an error wrapped by \<^verbatim>\<open>fmt.Errorf("prefix: %w", err)\<close>.
\<close>

datatype error =
    NotFoundErr string
  | ConflictErr string
  | OtherErr string
  | WrapErr string error

text \<open>\<^verbatim>\<open>err.Error()\<close>.\<close>

primrec Error :: "error \<Rightarrow> string" where
  "Error (NotFoundErr m) = m"
| "Error (ConflictErr m) = m"
| "Error (OtherErr m) = m"
| "Error (WrapErr p e) = p @ '': '' @ Error e"

text \<open>
  \<^verbatim>\<open>apierrors.IsNotFound\<close> and \<^verbatim>\<open>apierrors.IsConflict\<close>: both look through wrapping
  (\<^verbatim>\<open>errors.As\<close>).
\<close>

primrec IsNotFound :: "error \<Rightarrow> bool" where
  "IsNotFound (NotFoundErr m) = True"
| "IsNotFound (ConflictErr m) = False"
| "IsNotFound (OtherErr m) = False"
| "IsNotFound (WrapErr p e) = IsNotFound e"

primrec IsConflict :: "error \<Rightarrow> bool" where
  "IsConflict (NotFoundErr m) = False"
| "IsConflict (ConflictErr m) = True"
| "IsConflict (OtherErr m) = False"
| "IsConflict (WrapErr p e) = IsConflict e"

lemma notfound_not_conflict [simp]: "IsNotFound e \<Longrightarrow> \<not> IsConflict e"
  by (induction e) auto

subsection \<open>Finite maps as label sets\<close>

text \<open>
  \<open>matchLabels sel l\<close>: the equality-based selector \<open>sel\<close> selects an object labelled \<open>l\<close>
  (every selector entry is an entry of \<open>l\<close>).
\<close>

definition matchLabels :: "strmap \<Rightarrow> strmap \<Rightarrow> bool" where
  "matchLabels sel l \<longleftrightarrow> fmpred (\<lambda>k v. fmlookup l k = Some v) sel"

lemma matchLabels_iff: "matchLabels sel l \<longleftrightarrow> fmlookup sel \<subseteq>\<^sub>m fmlookup l"
  by (auto simp: matchLabels_def map_le_def fmpred_iff dom_def fmlookup_dom'_iff
      split: option.splits)

lemma matchLabelsD: "matchLabels sel l \<Longrightarrow> fmlookup sel k = Some v \<Longrightarrow> fmlookup l k = Some v"
  by (auto simp: matchLabels_def)

lemma matchLabelsI: "(\<And>k v. fmlookup sel k = Some v \<Longrightarrow> fmlookup l k = Some v) \<Longrightarrow> matchLabels sel l"
  by (auto simp: matchLabels_def)

lemma matchLabels_refl [simp]: "matchLabels l l"
  by (simp add: matchLabels_iff)

lemma matchLabels_trans: "matchLabels a b \<Longrightarrow> matchLabels b c \<Longrightarrow> matchLabels a c"
  by (auto simp: matchLabels_iff intro: map_le_trans)

lemma matchLabels_clash:
  "fmlookup sel k = Some v \<Longrightarrow> fmlookup l k \<noteq> Some v \<Longrightarrow> \<not> matchLabels sel l"
  by (auto dest: matchLabelsD)

lemma fmadd_lookup_none [simp]: "fmlookup b k = None \<Longrightarrow> fmlookup (fmadd a b) k = fmlookup a k"
  by (simp add: fmlookup_dom_iff)

lemma fmadd_lookup_some [simp]: "fmlookup b k = Some v \<Longrightarrow> fmlookup (fmadd a b) k = Some v"
  by (simp add: fmlookup_dom_iff)

subsection \<open>Key lists of finite maps\<close>

lemma sorted_fset_facts [simp]:
  "set (sorted_list_of_fset s) = fset s" "distinct (sorted_list_of_fset s)"
  "sorted (sorted_list_of_fset s)"
  by (simp_all add: sorted_list_of_fset.rep_eq)

subsection \<open>Strings\<close>

lemma append_suffix_neq [simp]: "s \<noteq> [] \<Longrightarrow> n @ s \<noteq> n" and "s \<noteq> [] \<Longrightarrow> n \<noteq> n @ s"
  by auto

end
