(* ===== verification/KubeTypes.thy ===== *)
theory KubeTypes
  imports Prelude
begin

section \<open>The Kubernetes API types the operator reads and writes\<close>

text \<open>
  The structs of \<^verbatim>\<open>k8s.io/api\<close> and \<^verbatim>\<open>k8s.io/apimachinery\<close> as far as the source names their
  fields, one record per struct; a field the source never names is left out. A pointer
  field is an \<open>option\<close>. A user-supplied value that is only passed through (a toleration,
  an affinity, an extra rule) is its JSON document. Sum-like structs (\<^verbatim>\<open>VolumeSource\<close>,
  \<^verbatim>\<open>IntOrString\<close>) are datatypes. \<open>zero_*\<close> are Go zero values.
\<close>

subsection \<open>Metadata\<close>

record TypeMeta =
  tm_Kind :: string
  tm_APIVersion :: string

record OwnerReference =
  or_APIVersion :: string
  or_Kind :: string
  or_Name :: string
  or_UID :: string
  or_Controller :: "bool option"
  or_BlockOwnerDeletion :: "bool option"

record ObjectMeta =
  om_Name :: string
  om_Namespace :: string
  om_Labels :: strmap
  om_Annotations :: strmap
  om_UID :: string
  om_ResourceVersion :: string
  om_Generation :: int64
  om_DeletionTimestamp :: "time option"
  om_Finalizers :: "string list"
  om_OwnerReferences :: "OwnerReference list"

definition zero_ObjectMeta :: ObjectMeta where
  "zero_ObjectMeta = \<lparr>om_Name = [], om_Namespace = [], om_Labels = fmempty,
     om_Annotations = fmempty, om_UID = [], om_ResourceVersion = [], om_Generation = 0,
     om_DeletionTimestamp = None, om_Finalizers = [], om_OwnerReferences = []\<rparr>"

text \<open>\<^verbatim>\<open>types.NamespacedName\<close>: namespace and name.\<close>

type_synonym nsname = "string \<times> string"

definition meta_key :: "ObjectMeta \<Rightarrow> nsname" where
  "meta_key m = (om_Namespace m, om_Name m)"

datatype IntOrString = FromInt32 int32 | FromString string

text \<open>\<^verbatim>\<open>resource.Quantity\<close>, by its serialised form; its operations are parameters.\<close>

datatype Quantity = Quantity string

subsection \<open>ConfigMaps, ServiceAccounts and RBAC\<close>

record ConfigMap =
  cm_Meta :: ObjectMeta
  cm_Data :: strmap

record ServiceAccount =
  sa_Meta :: ObjectMeta
  sa_AutomountServiceAccountToken :: "bool option"

record PolicyRule =
  pr_APIGroups :: "string list"
  pr_Resources :: "string list"
  pr_ResourceNames :: "string list"
  pr_Verbs :: "string list"

record Role =
  role_Meta :: ObjectMeta
  role_Rules :: "PolicyRule list"

record RoleRef =
  rr_APIGroup :: string
  rr_Kind :: string
  rr_Name :: string

record Subject =
  sub_Kind :: string
  sub_Name :: string
  sub_Namespace :: string

record RoleBinding =
  rb_Meta :: ObjectMeta
  rb_RoleRef :: RoleRef
  rb_Subjects :: "Subject list"

subsection \<open>Services\<close>

record ServicePort =
  sp_Name :: string
  sp_Port :: int32
  sp_TargetPort :: IntOrString
  sp_Protocol :: string

record KServiceSpec =
  ks_Type :: string
  ks_Selector :: strmap
  ks_Ports :: "ServicePort list"
  ks_ClusterIP :: string
  ks_PublishNotReadyAddresses :: bool

record Service =
  svc_Meta :: ObjectMeta
  svc_Spec :: KServiceSpec

subsection \<open>Pods and StatefulSets\<close>

record EnvVar =
  env_Name :: string
  env_Value :: string
  env_ValueFrom :: "json option"

record ContainerPort =
  cp_Name :: string
  cp_ContainerPort :: int32
  cp_Protocol :: string

record VolumeMount =
  vm_Name :: string
  vm_MountPath :: string
  vm_ReadOnly :: bool
  vm_Rest :: json

record HTTPGetAction =
  hg_Path :: string
  hg_Port :: IntOrString

record Probe =
  pb_HTTPGet :: HTTPGetAction
  pb_InitialDelaySeconds :: int32
  pb_TimeoutSeconds :: int32
  pb_PeriodSeconds :: int32
  pb_FailureThreshold :: int32

datatype SecurityContext =
    UserSecurityContext json
  | HardenedSecurityContext (sc_RunAsNonRoot: "bool option")
      (sc_AllowPrivilegeEscalation: "bool option")
      (sc_ReadOnlyRootFilesystem: "bool option")
      (sc_DropCapabilities: "string list")

datatype PodSecurityContext =
    UserPodSecurityContext json
  | DefaultPodSecurityContext (psc_RunAsNonRoot: "bool option") (psc_FSGroup: "int64 option")
      (psc_SeccompProfileType: string)

record Container =
  c_Name :: string
  c_Image :: string
  c_ImagePullPolicy :: string
  c_Args :: "string list"
  c_Ports :: "ContainerPort list"
  c_Env :: "EnvVar list"
  c_EnvFrom :: "json list"
  c_Resources :: json
  c_VolumeMounts :: "VolumeMount list"
  c_SecurityContext :: "SecurityContext option"
  c_LivenessProbe :: "Probe option"
  c_ReadinessProbe :: "Probe option"
  c_StartupProbe :: "Probe option"
  c_Rest :: json

datatype VolumeSource =
    ConfigMapVolume (cmv_Name: string) (cmv_DefaultMode: "int32 option")
  | EmptyDirVolume
  | ClaimVolume (cv_ClaimName: string)
  | OtherVolume json

record Volume =
  v_Name :: string
  v_Source :: VolumeSource

record PodSpec =
  ps_ServiceAccountName :: string
  ps_SecurityContext :: "PodSecurityContext option"
  ps_ImagePullSecrets :: "string list"
  ps_NodeSelector :: strmap
  ps_Tolerations :: "json list"
  ps_Affinity :: "json option"
  ps_InitContainers :: "Container list"
  ps_Containers :: "Container list"
  ps_Volumes :: "Volume list"

record PodTemplateSpec =
  pt_Labels :: strmap
  pt_Annotations :: strmap
  pt_Spec :: PodSpec

record PersistentVolumeClaim =
  pvc_Meta :: ObjectMeta
  pvc_AccessModes :: "string list"
  pvc_StorageRequest :: Quantity
  pvc_StorageClassName :: "string option"

record StatefulSetSpec =
  ss_Replicas :: "int32 option"
  ss_ServiceName :: string
  ss_PodManagementPolicy :: string
  ss_Selector :: strmap
  ss_Template :: PodTemplateSpec
  ss_VolumeClaimTemplates :: "PersistentVolumeClaim list"

record StatefulSetStatus =
  st_ObservedGeneration :: int64
  st_ReadyReplicas :: int32

record StatefulSet =
  sts_Meta :: ObjectMeta
  sts_Spec :: StatefulSetSpec
  sts_Status :: StatefulSetStatus

subsection \<open>Networking, disruption budgets, autoscaling\<close>

record IngressPath =
  ip_Path :: string
  ip_PathType :: "string option"
  ip_ServiceName :: string
  ip_ServicePort :: int32

record IngressRule =
  ir_Host :: string
  ir_Paths :: "IngressPath list"

record IngressTLS =
  tls_Hosts :: "string list"
  tls_SecretName :: string

record Ingress =
  ing_Meta :: ObjectMeta
  ing_ClassName :: "string option"
  ing_Rules :: "IngressRule list"
  ing_TLS :: "IngressTLS list"

record NetworkPolicyPort =
  npp_Protocol :: "string option"
  npp_Port :: "IntOrString option"

text \<open>An ingress or egress rule: the operator's own lists ports only.\<close>

datatype NetworkPolicyRule =
    PortsRule (npr_Ports: "NetworkPolicyPort list")
  | UserRule json

record NetworkPolicy =
  np_Meta :: ObjectMeta
  np_PodSelector :: strmap
  np_PolicyTypes :: "string list"
  np_Ingress :: "NetworkPolicyRule list"
  np_Egress :: "NetworkPolicyRule list"

record PodDisruptionBudget =
  pdb_Meta :: ObjectMeta
  pdb_Selector :: strmap
  pdb_MinAvailable :: "IntOrString option"
  pdb_MaxUnavailable :: "IntOrString option"

record MetricSpec =
  ms_Type :: string
  ms_ResourceName :: string
  ms_TargetType :: string
  ms_AverageUtilization :: "int32 option"

record HorizontalPodAutoscaler =
  hpa_Meta :: ObjectMeta
  hpa_TargetAPIVersion :: string
  hpa_TargetKind :: string
  hpa_TargetName :: string
  hpa_MinReplicas :: "int32 option"
  hpa_MaxReplicas :: int32
  hpa_Metrics :: "MetricSpec list"

text \<open>\<^verbatim>\<open>unstructured.Unstructured\<close>: an untyped object.\<close>

record Unstructured =
  us_Object :: json

subsection \<open>Status conditions\<close>

datatype ConditionStatus = ConditionTrue | ConditionFalse | ConditionUnknown

record Condition =
  cond_Type :: string
  cond_Status :: ConditionStatus
  cond_ObservedGeneration :: int64
  cond_LastTransitionTime :: time
  cond_Reason :: string
  cond_Message :: string

end
