(* ===== verification/ApiTypes.thy ===== *)
theory ApiTypes
  imports KubeTypes
begin

section \<open>The TlnDB custom resource (api/v1alpha1/tlndb\_types.go)\<close>

text \<open>
  One record per struct of the source, fields in the source's order and with its names
  (prefixed, since record fields are global). A \<^verbatim>\<open>LocalObjectReference\<close> is its name.
\<close>

subsection \<open>Constants\<close>

definition PhasePending :: string where "PhasePending = ''Pending''"
definition PhaseProvisioning :: string where "PhaseProvisioning = ''Provisioning''"
definition PhaseRunning :: string where "PhaseRunning = ''Running''"
definition PhaseDegraded :: string where "PhaseDegraded = ''Degraded''"
definition PhaseFailed :: string where "PhaseFailed = ''Failed''"
definition PhaseTerminating :: string where "PhaseTerminating = ''Terminating''"

lemmas phase_defs = PhasePending_def PhaseProvisioning_def PhaseRunning_def
  PhaseDegraded_def PhaseFailed_def PhaseTerminating_def

definition ConditionStatefulSetReady :: string where
  "ConditionStatefulSetReady = ''StatefulSetReady''"
definition ConditionConfigMapReady :: string where
  "ConditionConfigMapReady = ''ConfigMapReady''"
definition ConditionServiceReady :: string where
  "ConditionServiceReady = ''ServiceReady''"
definition ConditionRBACReady :: string where
  "ConditionRBACReady = ''RBACReady''"
definition ConditionNetworkPolicyReady :: string where
  "ConditionNetworkPolicyReady = ''NetworkPolicyReady''"
definition ConditionServiceMonitorReady :: string where
  "ConditionServiceMonitorReady = ''ServiceMonitorReady''"

lemmas condition_defs = ConditionStatefulSetReady_def ConditionConfigMapReady_def
  ConditionServiceReady_def ConditionRBACReady_def ConditionNetworkPolicyReady_def
  ConditionServiceMonitorReady_def

subsection \<open>Specification\<close>

record ImageSpec =
  img_Repository :: string
  img_Tag :: string
  img_Digest :: string
  img_PullPolicy :: string
  img_PullSecrets :: "string list"

record TlnDBConfig =
  cfg_DBPath :: string
  cfg_TCP :: string
  cfg_HTTP :: string
  cfg_Socket :: string
  cfg_ExtraConfig :: string

record PersistenceSpec =
  per_Enabled :: "bool option"
  per_Size :: Quantity
  per_StorageClassName :: "string option"
  per_AccessModes :: "string list"
  per_ExistingClaim :: string

record StorageSpec =
  sto_Persistence :: PersistenceSpec

record ReplicationSpec =
  rep_ReadReplicas :: int32
  rep_OplogRetention :: int64

record ServiceSpec =
  ssp_Type :: string
  ssp_Annotations :: strmap
  ssp_Labels :: strmap

record IngressSpec =
  isp_Enabled :: bool
  isp_ClassName :: "string option"
  isp_Host :: string
  isp_Path :: string
  isp_TLSSecretName :: string
  isp_Annotations :: strmap

record NetworkPolicySpec =
  nsp_Enabled :: bool
  nsp_IngressRules :: "json list"
  nsp_EgressRules :: "json list"

record NetworkingSpec =
  net_Service :: ServiceSpec
  net_Ingress :: IngressSpec
  net_NetworkPolicy :: NetworkPolicySpec

record ServiceMonitorSpec =
  sms_Enabled :: bool
  sms_Interval :: string
  sms_Labels :: strmap

record MetricsSpec =
  met_Enabled :: "bool option"
  met_Port :: int32
  met_Path :: string
  met_ServiceMonitor :: ServiceMonitorSpec

record HealthSpec =
  hlt_InitialDelaySeconds :: int32
  hlt_StartupTimeoutSeconds :: int32

record ObservabilitySpec =
  obs_Metrics :: MetricsSpec
  obs_Health :: HealthSpec

record PDBSpec =
  pds_Enabled :: bool
  pds_MinAvailable :: "int32 option"
  pds_MaxUnavailable :: "int32 option"

record HPASpec =
  hps_Enabled :: bool
  hps_MinReplicas :: "int32 option"
  hps_MaxReplicas :: int32
  hps_CPUUtilization :: "int32 option"
  hps_MemoryUtilization :: "int32 option"

record AvailabilitySpec =
  av_PodDisruptionBudget :: PDBSpec
  av_HorizontalPodAutoscaler :: HPASpec

record SecuritySpec =
  sec_PodSecurityContext :: "json option"
  sec_ContainerSecurityContext :: "json option"
  sec_FSGroup :: "int64 option"

record TlnDBSpec =
  spec_Mode :: string
  spec_Replication :: ReplicationSpec
  spec_Image :: ImageSpec
  spec_Replicas :: "int32 option"
  spec_Config :: TlnDBConfig
  spec_ConfigFrom :: "string option"
  spec_Env :: "EnvVar list"
  spec_EnvFrom :: "json list"
  spec_Resources :: json
  spec_Storage :: StorageSpec
  spec_Networking :: NetworkingSpec
  spec_Security :: SecuritySpec
  spec_Observability :: ObservabilitySpec
  spec_Availability :: AvailabilitySpec
  spec_NodeSelector :: strmap
  spec_Tolerations :: "json list"
  spec_Affinity :: "json option"
  spec_PodAnnotations :: strmap
  spec_ServiceAccountName :: string
  spec_InitContainers :: "Container list"
  spec_AdditionalContainers :: "Container list"
  spec_AdditionalVolumes :: "Volume list"
  spec_AdditionalVolumeMounts :: "VolumeMount list"

subsection \<open>Status and the resource itself\<close>

record TlnDBStatus =
  sta_Phase :: string
  sta_Conditions :: "Condition list"
  sta_ObservedGeneration :: int64
  sta_ReadyReplicas :: int32
  sta_CurrentImage :: string
  sta_ManagedResources :: "string list"
  sta_LastUpdateTime :: "time option"

record TlnDB =
  db_Meta :: ObjectMeta
  db_Spec :: TlnDBSpec
  db_Status :: TlnDBStatus

abbreviation db_Name :: "TlnDB \<Rightarrow> string" where
  "db_Name inst \<equiv> om_Name (db_Meta inst)"

abbreviation db_Namespace :: "TlnDB \<Rightarrow> string" where
  "db_Namespace inst \<equiv> om_Namespace (db_Meta inst)"

subsection \<open>Zero values, and the instance the unit tests use\<close>

definition zero_TlnDBSpec :: TlnDBSpec where
  "zero_TlnDBSpec = \<lparr>
     spec_Mode = [],
     spec_Replication = \<lparr>rep_ReadReplicas = 0, rep_OplogRetention = 0\<rparr>,
     spec_Image = \<lparr>img_Repository = [], img_Tag = [], img_Digest = [], img_PullPolicy = [],
                   img_PullSecrets = []\<rparr>,
     spec_Replicas = None,
     spec_Config = \<lparr>cfg_DBPath = [], cfg_TCP = [], cfg_HTTP = [], cfg_Socket = [],
                    cfg_ExtraConfig = []\<rparr>,
     spec_ConfigFrom = None,
     spec_Env = [],
     spec_EnvFrom = [],
     spec_Resources = JNull,
     spec_Storage = \<lparr>sto_Persistence = \<lparr>per_Enabled = None, per_Size = Quantity ''0'',
       per_StorageClassName = None, per_AccessModes = [], per_ExistingClaim = []\<rparr>\<rparr>,
     spec_Networking = \<lparr>
       net_Service = \<lparr>ssp_Type = [], ssp_Annotations = fmempty, ssp_Labels = fmempty\<rparr>,
       net_Ingress = \<lparr>isp_Enabled = False, isp_ClassName = None, isp_Host = [], isp_Path = [],
                      isp_TLSSecretName = [], isp_Annotations = fmempty\<rparr>,
       net_NetworkPolicy = \<lparr>nsp_Enabled = False, nsp_IngressRules = [], nsp_EgressRules = []\<rparr>\<rparr>,
     spec_Security = \<lparr>sec_PodSecurityContext = None, sec_ContainerSecurityContext = None,
                      sec_FSGroup = None\<rparr>,
     spec_Observability = \<lparr>
       obs_Metrics = \<lparr>met_Enabled = None, met_Port = 0, met_Path = [],
         met_ServiceMonitor = \<lparr>sms_Enabled = False, sms_Interval = [], sms_Labels = fmempty\<rparr>\<rparr>,
       obs_Health = \<lparr>hlt_InitialDelaySeconds = 0, hlt_StartupTimeoutSeconds = 0\<rparr>\<rparr>,
     spec_Availability = \<lparr>
       av_PodDisruptionBudget = \<lparr>pds_Enabled = False, pds_MinAvailable = None,
                                 pds_MaxUnavailable = None\<rparr>,
       av_HorizontalPodAutoscaler = \<lparr>hps_Enabled = False, hps_MinReplicas = None,
         hps_MaxReplicas = 0, hps_CPUUtilization = None, hps_MemoryUtilization = None\<rparr>\<rparr>,
     spec_NodeSelector = fmempty,
     spec_Tolerations = [],
     spec_Affinity = None,
     spec_PodAnnotations = fmempty,
     spec_ServiceAccountName = [],
     spec_InitContainers = [],
     spec_AdditionalContainers = [],
     spec_AdditionalVolumes = [],
     spec_AdditionalVolumeMounts = []\<rparr>"

definition zero_TlnDBStatus :: TlnDBStatus where
  "zero_TlnDBStatus = \<lparr>sta_Phase = [], sta_Conditions = [], sta_ObservedGeneration = 0,
     sta_ReadyReplicas = 0, sta_CurrentImage = [], sta_ManagedResources = [],
     sta_LastUpdateTime = None\<rparr>"

text \<open>The instance of the unit tests: name \<^verbatim>\<open>db1\<close>, namespace \<^verbatim>\<open>ns1\<close>, everything else zero.\<close>

definition newInstance :: TlnDB where
  "newInstance = \<lparr>db_Meta = zero_ObjectMeta\<lparr>om_Name := ''db1'', om_Namespace := ''ns1''\<rparr>,
     db_Spec = zero_TlnDBSpec, db_Status = zero_TlnDBStatus\<rparr>"

lemmas zero_defs = zero_ObjectMeta_def zero_TlnDBSpec_def zero_TlnDBStatus_def newInstance_def

text \<open>
  What the CRD schema enforces on admission and the operator relies on
  (the kubebuilder markers of the source): the enumerated modes and the numeric minima.
\<close>

definition crd_valid :: "TlnDB \<Rightarrow> bool" where
  "crd_valid inst \<longleftrightarrow>
     spec_Mode (db_Spec inst) \<in> {''standalone'', ''replicated''} \<and>
     0 \<le> rep_ReadReplicas (spec_Replication (db_Spec inst)) \<and>
     0 \<le> rep_OplogRetention (spec_Replication (db_Spec inst)) \<and>
     (case spec_Replicas (db_Spec inst) of None \<Rightarrow> True | Some n \<Rightarrow> 0 \<le> n) \<and>
     img_PullPolicy (spec_Image (db_Spec inst)) \<in> {[], ''Always'', ''IfNotPresent'', ''Never''} \<and>
     ssp_Type (net_Service (spec_Networking (db_Spec inst)))
       \<in> {[], ''ClusterIP'', ''NodePort'', ''LoadBalancer''}"

end
