(* ===== verification/GoStd.thy ===== *)
theory GoStd
  imports Prelude
begin

section \<open>The Go standard-library functions the operator uses\<close>

text \<open>
  \<^verbatim>\<open>strconv.FormatInt\<close> / \<^verbatim>\<open>%d\<close>, \<^verbatim>\<open>strconv.ParseInt\<close> (base 10), \<^verbatim>\<open>strings.LastIndex\<close>,
  \<^verbatim>\<open>strings.TrimSpace\<close> and the quoting verb \<^verbatim>\<open>%q\<close> (\<^verbatim>\<open>strconv.Quote\<close>), on byte strings.
  The one part that is a parameter is the Unicode table behind \<^verbatim>\<open>strconv.IsPrint\<close> for
  runes from U+0100 on.
\<close>

subsection \<open>Decimal numbers\<close>

definition digit :: "nat \<Rightarrow> char" where
  "digit d = ''0123456789'' ! d"

fun dec :: "nat \<Rightarrow> string" where
  "dec n = (if n < 10 then [digit n] else dec (n div 10) @ [digit (n mod 10)])"

declare dec.simps [simp del]

text \<open>\<^verbatim>\<open>strconv.FormatInt(i, 10)\<close>, also the verb \<^verbatim>\<open>%d\<close>.\<close>

definition FormatInt :: "int \<Rightarrow> string" where
  "FormatInt i = (if i < 0 then CHR ''-'' # dec (nat (- i)) else dec (nat i))"

definition digit_val :: "char \<Rightarrow> nat option" where
  "digit_val c = (let n = of_char c in if 48 \<le> n \<and> n \<le> 57 then Some (n - 48) else None)"

fun parse_digits :: "nat \<Rightarrow> string \<Rightarrow> nat option" where
  "parse_digits acc [] = Some acc"
| "parse_digits acc (c # cs) =
     (case digit_val c of None \<Rightarrow> None | Some d \<Rightarrow> parse_digits (acc * 10 + d) cs)"

text \<open>
  \<^verbatim>\<open>strconv.ParseInt(s, 10, bits)\<close>: an optional sign, at least one digit, nothing else, and
  a value in the signed range; \<open>None\<close> is a non-nil error (syntax or range).
\<close>

definition ParseInt :: "string \<Rightarrow> nat \<Rightarrow> int option" where
  "ParseInt s bits =
     (let neg = (s \<noteq> [] \<and> hd s = CHR ''-'');
          body = (if s \<noteq> [] \<and> (hd s = CHR ''-'' \<or> hd s = CHR ''+'') then tl s else s)
      in if body = [] then None
         else case parse_digits 0 body of
                None \<Rightarrow> None
              | Some n \<Rightarrow>
                  if neg then (if n > 2 ^ (bits - 1) then None else Some (- int n))
                  else (if n \<ge> 2 ^ (bits - 1) then None else Some (int n)))"

lemmas [go_defs] = FormatInt_def ParseInt_def digit_def digit_val_def

lemma less_10_cases:
  "(d::nat) < 10 \<Longrightarrow> d = 0 \<or> d = 1 \<or> d = 2 \<or> d = 3 \<or> d = 4 \<or> d = 5 \<or> d = 6 \<or> d = 7 \<or> d = 8 \<or> d = 9"
  by arith

lemma of_char_digit: "d < 10 \<Longrightarrow> of_char (digit d) = 48 + d"
  by (drule less_10_cases) (elim disjE; simp add: digit_def)

lemma digit_val_digit [simp]: "d < 10 \<Longrightarrow> digit_val (digit d) = Some d"
  by (simp add: digit_val_def Let_def of_char_digit)

lemma dec_nonempty [simp]: "dec n \<noteq> []"
  by (subst dec.simps) simp

lemma dec_digits: "c \<in> set (dec n) \<Longrightarrow> \<exists>d<10. c = digit d"
proof (induction n rule: dec.induct)
  case (1 n)
  show ?case
  proof (cases "n < 10")
    case True
    with "1.prems" show ?thesis by (subst (asm) dec.simps) auto
  next
    case False
    with "1.prems" have "c \<in> set (dec (n div 10)) \<or> c = digit (n mod 10)"
      by (subst (asm) dec.simps) auto
    with "1.IH" False show ?thesis by (metis mod_less_divisor zero_less_numeral)
  qed
qed

lemma digit_neq: "d < 10 \<Longrightarrow> of_char c < (48::nat) \<or> (57::nat) < of_char c \<Longrightarrow> digit d \<noteq> c"
  by (auto simp: of_char_digit)

lemma dec_no_special: "of_char c < (48::nat) \<or> (57::nat) < of_char c \<Longrightarrow> c \<notin> set (dec n)"
  using dec_digits digit_neq by blast

lemma dec_hd_not_sign: "hd (dec n) \<noteq> CHR ''-''" "hd (dec n) \<noteq> CHR ''+''"
proof -
  have "CHR ''-'' \<notin> set (dec n)" and "CHR ''+'' \<notin> set (dec n)"
    by (rule dec_no_special, simp)+
  then show "hd (dec n) \<noteq> CHR ''-''" "hd (dec n) \<noteq> CHR ''+''"
    by (metis dec_nonempty hd_in_set)+
qed

lemma parse_digits_append:
  "parse_digits acc (xs @ ys) =
     (case parse_digits acc xs of None \<Rightarrow> None | Some a \<Rightarrow> parse_digits a ys)"
  by (induction acc xs rule: parse_digits.induct) (auto split: option.splits)

lemma parse_digits_dec [simp]: "parse_digits 0 (dec n) = Some n"
proof (induction n rule: dec.induct)
  case (1 n)
  show ?case
  proof (cases "n < 10")
    case True
    then show ?thesis by (simp add: dec.simps [of n])
  next
    case False
    with "1.IH" show ?thesis by (simp add: dec.simps [of n] parse_digits_append)
  qed
qed

text \<open>Printing and reading back a number in the signed range is the identity.\<close>

lemma ParseInt_FormatInt:
  assumes "0 < bits" and "- (2 ^ (bits - 1)) \<le> i" and "i < 2 ^ (bits - 1)"
  shows "ParseInt (FormatInt i) bits = Some i"
proof (cases "i < 0")
  case True
  with assms(2) have "nat (- i) \<le> 2 ^ (bits - 1)" by (simp add: nat_le_iff)
  with True show ?thesis by (simp add: FormatInt_def ParseInt_def Let_def)
next
  case False
  with assms(3) have "nat i < 2 ^ (bits - 1)" by (simp add: nat_less_iff)
  moreover have "hd (dec (nat i)) \<noteq> CHR ''-''" "hd (dec (nat i)) \<noteq> CHR ''+''"
    by (simp_all add: dec_hd_not_sign)
  ultimately show ?thesis using False by (simp add: FormatInt_def ParseInt_def Let_def)
qed

subsection \<open>Hexadecimal digits\<close>

definition hexd :: "nat \<Rightarrow> char" where
  "hexd d = ''0123456789abcdef'' ! (d mod 16)"

lemma hexd_in_digits: "hexd d \<in> set ''0123456789abcdef''"
  unfolding hexd_def by (rule nth_mem) simp

lemma hexd_inj: "i < 16 \<Longrightarrow> j < 16 \<Longrightarrow> hexd i = hexd j \<Longrightarrow> i = j"
  unfolding hexd_def by (subst (asm) nth_eq_iff_index_eq) auto

subsection \<open>Searching and trimming\<close>

fun last_index_from :: "nat \<Rightarrow> int \<Rightarrow> string \<Rightarrow> char \<Rightarrow> int" where
  "last_index_from i acc [] c = acc"
| "last_index_from i acc (x # xs) c =
     last_index_from (Suc i) (if x = c then int i else acc) xs c"

text \<open>\<^verbatim>\<open>strings.LastIndex(s, sep)\<close> for a one-byte separator: \<open>-1\<close> when absent.\<close>

definition LastIndex :: "string \<Rightarrow> char \<Rightarrow> int" where
  "LastIndex s c = last_index_from 0 (-1) s c"

lemma last_index_from_absent: "c \<notin> set s \<Longrightarrow> last_index_from i acc s c = acc"
  by (induction i acc s c rule: last_index_from.induct) auto

lemma last_index_from_append:
  "last_index_from i acc (xs @ ys) c =
     last_index_from (i + length xs) (last_index_from i acc xs c) ys c"
  by (induction i acc xs c rule: last_index_from.induct) auto

lemma LastIndex_absent: "c \<notin> set s \<Longrightarrow> LastIndex s c = -1"
  by (simp add: LastIndex_def last_index_from_absent)

lemma LastIndex_last: "c \<notin> set post \<Longrightarrow> LastIndex (pre @ c # post) c = int (length pre)"
  by (simp add: LastIndex_def last_index_from_append last_index_from_absent)

text \<open>
  \<^verbatim>\<open>strings.TrimSpace\<close> strips, at both ends, the UTF-8 encodings of the runes with the Unicode
  property White Space: TAB, LF, VT, FF, CR, SPACE, U+0085, U+00A0, U+1680, U+2000 to
  U+200A, U+2028, U+2029, U+202F, U+205F and U+3000.
\<close>

definition space_encodings :: "string list" where
  "space_encodings =
     [[CHR 0x09], [CHR 0x0A], [CHR 0x0B], [CHR 0x0C], [CHR 0x0D], [CHR 0x20],
      [CHR 0xC2, CHR 0x85], [CHR 0xC2, CHR 0xA0], [CHR 0xE1, CHR 0x9A, CHR 0x80]]
     @ map (\<lambda>b. [CHR 0xE2, CHR 0x80, b])
         [CHR 0x80, CHR 0x81, CHR 0x82, CHR 0x83, CHR 0x84, CHR 0x85, CHR 0x86, CHR 0x87,
          CHR 0x88, CHR 0x89, CHR 0x8A, CHR 0xA8, CHR 0xA9, CHR 0xAF]
     @ [[CHR 0xE2, CHR 0x81, CHR 0x9F], [CHR 0xE3, CHR 0x80, CHR 0x80]]"

fun strip_one :: "string list \<Rightarrow> string \<Rightarrow> string option" where
  "strip_one [] s = None"
| "strip_one (e # es) s =
     (if take (length e) s = e then Some (drop (length e) s) else strip_one es s)"

lemma strip_one_shorter:
  "[] \<notin> set es \<Longrightarrow> strip_one es s = Some t \<Longrightarrow> length t < length s"
proof (induction es s rule: strip_one.induct)
  case (2 e es s)
  show ?case
  proof (cases "take (length e) s = e")
    case True
    with "2.prems" have "t = drop (length e) s" "e \<noteq> []" by auto
    moreover from True \<open>e \<noteq> []\<close> have "s \<noteq> []" by auto
    ultimately show ?thesis by simp
  next
    case False
    with 2 show ?thesis by simp
  qed
qed simp

lemma nil_not_space_encoding [simp]: "[] \<notin> set space_encodings"
  by (simp add: space_encodings_def)

lemma nil_not_rev_space_encoding [simp]: "[] \<notin> set (map rev space_encodings)"
  by (auto simp: space_encodings_def)

function trim_left :: "string list \<Rightarrow> string \<Rightarrow> string" where
  "trim_left es s =
     (if [] \<in> set es then s
      else case strip_one es s of None \<Rightarrow> s | Some t \<Rightarrow> trim_left es t)"
  by pat_completeness auto
termination
  by (relation "measure (\<lambda>(es, s). length s)") (auto dest: strip_one_shorter)

declare trim_left.simps [simp del]

definition TrimSpace :: "string \<Rightarrow> string" where
  "TrimSpace s =
     rev (trim_left (map rev space_encodings) (rev (trim_left space_encodings s)))"

end
