(* ===== verification/GoQuote.thy ===== *)
theory GoQuote
  imports GoStd
begin

section \<open>The quoting verb of fmt\<close>

text \<open>
  \<^verbatim>\<open>fmt.Fprintf(w, "%q", s)\<close> is \<^verbatim>\<open>strconv.Quote(s)\<close>: the string is walked rune by rune (UTF-8),
  printable runes are copied, the quote, the backslash and the control characters are
  escaped, a byte that is not part of a valid encoding becomes \<^verbatim>\<open>\xNN\<close>. The parameter
  \<open>ip\<close> is the Unicode table behind \<^verbatim>\<open>strconv.IsPrint\<close> from U+0100 on. The theory also
  reads the escapes back, the way a double-quoted YAML scalar is read, and shows that
  quoting never emits a line break and is undone by reading on ASCII strings.
\<close>

subsection \<open>UTF-8\<close>

definition in_range :: "char \<Rightarrow> nat \<Rightarrow> nat \<Rightarrow> bool" where
  "in_range c lo hi \<longleftrightarrow> lo \<le> of_char c \<and> of_char c \<le> hi"

text \<open>The second byte's accepted range for a leading byte \<open>b\<close> (\<^verbatim>\<open>utf8.acceptRanges\<close>).\<close>

definition accept_lo :: "nat \<Rightarrow> nat" where
  "accept_lo b = (if b = 224 then 160 else if b = 240 then 144 else 128)"

definition accept_hi :: "nat \<Rightarrow> nat" where
  "accept_hi b = (if b = 237 then 159 else if b = 244 then 143 else 191)"

text \<open>\<^verbatim>\<open>utf8.DecodeRuneInString\<close>: the rune and its width; \<open>(0xFFFD, 1)\<close> on an invalid encoding.\<close>

definition RuneError :: nat where "RuneError = 65533"

definition decode_rune :: "string \<Rightarrow> nat \<times> nat" where
  "decode_rune s =
     (case s of [] \<Rightarrow> (RuneError, 0)
      | c0 # r0 \<Rightarrow> (let b = of_char c0 in
          if b < 128 then (b, 1)
          else if 194 \<le> b \<and> b \<le> 223 then
            (case r0 of c1 # _ \<Rightarrow> if in_range c1 128 191
                then ((b - 192) * 64 + (of_char c1 - 128), 2) else (RuneError, 1)
             | _ \<Rightarrow> (RuneError, 1))
          else if 224 \<le> b \<and> b \<le> 239 then
            (case r0 of c1 # c2 # _ \<Rightarrow> if in_range c1 (accept_lo b) (accept_hi b) \<and> in_range c2 128 191
                then ((b - 224) * 4096 + (of_char c1 - 128) * 64 + (of_char c2 - 128), 3)
                else (RuneError, 1)
             | _ \<Rightarrow> (RuneError, 1))
          else if 240 \<le> b \<and> b \<le> 244 then
            (case r0 of c1 # c2 # c3 # _ \<Rightarrow>
                if in_range c1 (accept_lo b) (accept_hi b) \<and> in_range c2 128 191 \<and> in_range c3 128 191
                then ((b - 240) * 262144 + (of_char c1 - 128) * 4096
                      + (of_char c2 - 128) * 64 + (of_char c3 - 128), 4)
                else (RuneError, 1)
             | _ \<Rightarrow> (RuneError, 1))
          else (RuneError, 1)))"

subsection \<open>Quoting\<close>

fun hexn :: "nat \<Rightarrow> nat \<Rightarrow> string" where
  "hexn 0 n = []"
| "hexn (Suc k) n = hexn k (n div 16) @ [hexd n]"

text \<open>\<^verbatim>\<open>strconv.IsPrint\<close>, with the table from U+0100 on as a parameter.\<close>

definition IsPrint :: "(nat \<Rightarrow> bool) \<Rightarrow> nat \<Rightarrow> bool" where
  "IsPrint ip r \<longleftrightarrow>
     (if r \<le> 255 then (32 \<le> r \<and> r < 127) \<or> (161 \<le> r \<and> r \<noteq> 173) else ip r)"

definition BSL :: char where "BSL = CHR 0x5C"
definition DQ :: char where "DQ = CHR 0x22"
definition LF :: char where "LF = CHR 0x0A"

text \<open>
  One step of the loop of \<^verbatim>\<open>strconv.appendQuotedWith\<close>: the escaped form of the first rune of
  \<open>s\<close>, whose rune and width are \<open>r\<close> and \<open>w\<close>.
\<close>

definition escape_first :: "(nat \<Rightarrow> bool) \<Rightarrow> string \<Rightarrow> nat \<Rightarrow> nat \<Rightarrow> string" where
  "escape_first ip s r w =
     (if w = 1 \<and> r = RuneError then BSL # CHR ''x'' # hexn 2 (of_char (hd s))
      else if r = 34 \<or> r = 92 then [BSL, hd s]
      else if IsPrint ip r then take w s
      else if r = 7 then [BSL, CHR ''a'']
      else if r = 8 then [BSL, CHR ''b'']
      else if r = 12 then [BSL, CHR ''f'']
      else if r = 10 then [BSL, CHR ''n'']
      else if r = 13 then [BSL, CHR ''r'']
      else if r = 9 then [BSL, CHR ''t'']
      else if r = 11 then [BSL, CHR ''v'']
      else if r < 32 \<or> r = 127 then BSL # CHR ''x'' # hexn 2 r
      else if r < 65536 then BSL # CHR ''u'' # hexn 4 r
      else BSL # CHR ''U'' # hexn 8 r)"

fun quote_body :: "(nat \<Rightarrow> bool) \<Rightarrow> string \<Rightarrow> string" where
  "quote_body ip [] = []"
| "quote_body ip (c # cs) =
     (case decode_rune (c # cs) of
        (r, w) \<Rightarrow> escape_first ip (c # cs) r w @ quote_body ip (drop (w - 1) cs))"

definition Quote :: "(nat \<Rightarrow> bool) \<Rightarrow> string \<Rightarrow> string" where
  "Quote ip s = DQ # quote_body ip s @ [DQ]"

lemmas [go_defs] = Quote_def escape_first_def decode_rune_def IsPrint_def hexd_def
  BSL_def DQ_def LF_def RuneError_def

subsection \<open>Quoting emits no line break\<close>

lemma hexd_not_LF: "hexd d \<noteq> LF"
proof -
  have "hexd d \<in> set ''0123456789abcdef''" by (rule hexd_in_digits)
  moreover have "LF \<notin> set ''0123456789abcdef''" by (simp add: LF_def)
  ultimately show ?thesis by metis
qed

lemma hexn_no_LF: "LF \<notin> set (hexn k n)"
  using hexd_not_LF by (induction k n rule: hexn.induct) (auto simp: eq_commute [of LF])

lemma high_not_LF: "128 \<le> (of_char c :: nat) \<Longrightarrow> c \<noteq> LF"
  by (auto simp: LF_def)

text \<open>A rune wider than one byte consists of bytes from 128 on.\<close>

lemma decode_wide_bytes:
  assumes "decode_rune s = (r, w)" and "w \<noteq> 1"
  shows "\<forall>c \<in> set (take w s). 128 \<le> (of_char c :: nat)"
  using assms
  by (auto simp: decode_rune_def Let_def in_range_def accept_lo_def
      split: list.splits if_splits)

lemma decode_narrow:
  assumes "decode_rune s = (r, 1)" and "r \<noteq> RuneError"
  shows "s \<noteq> [] \<and> r = of_char (hd s) \<and> r < 128"
  using assms by (auto simp: decode_rune_def Let_def split: list.splits if_splits)

lemma escape_first_no_LF:
  assumes "decode_rune s = (r, w)" and "s \<noteq> []"
  shows "LF \<notin> set (escape_first ip s r w)"
proof (cases "w = 1")
  case True
  show ?thesis
  proof (cases "r = RuneError")
    case True
    with \<open>w = 1\<close> show ?thesis using hexn_no_LF by (simp add: escape_first_def BSL_def LF_def)
  next
    case False
    with True assms have hd: "r = of_char (hd s)" "r < 128" using decode_narrow [of s r] by simp_all
    have tk: "take w s = [hd s]" using True assms(2) by (cases s) auto
    have nlf: "hd s \<noteq> LF" if "r = 34 \<or> r = 92 \<or> IsPrint ip r"
      using that hd by (auto simp: LF_def IsPrint_def)
    show ?thesis
      using hexn_no_LF False nlf tk
      by (simp add: escape_first_def BSL_def) (auto simp: LF_def)
  qed
next
  case False
  with assms(1) have "LF \<notin> set (take w s)" using decode_wide_bytes high_not_LF by blast
  moreover have "hd s \<noteq> LF" if "w \<noteq> 0"
    using decode_wide_bytes [OF assms(1) False] that assms(2) high_not_LF
    by (cases s; cases w) auto
  moreover have "w \<noteq> 0"
    using assms by (auto simp: decode_rune_def Let_def split: list.splits if_splits)
  ultimately show ?thesis
    using False hexn_no_LF by (simp add: escape_first_def BSL_def) (auto simp: LF_def)
qed

lemma quote_body_no_LF: "LF \<notin> set (quote_body ip s)"
proof (induction ip s rule: quote_body.induct)
  case (2 ip c cs)
  obtain r w where d: "decode_rune (c # cs) = (r, w)" by fastforce
  with "2.IH" [of r w] escape_first_no_LF [OF d, of ip] show ?case by simp
qed simp

lemma Quote_no_LF: "LF \<notin> set (Quote ip s)"
  using quote_body_no_LF by (simp add: Quote_def DQ_def LF_def)

subsection \<open>Reading the escapes back\<close>

text \<open>
  The reader of a double-quoted scalar, started after the opening quote: the value and what
  follows the closing quote. Escapes are those of the YAML specification for ASCII; an
  unterminated scalar, a raw line break and an unknown escape are \<open>None\<close>.
\<close>

definition hex_val :: "char \<Rightarrow> nat option" where
  "hex_val c = (let n = of_char c in
     if 48 \<le> n \<and> n \<le> 57 then Some (n - 48)
     else if 97 \<le> n \<and> n \<le> 102 then Some (n - 87) else None)"

definition simple_escape :: "char \<Rightarrow> char option" where
  "simple_escape c =
     map_of [(DQ, DQ), (BSL, BSL), (CHR ''a'', CHR 0x07), (CHR ''b'', CHR 0x08),
             (CHR ''f'', CHR 0x0C), (CHR ''n'', LF), (CHR ''r'', CHR 0x0D),
             (CHR ''t'', CHR 0x09), (CHR ''v'', CHR 0x0B)] c"

fun read_dq :: "string \<Rightarrow> (string \<times> string) option" where
  "read_dq [] = None"
| "read_dq (c # cs) =
     (if c = DQ then Some ([], cs)
      else if c = LF then None
      else if c = BSL then
        (case cs of
           [] \<Rightarrow> None
         | e # es \<Rightarrow>
             if e = CHR ''x'' then
               (case es of
                  h # l # rest \<Rightarrow>
                    (case (hex_val h, hex_val l) of
                       (Some a, Some b) \<Rightarrow> map_option (apfst (Cons (char_of (16 * a + b)))) (read_dq rest)
                     | _ \<Rightarrow> None)
                | _ \<Rightarrow> None)
             else (case simple_escape e of
                     None \<Rightarrow> None
                   | Some v \<Rightarrow> map_option (apfst (Cons v)) (read_dq es)))
      else map_option (apfst (Cons c)) (read_dq cs))"

definition ascii :: "string \<Rightarrow> bool" where
  "ascii s \<longleftrightarrow> (\<forall>c \<in> set s. (of_char c :: nat) < 128)"

lemma char_eqI: "(of_char c :: nat) = of_char d \<Longrightarrow> c = d"
  by (metis char_of_char)

lemma hex_val_hexd: "d < 16 \<Longrightarrow> hex_val (hexd d) = Some d"
proof -
  assume "d < 16"
  then have "d < 10 \<or> d = 10 \<or> d = 11 \<or> d = 12 \<or> d = 13 \<or> d = 14 \<or> d = 15" by arith
  moreover have ?thesis if "d < 10"
    using less_10_cases [OF that] by (elim disjE) (simp_all add: hex_val_def hexd_def)
  ultimately show ?thesis by (elim disjE) (simp_all add: hex_val_def hexd_def)
qed

lemma hexd_special: "hexd d \<noteq> DQ" "hexd d \<noteq> BSL"
proof -
  have "hexd d \<in> set ''0123456789abcdef''" by (rule hexd_in_digits)
  then show "hexd d \<noteq> DQ" "hexd d \<noteq> BSL" by (auto simp: DQ_def BSL_def)
qed

lemma read_dq_hex:
  assumes "n < 256"
  shows "read_dq (BSL # CHR ''x'' # hexn 2 n @ rest)
           = map_option (apfst (Cons (char_of n))) (read_dq rest)"
proof -
  have h: "hex_val (hexd (n div 16)) = Some (n div 16)" using assms by (simp add: hex_val_hexd)
  have l: "hex_val (hexd n) = Some (n mod 16)"
    using hex_val_hexd [of "n mod 16"] by (simp add: hexd_def)
  have "hexn 2 n = [hexd (n div 16), hexd n]" by (simp add: numeral_2_eq_2)
  moreover have "16 * (n div 16) + n mod 16 = n" by simp
  ultimately show ?thesis using h l by (simp add: BSL_def DQ_def LF_def)
qed

lemma read_simple_escape:
  assumes "d \<in> {CHR 0x07, CHR 0x08, CHR 0x09, CHR 0x0A, CHR 0x0B, CHR 0x0C, CHR 0x0D}"
  shows "read_dq (escape_first ip (d # cs) (of_char d) 1 @ rest)
           = map_option (apfst (Cons d)) (read_dq rest)"
  using assms
  by (elim insertE emptyE)
    (simp_all add: escape_first_def RuneError_def IsPrint_def simple_escape_def BSL_def DQ_def LF_def)

text \<open>One ASCII character is escaped to something the reader turns back into it.\<close>

lemma read_escape_ascii:
  assumes n: "n = (of_char c :: nat)" and "n < 128"
  shows "read_dq (escape_first ip (c # cs) n 1 @ rest)
           = map_option (apfst (Cons c)) (read_dq rest)"
proof -
  have esc: "c = d" if "n = of_char d" for d using that n char_eqI by simp
  consider (q) "n = 34" | (b) "n = 92" | (p) "32 \<le> n" "n < 127" "n \<noteq> 34" "n \<noteq> 92"
    | (e) "n \<in> {7, 8, 9, 10, 11, 12, 13}"
    | (x) "n < 32 \<or> n = 127" "n \<notin> {7, 8, 9, 10, 11, 12, 13}"
    using assms by fastforce
  then show ?thesis
  proof cases
    case q
    then have "c = DQ" by (intro esc) (simp add: DQ_def)
    with q show ?thesis by (simp add: escape_first_def RuneError_def simple_escape_def BSL_def DQ_def LF_def)
  next
    case b
    then have "c = BSL" by (intro esc) (simp add: BSL_def)
    with b show ?thesis by (simp add: escape_first_def RuneError_def simple_escape_def BSL_def DQ_def LF_def)
  next
    case p
    then have "c \<noteq> DQ" "c \<noteq> BSL" "c \<noteq> LF" using n by (auto simp: DQ_def BSL_def LF_def)
    with p show ?thesis by (simp add: escape_first_def RuneError_def IsPrint_def)
  next
    case e
    then have "c \<in> {CHR 0x07, CHR 0x08, CHR 0x09, CHR 0x0A, CHR 0x0B, CHR 0x0C, CHR 0x0D}"
      by (elim insertE emptyE) (simp_all add: esc)
    then show ?thesis unfolding n by (rule read_simple_escape)
  next
    case x
    then have "escape_first ip (c # cs) n 1 = BSL # CHR ''x'' # hexn 2 n"
      by (auto simp: escape_first_def RuneError_def IsPrint_def)
    moreover have "char_of n = c" using n by simp
    ultimately show ?thesis using read_dq_hex [of n rest] assms by simp
  qed
qed

lemma read_quote_body_ascii:
  "ascii s \<Longrightarrow> read_dq (quote_body ip s @ DQ # rest) = Some (s, rest)"
proof (induction s)
  case (Cons c cs)
  then have "(of_char c :: nat) < 128" and "ascii cs" by (simp_all add: ascii_def)
  moreover from this have "decode_rune (c # cs) = (of_char c, 1)" by (simp add: decode_rune_def)
  ultimately show ?case using Cons.IH read_escape_ascii [of _ c ip cs] by simp
qed simp

text \<open>\<open>Quote\<close> is undone by the reader on ASCII strings.\<close>

lemma read_Quote_ascii:
  "ascii s \<Longrightarrow> Quote ip s @ rest = DQ # q \<Longrightarrow> read_dq q = Some (s, rest)"
  by (auto simp: Quote_def read_quote_body_ascii)

end
