(* ===== verification/Sha256.thy ===== *)
theory Sha256
  imports GoStd "HOL-Library.Word"
begin

section \<open>crypto/sha256 and encoding/hex\<close>

text \<open>
  The operator hashes configuration data with \<^verbatim>\<open>sha256.New()\<close>, \<^verbatim>\<open>h.Write\<close>, \<^verbatim>\<open>h.Sum(nil)\<close> and
  prints the digest with \<^verbatim>\<open>hex.EncodeToString\<close>. A sequence of \<^verbatim>\<open>Write\<close> calls hashes the
  concatenation of its arguments, so the model is a function of the whole byte string.
  Words are \<open>32 word\<close>: additions wrap as in the source.
\<close>

unbundle bit_operations_syntax

type_synonym w32 = "32 word"

definition K256 :: "w32 list" where
  "K256 =
     [1116352408, 1899447441, 3049323471, 3921009573, 961987163, 1508970993,
      2453635748, 2870763221, 3624381080, 310598401, 607225278, 1426881987,
      1925078388, 2162078206, 2614888103, 3248222580, 3835390401, 4022224774,
      264347078, 604807628, 770255983, 1249150122, 1555081692, 1996064986,
      2554220882, 2821834349, 2952996808, 3210313671, 3336571891, 3584528711,
      113926993, 338241895, 666307205, 773529912, 1294757372, 1396182291,
      1695183700, 1986661051, 2177026350, 2456956037, 2730485921, 2820302411,
      3259730800, 3345764771, 3516065817, 3600352804, 4094571909, 275423344,
      430227734, 506948616, 659060556, 883997877, 958139571, 1322822218,
      1537002063, 1747873779, 1955562222, 2024104815, 2227730452, 2361852424,
      2428436474, 2756734187, 3204031479, 3329325298]"

definition H256 :: "w32 list" where
  "H256 =
     [1779033703, 3144134277, 1013904242, 2773480762,
      1359893119, 2600822924, 528734635, 1541459225]"

subsection \<open>Message schedule and rounds\<close>

definition small0 :: "w32 \<Rightarrow> w32" where
  "small0 x = word_rotr 7 x XOR word_rotr 18 x XOR drop_bit 3 x"

definition small1 :: "w32 \<Rightarrow> w32" where
  "small1 x = word_rotr 17 x XOR word_rotr 19 x XOR drop_bit 10 x"

text \<open>
  The schedule is kept newest word first: \<open>rs ! 1\<close> is \<^verbatim>\<open>w[i-2]\<close>, \<open>rs ! 15\<close> is \<^verbatim>\<open>w[i-16]\<close>.
\<close>

fun schedule :: "nat \<Rightarrow> w32 list \<Rightarrow> w32 list" where
  "schedule 0 rs = rs"
| "schedule (Suc n) rs =
     schedule n ((small1 (rs ! 1) + rs ! 6 + small0 (rs ! 14) + rs ! 15) # rs)"

fun round :: "w32 \<times> w32 \<Rightarrow> w32 list \<Rightarrow> w32 list" where
  "round (k, w) [a, b, c, d, e, f, g, h] =
     (let t1 = h + (word_rotr 6 e XOR word_rotr 11 e XOR word_rotr 25 e)
               + ((e AND f) XOR (NOT e AND g)) + k + w;
          t2 = (word_rotr 2 a XOR word_rotr 13 a XOR word_rotr 22 a)
               + ((a AND b) XOR (a AND c) XOR (b AND c))
      in [t1 + t2, a, b, c, d + t1, e, f, g])"
| "round kw st = st"

text \<open>\<^verbatim>\<open>sha256.block\<close> on one block of sixteen words.\<close>

definition block :: "w32 list \<Rightarrow> w32 list \<Rightarrow> w32 list" where
  "block st ws =
     map2 (+) st (fold round (zip K256 (rev (schedule 48 (rev ws)))) st)"

subsection \<open>Padding and the digest\<close>

fun be_word :: "char list \<Rightarrow> w32" where
  "be_word [a, b, c, d] =
     ((of_char a * 256 + of_char b) * 256 + of_char c) * 256 + of_char d"
| "be_word s = 0"

fun words_of :: "string \<Rightarrow> w32 list" where
  "words_of (a # b # c # d # s) = be_word [a, b, c, d] # words_of s"
| "words_of s = []"

fun be_bytes :: "nat \<Rightarrow> nat \<Rightarrow> string" where
  "be_bytes 0 n = []"
| "be_bytes (Suc k) n = be_bytes k (n div 256) @ [char_of (n mod 256)]"

text \<open>
  A one bit, zero bits up to eight bytes before a multiple of 64, the bit length in 64 bits.
\<close>

definition pad :: "string \<Rightarrow> string" where
  "pad s = s @ CHR 0x80 # replicate ((119 - length s mod 64) mod 64) (CHR 0x00)
             @ be_bytes 8 (8 * length s)"

fun blocks :: "nat \<Rightarrow> w32 list \<Rightarrow> w32 list \<Rightarrow> w32 list" where
  "blocks 0 ws st = st"
| "blocks (Suc n) ws st = blocks n (drop 16 ws) (block st (take 16 ws))"

definition sha256 :: "string \<Rightarrow> string" where
  "sha256 s =
     (let ws = words_of (pad s)
      in concat (map (\<lambda>w. be_bytes 4 (unat w)) (blocks (length ws div 16) ws H256)))"

text \<open>\<^verbatim>\<open>hex.EncodeToString\<close>.\<close>

definition hex_byte :: "char \<Rightarrow> string" where
  "hex_byte c = [hexd (of_char c div 16), hexd (of_char c mod 16)]"

definition EncodeToString :: "string \<Rightarrow> string" where
  "EncodeToString s = concat (map hex_byte s)"

subsection \<open>Shape of the digest\<close>

lemma length_be_bytes [simp]: "length (be_bytes k n) = k"
  by (induction k n rule: be_bytes.induct) auto

lemma length_round [simp]: "length (round kw st) = length st"
  by (cases "(kw, st)" rule: round.cases) (auto simp: Let_def)

lemma length_fold_round [simp]: "length (fold round kws st) = length st"
  by (induction kws arbitrary: st) auto

lemma length_block [simp]: "length (block st ws) = length st"
  by (simp add: block_def)

lemma length_blocks [simp]: "length (blocks n ws st) = length st"
  by (induction n ws st rule: blocks.induct) auto

lemma length_H256 [simp]: "length H256 = 8"
  by (simp add: H256_def)

lemma length_concat_const: "\<forall>x \<in> set xs. length (f x) = k \<Longrightarrow> length (concat (map f xs)) = k * length xs"
  by (induction xs) auto

lemma length_sha256 [simp]: "length (sha256 s) = 32"
  by (simp add: sha256_def Let_def length_concat_const [where k = 4])

lemma length_EncodeToString [simp]: "length (EncodeToString s) = 2 * length s"
  by (simp add: EncodeToString_def length_concat_const [where k = 2] hex_byte_def)

lemma set_EncodeToString: "set (EncodeToString s) \<subseteq> set ''0123456789abcdef''"
proof -
  have "set (hex_byte c) \<subseteq> set ''0123456789abcdef''" for c
    unfolding hex_byte_def using hexd_in_digits by (simp only: set_simps) blast
  then show ?thesis unfolding EncodeToString_def set_concat set_map by blast
qed

lemma hex_byte_inj: "hex_byte c = hex_byte d \<Longrightarrow> c = d"
proof -
  assume h: "hex_byte c = hex_byte d"
  have hi: "(of_char c :: nat) div 16 < 16" for c
    by (rule less_mult_imp_div_less) simp
  from h have "(of_char c :: nat) div 16 = of_char d div 16"
    using hexd_inj [OF hi hi] by (simp add: hex_byte_def)
  moreover from h have "(of_char c :: nat) mod 16 = of_char d mod 16"
    using hexd_inj [of "of_char c mod 16" "of_char d mod 16"] by (simp add: hex_byte_def)
  ultimately have "(of_char c :: nat) = of_char d" by (metis div_mult_mod_eq)
  then show "c = d" by (metis char_of_char)
qed

text \<open>Hex encoding loses nothing.\<close>

lemma EncodeToString_inj: "EncodeToString s = EncodeToString t \<Longrightarrow> s = t"
proof (induction s arbitrary: t)
  case Nil
  then show ?case by (cases t) (auto simp: EncodeToString_def hex_byte_def)
next
  case (Cons c s)
  then obtain d t' where t: "t = d # t'"
    by (cases t) (auto simp: EncodeToString_def hex_byte_def)
  have "hex_byte c @ EncodeToString s = hex_byte d @ EncodeToString t'"
    using Cons.prems t by (simp add: EncodeToString_def)
  then have "hex_byte c = hex_byte d" "EncodeToString s = EncodeToString t'"
    by (auto simp: hex_byte_def)
  then show ?case using t Cons.IH hex_byte_inj by simp
qed

end
