(* ===== verification/Common.thy ===== *)
theory Common
  imports ApiTypes GoQuote Sha256
begin

section \<open>Names, labels, images, ports and hashes (internal/resources/common.go)\<close>

text \<open>
  The helpers every builder uses. \<open>lib\<close> collects the third-party and Unicode-table
  functions the builders call and the repository does not contain: the printable-rune
  table, \<^verbatim>\<open>Quantity.IsZero\<close> and \<^verbatim>\<open>resource.MustParse\<close>.
\<close>

record lib =
  lib_IsPrint :: "nat \<Rightarrow> bool"
  lib_IsZero :: "Quantity \<Rightarrow> bool"
  lib_MustParse :: "string \<Rightarrow> Quantity"

text \<open>One concrete library, used to instantiate the theorems at concrete inputs.\<close>

definition sample_lib :: lib where
  "sample_lib = \<lparr>lib_IsPrint = (\<lambda>_. True), lib_IsZero = (\<lambda>q. q = Quantity ''0''), lib_MustParse = Quantity\<rparr>"

subsection \<open>Constants\<close>

definition DefaultImage :: string where "DefaultImage = ''ghcr.io/opentalon/tln-db''"
definition DefaultTag :: string where "DefaultTag = ''latest''"
definition ManagedByLabel :: string where "ManagedByLabel = ''tln-db-operator''"
definition FinalizerName :: string where "FinalizerName = ''db.tlndb.io/finalizer''"
definition ConfigHashAnnotation :: string where
  "ConfigHashAnnotation = ''db.tlndb.io/config-hash''"
definition ConfigVolumeName :: string where "ConfigVolumeName = ''config''"
definition ConfigMountPath :: string where "ConfigMountPath = ''/etc/tlndb''"
definition ConfigFileName :: string where "ConfigFileName = ''config.yaml''"
definition DataVolumeName :: string where "DataVolumeName = ''data''"
definition DataMountPath :: string where "DataMountPath = ''/data''"
definition DefaultGRPCPort :: int32 where "DefaultGRPCPort = 9899"
definition DefaultHTTPPort :: int32 where "DefaultHTTPPort = 8080"
definition DefaultMetricsPort :: int32 where "DefaultMetricsPort = 9090"
definition RoleLabelKey :: string where "RoleLabelKey = ''db.tlndb.io/role''"
definition RoleStandalone :: string where "RoleStandalone = ''standalone''"
definition RoleLeader :: string where "RoleLeader = ''leader''"
definition RoleFollower :: string where "RoleFollower = ''follower''"

lemmas port_defs = DefaultGRPCPort_def DefaultHTTPPort_def DefaultMetricsPort_def
lemmas role_defs = RoleLabelKey_def RoleStandalone_def RoleLeader_def RoleFollower_def

subsection \<open>Names and labels\<close>

definition ResourceName :: "TlnDB \<Rightarrow> string" where
  "ResourceName inst = db_Name inst"

definition ConfigMapName :: "TlnDB \<Rightarrow> string" where
  "ConfigMapName inst = db_Name inst @ ''-config''"

definition HeadlessServiceName :: "TlnDB \<Rightarrow> string" where
  "HeadlessServiceName inst = db_Name inst @ ''-headless''"

definition LeaderStatefulSetName :: "TlnDB \<Rightarrow> string" where
  "LeaderStatefulSetName inst = db_Name inst @ ''-leader''"

definition FollowerStatefulSetName :: "TlnDB \<Rightarrow> string" where
  "FollowerStatefulSetName inst = db_Name inst @ ''-follower''"

definition ReadServiceName :: "TlnDB \<Rightarrow> string" where
  "ReadServiceName inst = db_Name inst @ ''-read''"

lemmas name_defs = ResourceName_def ConfigMapName_def HeadlessServiceName_def
  LeaderStatefulSetName_def FollowerStatefulSetName_def ReadServiceName_def

definition Labels :: "TlnDB \<Rightarrow> strmap" where
  "Labels inst = fmap_of_list
     [(''app.kubernetes.io/name'', ''tln-db''),
      (''app.kubernetes.io/instance'', db_Name inst),
      (''app.kubernetes.io/component'', ''database''),
      (''app.kubernetes.io/part-of'', ''tln-db''),
      (''app.kubernetes.io/managed-by'', ManagedByLabel)]"

definition SelectorLabels :: "TlnDB \<Rightarrow> strmap" where
  "SelectorLabels inst = fmap_of_list
     [(''app.kubernetes.io/name'', ''tln-db''),
      (''app.kubernetes.io/instance'', db_Name inst)]"

definition roleSelector :: "TlnDB \<Rightarrow> string \<Rightarrow> strmap" where
  "roleSelector inst role = fmupd RoleLabelKey role (SelectorLabels inst)"

text \<open>\<^verbatim>\<open>withRole\<close> copies \<open>base\<close> into a fresh map, then sets the role label.\<close>

definition withRole :: "strmap \<Rightarrow> string \<Rightarrow> strmap" where
  "withRole base role = fmupd RoleLabelKey role (fmadd fmempty base)"

definition Replicated :: "TlnDB \<Rightarrow> bool" where
  "Replicated inst \<longleftrightarrow> spec_Mode (db_Spec inst) = ''replicated''"

subsection \<open>Image reference and ports\<close>

definition ImageRef :: "ImageSpec \<Rightarrow> string" where
  "ImageRef spec =
     (let repo = (if img_Repository spec = [] then DefaultImage else img_Repository spec)
      in if img_Digest spec \<noteq> [] then repo @ ''@'' @ img_Digest spec
         else let tag = (if img_Tag spec = [] then DefaultTag else img_Tag spec)
              in repo @ '':'' @ tag)"

definition PortFromAddr :: "string \<Rightarrow> int32 \<Rightarrow> int32" where
  "PortFromAddr addr def =
     (if addr = [] then def
      else let idx = LastIndex addr (CHR '':'')
           in if idx < 0 then def
              else case ParseInt (drop (nat (idx + 1)) addr) 32 of
                     None \<Rightarrow> def
                   | Some p \<Rightarrow> if p \<le> 0 \<or> p > 65535 then def else p)"

definition MetricsEnabled :: "TlnDB \<Rightarrow> bool" where
  "MetricsEnabled inst =
     (case met_Enabled (obs_Metrics (spec_Observability (db_Spec inst))) of
        None \<Rightarrow> True | Some e \<Rightarrow> e)"

definition MetricsPort :: "TlnDB \<Rightarrow> int32" where
  "MetricsPort inst =
     (let p = met_Port (obs_Metrics (spec_Observability (db_Spec inst)))
      in if p > 0 then p else DefaultMetricsPort)"

text \<open>The two listener ports, as every builder computes them.\<close>

abbreviation grpcPort :: "TlnDB \<Rightarrow> int32" where
  "grpcPort inst \<equiv> PortFromAddr (cfg_TCP (spec_Config (db_Spec inst))) DefaultGRPCPort"

abbreviation httpPort :: "TlnDB \<Rightarrow> int32" where
  "httpPort inst \<equiv> PortFromAddr (cfg_HTTP (spec_Config (db_Spec inst))) DefaultHTTPPort"

subsection \<open>Hashes\<close>

text \<open>The bytes written to the hash, key by key; \<^verbatim>\<open>data[k]\<close> of an absent key is empty.\<close>

definition hash_entry :: "strmap \<Rightarrow> string \<Rightarrow> string" where
  "hash_entry data k = k @ ''='' @ (case fmlookup data k of None \<Rightarrow> [] | Some v \<Rightarrow> v) @ [LF]"

definition hash_input :: "strmap \<Rightarrow> string list \<Rightarrow> string" where
  "hash_input data ks = concat (map (hash_entry data) ks)"

text \<open>
  \<^verbatim>\<open>HashSecretData\<close>, with the order in which \<^verbatim>\<open>range data\<close> yields the keys as an argument (Go
  leaves it open); \<open>HashSecretData\<close> is the case of one fixed order.
\<close>

definition HashSecretData_order :: "string list \<Rightarrow> strmap \<Rightarrow> string" where
  "HashSecretData_order order data =
     (let keys = sort order in EncodeToString (sha256 (hash_input data keys)))"

definition HashSecretData :: "strmap \<Rightarrow> string" where
  "HashSecretData data = HashSecretData_order (sorted_list_of_fset (fmdom data)) data"

text \<open>\<^verbatim>\<open>HashStringData\<close> copies the map, converting each value to bytes (the identity here).\<close>

definition HashStringData :: "strmap \<Rightarrow> string" where
  "HashStringData data = (let raw = fmmap (\<lambda>v. v) data in HashSecretData raw)"

text \<open>
  Data the hash input is unambiguous on: ConfigMap keys never contain an equals sign or a
  line break (the API server enforces it), values of several lines do occur.
\<close>

definition clean_data :: "strmap \<Rightarrow> bool" where
  "clean_data data \<longleftrightarrow> fmpred (\<lambda>k v. CHR ''='' \<notin> set k \<and> LF \<notin> set k \<and> LF \<notin> set v) data"

lemmas [build_defs] = ResourceName_def

subsection \<open>The contract of the object builders\<close>

text \<open>
  Every builder names its object by a function of the instance's name alone, puts it in
  the instance's namespace, and leaves the fields the API server and the controller own
  (resource version, owner references) unset. \<open>meta\<close> is the metadata of the built
  object. Each builder of the following theories is an interpretation.
\<close>

locale child_builder =
  fixes meta :: "TlnDB \<Rightarrow> ObjectMeta"
    and name :: "TlnDB \<Rightarrow> string"
  assumes meta_name: "om_Name (meta inst) = name inst"
    and meta_namespace: "om_Namespace (meta inst) = db_Namespace inst"
    and meta_fresh: "om_ResourceVersion (meta inst) = []" "om_OwnerReferences (meta inst) = []"
    and name_cong: "db_Name i = db_Name j \<Longrightarrow> name i = name j"
begin

lemma key_eq: "meta_key (meta inst) = (db_Namespace inst, name inst)"
  by (simp add: meta_key_def meta_name meta_namespace)

lemma key_cong:
  "db_Name i = db_Name j \<Longrightarrow> db_Namespace i = db_Namespace j \<Longrightarrow> meta_key (meta i) = meta_key (meta j)"
  using name_cong [of i j] by (simp add: key_eq)

end

subsection \<open>Facts about names, labels and selectors\<close>

lemma child_names_distinct:
  "distinct [ResourceName inst, ConfigMapName inst, HeadlessServiceName inst,
     LeaderStatefulSetName inst, FollowerStatefulSetName inst, ReadServiceName inst]"
  by (simp add: name_defs)

lemma lookup_SelectorLabels:
  "fmlookup (SelectorLabels inst) k =
     (if k = ''app.kubernetes.io/name'' then Some ''tln-db''
      else if k = ''app.kubernetes.io/instance'' then Some (db_Name inst) else None)"
  by (simp add: SelectorLabels_def fmlookup_of_list)

lemma withRole_eq: "withRole base role = fmupd RoleLabelKey role base"
  by (simp add: withRole_def)

lemma SelectorLabels_match_Labels: "matchLabels (SelectorLabels inst) (Labels inst)"
  by (rule matchLabelsI)
    (auto simp: lookup_SelectorLabels Labels_def fmlookup_of_list split: if_splits)

lemma role_key_not_recommended [simp]:
  "fmlookup (Labels inst) RoleLabelKey = None" "fmlookup (SelectorLabels inst) RoleLabelKey = None"
  by (simp_all add: Labels_def SelectorLabels_def fmlookup_of_list RoleLabelKey_def)

lemma lookup_roleSelector [simp]:
  "fmlookup (roleSelector inst role) k
     = (if k = RoleLabelKey then Some role else fmlookup (SelectorLabels inst) k)"
  by (simp add: roleSelector_def)

lemma lookup_withRole [simp]:
  "fmlookup (withRole base role) k = (if k = RoleLabelKey then Some role else fmlookup base k)"
  by (simp add: withRole_eq)

lemma roleSelector_match_iff:
  "matchLabels (roleSelector inst r) (withRole (Labels inst) r') \<longleftrightarrow> r = r'"
proof
  assume "matchLabels (roleSelector inst r) (withRole (Labels inst) r')"
  then have "fmlookup (withRole (Labels inst) r') RoleLabelKey = Some r"
    by (rule matchLabelsD) simp
  then show "r = r'" by simp
next
  assume "r = r'"
  then show "matchLabels (roleSelector inst r) (withRole (Labels inst) r')"
    using SelectorLabels_match_Labels [THEN matchLabelsD]
    by (intro matchLabelsI) (auto split: if_splits)
qed

lemma SelectorLabels_match_withRole: "matchLabels (SelectorLabels inst) (withRole (Labels inst) r)"
proof (rule matchLabelsI)
  fix k v
  assume "fmlookup (SelectorLabels inst) k = Some v"
  moreover from this have "k \<noteq> RoleLabelKey" by auto
  ultimately show "fmlookup (withRole (Labels inst) r) k = Some v"
    using SelectorLabels_match_Labels [THEN matchLabelsD] by simp
qed

lemma Labels_match_override:
  "matchLabels (Labels inst) (fmadd (Labels inst) extra)
     \<longleftrightarrow> (\<forall>k v w. fmlookup (Labels inst) k = Some v \<longrightarrow> fmlookup extra k = Some w \<longrightarrow> v = w)"
proof
  assume m: "matchLabels (Labels inst) (fmadd (Labels inst) extra)"
  show "\<forall>k v w. fmlookup (Labels inst) k = Some v \<longrightarrow> fmlookup extra k = Some w \<longrightarrow> v = w"
    using matchLabelsD [OF m] by (metis fmadd_lookup_some option.inject)
next
  assume h: "\<forall>k v w. fmlookup (Labels inst) k = Some v \<longrightarrow> fmlookup extra k = Some w \<longrightarrow> v = w"
  show "matchLabels (Labels inst) (fmadd (Labels inst) extra)"
  proof (rule matchLabelsI)
    fix k v
    assume "fmlookup (Labels inst) k = Some v"
    with h show "fmlookup (fmadd (Labels inst) extra) k = Some v"
      by (cases "fmlookup extra k") (auto simp: fmlookup_dom_iff)
  qed
qed

subsection \<open>Facts about ports\<close>

lemma PortFromAddr_after_colon:
  assumes "CHR '':'' \<notin> set s"
  shows "PortFromAddr (host @ CHR '':'' # s) def =
           (case ParseInt s 32 of None \<Rightarrow> def | Some p \<Rightarrow> if p \<le> 0 \<or> p > 65535 then def else p)"
  using assms by (simp add: PortFromAddr_def LastIndex_last Let_def nat_add_distrib)

lemma PortFromAddr_no_colon: "CHR '':'' \<notin> set addr \<Longrightarrow> PortFromAddr addr def = def"
  by (simp add: PortFromAddr_def LastIndex_absent)

lemma dec_no_colon: "CHR '':'' \<notin> set (dec n)"
  by (rule dec_no_special) simp

lemma PortFromAddr_host_port:
  assumes "1 \<le> p" and "p \<le> 65535"
  shows "PortFromAddr (host @ CHR '':'' # FormatInt p) def = p"
proof -
  have "CHR '':'' \<notin> set (FormatInt p)" using assms dec_no_colon by (simp add: FormatInt_def)
  moreover have "ParseInt (FormatInt p) 32 = Some p" using assms by (simp add: ParseInt_FormatInt)
  ultimately show ?thesis using assms by (simp add: PortFromAddr_after_colon)
qed

text \<open>
  C29: \<^verbatim>\<open>PortFromAddr\<close> recovers the port of every listen address: for any host part (empty, an
  IPv4 address, a bracketed IPv6 address with colons of its own) and any port from 1 to
  65535, the address \<^verbatim>\<open>host:port\<close> yields exactly that port, whatever the default.
\<close>

theorem PortFromAddr_roundtrip:
  assumes "1 \<le> p" and "p \<le> 65535"
  shows "PortFromAddr (host @ '':'' @ FormatInt p) def = p"
  using PortFromAddr_host_port [OF assms] by simp

theorem PortFromAddr_roundtrip_witness:
  "(1::int) \<le> 8080 \<and> PortFromAddr (''[::1]'' @ '':'' @ FormatInt 8080) 9899 = 8080"
  using PortFromAddr_roundtrip [of 8080 "''[::1]''" 9899] by simp

text \<open>
  C30: with a valid default, \<^verbatim>\<open>PortFromAddr\<close> yields a valid TCP port for every input string
  (empty, no colon, no digits, a negative, zero or overlong number).
\<close>

theorem PortFromAddr_range:
  assumes "1 \<le> def" and "def \<le> 65535"
  shows "1 \<le> PortFromAddr addr def \<and> PortFromAddr addr def \<le> 65535"
  using assms by (auto simp: PortFromAddr_def Let_def split: option.splits)

theorem PortFromAddr_range_witness:
  "1 \<le> PortFromAddr '':99999'' DefaultGRPCPort \<and> PortFromAddr '':99999'' DefaultGRPCPort \<le> 65535"
  by (rule PortFromAddr_range) (simp_all add: DefaultGRPCPort_def)

subsection \<open>Facts about the hashes\<close>

lemma sort_distinct_eq:
  "distinct ks \<Longrightarrow> set ks = fset s \<Longrightarrow> sort ks = sorted_list_of_fset s"
  by (intro sorted_distinct_set_unique) simp_all

lemma HashSecretData_sorted:
  "HashSecretData data = EncodeToString (sha256 (hash_input data (sorted_list_of_fset (fmdom data))))"
  by (simp add: HashSecretData_def HashSecretData_order_def Let_def sorted_sort_id)

text \<open>
  \<^verbatim>\<open>HashSecretData\<close> does not depend on the order in which Go iterates over the map: every
  enumeration of the keys gives the same digest.
\<close>

theorem HashSecretData_order_irrelevant:
  assumes "distinct ks" and "set ks = fset (fmdom data)"
  shows "HashSecretData_order ks data = HashSecretData data"
  using sort_distinct_eq [OF assms]
  by (simp add: HashSecretData_sorted HashSecretData_order_def)

theorem HashSecretData_order_irrelevant_witness:
  "distinct [''b'', ''a''] \<and> HashSecretData_order [''b'', ''a''] (fmap_of_list [(''a'', ''1''), (''b'', ''2'')])
     = HashSecretData (fmap_of_list [(''a'', ''1''), (''b'', ''2'')])"
  using HashSecretData_order_irrelevant [of "[''b'', ''a'']" "fmap_of_list [(''a'', ''1''), (''b'', ''2'')]"]
  by auto

lemma split_at_first:
  assumes "c \<notin> set a" and "c \<notin> set b" and "a @ c # x = b @ c # y"
  shows "a = b \<and> x = y"
  using assms
proof (induction a arbitrary: b)
  case Nil
  then show ?case by (cases b) auto
next
  case (Cons e a)
  then show ?case by (cases b) auto
qed

lemma hash_input_inj:
  assumes "hash_input d ks = hash_input d' ks'" and "clean_data d" and "clean_data d'"
    and "set ks \<subseteq> fset (fmdom d)" and "set ks' \<subseteq> fset (fmdom d')"
  shows "ks = ks' \<and> (\<forall>k \<in> set ks. fmlookup d k = fmlookup d' k)"
  using assms
proof (induction ks arbitrary: ks')
  case Nil
  then show ?case by (cases ks') (auto simp: hash_input_def hash_entry_def)
next
  case (Cons k ks)
  then obtain k' ks'' where ks': "ks' = k' # ks''"
    by (cases ks') (auto simp: hash_input_def hash_entry_def)
  from Cons.prems ks' obtain v v' where v: "fmlookup d k = Some v" "fmlookup d' k' = Some v'"
    by (auto simp: fmlookup_dom_iff)
  with Cons.prems(2,3) have clean: "CHR ''='' \<notin> set k" "CHR ''='' \<notin> set k'" "LF \<notin> set v" "LF \<notin> set v'"
    by (auto simp: clean_data_def)
  have "k @ CHR ''='' # v @ LF # hash_input d ks = k' @ CHR ''='' # v' @ LF # hash_input d' ks''"
    using Cons.prems(1) v ks' by (simp add: hash_input_def hash_entry_def)
  then have "k = k'" and rest: "v @ LF # hash_input d ks = v' @ LF # hash_input d' ks''"
    using clean split_at_first by metis+
  from rest clean have "v = v'" "hash_input d ks = hash_input d' ks''"
    using split_at_first by metis+
  with Cons.IH [of ks''] Cons.prems ks' v \<open>k = k'\<close> show ?case by auto
qed

lemma clean_hash_input_inj:
  assumes "clean_data d" and "clean_data d'"
    and "hash_input d (sorted_list_of_fset (fmdom d)) = hash_input d' (sorted_list_of_fset (fmdom d'))"
  shows "d = d'"
proof -
  have *: "sorted_list_of_fset (fmdom d) = sorted_list_of_fset (fmdom d') \<and>
      (\<forall>k \<in> set (sorted_list_of_fset (fmdom d)). fmlookup d k = fmlookup d' k)"
    by (rule hash_input_inj [OF assms(3,1,2)]) simp_all
  then have "fset (fmdom d) = fset (fmdom d')" by (metis sorted_fset_facts(1))
  with * show "d = d'"
    by (intro fmap_ext) (metis fmdom_notD sorted_fset_facts(1))
qed

text \<open>
  On data whose keys contain neither an equals sign nor a line break and whose values
  contain no line break, two different maps feed different bytes to the hash, so their
  digests are equal only if SHA-256 itself collides on those two inputs.
\<close>

theorem HashSecretData_detects_change:
  assumes "clean_data d" and "clean_data d'" and "d \<noteq> d'"
  shows "hash_input d (sorted_list_of_fset (fmdom d)) \<noteq> hash_input d' (sorted_list_of_fset (fmdom d'))
    \<and> (HashSecretData d = HashSecretData d' \<longleftrightarrow>
         sha256 (hash_input d (sorted_list_of_fset (fmdom d)))
           = sha256 (hash_input d' (sorted_list_of_fset (fmdom d'))))"
  using assms clean_hash_input_inj EncodeToString_inj by (auto simp: HashSecretData_sorted)

theorem HashSecretData_detects_change_witness:
  "hash_input (fmap_of_list [(''a'', ''1'')]) [''a''] \<noteq> hash_input (fmap_of_list [(''a'', ''2'')]) [''a'']"
proof -
  let ?d = "fmap_of_list [(''a'', ''1'')]" and ?d' = "fmap_of_list [(''a'', ''2'')]"
  have "clean_data ?d" "clean_data ?d'" by (simp_all add: clean_data_def LF_def fmpred_upd)
  moreover have "fmlookup ?d ''a'' \<noteq> fmlookup ?d' ''a''" by (simp add: fmlookup_of_list)
  then have "?d \<noteq> ?d'" by metis
  ultimately show ?thesis using HashSecretData_detects_change [of ?d ?d']
    by (simp add: sorted_list_of_fset.rep_eq)
qed

text \<open>
  The digest is always 64 lower-case hexadecimal digits.
\<close>

theorem HashSecretData_hex:
  "length (HashSecretData data) = 64 \<and> set (HashSecretData data) \<subseteq> set ''0123456789abcdef''"
  using set_EncodeToString by (simp add: HashSecretData_sorted del: set_simps)

text \<open>
  Without those restrictions the bytes fed to the hash are ambiguous: a value with a line
  break can imitate a further entry, so two different ConfigMaps have the same digest and
  a change from one to the other does not roll the pods.
\<close>

theorem HashSecretData_not_injective:
  "fmap_of_list [(''a'', ''1'' @ LF # ''b=2'')] \<noteq> fmap_of_list [(''a'', ''1''), (''b'', ''2'')] \<and>
   HashSecretData (fmap_of_list [(''a'', ''1'' @ LF # ''b=2'')])
     = HashSecretData (fmap_of_list [(''a'', ''1''), (''b'', ''2'')])"
proof -
  let ?d = "fmap_of_list [(''a'', ''1'' @ LF # ''b=2'')]" and ?d' = "fmap_of_list [(''a'', ''1''), (''b'', ''2'')]"
  have "fmlookup ?d ''b'' \<noteq> fmlookup ?d' ''b''" by (simp add: fmlookup_of_list)
  then have "?d \<noteq> ?d'" by metis
  moreover have "hash_input ?d (sorted_list_of_fset (fmdom ?d)) = hash_input ?d' (sorted_list_of_fset (fmdom ?d'))"
    by (simp add: hash_input_def hash_entry_def sorted_list_of_fset.rep_eq)
  ultimately show ?thesis by (simp add: HashSecretData_sorted)
qed
end
