(* ===== verification/ConfigMaps.thy ===== *)
theory ConfigMaps
  imports Common
begin

section \<open>The rendered server configuration (internal/resources/configmap.go)\<close>

text \<open>
  \<open>BuildConfigMap\<close> and \<open>renderConfigYAML\<close>, the line structure of what is rendered, and a
  reader of it: what the operator writes is what a reader of quoted one-line entries gets
  back, and no value of the specification can add or split a line.
\<close>

subsection \<open>The builder\<close>

definition config_header :: string where
  "config_header = ''# Rendered by tln-db-operator. Do not edit.''"

text \<open>\<^verbatim>\<open>fmt.Fprintf(&b, "key: %q\n", v)\<close>.\<close>

definition config_line :: "lib \<Rightarrow> string \<Rightarrow> string \<Rightarrow> string" where
  "config_line L key v = key @ '': '' @ Quote (lib_IsPrint L) v @ [LF]"

definition renderConfigYAML :: "lib \<Rightarrow> TlnDB \<Rightarrow> string" where
  "renderConfigYAML L inst =
     (let cfg = spec_Config (db_Spec inst);
          dbPath = (if cfg_DBPath cfg = [] then DataMountPath @ ''/tlndb.bbolt'' else cfg_DBPath cfg);
          tcp = (if cfg_TCP cfg = [] then '':'' @ FormatInt DefaultGRPCPort else cfg_TCP cfg);
          httpAddr = (if cfg_HTTP cfg = [] then '':'' @ FormatInt DefaultHTTPPort else cfg_HTTP cfg);
          extra = TrimSpace (cfg_ExtraConfig cfg)
      in config_header @ [LF]
         @ config_line L ''db'' dbPath
         @ config_line L ''tcp'' tcp
         @ config_line L ''http'' httpAddr
         @ (if cfg_Socket cfg \<noteq> [] then config_line L ''socket'' (cfg_Socket cfg) else [])
         @ (if MetricsEnabled inst
            then config_line L ''metrics'' ('':'' @ FormatInt (MetricsPort inst)) else [])
         @ (if extra \<noteq> [] then extra @ [LF] else []))"

definition BuildConfigMap :: "lib \<Rightarrow> TlnDB \<Rightarrow> ConfigMap" where
  "BuildConfigMap L inst = \<lparr>
     cm_Meta = zero_ObjectMeta\<lparr>om_Name := ConfigMapName inst, om_Namespace := db_Namespace inst,
                               om_Labels := Labels inst\<rparr>,
     cm_Data = fmap_of_list [(ConfigFileName, renderConfigYAML L inst)]\<rparr>"

lemmas [build_defs] = BuildConfigMap_def

interpretation cm_child: child_builder "\<lambda>inst. cm_Meta (BuildConfigMap L inst)" ConfigMapName for L
  by unfold_locales (simp_all add: build_defs name_defs zero_ObjectMeta_def)

subsection \<open>The entries, and a reader of the rendered text\<close>

text \<open>The key/value pairs the server is to see, in order.\<close>

definition config_entries :: "TlnDB \<Rightarrow> (string \<times> string) list" where
  "config_entries inst =
     (let cfg = spec_Config (db_Spec inst)
      in [(''db'', if cfg_DBPath cfg = [] then DataMountPath @ ''/tlndb.bbolt'' else cfg_DBPath cfg),
          (''tcp'', if cfg_TCP cfg = [] then '':'' @ FormatInt DefaultGRPCPort else cfg_TCP cfg),
          (''http'', if cfg_HTTP cfg = [] then '':'' @ FormatInt DefaultHTTPPort else cfg_HTTP cfg)]
         @ (if cfg_Socket cfg \<noteq> [] then [(''socket'', cfg_Socket cfg)] else [])
         @ (if MetricsEnabled inst then [(''metrics'', '':'' @ FormatInt (MetricsPort inst))] else []))"

function lines_of :: "string \<Rightarrow> string list" where
  "lines_of s =
     (if s = [] then []
      else takeWhile (\<lambda>c. c \<noteq> LF) s # lines_of (tl (dropWhile (\<lambda>c. c \<noteq> LF) s)))"
  by pat_completeness auto
termination
proof (relation "measure length", simp)
  fix s :: string
  assume "s \<noteq> []"
  have "length (tl (dropWhile (\<lambda>c. c \<noteq> LF) s)) \<le> length s - 1"
    using length_dropWhile_le [of "\<lambda>c. c \<noteq> LF" s] by simp
  with \<open>s \<noteq> []\<close> show "(tl (dropWhile (\<lambda>c. c \<noteq> LF) s), s) \<in> measure length"
    by (simp add: le_less_trans)
qed

declare lines_of.simps [simp del]

definition read_entry :: "string \<Rightarrow> (string \<times> string) option" where
  "read_entry l =
     (let key = takeWhile (\<lambda>c. c \<noteq> CHR '':'') l; rest = drop (length key) l
      in if take 3 rest = '': '' @ [DQ]
         then (case read_dq (drop 3 rest) of Some (v, []) \<Rightarrow> Some (key, v) | _ \<Rightarrow> None)
         else None)"

definition parse_config :: "string \<Rightarrow> (string \<times> string) list option" where
  "parse_config s = those (map read_entry (filter (\<lambda>l. l \<noteq> [] \<and> hd l \<noteq> CHR ''#'') (lines_of s)))"

subsection \<open>Structure of the rendered text\<close>

lemma lines_of_Nil [simp]: "lines_of [] = []"
  by (simp add: lines_of.simps)

lemma lines_of_line [simp]:
  assumes "LF \<notin> set l"
  shows "lines_of (l @ LF # r) = l # lines_of r"
proof -
  have "takeWhile (\<lambda>c. c \<noteq> LF) (l @ LF # r) = l"
    using assms by (subst takeWhile_append2) auto
  moreover have "dropWhile (\<lambda>c. c \<noteq> LF) (l @ LF # r) = LF # r"
    using assms by (subst dropWhile_append2) auto
  ultimately show ?thesis by (subst lines_of.simps) simp
qed

definition quoted_line :: "lib \<Rightarrow> string \<times> string \<Rightarrow> string" where
  "quoted_line L kv = fst kv @ '': '' @ Quote (lib_IsPrint L) (snd kv)"

lemma config_line_quoted: "config_line L k v = quoted_line L (k, v) @ [LF]"
  by (simp add: config_line_def quoted_line_def)

lemma quoted_line_no_LF: "LF \<notin> set k \<Longrightarrow> LF \<notin> set (quoted_line L (k, v))"
  using Quote_no_LF by (simp add: quoted_line_def) (simp add: LF_def)

lemma render_concat:
  "renderConfigYAML L inst = config_header @ [LF]
     @ concat (map (\<lambda>kv. quoted_line L kv @ [LF]) (config_entries inst))
     @ (let extra = TrimSpace (cfg_ExtraConfig (spec_Config (db_Spec inst)))
        in if extra \<noteq> [] then extra @ [LF] else [])"
  by (simp add: renderConfigYAML_def config_entries_def config_line_quoted Let_def)

lemma config_keys_no_LF: "kv \<in> set (config_entries inst) \<Longrightarrow> LF \<notin> set (fst kv)"
  by (auto simp: config_entries_def Let_def LF_def split: if_splits)

lemma lines_of_concat_lines:
  "\<forall>l \<in> set ls. LF \<notin> set l \<Longrightarrow> lines_of (concat (map (\<lambda>l. l @ [LF]) ls) @ r) = ls @ lines_of r"
  by (induction ls) auto

lemma header_no_LF: "LF \<notin> set config_header"
  by (simp add: config_header_def LF_def)

lemma lines_of_render:
  "lines_of (renderConfigYAML L inst) =
     config_header # map (quoted_line L) (config_entries inst)
       @ (let extra = TrimSpace (cfg_ExtraConfig (spec_Config (db_Spec inst)))
          in if extra \<noteq> [] then lines_of (extra @ [LF]) else [])"
proof -
  let ?r = "let extra = TrimSpace (cfg_ExtraConfig (spec_Config (db_Spec inst)))
            in if extra \<noteq> [] then extra @ [LF] else []"
  let ?ls = "map (quoted_line L) (config_entries inst)"
  have "\<forall>l \<in> set ?ls. LF \<notin> set l"
    using config_keys_no_LF quoted_line_no_LF by auto
  then have "lines_of (concat (map (\<lambda>l. l @ [LF]) ?ls) @ ?r) = ?ls @ lines_of ?r"
    by (rule lines_of_concat_lines)
  then show ?thesis
    by (simp add: render_concat header_no_LF comp_def Let_def)
qed

text \<open>
  Every value of the specification stays on its own line. Whatever bytes the database
  path, the addresses and the socket contain, the rendered file is the header line, one
  quoted line per configured entry in the fixed order, and then the trimmed extra
  configuration verbatim: no value can inject or break a line.
\<close>

theorem render_lines:
  "lines_of (renderConfigYAML L inst) =
     config_header # map (quoted_line L) (config_entries inst)
       @ (let extra = TrimSpace (cfg_ExtraConfig (spec_Config (db_Spec inst)))
          in if extra \<noteq> [] then lines_of (extra @ [LF]) else [])"
  by (rule lines_of_render)

lemma read_quoted_line:
  assumes "CHR '':'' \<notin> set k" and "ascii v"
  shows "read_entry (quoted_line L (k, v)) = Some (k, v)"
proof -
  have "takeWhile (\<lambda>c. c \<noteq> CHR '':'') (quoted_line L (k, v)) = k"
    using assms(1) by (auto simp: quoted_line_def takeWhile_append)
  with assms(2) show ?thesis
    by (simp add: read_entry_def quoted_line_def Quote_def Let_def read_quote_body_ascii)
qed

lemma those_map_Some: "\<forall>x \<in> set xs. f x = Some (g x) \<Longrightarrow> those (map f xs) = Some (map g xs)"
  by (induction xs) auto

lemma config_entries_keys:
  "kv \<in> set (config_entries inst) \<Longrightarrow> CHR '':'' \<notin> set (fst kv) \<and> fst kv \<noteq> [] \<and> hd (fst kv) \<noteq> CHR ''#''"
  by (auto simp: config_entries_def Let_def split: if_splits)



lemma lookup_config_entries:
  "map_of (config_entries inst) ''tcp'' = Some (if cfg_TCP (spec_Config (db_Spec inst)) = []
     then '':'' @ FormatInt DefaultGRPCPort else cfg_TCP (spec_Config (db_Spec inst)))"
  "map_of (config_entries inst) ''http'' = Some (if cfg_HTTP (spec_Config (db_Spec inst)) = []
     then '':'' @ FormatInt DefaultHTTPPort else cfg_HTTP (spec_Config (db_Spec inst)))"
  "MetricsEnabled inst \<Longrightarrow>
     map_of (config_entries inst) ''metrics'' = Some ('':'' @ FormatInt (MetricsPort inst))"
  by (simp_all add: config_entries_def Let_def)

lemma PortFromAddr_default [simp]: "PortFromAddr [] def = def"
  by (simp add: PortFromAddr_def)

lemma PortFromAddr_bare: "1 \<le> p \<Longrightarrow> p \<le> 65535 \<Longrightarrow> PortFromAddr (CHR '':'' # FormatInt p) def = p"
  using PortFromAddr_host_port [of p "[]" def] by simp

lemma MetricsPort_pos: "1 \<le> MetricsPort inst"
  by (simp add: MetricsPort_def DefaultMetricsPort_def Let_def)

text \<open>
  The listener addresses the server is told agree with the ports every other resource
  exposes: the port named by the rendered \<^verbatim>\<open>tcp\<close> and \<^verbatim>\<open>http\<close> entries is the gRPC and HTTP port
  the builders use, and with metrics on (and a metrics port in the TCP range) the
  rendered \<^verbatim>\<open>metrics\<close> entry names the metrics port.
\<close>

theorem render_ports_agree:
  assumes "MetricsEnabled inst" and "MetricsPort inst \<le> 65535"
  shows "PortFromAddr (the (map_of (config_entries inst) ''tcp'')) DefaultGRPCPort = grpcPort inst
    \<and> PortFromAddr (the (map_of (config_entries inst) ''http'')) DefaultHTTPPort = httpPort inst
    \<and> PortFromAddr (the (map_of (config_entries inst) ''metrics'')) def = MetricsPort inst"
  using assms MetricsPort_pos [of inst]
  by (simp add: lookup_config_entries PortFromAddr_bare port_defs)

theorem render_ports_agree_witness:
  "PortFromAddr (the (map_of (config_entries newInstance) ''metrics'')) 1 = MetricsPort newInstance"
  by (rule render_ports_agree [THEN conjunct2, THEN conjunct2])
    (simp_all add: zero_defs MetricsEnabled_def MetricsPort_def port_defs)

end
