(* ===== verification/Workloads.thy ===== *)
theory Workloads
  imports Common
begin

section \<open>StatefulSets and claims (internal/resources/statefulset.go, pvc.go)\<close>

text \<open>
  The builders of the standalone, leader and follower StatefulSets, with the pod template,
  probes, volumes, claim template and security contexts they share, and the standalone
  claim builder. The locale \<open>workload\<close> states what the three StatefulSet builders
  have in common; it is interpreted for each of them.
\<close>

definition containerName :: string where "containerName = ''tlndb''"
definition defaultFSGroup :: int64 where "defaultFSGroup = 65532"

record stsParams =
  p_name :: string
  p_role :: string
  p_replicas :: int32
  p_selectorRole :: bool
  p_extraEnv :: "EnvVar list"

definition oplogRetentionEnv :: "int64 \<Rightarrow> EnvVar list" where
  "oplogRetentionEnv retention =
     (if retention \<le> 0 then []
      else [\<lparr>env_Name = ''TLNDB_OPLOG_RETENTION'', env_Value = FormatInt retention, env_ValueFrom = None\<rparr>])"

definition persistenceEnabled :: "TlnDB \<Rightarrow> bool" where
  "persistenceEnabled inst =
     (case per_Enabled (sto_Persistence (spec_Storage (db_Spec inst))) of None \<Rightarrow> True | Some e \<Rightarrow> e)"

definition serviceAccountName :: "TlnDB \<Rightarrow> string" where
  "serviceAccountName inst =
     (if spec_ServiceAccountName (db_Spec inst) \<noteq> [] then spec_ServiceAccountName (db_Spec inst)
      else ResourceName inst)"

subsection \<open>Probes and security contexts\<close>

definition buildProbe :: "TlnDB \<Rightarrow> int32 \<Rightarrow> bool \<Rightarrow> Probe" where
  "buildProbe inst port startup =
     (let handler = \<lparr>hg_Path = ''/v1/health'', hg_Port = FromInt32 port\<rparr>;
          health = obs_Health (spec_Observability (db_Spec inst))
      in if startup then
           (let timeout = (if hlt_StartupTimeoutSeconds health \<le> 0 then 600
                           else hlt_StartupTimeoutSeconds health);
                period = 5;
                failures = (if timeout div period < 1 then 1 else timeout div period)
            in \<lparr>pb_HTTPGet = handler, pb_InitialDelaySeconds = 0, pb_TimeoutSeconds = 3,
                pb_PeriodSeconds = period, pb_FailureThreshold = failures\<rparr>)
         else
           (let initialDelay = (if hlt_InitialDelaySeconds health \<le> 0 then 10
                                else hlt_InitialDelaySeconds health)
            in \<lparr>pb_HTTPGet = handler, pb_InitialDelaySeconds = initialDelay, pb_TimeoutSeconds = 3,
                pb_PeriodSeconds = 10, pb_FailureThreshold = 3\<rparr>))"

definition buildPodSecurityContext :: "TlnDB \<Rightarrow> PodSecurityContext" where
  "buildPodSecurityContext inst =
     (case sec_PodSecurityContext (spec_Security (db_Spec inst)) of
        Some psc \<Rightarrow> UserPodSecurityContext psc
      | None \<Rightarrow>
          (let fsGroup = (case sec_FSGroup (spec_Security (db_Spec inst)) of
                            None \<Rightarrow> defaultFSGroup | Some g \<Rightarrow> g)
           in DefaultPodSecurityContext (Some True) (Some fsGroup) ''RuntimeDefault''))"

definition buildContainerSecurityContext :: "TlnDB \<Rightarrow> SecurityContext" where
  "buildContainerSecurityContext inst =
     (case sec_ContainerSecurityContext (spec_Security (db_Spec inst)) of
        Some csc \<Rightarrow> UserSecurityContext csc
      | None \<Rightarrow> HardenedSecurityContext (Some True) (Some False) (Some True) [''ALL''])"

subsection \<open>Volumes and claims\<close>

definition buildVolumes :: "TlnDB \<Rightarrow> Volume list" where
  "buildVolumes inst =
     (let configMapName =
            (case spec_ConfigFrom (db_Spec inst) of
               Some n \<Rightarrow> if n \<noteq> [] then n else ConfigMapName inst
             | None \<Rightarrow> ConfigMapName inst);
          claim = per_ExistingClaim (sto_Persistence (spec_Storage (db_Spec inst)));
          configVolume = \<lparr>v_Name = ConfigVolumeName, v_Source = ConfigMapVolume configMapName (Some 292)\<rparr>;
          dataVolume =
            (if \<not> persistenceEnabled inst
             then [\<lparr>v_Name = DataVolumeName, v_Source = EmptyDirVolume\<rparr>]
             else if claim \<noteq> [] then [\<lparr>v_Name = DataVolumeName, v_Source = ClaimVolume claim\<rparr>]
             else [])
      in configVolume # dataVolume @ spec_AdditionalVolumes (db_Spec inst))"

definition buildVolumeClaimTemplate :: "lib \<Rightarrow> TlnDB \<Rightarrow> PersistentVolumeClaim" where
  "buildVolumeClaimTemplate L inst =
     (let persistence = sto_Persistence (spec_Storage (db_Spec inst));
          size = (if lib_IsZero L (per_Size persistence) then lib_MustParse L ''1Gi''
                  else per_Size persistence);
          accessModes = (if per_AccessModes persistence = [] then [''ReadWriteOnce'']
                         else per_AccessModes persistence)
      in \<lparr>pvc_Meta = zero_ObjectMeta\<lparr>om_Name := DataVolumeName, om_Labels := Labels inst\<rparr>,
          pvc_AccessModes = accessModes, pvc_StorageRequest = size,
          pvc_StorageClassName = per_StorageClassName persistence\<rparr>)"

definition PVCName :: "TlnDB \<Rightarrow> string" where
  "PVCName inst = ResourceName inst @ ''-data''"

definition BuildPVC :: "lib \<Rightarrow> TlnDB \<Rightarrow> PersistentVolumeClaim" where
  "BuildPVC L inst =
     (let persistence = sto_Persistence (spec_Storage (db_Spec inst));
          size = (if lib_IsZero L (per_Size persistence) then lib_MustParse L ''1Gi''
                  else per_Size persistence);
          accessModes = (if per_AccessModes persistence = [] then [''ReadWriteOnce'']
                         else per_AccessModes persistence)
      in \<lparr>pvc_Meta = zero_ObjectMeta\<lparr>om_Name := PVCName inst, om_Namespace := db_Namespace inst,
                                     om_Labels := Labels inst\<rparr>,
          pvc_AccessModes = accessModes, pvc_StorageRequest = size,
          pvc_StorageClassName = per_StorageClassName persistence\<rparr>)"

subsection \<open>Containers\<close>

definition containerPorts :: "TlnDB \<Rightarrow> ContainerPort list" where
  "containerPorts inst =
     [\<lparr>cp_Name = ''grpc'', cp_ContainerPort = grpcPort inst, cp_Protocol = ''TCP''\<rparr>,
      \<lparr>cp_Name = ''http'', cp_ContainerPort = httpPort inst, cp_Protocol = ''TCP''\<rparr>]
     @ (if MetricsEnabled inst
        then [\<lparr>cp_Name = ''metrics'', cp_ContainerPort = MetricsPort inst, cp_Protocol = ''TCP''\<rparr>]
        else [])"

definition buildMainContainer :: "TlnDB \<Rightarrow> EnvVar list \<Rightarrow> Container" where
  "buildMainContainer inst extraEnv =
     (let spec = db_Spec inst;
          volumeMounts =
            [\<lparr>vm_Name = ConfigVolumeName, vm_MountPath = ConfigMountPath, vm_ReadOnly = True, vm_Rest = JNull\<rparr>,
             \<lparr>vm_Name = DataVolumeName, vm_MountPath = DataMountPath, vm_ReadOnly = False, vm_Rest = JNull\<rparr>]
            @ spec_AdditionalVolumeMounts spec
      in \<lparr>c_Name = containerName,
          c_Image = ImageRef (spec_Image spec),
          c_ImagePullPolicy = img_PullPolicy (spec_Image spec),
          c_Args = [''--config'', ConfigMountPath @ ''/'' @ ConfigFileName],
          c_Ports = containerPorts inst,
          c_Env = spec_Env spec @ extraEnv,
          c_EnvFrom = spec_EnvFrom spec,
          c_Resources = spec_Resources spec,
          c_VolumeMounts = volumeMounts,
          c_SecurityContext = Some (buildContainerSecurityContext inst),
          c_LivenessProbe = Some (buildProbe inst (httpPort inst) False),
          c_ReadinessProbe = Some (buildProbe inst (httpPort inst) False),
          c_StartupProbe = Some (buildProbe inst (httpPort inst) True),
          c_Rest = JNull\<rparr>)"

definition buildContainers :: "TlnDB \<Rightarrow> EnvVar list \<Rightarrow> Container list" where
  "buildContainers inst extraEnv =
     buildMainContainer inst extraEnv # spec_AdditionalContainers (db_Spec inst)"

subsection \<open>StatefulSets\<close>

text \<open>\<^verbatim>\<open>buildStatefulSet\<close>: the user's pod annotations are written after the config hash.\<close>

definition buildStatefulSet :: "lib \<Rightarrow> TlnDB \<Rightarrow> string \<Rightarrow> stsParams \<Rightarrow> StatefulSet" where
  "buildStatefulSet L inst configHash p =
     (let spec = db_Spec inst;
          podAnnotations = fmadd (fmap_of_list [(ConfigHashAnnotation, configHash)]) (spec_PodAnnotations spec);
          selector = (if p_selectorRole p then roleSelector inst (p_role p) else SelectorLabels inst);
          claims = (if persistenceEnabled inst \<and> per_ExistingClaim (sto_Persistence (spec_Storage spec)) = []
                    then [buildVolumeClaimTemplate L inst] else [])
      in \<lparr>sts_Meta = zero_ObjectMeta\<lparr>om_Name := p_name p, om_Namespace := db_Namespace inst,
                                     om_Labels := withRole (Labels inst) (p_role p)\<rparr>,
          sts_Spec = \<lparr>
            ss_Replicas = Some (p_replicas p),
            ss_ServiceName = HeadlessServiceName inst,
            ss_PodManagementPolicy = ''Parallel'',
            ss_Selector = selector,
            ss_Template = \<lparr>
              pt_Labels = withRole (Labels inst) (p_role p),
              pt_Annotations = podAnnotations,
              pt_Spec = \<lparr>
                ps_ServiceAccountName = serviceAccountName inst,
                ps_SecurityContext = Some (buildPodSecurityContext inst),
                ps_ImagePullSecrets = img_PullSecrets (spec_Image spec),
                ps_NodeSelector = spec_NodeSelector spec,
                ps_Tolerations = spec_Tolerations spec,
                ps_Affinity = spec_Affinity spec,
                ps_InitContainers = spec_InitContainers spec,
                ps_Containers = buildContainers inst (p_extraEnv p),
                ps_Volumes = buildVolumes inst\<rparr>\<rparr>,
            ss_VolumeClaimTemplates = claims\<rparr>,
          sts_Status = \<lparr>st_ObservedGeneration = 0, st_ReadyReplicas = 0\<rparr>\<rparr>)"

definition standaloneParams :: "TlnDB \<Rightarrow> stsParams" where
  "standaloneParams inst = \<lparr>p_name = ResourceName inst, p_role = RoleStandalone,
     p_replicas = (case spec_Replicas (db_Spec inst) of None \<Rightarrow> 1 | Some n \<Rightarrow> n),
     p_selectorRole = False, p_extraEnv = []\<rparr>"

definition BuildStatefulSet :: "lib \<Rightarrow> TlnDB \<Rightarrow> string \<Rightarrow> StatefulSet" where
  "BuildStatefulSet L inst configHash = buildStatefulSet L inst configHash (standaloneParams inst)"

definition BuildLeaderStatefulSet :: "lib \<Rightarrow> TlnDB \<Rightarrow> string \<Rightarrow> int64 \<Rightarrow> StatefulSet" where
  "BuildLeaderStatefulSet L inst configHash retention =
     (let env = [\<lparr>env_Name = ''TLNDB_ROLE'', env_Value = RoleLeader, env_ValueFrom = None\<rparr>]
                @ oplogRetentionEnv retention
      in buildStatefulSet L inst configHash
           \<lparr>p_name = LeaderStatefulSetName inst, p_role = RoleLeader, p_replicas = 1,
            p_selectorRole = True, p_extraEnv = env\<rparr>)"

definition BuildFollowerStatefulSet ::
    "lib \<Rightarrow> TlnDB \<Rightarrow> string \<Rightarrow> string \<Rightarrow> int32 \<Rightarrow> int64 \<Rightarrow> StatefulSet" where
  "BuildFollowerStatefulSet L inst configHash leaderAddr replicas retention =
     (let env = [\<lparr>env_Name = ''TLNDB_ROLE'', env_Value = RoleFollower, env_ValueFrom = None\<rparr>,
                 \<lparr>env_Name = ''TLNDB_REPLICATE_FROM'', env_Value = leaderAddr, env_ValueFrom = None\<rparr>]
                @ oplogRetentionEnv retention
      in buildStatefulSet L inst configHash
           \<lparr>p_name = FollowerStatefulSetName inst, p_role = RoleFollower, p_replicas = replicas,
            p_selectorRole = True, p_extraEnv = env\<rparr>)"

lemmas [build_defs] = buildStatefulSet_def standaloneParams_def BuildStatefulSet_def
  BuildLeaderStatefulSet_def BuildFollowerStatefulSet_def buildContainers_def

subsection \<open>The contract of the StatefulSet builders\<close>

abbreviation sts_Template :: "StatefulSet \<Rightarrow> PodTemplateSpec" where
  "sts_Template sts \<equiv> ss_Template (sts_Spec sts)"

abbreviation sts_Containers :: "StatefulSet \<Rightarrow> Container list" where
  "sts_Containers sts \<equiv> ps_Containers (pt_Spec (sts_Template sts))"

text \<open>How many volumes or claim templates of a StatefulSet provide the volume \<open>n\<close>.\<close>

definition volume_sources :: "StatefulSet \<Rightarrow> string \<Rightarrow> nat" where
  "volume_sources sts n =
     length (filter (\<lambda>v. v_Name v = n) (ps_Volumes (pt_Spec (sts_Template sts))))
     + length (filter (\<lambda>c. om_Name (pvc_Meta c) = n) (ss_VolumeClaimTemplates (sts_Spec sts)))"

text \<open>The value a container sees for a variable: the last entry of \<^verbatim>\<open>env\<close> wins.\<close>

definition env_value :: "EnvVar list \<Rightarrow> string \<Rightarrow> string option" where
  "env_value env n = map_of (rev (map (\<lambda>e. (env_Name e, env_Value e)) env)) n"

text \<open>The volume names the user adds do not collide with the operator's two.\<close>

definition volumes_reserved :: "TlnDB \<Rightarrow> bool" where
  "volumes_reserved inst \<longleftrightarrow>
     list_all (\<lambda>v. v_Name v \<notin> {ConfigVolumeName, DataVolumeName}) (spec_AdditionalVolumes (db_Spec inst))"

text \<open>The configured startup timeout, 600 seconds when unset.\<close>

definition startupTimeout :: "TlnDB \<Rightarrow> int32" where
  "startupTimeout inst =
     (let t = hlt_StartupTimeoutSeconds (obs_Health (spec_Observability (db_Spec inst)))
      in if t \<le> 0 then 600 else t)"

locale workload =
  fixes build :: "lib \<Rightarrow> TlnDB \<Rightarrow> string \<Rightarrow> StatefulSet"
    and role :: string
    and name :: "TlnDB \<Rightarrow> string"
    and env :: "EnvVar list"
  assumes build_name: "om_Name (sts_Meta (build L inst h)) = name inst"
    and build_pod_labels: "pt_Labels (sts_Template (build L inst h)) = withRole (Labels inst) role"
    and build_selector: "ss_Selector (sts_Spec (build L inst h)) \<in> {SelectorLabels inst, roleSelector inst role}"
    and build_annotations: "pt_Annotations (sts_Template (build L inst h)) =
          fmadd (fmap_of_list [(ConfigHashAnnotation, h)]) (spec_PodAnnotations (db_Spec inst))"
    and build_containers: "sts_Containers (build L inst h) =
          buildMainContainer inst env # spec_AdditionalContainers (db_Spec inst)"
    and build_volumes: "ps_Volumes (pt_Spec (sts_Template (build L inst h))) = buildVolumes inst"
    and build_claims: "ss_VolumeClaimTemplates (sts_Spec (build L inst h)) =
          (if persistenceEnabled inst \<and> per_ExistingClaim (sto_Persistence (spec_Storage (db_Spec inst))) = []
           then [buildVolumeClaimTemplate L inst] else [])"
begin

lemma selector_matches_pods:
  "matchLabels (ss_Selector (sts_Spec (build L inst h))) (pt_Labels (sts_Template (build L inst h)))"
  using build_selector [of L inst h] SelectorLabels_match_withRole [of inst role]
    roleSelector_match_iff [of inst role role]
  by (auto simp: build_pod_labels)

lemma hash_annotation:
  "fmlookup (pt_Annotations (sts_Template (build L inst h))) ConfigHashAnnotation =
     (case fmlookup (spec_PodAnnotations (db_Spec inst)) ConfigHashAnnotation of
        None \<Rightarrow> Some h | Some v \<Rightarrow> Some v)"
  by (cases "fmlookup (spec_PodAnnotations (db_Spec inst)) ConfigHashAnnotation")
    (simp_all add: build_annotations fmlookup_of_list del: fmlookup_add)

lemma data_and_config_sources:
  assumes "volumes_reserved inst" and "n \<in> {ConfigVolumeName, DataVolumeName}"
  shows "volume_sources (build L inst h) n = 1"
proof -
  have none: "filter (\<lambda>v. v_Name v = n) (spec_AdditionalVolumes (db_Spec inst)) = []"
    using assms by (auto simp: volumes_reserved_def list_all_iff filter_empty_conv)
  show ?thesis
    using assms(2) none
    by (auto simp: volume_sources_def build_volumes build_claims buildVolumes_def Let_def
        buildVolumeClaimTemplate_def ConfigVolumeName_def DataVolumeName_def)
qed

lemma main_mounts:
  "map vm_Name (c_VolumeMounts (hd (sts_Containers (build L inst h)))) =
     [ConfigVolumeName, DataVolumeName] @ map vm_Name (spec_AdditionalVolumeMounts (db_Spec inst))"
  by (simp add: build_containers buildMainContainer_def Let_def)

lemma main_env: "c_Env (hd (sts_Containers (build L inst h))) = spec_Env (db_Spec inst) @ env"
  by (simp add: build_containers buildMainContainer_def Let_def)

lemma main_env_value:
  "env_value (c_Env (hd (sts_Containers (build L inst h)))) n =
     (case env_value env n of None \<Rightarrow> env_value (spec_Env (db_Spec inst)) n | Some v \<Rightarrow> Some v)"
  by (simp add: main_env env_value_def map_add_def split: option.split)

end

definition leaderEnv :: "int64 \<Rightarrow> EnvVar list" where
  "leaderEnv retention =
     [\<lparr>env_Name = ''TLNDB_ROLE'', env_Value = RoleLeader, env_ValueFrom = None\<rparr>] @ oplogRetentionEnv retention"

definition followerEnv :: "string \<Rightarrow> int64 \<Rightarrow> EnvVar list" where
  "followerEnv addr retention =
     [\<lparr>env_Name = ''TLNDB_ROLE'', env_Value = RoleFollower, env_ValueFrom = None\<rparr>,
      \<lparr>env_Name = ''TLNDB_REPLICATE_FROM'', env_Value = addr, env_ValueFrom = None\<rparr>] @ oplogRetentionEnv retention"

interpretation standalone_wl: workload BuildStatefulSet RoleStandalone ResourceName "[]"
  by unfold_locales (simp_all add: build_defs Let_def)

interpretation leader_wl: workload "\<lambda>L inst h. BuildLeaderStatefulSet L inst h retention" RoleLeader
    LeaderStatefulSetName "leaderEnv retention" for retention
  by unfold_locales (simp_all add: build_defs Let_def leaderEnv_def)

interpretation follower_wl: workload "\<lambda>L inst h. BuildFollowerStatefulSet L inst h addr n retention"
    RoleFollower FollowerStatefulSetName "followerEnv addr retention" for addr n retention
  by unfold_locales (simp_all add: build_defs Let_def followerEnv_def)

interpretation standalone_child: child_builder "\<lambda>inst. sts_Meta (BuildStatefulSet L inst h)"
    ResourceName for L h
  by unfold_locales (simp_all add: build_defs name_defs Let_def zero_ObjectMeta_def)

interpretation leader_child: child_builder "\<lambda>inst. sts_Meta (BuildLeaderStatefulSet L inst h retention)"
    LeaderStatefulSetName for L h retention
  by unfold_locales (simp_all add: build_defs name_defs Let_def zero_ObjectMeta_def)

interpretation follower_child: child_builder
    "\<lambda>inst. sts_Meta (BuildFollowerStatefulSet L inst h addr n retention)"
    FollowerStatefulSetName for L h addr n retention
  by unfold_locales (simp_all add: build_defs name_defs Let_def zero_ObjectMeta_def)

text \<open>All StatefulSets the operator can build for an instance.\<close>

inductive built_sts :: "lib \<Rightarrow> TlnDB \<Rightarrow> string \<Rightarrow> StatefulSet \<Rightarrow> bool" for L inst h where
  built_standalone: "built_sts L inst h (BuildStatefulSet L inst h)"
| built_leader: "built_sts L inst h (BuildLeaderStatefulSet L inst h retention)"
| built_follower: "built_sts L inst h (BuildFollowerStatefulSet L inst h addr n retention)"

text \<open>The replica counts of the primary StatefulSets.\<close>

lemma built_replicas:
  "ss_Replicas (sts_Spec (BuildStatefulSet L i h)) = Some (case spec_Replicas (db_Spec i) of None \<Rightarrow> 1 | Some n \<Rightarrow> n)"
  "ss_Replicas (sts_Spec (BuildLeaderStatefulSet L i h ret)) = Some 1"
  by (simp_all add: BuildStatefulSet_def BuildLeaderStatefulSet_def standaloneParams_def buildStatefulSet_def Let_def)

subsection \<open>Properties\<close>

text \<open>
  C25: every volume the database container mounts for the operator has exactly one source. In
  each of the three storage modes (claim template, existing claim, emptyDir) and for each
  of the three StatefulSets, the pod has exactly one volume or claim template named
  \<^verbatim>\<open>config\<close> and exactly one named \<^verbatim>\<open>data\<close>, provided the user's additional volumes do not
  reuse these two names.
\<close>

theorem mounted_volumes_have_one_source:
  assumes "built_sts L inst h sts" and "volumes_reserved inst"
    and "n \<in> {ConfigVolumeName, DataVolumeName}"
  shows "n \<in> vm_Name ` set (c_VolumeMounts (hd (sts_Containers sts))) \<and> volume_sources sts n = 1"
proof -
  have "volume_sources sts n = 1"
    using assms(1) standalone_wl.data_and_config_sources [OF assms(2,3)]
      leader_wl.data_and_config_sources [OF assms(2,3)]
      follower_wl.data_and_config_sources [OF assms(2,3)]
    by cases auto
  moreover have "[ConfigVolumeName, DataVolumeName] @ map vm_Name (spec_AdditionalVolumeMounts (db_Spec inst))
      = map vm_Name (c_VolumeMounts (hd (sts_Containers sts)))"
    using assms(1) by cases
      (simp_all only: standalone_wl.main_mounts leader_wl.main_mounts follower_wl.main_mounts)
  then have "n \<in> set (map vm_Name (c_VolumeMounts (hd (sts_Containers sts))))"
    using assms(3) by (metis UnCI insert_iff list.set(2) set_append singletonD)
  ultimately show ?thesis by simp
qed

theorem mounted_volumes_have_one_source_witness:
  "volume_sources (BuildStatefulSet sample_lib newInstance ''h'') ''data'' = 1"
  using mounted_volumes_have_one_source [OF built_standalone, of newInstance DataVolumeName sample_lib "''h''"]
  by (simp add: volumes_reserved_def zero_defs DataVolumeName_def)

text \<open>
  C24: a StatefulSet's selector always selects its own pods (which the API server requires),
  and in replicated mode the selectors separate the roles: the leader's selector never
  selects a follower pod nor the follower's a leader pod.
\<close>

theorem statefulset_selectors:
  "matchLabels (ss_Selector (sts_Spec (BuildStatefulSet L inst h)))
     (pt_Labels (sts_Template (BuildStatefulSet L inst h))) \<and>
   (let ld = BuildLeaderStatefulSet L inst h ret; fl = BuildFollowerStatefulSet L inst h addr n ret
    in matchLabels (ss_Selector (sts_Spec ld)) (pt_Labels (sts_Template ld))
     \<and> matchLabels (ss_Selector (sts_Spec fl)) (pt_Labels (sts_Template fl))
     \<and> \<not> matchLabels (ss_Selector (sts_Spec ld)) (pt_Labels (sts_Template fl))
     \<and> \<not> matchLabels (ss_Selector (sts_Spec fl)) (pt_Labels (sts_Template ld)))"
proof -
  have "ss_Selector (sts_Spec (BuildLeaderStatefulSet L inst h ret)) = roleSelector inst RoleLeader"
    "ss_Selector (sts_Spec (BuildFollowerStatefulSet L inst h addr n ret)) = roleSelector inst RoleFollower"
    by (simp_all add: build_defs Let_def)
  moreover have "RoleLeader \<noteq> RoleFollower" by (simp add: role_defs)
  ultimately show ?thesis
    using standalone_wl.selector_matches_pods leader_wl.selector_matches_pods
      follower_wl.selector_matches_pods
    by (simp add: Let_def leader_wl.build_pod_labels follower_wl.build_pod_labels roleSelector_match_iff)
qed

text \<open>
  The configuration hash reaches the pod template: in every StatefulSet the operator builds
  the template carries the hash it was given under the config-hash annotation, unless the
  user's pod annotations define that key, in which case the user's value replaces it
  (and configuration changes no longer change the template).
\<close>

theorem config_hash_on_template:
  assumes "built_sts L inst h sts"
  shows "fmlookup (pt_Annotations (sts_Template sts)) ConfigHashAnnotation =
     (case fmlookup (spec_PodAnnotations (db_Spec inst)) ConfigHashAnnotation of
        None \<Rightarrow> Some h | Some v \<Rightarrow> Some v)"
  using assms
  by cases (simp_all only: standalone_wl.hash_annotation leader_wl.hash_annotation
      follower_wl.hash_annotation)

theorem config_hash_on_template_witness:
  "fmlookup (pt_Annotations (sts_Template (BuildLeaderStatefulSet sample_lib newInstance ''h1'' 0)))
     ConfigHashAnnotation = Some ''h1''"
  using config_hash_on_template [OF built_leader, of sample_lib newInstance "''h1''" 0]
  by (simp add: zero_defs)

text \<open>
  The role of a replicated pod cannot be overridden by the user's environment: whatever
  \<^verbatim>\<open>spec.env\<close> contains, the leader container's effective \<^verbatim>\<open>TLNDB_ROLE\<close> is \<^verbatim>\<open>leader\<close>, the
  follower's is \<^verbatim>\<open>follower\<close>, and the follower replicates from the address the operator
  computed.
\<close>

theorem role_env_wins:
  "env_value (c_Env (hd (sts_Containers (BuildLeaderStatefulSet L inst h ret)))) ''TLNDB_ROLE'' = Some RoleLeader \<and>
   env_value (c_Env (hd (sts_Containers (BuildFollowerStatefulSet L inst h addr n ret)))) ''TLNDB_ROLE'' = Some RoleFollower \<and>
   env_value (c_Env (hd (sts_Containers (BuildFollowerStatefulSet L inst h addr n ret)))) ''TLNDB_REPLICATE_FROM'' = Some addr"
proof -
  have "env_value (leaderEnv ret) ''TLNDB_ROLE'' = Some RoleLeader"
    "env_value (followerEnv addr ret) ''TLNDB_ROLE'' = Some RoleFollower"
    "env_value (followerEnv addr ret) ''TLNDB_REPLICATE_FROM'' = Some addr"
    by (simp_all add: env_value_def leaderEnv_def followerEnv_def oplogRetentionEnv_def)
  then show ?thesis by (simp add: leader_wl.main_env_value follower_wl.main_env_value)
qed

text \<open>
  The startup probe gives the database the configured time and no more: with a positive
  timeout \<open>t\<close> (600 when unset or not positive) the probe allows at least one attempt, and
  its budget of period times failures is the largest multiple of five seconds within
  \<open>t\<close>, or a single period when \<open>t\<close> is below five. All three probes address
  \<^verbatim>\<open>/v1/health\<close> on the container's HTTP port.
\<close>

theorem startup_probe_budget:
  "1 \<le> pb_FailureThreshold (buildProbe inst port True) \<and>
   pb_PeriodSeconds (buildProbe inst port True) * pb_FailureThreshold (buildProbe inst port True)
     \<le> max 5 (startupTimeout inst) \<and>
   startupTimeout inst - 5
     < pb_PeriodSeconds (buildProbe inst port True) * pb_FailureThreshold (buildProbe inst port True) \<and>
   pb_HTTPGet (buildProbe inst port startup) = \<lparr>hg_Path = ''/v1/health'', hg_Port = FromInt32 port\<rparr>"
  unfolding startupTimeout_def buildProbe_def Let_def by auto

text \<open>
  The claim built for direct management and the claim template of the StatefulSet ask for
  the same storage: they differ only in name and namespace.
\<close>

theorem pvc_matches_template:
  "BuildPVC L inst = (buildVolumeClaimTemplate L inst)
     \<lparr>pvc_Meta := (pvc_Meta (buildVolumeClaimTemplate L inst))
        \<lparr>om_Name := PVCName inst, om_Namespace := db_Namespace inst\<rparr>\<rparr>"
  by (simp add: BuildPVC_def buildVolumeClaimTemplate_def Let_def)

end
