(* ===== verification/Rbac.thy ===== *)
theory Rbac
  imports Workloads
begin

section \<open>Service account, Role and RoleBinding (internal/resources/rbac.go)\<close>

text \<open>
  The three RBAC builders, and a reading of RBAC rules (\<open>rules_allow\<close>) against which the
  granted permissions are characterised exactly.
\<close>

definition BuildServiceAccount :: "TlnDB \<Rightarrow> ServiceAccount" where
  "BuildServiceAccount inst =
     \<lparr>sa_Meta = zero_ObjectMeta\<lparr>om_Name := ResourceName inst, om_Namespace := db_Namespace inst,
                                om_Labels := Labels inst\<rparr>,
      sa_AutomountServiceAccountToken = Some False\<rparr>"

definition BuildRole :: "TlnDB \<Rightarrow> Role" where
  "BuildRole inst =
     \<lparr>role_Meta = zero_ObjectMeta\<lparr>om_Name := ResourceName inst, om_Namespace := db_Namespace inst,
                                  om_Labels := Labels inst\<rparr>,
      role_Rules =
        [\<lparr>pr_APIGroups = [''''], pr_Resources = [''configmaps''],
          pr_ResourceNames = [ConfigMapName inst], pr_Verbs = [''get'', ''watch'', ''list'']\<rparr>,
         \<lparr>pr_APIGroups = [''''], pr_Resources = [''events''],
          pr_ResourceNames = [], pr_Verbs = [''create'', ''patch'']\<rparr>]\<rparr>"

definition BuildRoleBinding :: "TlnDB \<Rightarrow> RoleBinding" where
  "BuildRoleBinding inst =
     \<lparr>rb_Meta = zero_ObjectMeta\<lparr>om_Name := ResourceName inst, om_Namespace := db_Namespace inst,
                                om_Labels := Labels inst\<rparr>,
      rb_RoleRef = \<lparr>rr_APIGroup = ''rbac.authorization.k8s.io'', rr_Kind = ''Role'',
                    rr_Name = ResourceName inst\<rparr>,
      rb_Subjects = [\<lparr>sub_Kind = ''ServiceAccount'', sub_Name = ResourceName inst,
                      sub_Namespace = db_Namespace inst\<rparr>]\<rparr>"

lemmas [build_defs] = BuildServiceAccount_def BuildRole_def BuildRoleBinding_def

interpretation sa_child: child_builder "\<lambda>inst. sa_Meta (BuildServiceAccount inst)" ResourceName
  by unfold_locales (simp_all add: build_defs zero_ObjectMeta_def)

interpretation role_child: child_builder "\<lambda>inst. role_Meta (BuildRole inst)" ResourceName
  by unfold_locales (simp_all add: build_defs zero_ObjectMeta_def)

interpretation rb_child: child_builder "\<lambda>inst. rb_Meta (BuildRoleBinding inst)" ResourceName
  by unfold_locales (simp_all add: build_defs zero_ObjectMeta_def)

subsection \<open>What the rules allow\<close>

text \<open>
  The RBAC reading of rules: some rule lists the API group, the resource and the verb,
  and either names no object or names this one.
\<close>

definition rules_allow :: "PolicyRule list \<Rightarrow> string \<Rightarrow> string \<Rightarrow> string \<Rightarrow> string \<Rightarrow> bool" where
  "rules_allow rules grp res obj verb \<longleftrightarrow>
     list_ex (\<lambda>r. grp \<in> set (pr_APIGroups r) \<and> res \<in> set (pr_Resources r) \<and> verb \<in> set (pr_Verbs r)
                \<and> (pr_ResourceNames r = [] \<or> obj \<in> set (pr_ResourceNames r))) rules"

text \<open>
  C33: the pod's identity and its permissions. When the user supplies no service account, every
  pod of the instance runs under the ServiceAccount the operator builds, in the same
  namespace; the RoleBinding binds exactly that account to the Role the operator builds;
  and the Role allows exactly reading (get, watch, list) the ConfigMap the operator
  renders for this instance, and creating and patching events: nothing else.
\<close>

theorem rbac_least_privilege:
  assumes "spec_ServiceAccountName (db_Spec inst) = []" and "built_sts L inst h sts"
  shows "ps_ServiceAccountName (pt_Spec (sts_Template sts)) = om_Name (sa_Meta (BuildServiceAccount inst)) \<and>
    om_Namespace (sts_Meta sts) = om_Namespace (sa_Meta (BuildServiceAccount inst)) \<and>
    map (\<lambda>s. (sub_Kind s, sub_Namespace s, sub_Name s)) (rb_Subjects (BuildRoleBinding inst))
      = [(''ServiceAccount'', meta_key (sa_Meta (BuildServiceAccount inst)))] \<and>
    rr_Kind (rb_RoleRef (BuildRoleBinding inst)) = ''Role'' \<and>
    rr_Name (rb_RoleRef (BuildRoleBinding inst)) = om_Name (role_Meta (BuildRole inst)) \<and>
    (rules_allow (role_Rules (BuildRole inst)) grp res obj verb \<longleftrightarrow>
       grp = '''' \<and> (res = ''configmaps'' \<and> obj = ConfigMapName inst \<and> verb \<in> {''get'', ''watch'', ''list''}
                    \<or> res = ''events'' \<and> verb \<in> {''create'', ''patch''}))"
proof -
  have "ps_ServiceAccountName (pt_Spec (sts_Template sts)) = ResourceName inst"
    "om_Namespace (sts_Meta sts) = db_Namespace inst"
    using assms(2,1) by (cases; simp add: build_defs Let_def serviceAccountName_def)+
  moreover have "rules_allow (role_Rules (BuildRole inst)) grp res obj verb \<longleftrightarrow>
       grp = '''' \<and> (res = ''configmaps'' \<and> obj = ConfigMapName inst \<and> verb \<in> {''get'', ''watch'', ''list''}
                    \<or> res = ''events'' \<and> verb \<in> {''create'', ''patch''})"
    by (auto simp: rules_allow_def BuildRole_def)
  ultimately show ?thesis
    by (simp add: BuildRoleBinding_def BuildServiceAccount_def BuildRole_def meta_key_def)
qed

theorem rbac_least_privilege_witness:
  "ps_ServiceAccountName (pt_Spec (sts_Template (BuildStatefulSet sample_lib newInstance ''h'')))
     = om_Name (sa_Meta (BuildServiceAccount newInstance)) \<and>
   \<not> rules_allow (role_Rules (BuildRole newInstance)) '''' ''secrets'' ''s'' ''get''"
proof -
  have "spec_ServiceAccountName (db_Spec newInstance) = []" by (simp add: zero_defs)
  from rbac_least_privilege [OF this built_standalone, of sample_lib "''h''" "''''" "''secrets''" "''s''" "''get''"]
  show ?thesis by simp
qed

text \<open>
  The Role always names the rendered ConfigMap, also when the instance takes its
  configuration from an external one: the pods mount the external ConfigMap, and the
  Role grants no access to it.
\<close>

theorem role_ignores_external_config:
  assumes "spec_ConfigFrom (db_Spec inst) = Some n" and "n \<noteq> []" and "n \<noteq> ConfigMapName inst"
    and "built_sts L inst h sts"
  shows "\<lparr>v_Name = ConfigVolumeName, v_Source = ConfigMapVolume n (Some 292)\<rparr>
           \<in> set (ps_Volumes (pt_Spec (sts_Template sts)))
    \<and> \<not> rules_allow (role_Rules (BuildRole inst)) grp ''configmaps'' n verb"
proof -
  have "ps_Volumes (pt_Spec (sts_Template sts)) = buildVolumes inst"
    using assms(4) by cases (simp_all add: standalone_wl.build_volumes leader_wl.build_volumes
        follower_wl.build_volumes)
  then show ?thesis
    using assms(1-3) by (auto simp: buildVolumes_def Let_def rules_allow_def BuildRole_def)
qed

theorem role_ignores_external_config_witness:
  "\<not> rules_allow (role_Rules (BuildRole (newInstance\<lparr>db_Spec := zero_TlnDBSpec\<lparr>spec_ConfigFrom := Some ''ext''\<rparr>\<rparr>)))
      '''' ''configmaps'' ''ext'' ''get''"
  using role_ignores_external_config
    [of "newInstance\<lparr>db_Spec := zero_TlnDBSpec\<lparr>spec_ConfigFrom := Some ''ext''\<rparr>\<rparr>" "''ext''", OF _ _ _ built_standalone]
  by (simp add: ConfigMapName_def)

end
