(* ===== verification/Services.thy ===== *)
theory Services
  imports Workloads
begin

section \<open>Services (internal/resources/service.go)\<close>

text \<open>
  The four Service builders: the standalone Service, the write and read Services of
  replicated mode, and the headless Service. The locale \<open>service_builder\<close> states what a
  Service builder promises on top of \<open>child_builder\<close> (selector, ports); it is interpreted for
  each of the four.
\<close>

definition buildServicePorts :: "TlnDB \<Rightarrow> ServicePort list" where
  "buildServicePorts inst =
     [\<lparr>sp_Name = ''grpc'', sp_Port = grpcPort inst, sp_TargetPort = FromString ''grpc'', sp_Protocol = ''TCP''\<rparr>,
      \<lparr>sp_Name = ''http'', sp_Port = httpPort inst, sp_TargetPort = FromString ''http'', sp_Protocol = ''TCP''\<rparr>]
     @ (if MetricsEnabled inst
        then [\<lparr>sp_Name = ''metrics'', sp_Port = MetricsPort inst, sp_TargetPort = FromString ''metrics'',
               sp_Protocol = ''TCP''\<rparr>]
        else [])"

definition serviceWith :: "TlnDB \<Rightarrow> string \<Rightarrow> strmap \<Rightarrow> Service" where
  "serviceWith inst name selector =
     (let svcSpec = net_Service (spec_Networking (db_Spec inst));
          svcType = (if ssp_Type svcSpec = [] then ''ClusterIP'' else ssp_Type svcSpec);
          svcLabels = fmadd (Labels inst) (ssp_Labels svcSpec)
      in \<lparr>svc_Meta = zero_ObjectMeta\<lparr>om_Name := name, om_Namespace := db_Namespace inst,
                                     om_Labels := svcLabels, om_Annotations := ssp_Annotations svcSpec\<rparr>,
          svc_Spec = \<lparr>ks_Type = svcType, ks_Selector = selector, ks_Ports = buildServicePorts inst,
                      ks_ClusterIP = [], ks_PublishNotReadyAddresses = False\<rparr>\<rparr>)"

definition BuildService :: "TlnDB \<Rightarrow> Service" where
  "BuildService inst = serviceWith inst (ResourceName inst) (SelectorLabels inst)"

definition BuildWriteService :: "TlnDB \<Rightarrow> Service" where
  "BuildWriteService inst = serviceWith inst (ResourceName inst) (roleSelector inst RoleLeader)"

definition BuildReadService :: "TlnDB \<Rightarrow> Service" where
  "BuildReadService inst =
     (let role = (if rep_ReadReplicas (spec_Replication (db_Spec inst)) = 0 then RoleLeader else RoleFollower)
      in serviceWith inst (ReadServiceName inst) (roleSelector inst role))"

definition BuildHeadlessService :: "TlnDB \<Rightarrow> Service" where
  "BuildHeadlessService inst =
     \<lparr>svc_Meta = zero_ObjectMeta\<lparr>om_Name := HeadlessServiceName inst, om_Namespace := db_Namespace inst,
                                 om_Labels := Labels inst\<rparr>,
      svc_Spec = \<lparr>ks_Type = [], ks_Selector = SelectorLabels inst, ks_Ports = buildServicePorts inst,
                  ks_ClusterIP = ''None'', ks_PublishNotReadyAddresses = True\<rparr>\<rparr>"

lemmas [build_defs] = serviceWith_def BuildService_def BuildWriteService_def BuildReadService_def
  BuildHeadlessService_def

text \<open>The role the read Service addresses.\<close>

definition readRole :: "TlnDB \<Rightarrow> string" where
  "readRole inst =
     (if rep_ReadReplicas (spec_Replication (db_Spec inst)) = 0 then RoleLeader else RoleFollower)"

subsection \<open>The contract of the Service builders\<close>

text \<open>\<open>selects svc pod\<close>: the Service routes to pods with these labels.\<close>

definition selects :: "Service \<Rightarrow> strmap \<Rightarrow> bool" where
  "selects svc pod \<longleftrightarrow> matchLabels (ks_Selector (svc_Spec svc)) pod"

text \<open>A Service port and a container port as the pair (named target, number, protocol).\<close>

definition service_targets :: "Service \<Rightarrow> (IntOrString \<times> int32 \<times> string) list" where
  "service_targets svc =
     map (\<lambda>p. (sp_TargetPort p, sp_Port p, sp_Protocol p)) (ks_Ports (svc_Spec svc))"

definition container_targets :: "Container \<Rightarrow> (IntOrString \<times> int32 \<times> string) list" where
  "container_targets c =
     map (\<lambda>p. (FromString (cp_Name p), cp_ContainerPort p, cp_Protocol p)) (c_Ports c)"

lemma targets_agree:
  "map (\<lambda>p. (sp_TargetPort p, sp_Port p, sp_Protocol p)) (buildServicePorts inst) =
   map (\<lambda>p. (FromString (cp_Name p), cp_ContainerPort p, cp_Protocol p)) (containerPorts inst)"
  by (simp add: buildServicePorts_def containerPorts_def)

lemma target_names_distinct: "distinct (map fst (container_targets (buildMainContainer inst env)))"
  by (simp add: container_targets_def buildMainContainer_def Let_def containerPorts_def)

locale service_builder = child_builder "\<lambda>inst. svc_Meta (build inst)" name
  for build :: "TlnDB \<Rightarrow> Service" and name :: "TlnDB \<Rightarrow> string" +
  fixes selector :: "TlnDB \<Rightarrow> strmap"
  assumes build_selector: "ks_Selector (svc_Spec (build inst)) = selector inst"
    and build_ports: "ks_Ports (svc_Spec (build inst)) = buildServicePorts inst"
    and selector_base: "matchLabels (SelectorLabels inst) (selector inst)"
begin

lemma targets_main_container:
  "service_targets (build inst) = container_targets (buildMainContainer inst env)"
  using targets_agree [of inst]
  by (simp add: service_targets_def container_targets_def build_ports buildMainContainer_def Let_def)

lemma selects_own_only:
  assumes "selects (build inst) (withRole (Labels other) r)"
  shows "db_Name inst = db_Name other"
proof -
  have "matchLabels (SelectorLabels inst) (withRole (Labels other) r)"
    using assms selector_base matchLabels_trans by (auto simp: selects_def build_selector)
  then have "fmlookup (withRole (Labels other) r) ''app.kubernetes.io/instance'' = Some (db_Name inst)"
    by (rule matchLabelsD) (simp add: lookup_SelectorLabels)
  then show ?thesis
    by (simp add: RoleLabelKey_def Labels_def fmlookup_of_list)
qed

lemma metrics_port_iff:
  "''metrics'' \<in> sp_Name ` set (ks_Ports (svc_Spec (build inst))) \<longleftrightarrow> MetricsEnabled inst"
  by (cases "MetricsEnabled inst") (simp_all add: build_ports buildServicePorts_def)

end

lemma SelectorLabels_match_roleSelector: "matchLabels (SelectorLabels inst) (roleSelector inst r)"
  by (rule matchLabelsI) (auto simp: role_key_not_recommended)

interpretation main_svc: service_builder BuildService ResourceName SelectorLabels
  by unfold_locales (simp_all add: build_defs name_defs Let_def zero_ObjectMeta_def)

interpretation write_svc: service_builder BuildWriteService ResourceName "\<lambda>inst. roleSelector inst RoleLeader"
  by unfold_locales (simp_all add: build_defs name_defs Let_def zero_ObjectMeta_def SelectorLabels_match_roleSelector)

interpretation read_svc: service_builder BuildReadService ReadServiceName
    "\<lambda>inst. roleSelector inst (readRole inst)"
  by unfold_locales (simp_all add: build_defs name_defs Let_def zero_ObjectMeta_def readRole_def SelectorLabels_match_roleSelector)

interpretation headless_svc: service_builder BuildHeadlessService HeadlessServiceName SelectorLabels
  by unfold_locales (simp_all add: build_defs name_defs zero_ObjectMeta_def)

text \<open>All Services the operator can build for an instance.\<close>

inductive built_svc :: "TlnDB \<Rightarrow> Service \<Rightarrow> bool" for inst where
  built_main: "built_svc inst (BuildService inst)"
| built_write: "built_svc inst (BuildWriteService inst)"
| built_read: "built_svc inst (BuildReadService inst)"
| built_headless: "built_svc inst (BuildHeadlessService inst)"

lemma built_sts_container:
  assumes "built_sts L inst h sts"
  shows "\<exists>env. hd (sts_Containers sts) = buildMainContainer inst env"
  using assms
  by cases (auto simp: standalone_wl.build_containers leader_wl.build_containers follower_wl.build_containers)

subsection \<open>Properties\<close>

text \<open>
  C22: every Service reaches the database: for each of the four Services and each of the three
  StatefulSets of an instance, the Service's ports are, in order, exactly the container
  ports of the database container: each named target port is declared there, exactly
  once, with the same number and protocol. The set contains the metrics port exactly
  when metrics are enabled.
\<close>

theorem services_reach_container:
  assumes "built_svc inst svc" and "built_sts L inst h sts"
  shows "service_targets svc = container_targets (hd (sts_Containers sts)) \<and>
    distinct (map fst (container_targets (hd (sts_Containers sts)))) \<and>
    (FromString ''metrics'', MetricsPort inst, ''TCP'') \<in> set (service_targets svc) = MetricsEnabled inst"
proof -
  obtain env where env: "hd (sts_Containers sts) = buildMainContainer inst env"
    using built_sts_container [OF assms(2)] by blast
  have agree: "service_targets svc = container_targets (buildMainContainer inst env)"
    using assms(1)
    by cases (simp_all only: main_svc.targets_main_container write_svc.targets_main_container
        read_svc.targets_main_container headless_svc.targets_main_container)
  moreover have "(FromString ''metrics'', MetricsPort inst, ''TCP'')
      \<in> set (container_targets (buildMainContainer inst env)) \<longleftrightarrow> MetricsEnabled inst"
    by (auto simp: container_targets_def buildMainContainer_def Let_def containerPorts_def)
  ultimately show ?thesis using target_names_distinct env by simp
qed

theorem services_reach_container_witness:
  "service_targets (BuildReadService newInstance)
     = container_targets (hd (sts_Containers (BuildLeaderStatefulSet sample_lib newInstance ''h'' 7)))"
  using services_reach_container [OF built_read built_leader] by blast

text \<open>
  C21: replicated-mode routing. The write Service selects the leader's pods and never a
  follower's; the read Service selects the followers' pods when read replicas are
  requested, the leader's when none are, and never both; the headless Service, whose
  name the StatefulSets carry, selects the pods of both.
\<close>

theorem replicated_routing:
  "let leader = pt_Labels (sts_Template (BuildLeaderStatefulSet L inst h ret));
       follower = pt_Labels (sts_Template (BuildFollowerStatefulSet L inst h addr n ret));
       replicas = rep_ReadReplicas (spec_Replication (db_Spec inst))
   in selects (BuildWriteService inst) leader \<and> \<not> selects (BuildWriteService inst) follower \<and>
      (selects (BuildReadService inst) leader \<longleftrightarrow> replicas = 0) \<and>
      (selects (BuildReadService inst) follower \<longleftrightarrow> replicas \<noteq> 0) \<and>
      selects (BuildHeadlessService inst) leader \<and> selects (BuildHeadlessService inst) follower \<and>
      ss_ServiceName (sts_Spec (BuildLeaderStatefulSet L inst h ret)) = om_Name (svc_Meta (BuildHeadlessService inst)) \<and>
      ss_ServiceName (sts_Spec (BuildFollowerStatefulSet L inst h addr n ret)) = om_Name (svc_Meta (BuildHeadlessService inst))"
proof -
  have "RoleLeader \<noteq> RoleFollower" by (simp add: role_defs)
  moreover have "ss_ServiceName (sts_Spec (BuildLeaderStatefulSet L inst h ret)) = HeadlessServiceName inst"
    "ss_ServiceName (sts_Spec (BuildFollowerStatefulSet L inst h addr n ret)) = HeadlessServiceName inst"
    by (simp_all add: build_defs Let_def)
  ultimately show ?thesis
    by (auto simp: Let_def selects_def leader_wl.build_pod_labels follower_wl.build_pod_labels
        write_svc.build_selector read_svc.build_selector headless_svc.build_selector
        headless_svc.meta_name readRole_def roleSelector_match_iff SelectorLabels_match_withRole)
qed

text \<open>
  C23: instances do not leak into each other: if any Service of one instance selects a pod of
  any StatefulSet of another, the two instances have the same name (and then, in one
  namespace, they are the same instance).
\<close>

theorem services_isolate_instances:
  assumes "built_svc inst svc" and "built_sts L other h sts"
    and "selects svc (pt_Labels (sts_Template sts))"
  shows "db_Name inst = db_Name other"
proof -
  have "\<exists>r. pt_Labels (sts_Template sts) = withRole (Labels other) r"
    using assms(2)
    by cases (metis standalone_wl.build_pod_labels leader_wl.build_pod_labels
        follower_wl.build_pod_labels)+
  with assms(3) obtain r where "selects svc (withRole (Labels other) r)" by auto
  with assms(1) show ?thesis
    by cases (auto dest: main_svc.selects_own_only write_svc.selects_own_only
        read_svc.selects_own_only headless_svc.selects_own_only)
qed

theorem services_isolate_instances_witness:
  "selects (BuildHeadlessService newInstance)
     (pt_Labels (sts_Template (BuildLeaderStatefulSet sample_lib newInstance ''h'' 0)))
   \<and> \<not> selects (BuildService (newInstance\<lparr>db_Meta := zero_ObjectMeta\<lparr>om_Name := ''db2''\<rparr>\<rparr>))
     (pt_Labels (sts_Template (BuildStatefulSet sample_lib newInstance ''h'')))"
proof
  show "selects (BuildHeadlessService newInstance)
     (pt_Labels (sts_Template (BuildLeaderStatefulSet sample_lib newInstance ''h'' 0)))"
    by (simp add: selects_def headless_svc.build_selector leader_wl.build_pod_labels
        SelectorLabels_match_withRole)
  have "db_Name (newInstance\<lparr>db_Meta := zero_ObjectMeta\<lparr>om_Name := ''db2''\<rparr>\<rparr>) \<noteq> db_Name newInstance"
    by (simp add: zero_defs)
  then show "\<not> selects (BuildService (newInstance\<lparr>db_Meta := zero_ObjectMeta\<lparr>om_Name := ''db2''\<rparr>\<rparr>))
     (pt_Labels (sts_Template (BuildStatefulSet sample_lib newInstance ''h'')))"
    using services_isolate_instances [OF built_main built_standalone] by blast
qed

text \<open>
  The selector of the standalone Service (and of the standalone StatefulSet) carries no
  role: it also selects leader and follower pods. After a switch from replicated to
  standalone mode, where the replicated StatefulSets are not removed, clients of the
  standalone Service are therefore routed to read-only followers too.
\<close>

theorem standalone_service_selects_all_roles:
  "selects (BuildService inst) (pt_Labels (sts_Template (BuildStatefulSet L inst h))) \<and>
   selects (BuildService inst) (pt_Labels (sts_Template (BuildLeaderStatefulSet L inst h ret))) \<and>
   selects (BuildService inst) (pt_Labels (sts_Template (BuildFollowerStatefulSet L inst h addr n ret)))"
  by (simp add: selects_def main_svc.build_selector standalone_wl.build_pod_labels
      leader_wl.build_pod_labels follower_wl.build_pod_labels SelectorLabels_match_withRole)

end
