(* ===== verification/Networking.thy ===== *)
theory Networking
  imports Services
begin

section \<open>Ingress and NetworkPolicy (internal/resources/ingress.go, networkpolicy.go)\<close>

text \<open>
  The Ingress and NetworkPolicy builders, and a reading of the operator's own
  NetworkPolicy rules (\<open>rule_allows\<close>).
\<close>

definition BuildIngress :: "TlnDB \<Rightarrow> Ingress" where
  "BuildIngress inst =
     (let ingressSpec = net_Ingress (spec_Networking (db_Spec inst));
          path = (if isp_Path ingressSpec = [] then ''/'' else isp_Path ingressSpec);
          ingress =
            \<lparr>ing_Meta = zero_ObjectMeta\<lparr>om_Name := ResourceName inst, om_Namespace := db_Namespace inst,
                                        om_Labels := Labels inst, om_Annotations := isp_Annotations ingressSpec\<rparr>,
             ing_ClassName = isp_ClassName ingressSpec,
             ing_Rules = [\<lparr>ir_Host = isp_Host ingressSpec,
               ir_Paths = [\<lparr>ip_Path = path, ip_PathType = Some ''Prefix'',
                            ip_ServiceName = ResourceName inst, ip_ServicePort = httpPort inst\<rparr>]\<rparr>],
             ing_TLS = []\<rparr>
      in if isp_TLSSecretName ingressSpec \<noteq> []
         then ingress\<lparr>ing_TLS := [\<lparr>tls_Hosts = [isp_Host ingressSpec], tls_SecretName = isp_TLSSecretName ingressSpec\<rparr>]\<rparr>
         else ingress)"

definition protocolTCP :: "string option" where "protocolTCP = Some ''TCP''"

definition portPtr :: "int32 \<Rightarrow> IntOrString option" where "portPtr port = Some (FromInt32 port)"

definition buildDefaultIngressRules :: "TlnDB \<Rightarrow> NetworkPolicyRule list" where
  "buildDefaultIngressRules inst =
     (let ports =
            [\<lparr>npp_Protocol = protocolTCP, npp_Port = portPtr (grpcPort inst)\<rparr>,
             \<lparr>npp_Protocol = protocolTCP, npp_Port = portPtr (httpPort inst)\<rparr>]
            @ (if MetricsEnabled inst
               then [\<lparr>npp_Protocol = protocolTCP, npp_Port = portPtr (MetricsPort inst)\<rparr>] else [])
      in [PortsRule ports])"

definition buildDefaultEgressRules :: "NetworkPolicyRule list" where
  "buildDefaultEgressRules =
     (let dns = FromInt32 53
      in [PortsRule [\<lparr>npp_Protocol = Some ''TCP'', npp_Port = Some dns\<rparr>,
                     \<lparr>npp_Protocol = Some ''UDP'', npp_Port = Some dns\<rparr>]])"

definition BuildNetworkPolicy :: "TlnDB \<Rightarrow> NetworkPolicy" where
  "BuildNetworkPolicy inst =
     (let npSpec = net_NetworkPolicy (spec_Networking (db_Spec inst));
          ingressRules = buildDefaultIngressRules inst @ map UserRule (nsp_IngressRules npSpec);
          egressRules = buildDefaultEgressRules @ map UserRule (nsp_EgressRules npSpec)
      in \<lparr>np_Meta = zero_ObjectMeta\<lparr>om_Name := ResourceName inst, om_Namespace := db_Namespace inst,
                                    om_Labels := Labels inst\<rparr>,
          np_PodSelector = SelectorLabels inst,
          np_PolicyTypes = [''Ingress'', ''Egress''],
          np_Ingress = ingressRules,
          np_Egress = egressRules\<rparr>)"

lemmas [build_defs] = BuildIngress_def BuildNetworkPolicy_def

interpretation ing_child: child_builder "\<lambda>inst. ing_Meta (BuildIngress inst)" ResourceName
  by unfold_locales (simp_all add: build_defs Let_def zero_ObjectMeta_def)

interpretation np_child: child_builder "\<lambda>inst. np_Meta (BuildNetworkPolicy inst)" ResourceName
  by unfold_locales (simp_all add: build_defs Let_def zero_ObjectMeta_def)

subsection \<open>What the operator's rules allow\<close>

text \<open>
  A rule that lists ports allows a protocol and a numbered port when one of its entries
  does. \<open>user\<close> says what a user-supplied rule allows; the operator does not look inside.
\<close>

fun rule_allows :: "(json \<Rightarrow> string \<Rightarrow> int32 \<Rightarrow> bool) \<Rightarrow> NetworkPolicyRule \<Rightarrow> string \<Rightarrow> int32 \<Rightarrow> bool" where
  "rule_allows user (PortsRule ports) proto port =
     list_ex (\<lambda>p. npp_Protocol p = Some proto \<and> npp_Port p = Some (FromInt32 port)) ports"
| "rule_allows user (UserRule j) proto port = user j proto port"

lemma default_ingress_allows:
  "list_ex (\<lambda>r. rule_allows user r proto port) (buildDefaultIngressRules inst) \<longleftrightarrow>
     proto = ''TCP'' \<and> port \<in> {grpcPort inst, httpPort inst} \<union> (if MetricsEnabled inst then {MetricsPort inst} else {})"
  by (auto simp: buildDefaultIngressRules_def Let_def protocolTCP_def portPtr_def)

lemma default_egress_allows:
  "list_ex (\<lambda>r. rule_allows user r proto port) buildDefaultEgressRules \<longleftrightarrow>
     proto \<in> {''TCP'', ''UDP''} \<and> port = 53"
  by (auto simp: buildDefaultEgressRules_def Let_def)

lemma service_port_numbers:
  "sp_Port ` set (buildServicePorts inst) =
     {grpcPort inst, httpPort inst} \<union> (if MetricsEnabled inst then {MetricsPort inst} else {})"
  by (cases "MetricsEnabled inst") (auto simp: buildServicePorts_def)

lemma built_svc_ports: "built_svc inst svc \<Longrightarrow> ks_Ports (svc_Spec svc) = buildServicePorts inst"
  by (erule built_svc.cases)
    (simp_all add: main_svc.build_ports write_svc.build_ports read_svc.build_ports headless_svc.build_ports)

subsection \<open>Properties\<close>

text \<open>
  C34: the NetworkPolicy admits exactly what the Services expose. For any reading of the user's
  rules, a TCP connection to a pod on port \<open>p\<close> is admitted iff \<open>p\<close> is a port of the
  instance's Services or a user rule admits it; nothing but TCP is admitted by the
  operator's own rule; outgoing traffic is limited to DNS (port 53, TCP and UDP) plus
  the user's rules; and the policy applies to the pods of every StatefulSet.
\<close>

theorem network_policy_exact:
  assumes "built_svc inst svc" and "built_sts L inst h sts"
  shows "(list_ex (\<lambda>r. rule_allows user r proto p) (np_Ingress (BuildNetworkPolicy inst)) \<longleftrightarrow>
      proto = ''TCP'' \<and> p \<in> sp_Port ` set (ks_Ports (svc_Spec svc))
      \<or> list_ex (\<lambda>j. user j proto p) (nsp_IngressRules (net_NetworkPolicy (spec_Networking (db_Spec inst))))) \<and>
    (list_ex (\<lambda>r. rule_allows user r proto p) (np_Egress (BuildNetworkPolicy inst)) \<longleftrightarrow>
      proto \<in> {''TCP'', ''UDP''} \<and> p = 53
      \<or> list_ex (\<lambda>j. user j proto p) (nsp_EgressRules (net_NetworkPolicy (spec_Networking (db_Spec inst))))) \<and>
    np_PolicyTypes (BuildNetworkPolicy inst) = [''Ingress'', ''Egress''] \<and>
    matchLabels (np_PodSelector (BuildNetworkPolicy inst)) (pt_Labels (sts_Template sts))"
proof -
  have "matchLabels (SelectorLabels inst) (pt_Labels (sts_Template sts))"
    using assms(2) by cases (simp_all add: standalone_wl.build_pod_labels leader_wl.build_pod_labels
        follower_wl.build_pod_labels SelectorLabels_match_withRole)
  moreover have "list_ex (\<lambda>r. rule_allows user r proto p) (map UserRule js) = list_ex (\<lambda>j. user j proto p) js" for js
    by (induction js) auto
  ultimately show ?thesis
    using default_ingress_allows [of user proto p inst] default_egress_allows [of user proto p]
    by (simp add: BuildNetworkPolicy_def Let_def built_svc_ports [OF assms(1)] service_port_numbers)
qed

theorem network_policy_exact_witness:
  "list_ex (\<lambda>r. rule_allows (\<lambda>_ _ _. False) r ''TCP'' 8080) (np_Ingress (BuildNetworkPolicy newInstance)) \<and>
   \<not> list_ex (\<lambda>r. rule_allows (\<lambda>_ _ _. False) r ''TCP'' 22) (np_Ingress (BuildNetworkPolicy newInstance))"
  using network_policy_exact [OF built_main built_standalone, where inst = newInstance and user = "\<lambda>_ _ _. False"
      and proto = "''TCP''" and p = 8080]
    network_policy_exact [OF built_main built_standalone, where inst = newInstance and user = "\<lambda>_ _ _. False"
      and proto = "''TCP''" and p = 22]
  by (simp add: main_svc.build_ports service_port_numbers PortFromAddr_def zero_defs port_defs
      MetricsPort_def Let_def)



text \<open>
  C35: the Ingress routes to a Service port that exists: its only backend is the instance's
  client Service (standalone or write Service, which share the name) in the Ingress's
  own namespace, on the number of that Service's \<^verbatim>\<open>http\<close> port; the path is never empty;
  and TLS, when a secret is given, covers exactly the routed host.
\<close>

theorem ingress_backend_exists:
  assumes "svc \<in> {BuildService inst, BuildWriteService inst}"
  shows "let spec = net_Ingress (spec_Networking (db_Spec inst)); ing = BuildIngress inst;
             path = hd (ir_Paths (hd (ing_Rules ing)))
    in map (\<lambda>r. (ir_Host r, length (ir_Paths r))) (ing_Rules ing) = [(isp_Host spec, 1)] \<and>
       (om_Namespace (ing_Meta ing), ip_ServiceName path) = meta_key (svc_Meta svc) \<and>
       map_of (map (\<lambda>p. (sp_Name p, sp_Port p)) (ks_Ports (svc_Spec svc))) ''http'' = Some (ip_ServicePort path) \<and>
       ip_Path path \<noteq> [] \<and>
       map (\<lambda>t. (tls_Hosts t, tls_SecretName t)) (ing_TLS ing)
         = (if isp_TLSSecretName spec = [] then [] else [([isp_Host spec], isp_TLSSecretName spec)])"
proof -
  have "ks_Ports (svc_Spec svc) = buildServicePorts inst"
    and "meta_key (svc_Meta svc) = (db_Namespace inst, ResourceName inst)"
    using assms by (auto simp: main_svc.build_ports write_svc.build_ports main_svc.key_eq write_svc.key_eq)
  then show ?thesis by (simp add: BuildIngress_def Let_def buildServicePorts_def)
qed

theorem ingress_backend_exists_witness:
  "map_of (map (\<lambda>p. (sp_Name p, sp_Port p)) (ks_Ports (svc_Spec (BuildWriteService newInstance)))) ''http''
     = Some (ip_ServicePort (hd (ir_Paths (hd (ing_Rules (BuildIngress newInstance))))))"
  using ingress_backend_exists [of "BuildWriteService newInstance" newInstance]
  by (simp add: Let_def)

end
