(* ===== verification/Monitoring.thy ===== *)
theory Monitoring
  imports Services
begin

section \<open>ServiceMonitor (internal/resources/servicemonitor.go)\<close>

text \<open>
  The ServiceMonitor is built as an untyped document; it is modelled as the JSON value the
  source constructs.
\<close>

definition ServiceMonitorGroup :: string where "ServiceMonitorGroup = ''monitoring.coreos.com''"
definition ServiceMonitorVersion :: string where "ServiceMonitorVersion = ''v1''"
definition ServiceMonitorKind :: string where "ServiceMonitorKind = ''ServiceMonitor''"

definition toStringMap :: "strmap \<Rightarrow> json" where
  "toStringMap m = JObj (fmmap JStr m)"

definition BuildServiceMonitor :: "TlnDB \<Rightarrow> Unstructured" where
  "BuildServiceMonitor inst =
     (let smSpec = met_ServiceMonitor (obs_Metrics (spec_Observability (db_Spec inst)));
          interval = (if sms_Interval smSpec = [] then ''30s'' else sms_Interval smSpec);
          metricsPath = (if met_Path (obs_Metrics (spec_Observability (db_Spec inst))) = [] then ''/metrics''
                         else met_Path (obs_Metrics (spec_Observability (db_Spec inst))));
          matchLabels = Labels inst;
          smLabels = fmadd (Labels inst) (sms_Labels smSpec)
      in \<lparr>us_Object = JObj (fmap_of_list
           [(''apiVersion'', JStr (ServiceMonitorGroup @ ''/'' @ ServiceMonitorVersion)),
            (''kind'', JStr ServiceMonitorKind),
            (''metadata'', JObj (fmap_of_list
               [(''name'', JStr (ResourceName inst)),
                (''namespace'', JStr (db_Namespace inst)),
                (''labels'', toStringMap smLabels)])),
            (''spec'', JObj (fmap_of_list
               [(''selector'', JObj (fmap_of_list [(''matchLabels'', toStringMap matchLabels)])),
                (''namespaceSelector'', JObj (fmap_of_list [(''matchNames'', JArr [JStr (db_Namespace inst)])])),
                (''endpoints'', JArr [JObj (fmap_of_list
                   [(''port'', JStr ''metrics''),
                    (''path'', JStr metricsPath),
                    (''interval'', JStr interval),
                    (''scheme'', JStr ''http'')])])]))])\<rparr>)"

subsection \<open>Reading a document\<close>

text \<open>The value at a path of keys, and a string map read back from a document.\<close>

fun jpath :: "string list \<Rightarrow> json \<Rightarrow> json option" where
  "jpath [] j = Some j"
| "jpath (k # ks) (JObj m) = (case fmlookup m k of None \<Rightarrow> None | Some j \<Rightarrow> jpath ks j)"
| "jpath (k # ks) _ = None"

fun jstr :: "json \<Rightarrow> string" where
  "jstr (JStr s) = s"
| "jstr _ = []"

fun jstrmap :: "json \<Rightarrow> strmap" where
  "jstrmap (JObj m) = fmmap jstr m"
| "jstrmap _ = fmempty"

lemma jstrmap_toStringMap [simp]: "jstrmap (toStringMap m) = m"
  by (rule fmap_ext) (simp add: toStringMap_def option.map_comp comp_def option.map_ident)

definition jstrs :: "json \<Rightarrow> string list" where
  "jstrs j = (case j of JArr xs \<Rightarrow> map jstr xs | _ \<Rightarrow> [])"

text \<open>
  What a Prometheus operator reads from the monitor: the labels a Service must carry, the
  namespaces searched, and the names of the ports scraped.
\<close>

definition sm_selector :: "Unstructured \<Rightarrow> strmap" where
  "sm_selector sm = (case jpath [''spec'', ''selector'', ''matchLabels''] (us_Object sm) of
     None \<Rightarrow> fmempty | Some j \<Rightarrow> jstrmap j)"

definition sm_namespaces :: "Unstructured \<Rightarrow> string list" where
  "sm_namespaces sm = (case jpath [''spec'', ''namespaceSelector'', ''matchNames''] (us_Object sm) of
     None \<Rightarrow> [] | Some j \<Rightarrow> jstrs j)"

definition sm_ports :: "Unstructured \<Rightarrow> string list" where
  "sm_ports sm = (case jpath [''spec'', ''endpoints''] (us_Object sm) of
     Some (JArr es) \<Rightarrow> map (\<lambda>e. case jpath [''port''] e of None \<Rightarrow> [] | Some j \<Rightarrow> jstr j) es
   | _ \<Rightarrow> [])"

text \<open>The monitor discovers a Service and finds a port to scrape on it.\<close>

definition scrapes :: "Unstructured \<Rightarrow> Service \<Rightarrow> bool" where
  "scrapes sm svc \<longleftrightarrow> matchLabels (sm_selector sm) (om_Labels (svc_Meta svc)) \<and>
     om_Namespace (svc_Meta svc) \<in> set (sm_namespaces sm) \<and>
     list_ex (\<lambda>p. sp_Name p \<in> set (sm_ports sm)) (ks_Ports (svc_Spec svc))"

lemma ServiceMonitor_reading [simp]:
  "sm_selector (BuildServiceMonitor inst) = Labels inst"
  "sm_namespaces (BuildServiceMonitor inst) = [db_Namespace inst]"
  "sm_ports (BuildServiceMonitor inst) = [''metrics'']"
  by (simp_all add: sm_selector_def sm_namespaces_def sm_ports_def BuildServiceMonitor_def Let_def
      fmlookup_of_list jstrs_def)

lemma ServiceMonitor_metadata:
  "jpath [''metadata'', ''name''] (us_Object (BuildServiceMonitor inst)) = Some (JStr (ResourceName inst))"
  "jpath [''metadata'', ''namespace''] (us_Object (BuildServiceMonitor inst)) = Some (JStr (db_Namespace inst))"
  by (simp_all add: BuildServiceMonitor_def Let_def fmlookup_of_list)

lemma buildServicePorts_metrics:
  "list_ex (\<lambda>p. sp_Name p = ''metrics'') (buildServicePorts inst) \<longleftrightarrow> MetricsEnabled inst"
  by (simp add: buildServicePorts_def)

subsection \<open>Properties\<close>

text \<open>
  Which Services the ServiceMonitor scrapes. The headless Service is scraped exactly when
  metrics are enabled; the client-facing Services exactly when metrics are enabled and
  the user's Service labels do not override one of the operator's recommended labels.
  (So with metrics disabled an enabled ServiceMonitor scrapes nothing, and with metrics
  enabled every pod is scraped through the headless and through each client Service.)
\<close>

theorem service_monitor_scrapes:
  "(scrapes (BuildServiceMonitor inst) (BuildHeadlessService inst) \<longleftrightarrow> MetricsEnabled inst) \<and>
   (\<forall>svc \<in> {BuildService inst, BuildWriteService inst, BuildReadService inst}.
      scrapes (BuildServiceMonitor inst) svc \<longleftrightarrow>
        MetricsEnabled inst \<and>
        (\<forall>k v w. fmlookup (Labels inst) k = Some v \<longrightarrow>
            fmlookup (ssp_Labels (net_Service (spec_Networking (db_Spec inst)))) k = Some w \<longrightarrow> v = w))"
proof -
  let ?extra = "ssp_Labels (net_Service (spec_Networking (db_Spec inst)))"
  have client: "scrapes (BuildServiceMonitor inst) svc \<longleftrightarrow>
      matchLabels (Labels inst) (fmadd (Labels inst) ?extra) \<and> MetricsEnabled inst"
    if "svc \<in> {BuildService inst, BuildWriteService inst, BuildReadService inst}" for svc
    using that by (auto simp: scrapes_def build_defs Let_def buildServicePorts_metrics)
  have "scrapes (BuildServiceMonitor inst) (BuildHeadlessService inst) \<longleftrightarrow> MetricsEnabled inst"
    by (simp add: scrapes_def BuildHeadlessService_def buildServicePorts_metrics)
  with client show ?thesis using Labels_match_override [of inst ?extra] by blast
qed

theorem service_monitor_scrapes_witness:
  "scrapes (BuildServiceMonitor newInstance) (BuildHeadlessService newInstance) \<and>
   scrapes (BuildServiceMonitor newInstance) (BuildService newInstance)"
  using service_monitor_scrapes [of newInstance]
  by (simp add: MetricsEnabled_def zero_defs)

end
