(* ===== verification/Availability.thy ===== *)
theory Availability
  imports Workloads
begin

section \<open>Disruption budgets and autoscaling (internal/resources/pdb.go, hpa.go)\<close>

text \<open>The PodDisruptionBudget and HorizontalPodAutoscaler builders.\<close>

definition BuildPDB :: "TlnDB \<Rightarrow> PodDisruptionBudget" where
  "BuildPDB inst =
     (let pdbSpec = av_PodDisruptionBudget (spec_Availability (db_Spec inst));
          pdb = \<lparr>pdb_Meta = zero_ObjectMeta\<lparr>om_Name := ResourceName inst, om_Namespace := db_Namespace inst,
                                            om_Labels := Labels inst\<rparr>,
                 pdb_Selector = SelectorLabels inst, pdb_MinAvailable = None, pdb_MaxUnavailable = None\<rparr>
      in case pds_MinAvailable pdbSpec of
           Some n \<Rightarrow> pdb\<lparr>pdb_MinAvailable := Some (FromInt32 n)\<rparr>
         | None \<Rightarrow>
             (case pds_MaxUnavailable pdbSpec of
                Some n \<Rightarrow> pdb\<lparr>pdb_MaxUnavailable := Some (FromInt32 n)\<rparr>
              | None \<Rightarrow> pdb\<lparr>pdb_MaxUnavailable := Some (FromInt32 1)\<rparr>))"

definition resourceMetric :: "string \<Rightarrow> int32 \<Rightarrow> MetricSpec" where
  "resourceMetric name utilization =
     \<lparr>ms_Type = ''Resource'', ms_ResourceName = name, ms_TargetType = ''Utilization'',
      ms_AverageUtilization = Some utilization\<rparr>"

definition buildHPAMetrics :: "HPASpec \<Rightarrow> MetricSpec list" where
  "buildHPAMetrics spec =
     (let cpu = (case hps_CPUUtilization spec of None \<Rightarrow> [] | Some u \<Rightarrow> [resourceMetric ''cpu'' u]);
          metrics = cpu @ (case hps_MemoryUtilization spec of
                             None \<Rightarrow> [] | Some u \<Rightarrow> [resourceMetric ''memory'' u])
      in if length metrics = 0 then metrics @ [resourceMetric ''cpu'' 80] else metrics)"

definition BuildHPA :: "TlnDB \<Rightarrow> HorizontalPodAutoscaler" where
  "BuildHPA inst =
     (let hpaSpec = av_HorizontalPodAutoscaler (spec_Availability (db_Spec inst));
          minReplicas = (case hps_MinReplicas hpaSpec of None \<Rightarrow> 1 | Some n \<Rightarrow> n);
          maxReplicas = (if hps_MaxReplicas hpaSpec > 0 then hps_MaxReplicas hpaSpec else 5)
      in \<lparr>hpa_Meta = zero_ObjectMeta\<lparr>om_Name := ResourceName inst, om_Namespace := db_Namespace inst,
                                     om_Labels := Labels inst\<rparr>,
          hpa_TargetAPIVersion = ''apps/v1'', hpa_TargetKind = ''StatefulSet'',
          hpa_TargetName = ResourceName inst,
          hpa_MinReplicas = Some minReplicas, hpa_MaxReplicas = maxReplicas,
          hpa_Metrics = buildHPAMetrics hpaSpec\<rparr>)"

lemmas [build_defs] = BuildPDB_def BuildHPA_def

interpretation pdb_child: child_builder "\<lambda>inst. pdb_Meta (BuildPDB inst)" ResourceName
  by unfold_locales (simp_all add: build_defs Let_def zero_ObjectMeta_def split: option.splits)

interpretation hpa_child: child_builder "\<lambda>inst. hpa_Meta (BuildHPA inst)" ResourceName
  by unfold_locales (simp_all add: build_defs Let_def zero_ObjectMeta_def)

subsection \<open>Properties\<close>

text \<open>
  The disruption budget sets exactly one of \<^verbatim>\<open>minAvailable\<close> and \<^verbatim>\<open>maxUnavailable\<close> (the API
  server refuses both and a budget with neither protects nothing): the user's
  \<^verbatim>\<open>minAvailable\<close> wins, then the user's \<^verbatim>\<open>maxUnavailable\<close>, else one pod may be unavailable.
  It covers the pods of every StatefulSet of the instance.
\<close>

theorem pdb_exactly_one_bound:
  assumes "built_sts L inst h sts"
  shows "(pdb_MinAvailable (BuildPDB inst) = None) \<noteq> (pdb_MaxUnavailable (BuildPDB inst) = None) \<and>
    (\<forall>n. pds_MinAvailable (av_PodDisruptionBudget (spec_Availability (db_Spec inst))) = Some n \<longrightarrow>
       pdb_MinAvailable (BuildPDB inst) = Some (FromInt32 n)) \<and>
    (pds_MinAvailable (av_PodDisruptionBudget (spec_Availability (db_Spec inst))) = None \<longrightarrow>
       pdb_MaxUnavailable (BuildPDB inst) =
         Some (FromInt32 (case pds_MaxUnavailable (av_PodDisruptionBudget (spec_Availability (db_Spec inst)))
                          of None \<Rightarrow> 1 | Some n \<Rightarrow> n))) \<and>
    matchLabels (pdb_Selector (BuildPDB inst)) (pt_Labels (sts_Template sts))"
proof -
  have "pdb_Selector (BuildPDB inst) = SelectorLabels inst"
    by (simp add: BuildPDB_def Let_def split: option.split)
  moreover have "matchLabels (SelectorLabels inst) (pt_Labels (sts_Template sts))"
    using assms by cases (simp_all add: standalone_wl.build_pod_labels leader_wl.build_pod_labels
        follower_wl.build_pod_labels SelectorLabels_match_withRole)
  ultimately show ?thesis by (simp add: BuildPDB_def Let_def split: option.split)
qed

theorem pdb_exactly_one_bound_witness:
  "pdb_MaxUnavailable (BuildPDB newInstance) = Some (FromInt32 1)"
  using pdb_exactly_one_bound [OF built_standalone, of newInstance]
  by (simp add: zero_defs)

text \<open>
  The autoscaler always has a metric to scale on and positive upper bound: the requested
  CPU and memory utilisations in this order, or 80 percent CPU when neither is given; no
  resource appears twice.
\<close>

theorem hpa_metrics:
  "hpa_Metrics (BuildHPA inst) \<noteq> [] \<and> distinct (map ms_ResourceName (hpa_Metrics (BuildHPA inst))) \<and>
   1 \<le> hpa_MaxReplicas (BuildHPA inst) \<and> hpa_MinReplicas (BuildHPA inst) \<noteq> None \<and>
   (let s = av_HorizontalPodAutoscaler (spec_Availability (db_Spec inst))
    in map_of (map (\<lambda>m. (ms_ResourceName m, ms_AverageUtilization m)) (hpa_Metrics (BuildHPA inst)))
       = (if hps_CPUUtilization s = None \<and> hps_MemoryUtilization s = None then [''cpu'' \<mapsto> Some 80]
          else (\<lambda>k. if k = ''cpu'' \<and> hps_CPUUtilization s \<noteq> None then Some (hps_CPUUtilization s)
                    else if k = ''memory'' \<and> hps_MemoryUtilization s \<noteq> None
                    then Some (hps_MemoryUtilization s) else None)))"
  by (auto simp: BuildHPA_def buildHPAMetrics_def resourceMetric_def Let_def fun_eq_iff
      split: option.split)

text \<open>
  The autoscaler targets the standalone StatefulSet by name in either mode. In replicated
  mode no StatefulSet of that name is built, so an enabled autoscaler scales nothing.
\<close>

theorem hpa_target:
  "hpa_TargetName (BuildHPA inst) = om_Name (sts_Meta (BuildStatefulSet L inst h)) \<and>
   hpa_TargetName (BuildHPA inst) \<noteq> om_Name (sts_Meta (BuildLeaderStatefulSet L inst h ret)) \<and>
   hpa_TargetName (BuildHPA inst) \<noteq> om_Name (sts_Meta (BuildFollowerStatefulSet L inst h addr n ret))"
  by (simp add: standalone_wl.build_name leader_wl.build_name follower_wl.build_name
      BuildHPA_def Let_def name_defs)

end
