(* ===== verification/KubeClient.thy ===== *)
theory KubeClient
  imports ConfigMaps Rbac Networking Monitoring Availability
begin

section \<open>The reconciler's environment (TlnDBReconciler)\<close>

text \<open>
  \<^verbatim>\<open>TlnDBReconciler\<close> embeds a \<^verbatim>\<open>client.Client\<close> and an event recorder and calls
  controller-runtime and apimachinery. None of that code is in the repository: it is the
  record \<open>reconciler\<close>, an argument of every operation below. All effects act on an
  abstract world \<open>'w\<close> passed explicitly. Create, Update and the status patch return the
  server's response, which the client writes back into the object it was given.

  The hypotheses under which properties of the reconciler are stated are collected here
  as named predicates: \<open>client_laws\<close> for the client of one kind, \<open>env_laws\<close> for the rest.
  They are stated over a view \<open>V\<close> of the world as a map from kind, namespace and name to
  the stored object, and say that calls act on the object they name and on nothing else,
  that reads return what is stored, and that what is stored after a successful write
  agrees with what was sent on the fields the operator manages (server-side defaulting
  may change others). \<open>mem_reconciler\<close> is one concrete environment that satisfies them.
\<close>

subsection \<open>Clients and the reconciler\<close>

record ('o, 'w) kclient =
  kc_Get :: "nsname \<Rightarrow> 'w \<Rightarrow> (error + 'o) \<times> 'w"
  kc_Create :: "'o \<Rightarrow> 'w \<Rightarrow> (error + 'o) \<times> 'w"
  kc_Update :: "'o \<Rightarrow> 'w \<Rightarrow> (error + 'o) \<times> 'w"
  kc_Delete :: "'o \<Rightarrow> 'w \<Rightarrow> error option \<times> 'w"

text \<open>
  The reconciler. \<open>r_StatusPatch r modified base\<close> is \<^verbatim>\<open>r.Status().Patch\<close> with
  \<^verbatim>\<open>client.MergeFrom(base)\<close>. The unstructured client is chosen by the object's group,
  version and kind.
\<close>

record 'w reconciler =
  r_lib :: lib
  r_TlnDB :: "(TlnDB, 'w) kclient"
  r_StatusPatch :: "TlnDB \<Rightarrow> TlnDB \<Rightarrow> 'w \<Rightarrow> (error + TlnDB) \<times> 'w"
  r_ConfigMap :: "(ConfigMap, 'w) kclient"
  r_ServiceAccount :: "(ServiceAccount, 'w) kclient"
  r_Role :: "(Role, 'w) kclient"
  r_RoleBinding :: "(RoleBinding, 'w) kclient"
  r_StatefulSet :: "(StatefulSet, 'w) kclient"
  r_Service :: "(Service, 'w) kclient"
  r_Ingress :: "(Ingress, 'w) kclient"
  r_NetworkPolicy :: "(NetworkPolicy, 'w) kclient"
  r_PDB :: "(PodDisruptionBudget, 'w) kclient"
  r_HPA :: "(HorizontalPodAutoscaler, 'w) kclient"
  r_Unstructured :: "string \<Rightarrow> (Unstructured, 'w) kclient"
  r_SetControllerReference :: "TlnDB \<Rightarrow> ObjectMeta \<Rightarrow> error + ObjectMeta"
  r_SetControllerReferenceU :: "TlnDB \<Rightarrow> Unstructured \<Rightarrow> error + Unstructured"
  r_GroupVersionKind :: "Unstructured \<Rightarrow> string"
  r_GetName :: "Unstructured \<Rightarrow> string"
  r_GetNamespace :: "Unstructured \<Rightarrow> string"
  r_GetResourceVersion :: "Unstructured \<Rightarrow> string"
  r_SetResourceVersion :: "string \<Rightarrow> Unstructured \<Rightarrow> Unstructured"
  r_ContainsFinalizer :: "ObjectMeta \<Rightarrow> string \<Rightarrow> bool"
  r_AddFinalizer :: "ObjectMeta \<Rightarrow> string \<Rightarrow> ObjectMeta"
  r_RemoveFinalizer :: "ObjectMeta \<Rightarrow> string \<Rightarrow> ObjectMeta"
  r_SetStatusCondition :: "Condition list \<Rightarrow> Condition \<Rightarrow> 'w \<Rightarrow> Condition list \<times> 'w"
  r_Eventf :: "TlnDB \<Rightarrow> string \<Rightarrow> string \<Rightarrow> string \<Rightarrow> 'w \<Rightarrow> 'w"
  r_Now :: "'w \<Rightarrow> time \<times> 'w"

subsection \<open>The cluster as a map of objects\<close>

datatype kind =
    ConfigMapKind | ServiceAccountKind | RoleKind | RoleBindingKind | StatefulSetKind | ServiceKind
  | IngressKind | NetworkPolicyKind | PDBKind | HPAKind | MonitorKind

datatype kobject =
    KConfigMap ConfigMap
  | KServiceAccount ServiceAccount
  | KRole Role
  | KRoleBinding RoleBinding
  | KStatefulSet StatefulSet
  | KService Service
  | KIngress Ingress
  | KNetworkPolicy NetworkPolicy
  | KPDB PodDisruptionBudget
  | KHPA HorizontalPodAutoscaler
  | KUnstructured Unstructured

type_synonym kkey = "kind \<times> nsname"
type_synonym cluster = "kkey \<Rightarrow> kobject option"

subsection \<open>What the operator manages in each kind\<close>

text \<open>
  The fields of a stored object that the operator keeps equal to the desired ones: for
  the kinds it updates only on a difference, exactly the compared fields.
\<close>

definition norm_ConfigMap :: "ConfigMap \<Rightarrow> strmap" where
  "norm_ConfigMap = cm_Data"

definition norm_ServiceAccount :: "ServiceAccount \<Rightarrow> strmap" where
  "norm_ServiceAccount sa = om_Labels (sa_Meta sa)"

definition norm_Role :: "Role \<Rightarrow> PolicyRule list" where
  "norm_Role = role_Rules"

definition norm_RoleBinding :: "RoleBinding \<Rightarrow> RoleRef \<times> Subject list" where
  "norm_RoleBinding rb = (rb_RoleRef rb, rb_Subjects rb)"

text \<open>\<^verbatim>\<open>m[k]\<close> of a Go map: the empty string when the key is absent.\<close>

definition str_at :: "strmap \<Rightarrow> string \<Rightarrow> string" where
  "str_at m k = (case fmlookup m k of None \<Rightarrow> [] | Some v \<Rightarrow> v)"

definition norm_StatefulSet :: "StatefulSet \<Rightarrow> int32 option \<times> string \<times> string" where
  "norm_StatefulSet sts = (ss_Replicas (sts_Spec sts),
     str_at (pt_Annotations (sts_Template sts)) ConfigHashAnnotation,
     c_Image (hd (sts_Containers sts)))"

text \<open>An empty Service type is defaulted to \<^verbatim>\<open>ClusterIP\<close> by the server.\<close>

definition norm_Service :: "Service \<Rightarrow> string \<times> strmap \<times> ServicePort list \<times> bool \<times> strmap \<times> strmap" where
  "norm_Service svc = ((if ks_Type (svc_Spec svc) = [] then ''ClusterIP'' else ks_Type (svc_Spec svc)),
     ks_Selector (svc_Spec svc), ks_Ports (svc_Spec svc), ks_PublishNotReadyAddresses (svc_Spec svc),
     om_Labels (svc_Meta svc), om_Annotations (svc_Meta svc))"

definition norm_Ingress :: "Ingress \<Rightarrow> IngressRule list \<times> IngressTLS list \<times> strmap \<times> strmap" where
  "norm_Ingress ing = (ing_Rules ing, ing_TLS ing, om_Labels (ing_Meta ing), om_Annotations (ing_Meta ing))"

definition norm_NetworkPolicy ::
    "NetworkPolicy \<Rightarrow> strmap \<times> string list \<times> NetworkPolicyRule list \<times> NetworkPolicyRule list \<times> strmap" where
  "norm_NetworkPolicy np = (np_PodSelector np, np_PolicyTypes np, np_Ingress np, np_Egress np,
     om_Labels (np_Meta np))"

definition norm_PDB :: "PodDisruptionBudget \<Rightarrow> strmap \<times> IntOrString option \<times> IntOrString option \<times> strmap" where
  "norm_PDB p = (pdb_Selector p, pdb_MinAvailable p, pdb_MaxUnavailable p, om_Labels (pdb_Meta p))"

definition norm_HPA :: "HorizontalPodAutoscaler
    \<Rightarrow> string \<times> string \<times> string \<times> int32 option \<times> int32 \<times> MetricSpec list \<times> strmap" where
  "norm_HPA h = (hpa_TargetAPIVersion h, hpa_TargetKind h, hpa_TargetName h, hpa_MinReplicas h,
     hpa_MaxReplicas h, hpa_Metrics h, om_Labels (hpa_Meta h))"

lemmas norm_defs = norm_ConfigMap_def norm_ServiceAccount_def norm_Role_def norm_RoleBinding_def
  norm_StatefulSet_def norm_Service_def norm_Ingress_def norm_NetworkPolicy_def norm_PDB_def
  norm_HPA_def

text \<open>API validation the operator relies on: a pod template has a container.\<close>

definition valid_StatefulSet :: "StatefulSet \<Rightarrow> bool" where
  "valid_StatefulSet sts \<longleftrightarrow> sts_Containers sts \<noteq> []"

text \<open>Objects marked for deletion, which the server keeps until their finalizers are gone.\<close>

fun dying :: "kobject \<Rightarrow> bool" where
  "dying (KConfigMap x) \<longleftrightarrow> om_DeletionTimestamp (cm_Meta x) \<noteq> None"
| "dying (KServiceAccount x) \<longleftrightarrow> om_DeletionTimestamp (sa_Meta x) \<noteq> None"
| "dying (KRole x) \<longleftrightarrow> om_DeletionTimestamp (role_Meta x) \<noteq> None"
| "dying (KRoleBinding x) \<longleftrightarrow> om_DeletionTimestamp (rb_Meta x) \<noteq> None"
| "dying (KStatefulSet x) \<longleftrightarrow> om_DeletionTimestamp (sts_Meta x) \<noteq> None"
| "dying (KService x) \<longleftrightarrow> om_DeletionTimestamp (svc_Meta x) \<noteq> None"
| "dying (KIngress x) \<longleftrightarrow> om_DeletionTimestamp (ing_Meta x) \<noteq> None"
| "dying (KNetworkPolicy x) \<longleftrightarrow> om_DeletionTimestamp (np_Meta x) \<noteq> None"
| "dying (KPDB x) \<longleftrightarrow> om_DeletionTimestamp (pdb_Meta x) \<noteq> None"
| "dying (KHPA x) \<longleftrightarrow> om_DeletionTimestamp (hpa_Meta x) \<noteq> None"
| "dying (KUnstructured x) \<longleftrightarrow> jpath [''metadata'', ''deletionTimestamp''] (us_Object x) \<noteq> None"

definition gone :: "cluster \<Rightarrow> kkey \<Rightarrow> bool" where
  "gone c q \<longleftrightarrow> (case c q of None \<Rightarrow> True | Some x \<Rightarrow> dying x)"

subsection \<open>Hypotheses about the environment\<close>

text \<open>
  The client of one kind \<open>K\<close>, whose objects are stored as \<open>into o\<close> under \<open>key o\<close>. Reads do
  not change the cluster and return what is stored (and validated); a not-found error
  means there is no object; writes touch only the object's own entry; after a successful
  write the response is what is stored, and it agrees with the request on the managed
  fields \<open>norm\<close>; after a successful delete the object is gone or marked for deletion.
\<close>

definition get_laws :: "('w \<Rightarrow> cluster) \<Rightarrow> ('o, 'w) kclient \<Rightarrow> kind \<Rightarrow> ('o \<Rightarrow> kobject) \<Rightarrow> ('o \<Rightarrow> nsname)
    \<Rightarrow> ('o \<Rightarrow> bool) \<Rightarrow> bool" where
  "get_laws V c K into key valid \<longleftrightarrow>
     (\<forall>k w. V (snd (kc_Get c k w)) = V w) \<and>
     (\<forall>k w o1. fst (kc_Get c k w) = Inr o1 \<longrightarrow> V w (K, k) = Some (into o1) \<and> key o1 = k \<and> valid o1) \<and>
     (\<forall>k w e. fst (kc_Get c k w) = Inl e \<longrightarrow> IsNotFound e \<longrightarrow> V w (K, k) = None)"

definition write_laws :: "('w \<Rightarrow> cluster) \<Rightarrow> ('o \<Rightarrow> 'w \<Rightarrow> (error + 'o) \<times> 'w) \<Rightarrow> kind \<Rightarrow> ('o \<Rightarrow> kobject)
    \<Rightarrow> ('o \<Rightarrow> nsname) \<Rightarrow> ('o \<Rightarrow> 'v) \<Rightarrow> bool" where
  "write_laws V call K into key norm \<longleftrightarrow>
     (\<forall>o1 w q. q \<noteq> (K, key o1) \<longrightarrow> V (snd (call o1 w)) q = V w q) \<and>
     (\<forall>o1 w o2. fst (call o1 w) = Inr o2 \<longrightarrow>
        V (snd (call o1 w)) (K, key o1) = Some (into o2) \<and> key o2 = key o1 \<and> norm o2 = norm o1)"

definition delete_laws :: "('w \<Rightarrow> cluster) \<Rightarrow> ('o \<Rightarrow> 'w \<Rightarrow> error option \<times> 'w) \<Rightarrow> kind
    \<Rightarrow> ('o \<Rightarrow> nsname) \<Rightarrow> bool" where
  "delete_laws V call K key \<longleftrightarrow>
     (\<forall>o1 w q. q \<noteq> (K, key o1) \<longrightarrow> V (snd (call o1 w)) q = V w q) \<and>
     (\<forall>o1 w. (case fst (call o1 w) of None \<Rightarrow> True | Some e \<Rightarrow> IsNotFound e) \<longrightarrow>
        gone (V (snd (call o1 w))) (K, key o1))"

definition client_laws :: "('w \<Rightarrow> cluster) \<Rightarrow> ('o, 'w) kclient \<Rightarrow> kind \<Rightarrow> ('o \<Rightarrow> kobject) \<Rightarrow> ('o \<Rightarrow> nsname)
    \<Rightarrow> ('o \<Rightarrow> bool) \<Rightarrow> ('o \<Rightarrow> 'v) \<Rightarrow> bool" where
  "client_laws V c K into key valid norm \<longleftrightarrow>
     get_laws V c K into key valid \<and>
     write_laws V (kc_Create c) K into key norm \<and>
     write_laws V (kc_Update c) K into key norm \<and>
     delete_laws V (kc_Delete c) K key"

text \<open>
  The other calls do not change the cluster's objects of the managed kinds; the status
  patch answers with the instance it was sent (nobody edits its spec meanwhile);
  \<^verbatim>\<open>SetControllerReference\<close> touches owner references only; \<^verbatim>\<open>unstructured\<close> accessors read
  and write \<^verbatim>\<open>metadata\<close>.
\<close>

definition same_object :: "TlnDB \<Rightarrow> TlnDB \<Rightarrow> bool" where
  "same_object i j \<longleftrightarrow> db_Name i = db_Name j \<and> db_Namespace i = db_Namespace j \<and> db_Spec i = db_Spec j"

definition status_laws :: "('w \<Rightarrow> cluster) \<Rightarrow> 'w reconciler \<Rightarrow> bool" where
  "status_laws V r \<longleftrightarrow>
     (\<forall>m b w. V (snd (r_StatusPatch r m b w)) = V w) \<and>
     (\<forall>m b w i. fst (r_StatusPatch r m b w) = Inr i \<longrightarrow> same_object i m \<and> db_Status i = db_Status m) \<and>
     (\<forall>cs c w. V (snd (r_SetStatusCondition r cs c w)) = V w) \<and>
     (\<forall>i t re m w. V (r_Eventf r i t re m w) = V w) \<and>
     (\<forall>w. V (snd (r_Now r w)) = V w)"

definition tlndb_laws :: "('w \<Rightarrow> cluster) \<Rightarrow> 'w reconciler \<Rightarrow> bool" where
  "tlndb_laws V r \<longleftrightarrow>
     (\<forall>k w. V (snd (kc_Get (r_TlnDB r) k w)) = V w) \<and>
     (\<forall>k w i. fst (kc_Get (r_TlnDB r) k w) = Inr i \<longrightarrow> meta_key (db_Meta i) = k) \<and>
     (\<forall>i w. V (snd (kc_Update (r_TlnDB r) i w)) = V w)"

definition owner_laws :: "'w reconciler \<Rightarrow> bool" where
  "owner_laws r \<longleftrightarrow>
     (\<forall>i m m'. r_SetControllerReference r i m = Inr m' \<longrightarrow>
        (\<exists>os. m' = m\<lparr>om_OwnerReferences := os\<rparr>))"

definition key_Unstructured :: "'w reconciler \<Rightarrow> Unstructured \<Rightarrow> nsname" where
  "key_Unstructured r u = (r_GetNamespace r u, r_GetName r u)"

definition unstructured_laws :: "('w \<Rightarrow> cluster) \<Rightarrow> 'w reconciler \<Rightarrow> bool" where
  "unstructured_laws V r \<longleftrightarrow>
     (\<forall>u s. jpath [''metadata'', ''name''] (us_Object u) = Some (JStr s) \<longrightarrow> r_GetName r u = s) \<and>
     (\<forall>u s. jpath [''metadata'', ''namespace''] (us_Object u) = Some (JStr s) \<longrightarrow> r_GetNamespace r u = s) \<and>
     (\<forall>v u. key_Unstructured r (r_SetResourceVersion r v u) = key_Unstructured r u) \<and>
     (\<forall>i u u'. r_SetControllerReferenceU r i u = Inr u' \<longrightarrow> key_Unstructured r u' = key_Unstructured r u) \<and>
     (\<forall>g. client_laws V (r_Unstructured r g) MonitorKind KUnstructured (key_Unstructured r)
            (\<lambda>_. True) (\<lambda>_. ()))"

definition env_laws :: "('w \<Rightarrow> cluster) \<Rightarrow> 'w reconciler \<Rightarrow> bool" where
  "env_laws V r \<longleftrightarrow>
     owner_laws r \<and> status_laws V r \<and> tlndb_laws V r \<and> unstructured_laws V r \<and>
     client_laws V (r_ConfigMap r) ConfigMapKind KConfigMap (\<lambda>x. meta_key (cm_Meta x)) (\<lambda>_. True) norm_ConfigMap \<and>
     client_laws V (r_ServiceAccount r) ServiceAccountKind KServiceAccount (\<lambda>x. meta_key (sa_Meta x)) (\<lambda>_. True) norm_ServiceAccount \<and>
     client_laws V (r_Role r) RoleKind KRole (\<lambda>x. meta_key (role_Meta x)) (\<lambda>_. True) norm_Role \<and>
     client_laws V (r_RoleBinding r) RoleBindingKind KRoleBinding (\<lambda>x. meta_key (rb_Meta x)) (\<lambda>_. True) norm_RoleBinding \<and>
     client_laws V (r_StatefulSet r) StatefulSetKind KStatefulSet (\<lambda>x. meta_key (sts_Meta x)) valid_StatefulSet norm_StatefulSet \<and>
     client_laws V (r_Service r) ServiceKind KService (\<lambda>x. meta_key (svc_Meta x)) (\<lambda>_. True) norm_Service \<and>
     client_laws V (r_Ingress r) IngressKind KIngress (\<lambda>x. meta_key (ing_Meta x)) (\<lambda>_. True) norm_Ingress \<and>
     client_laws V (r_NetworkPolicy r) NetworkPolicyKind KNetworkPolicy (\<lambda>x. meta_key (np_Meta x)) (\<lambda>_. True) norm_NetworkPolicy \<and>
     client_laws V (r_PDB r) PDBKind KPDB (\<lambda>x. meta_key (pdb_Meta x)) (\<lambda>_. True) norm_PDB \<and>
     client_laws V (r_HPA r) HPAKind KHPA (\<lambda>x. meta_key (hpa_Meta x)) (\<lambda>_. True) norm_HPA"

lemma same_object_refl [simp]: "same_object i i"
  by (simp add: same_object_def)

lemma same_object_trans: "same_object i j \<Longrightarrow> same_object j k \<Longrightarrow> same_object i k"
  by (simp add: same_object_def)

end
