(* ===== verification/Upserts.thy ===== *)
theory Upserts
  imports KubeClient
begin

section \<open>Create-or-update helpers (tlndb\_controller.go)\<close>

text \<open>
  One definition per \<^verbatim>\<open>createOrUpdate*\<close> method, written as the source writes it. The methods
  mutate the object they are given (owner reference, then the server's response or the
  fields kept from the existing object), and the caller reads it afterwards, so each
  returns it. \<open>upsert\<close> is the shape the ten typed methods share; the locale
  \<open>managed_kind\<close> states what makes it correct, and is interpreted for each kind.
\<close>

definition copyLabels :: "ObjectMeta \<Rightarrow> ObjectMeta \<Rightarrow> ObjectMeta" where
  "copyLabels desired existing = existing\<lparr>om_Labels := om_Labels desired\<rparr>"

definition copyAnnotations :: "ObjectMeta \<Rightarrow> ObjectMeta \<Rightarrow> ObjectMeta" where
  "copyAnnotations desired existing = existing\<lparr>om_Annotations := om_Annotations desired\<rparr>"

text \<open>\<^verbatim>\<open>return r.Update(ctx, existing)\<close>: only the error survives; \<open>desired\<close> is what it was.\<close>

definition updateExisting :: "('o, 'w) kclient \<Rightarrow> 'o \<Rightarrow> 'o \<Rightarrow> 'w \<Rightarrow> (error + 'o) \<times> 'w" where
  "updateExisting c existing desired w =
     (case kc_Update c existing w of (Inl e, w') \<Rightarrow> (Inl e, w') | (Inr _, w') \<Rightarrow> (Inr desired, w'))"

subsection \<open>The methods\<close>

definition createOrUpdateConfigMap ::
    "'w reconciler \<Rightarrow> TlnDB \<Rightarrow> ConfigMap \<Rightarrow> 'w \<Rightarrow> (error + ConfigMap) \<times> 'w" where
  "createOrUpdateConfigMap r inst desired w =
     (case r_SetControllerReference r inst (cm_Meta desired) of
        Inl e \<Rightarrow> (Inl e, w)
      | Inr meta \<Rightarrow>
          (let desired = desired\<lparr>cm_Meta := meta\<rparr>
           in case kc_Get (r_ConfigMap r) (meta_key (cm_Meta desired)) w of
                (Inl e, w) \<Rightarrow> if IsNotFound e then kc_Create (r_ConfigMap r) desired w else (Inl e, w)
              | (Inr existing, w) \<Rightarrow>
                  if cm_Data existing \<noteq> cm_Data desired
                  then updateExisting (r_ConfigMap r)
                         (existing\<lparr>cm_Data := cm_Data desired,
                                   cm_Meta := copyLabels (cm_Meta desired) (cm_Meta existing)\<rparr>) desired w
                  else (Inr desired, w)))"

definition createOrUpdateServiceAccount ::
    "'w reconciler \<Rightarrow> TlnDB \<Rightarrow> ServiceAccount \<Rightarrow> 'w \<Rightarrow> (error + ServiceAccount) \<times> 'w" where
  "createOrUpdateServiceAccount r inst desired w =
     (case r_SetControllerReference r inst (sa_Meta desired) of
        Inl e \<Rightarrow> (Inl e, w)
      | Inr meta \<Rightarrow>
          (let desired = desired\<lparr>sa_Meta := meta\<rparr>
           in case kc_Get (r_ServiceAccount r) (meta_key (sa_Meta desired)) w of
                (Inl e, w) \<Rightarrow> if IsNotFound e then kc_Create (r_ServiceAccount r) desired w else (Inl e, w)
              | (Inr existing, w) \<Rightarrow>
                  updateExisting (r_ServiceAccount r)
                    (existing\<lparr>sa_Meta := copyLabels (sa_Meta desired) (sa_Meta existing)\<rparr>) desired w))"

definition createOrUpdateRole ::
    "'w reconciler \<Rightarrow> TlnDB \<Rightarrow> Role \<Rightarrow> 'w \<Rightarrow> (error + Role) \<times> 'w" where
  "createOrUpdateRole r inst desired w =
     (case r_SetControllerReference r inst (role_Meta desired) of
        Inl e \<Rightarrow> (Inl e, w)
      | Inr meta \<Rightarrow>
          (let desired = desired\<lparr>role_Meta := meta\<rparr>
           in case kc_Get (r_Role r) (meta_key (role_Meta desired)) w of
                (Inl e, w) \<Rightarrow> if IsNotFound e then kc_Create (r_Role r) desired w else (Inl e, w)
              | (Inr existing, w) \<Rightarrow>
                  if role_Rules existing \<noteq> role_Rules desired
                  then updateExisting (r_Role r)
                         (existing\<lparr>role_Rules := role_Rules desired,
                                   role_Meta := copyLabels (role_Meta desired) (role_Meta existing)\<rparr>) desired w
                  else (Inr desired, w)))"

definition createOrUpdateRoleBinding ::
    "'w reconciler \<Rightarrow> TlnDB \<Rightarrow> RoleBinding \<Rightarrow> 'w \<Rightarrow> (error + RoleBinding) \<times> 'w" where
  "createOrUpdateRoleBinding r inst desired w =
     (case r_SetControllerReference r inst (rb_Meta desired) of
        Inl e \<Rightarrow> (Inl e, w)
      | Inr meta \<Rightarrow>
          (let desired = desired\<lparr>rb_Meta := meta\<rparr>
           in case kc_Get (r_RoleBinding r) (meta_key (rb_Meta desired)) w of
                (Inl e, w) \<Rightarrow> if IsNotFound e then kc_Create (r_RoleBinding r) desired w else (Inl e, w)
              | (Inr existing, w) \<Rightarrow>
                  if rb_RoleRef existing \<noteq> rb_RoleRef desired \<or> rb_Subjects existing \<noteq> rb_Subjects desired
                  then updateExisting (r_RoleBinding r)
                         (existing\<lparr>rb_RoleRef := rb_RoleRef desired, rb_Subjects := rb_Subjects desired,
                                   rb_Meta := copyLabels (rb_Meta desired) (rb_Meta existing)\<rparr>) desired w
                  else (Inr desired, w)))"

definition statefulSetNeedsUpdate :: "StatefulSet \<Rightarrow> StatefulSet \<Rightarrow> bool" where
  "statefulSetNeedsUpdate existing desired =
     (if ss_Replicas (sts_Spec existing) \<noteq> ss_Replicas (sts_Spec desired) then True
      else if str_at (pt_Annotations (sts_Template existing)) ConfigHashAnnotation
              \<noteq> str_at (pt_Annotations (sts_Template desired)) ConfigHashAnnotation then True
      else if length (sts_Containers existing) > 0 \<and> length (sts_Containers desired) > 0 then
             (if c_Image (sts_Containers existing ! 0) \<noteq> c_Image (sts_Containers desired ! 0) then True
              else False)
      else False)"

definition createOrUpdateStatefulSet ::
    "'w reconciler \<Rightarrow> TlnDB \<Rightarrow> StatefulSet \<Rightarrow> 'w \<Rightarrow> (error + StatefulSet) \<times> 'w" where
  "createOrUpdateStatefulSet r inst desired w =
     (case r_SetControllerReference r inst (sts_Meta desired) of
        Inl e \<Rightarrow> (Inl e, w)
      | Inr meta \<Rightarrow>
          (let desired = desired\<lparr>sts_Meta := meta\<rparr>
           in case kc_Get (r_StatefulSet r) (meta_key (sts_Meta desired)) w of
                (Inl e, w) \<Rightarrow>
                  if IsNotFound e
                  then (let w = r_Eventf r inst ''Normal'' ''Created''
                                  (''Created StatefulSet '' @ om_Name (sts_Meta desired)) w
                        in kc_Create (r_StatefulSet r) desired w)
                  else (Inl e, w)
              | (Inr existing, w) \<Rightarrow>
                  (let desired = desired\<lparr>
                         sts_Meta := (sts_Meta desired)\<lparr>om_ResourceVersion := om_ResourceVersion (sts_Meta existing)\<rparr>,
                         sts_Spec := (sts_Spec desired)\<lparr>ss_VolumeClaimTemplates := ss_VolumeClaimTemplates (sts_Spec existing)\<rparr>\<rparr>
                   in if \<not> statefulSetNeedsUpdate existing desired then (Inr desired, w)
                      else (let w = r_Eventf r inst ''Normal'' ''Updated''
                                      (''Updated StatefulSet '' @ om_Name (sts_Meta desired)) w
                            in updateExisting (r_StatefulSet r)
                                 (existing\<lparr>sts_Spec := (sts_Spec existing)\<lparr>ss_Replicas := ss_Replicas (sts_Spec desired),
                                                                           ss_Template := ss_Template (sts_Spec desired)\<rparr>,
                                           sts_Meta := copyLabels (sts_Meta desired) (sts_Meta existing)\<rparr>)
                                 desired w))))"

definition deleteStatefulSetIfExists ::
    "'w reconciler \<Rightarrow> string \<Rightarrow> string \<Rightarrow> 'w \<Rightarrow> error option \<times> 'w" where
  "deleteStatefulSetIfExists r namespace name w =
     (case kc_Get (r_StatefulSet r) (namespace, name) w of
        (Inl e, w) \<Rightarrow> if IsNotFound e then (None, w) else (Some e, w)
      | (Inr existing, w) \<Rightarrow>
          (case kc_Delete (r_StatefulSet r) existing w of
             (Some e, w) \<Rightarrow> if \<not> IsNotFound e then (Some e, w) else (None, w)
           | (None, w) \<Rightarrow> (None, w)))"

definition createOrUpdateService ::
    "'w reconciler \<Rightarrow> TlnDB \<Rightarrow> Service \<Rightarrow> 'w \<Rightarrow> (error + Service) \<times> 'w" where
  "createOrUpdateService r inst desired w =
     (case r_SetControllerReference r inst (svc_Meta desired) of
        Inl e \<Rightarrow> (Inl e, w)
      | Inr meta \<Rightarrow>
          (let desired = desired\<lparr>svc_Meta := meta\<rparr>
           in case kc_Get (r_Service r) (meta_key (svc_Meta desired)) w of
                (Inl e, w) \<Rightarrow> if IsNotFound e then kc_Create (r_Service r) desired w else (Inl e, w)
              | (Inr existing, w) \<Rightarrow>
                  (let desired = desired\<lparr>
                         svc_Spec := (svc_Spec desired)\<lparr>ks_ClusterIP := ks_ClusterIP (svc_Spec existing)\<rparr>,
                         svc_Meta := (svc_Meta desired)\<lparr>om_ResourceVersion := om_ResourceVersion (svc_Meta existing)\<rparr>\<rparr>
                   in updateExisting (r_Service r)
                        (existing\<lparr>svc_Spec := svc_Spec desired,
                                  svc_Meta := copyAnnotations (svc_Meta desired)
                                                (copyLabels (svc_Meta desired) (svc_Meta existing))\<rparr>)
                        desired w)))"

definition createOrUpdateIngress ::
    "'w reconciler \<Rightarrow> TlnDB \<Rightarrow> Ingress \<Rightarrow> 'w \<Rightarrow> (error + Ingress) \<times> 'w" where
  "createOrUpdateIngress r inst desired w =
     (case r_SetControllerReference r inst (ing_Meta desired) of
        Inl e \<Rightarrow> (Inl e, w)
      | Inr meta \<Rightarrow>
          (let desired = desired\<lparr>ing_Meta := meta\<rparr>
           in case kc_Get (r_Ingress r) (meta_key (ing_Meta desired)) w of
                (Inl e, w) \<Rightarrow> if IsNotFound e then kc_Create (r_Ingress r) desired w else (Inl e, w)
              | (Inr existing, w) \<Rightarrow>
                  (let desired = desired\<lparr>
                         ing_Meta := (ing_Meta desired)\<lparr>om_ResourceVersion := om_ResourceVersion (ing_Meta existing)\<rparr>\<rparr>
                   in updateExisting (r_Ingress r)
                        (existing\<lparr>ing_ClassName := ing_ClassName desired, ing_Rules := ing_Rules desired,
                                  ing_TLS := ing_TLS desired,
                                  ing_Meta := copyAnnotations (ing_Meta desired)
                                                (copyLabels (ing_Meta desired) (ing_Meta existing))\<rparr>)
                        desired w)))"

definition createOrUpdateNetworkPolicy ::
    "'w reconciler \<Rightarrow> TlnDB \<Rightarrow> NetworkPolicy \<Rightarrow> 'w \<Rightarrow> (error + NetworkPolicy) \<times> 'w" where
  "createOrUpdateNetworkPolicy r inst desired w =
     (case r_SetControllerReference r inst (np_Meta desired) of
        Inl e \<Rightarrow> (Inl e, w)
      | Inr meta \<Rightarrow>
          (let desired = desired\<lparr>np_Meta := meta\<rparr>
           in case kc_Get (r_NetworkPolicy r) (meta_key (np_Meta desired)) w of
                (Inl e, w) \<Rightarrow> if IsNotFound e then kc_Create (r_NetworkPolicy r) desired w else (Inl e, w)
              | (Inr existing, w) \<Rightarrow>
                  updateExisting (r_NetworkPolicy r)
                    (existing\<lparr>np_PodSelector := np_PodSelector desired, np_PolicyTypes := np_PolicyTypes desired,
                              np_Ingress := np_Ingress desired, np_Egress := np_Egress desired,
                              np_Meta := copyLabels (np_Meta desired) (np_Meta existing)\<rparr>)
                    desired w))"

text \<open>A failure to set the owner reference of a ServiceMonitor is only logged.\<close>

definition createOrUpdateServiceMonitor ::
    "'w reconciler \<Rightarrow> TlnDB \<Rightarrow> Unstructured \<Rightarrow> 'w \<Rightarrow> (error + Unstructured) \<times> 'w" where
  "createOrUpdateServiceMonitor r inst desired w =
     (let desired = (case r_SetControllerReferenceU r inst desired of Inl e \<Rightarrow> desired | Inr d \<Rightarrow> d);
          client = r_Unstructured r (r_GroupVersionKind r desired)
      in case kc_Get client (r_GetNamespace r desired, r_GetName r desired) w of
           (Inl e, w) \<Rightarrow> if IsNotFound e then kc_Create client desired w else (Inl e, w)
         | (Inr existing, w) \<Rightarrow>
             (let desired = r_SetResourceVersion r (r_GetResourceVersion r existing) desired
              in kc_Update (r_Unstructured r (r_GroupVersionKind r desired)) desired w))"

definition createOrUpdatePDB ::
    "'w reconciler \<Rightarrow> TlnDB \<Rightarrow> PodDisruptionBudget \<Rightarrow> 'w \<Rightarrow> (error + PodDisruptionBudget) \<times> 'w" where
  "createOrUpdatePDB r inst desired w =
     (case r_SetControllerReference r inst (pdb_Meta desired) of
        Inl e \<Rightarrow> (Inl e, w)
      | Inr meta \<Rightarrow>
          (let desired = desired\<lparr>pdb_Meta := meta\<rparr>
           in case kc_Get (r_PDB r) (meta_key (pdb_Meta desired)) w of
                (Inl e, w) \<Rightarrow> if IsNotFound e then kc_Create (r_PDB r) desired w else (Inl e, w)
              | (Inr existing, w) \<Rightarrow>
                  (case kc_Update (r_PDB r)
                          (existing\<lparr>pdb_Selector := pdb_Selector desired, pdb_MinAvailable := pdb_MinAvailable desired,
                                    pdb_MaxUnavailable := pdb_MaxUnavailable desired,
                                    pdb_Meta := copyLabels (pdb_Meta desired) (pdb_Meta existing)\<rparr>) w of
                     (Inl e, w) \<Rightarrow> if \<not> IsConflict e then (Inl e, w) else (Inr desired, w)
                   | (Inr _, w) \<Rightarrow> (Inr desired, w))))"

definition createOrUpdateHPA ::
    "'w reconciler \<Rightarrow> TlnDB \<Rightarrow> HorizontalPodAutoscaler \<Rightarrow> 'w \<Rightarrow> (error + HorizontalPodAutoscaler) \<times> 'w" where
  "createOrUpdateHPA r inst desired w =
     (case r_SetControllerReference r inst (hpa_Meta desired) of
        Inl e \<Rightarrow> (Inl e, w)
      | Inr meta \<Rightarrow>
          (let desired = desired\<lparr>hpa_Meta := meta\<rparr>
           in case kc_Get (r_HPA r) (meta_key (hpa_Meta desired)) w of
                (Inl e, w) \<Rightarrow> if IsNotFound e then kc_Create (r_HPA r) desired w else (Inl e, w)
              | (Inr existing, w) \<Rightarrow>
                  (case kc_Update (r_HPA r)
                          (existing\<lparr>hpa_TargetAPIVersion := hpa_TargetAPIVersion desired,
                                    hpa_TargetKind := hpa_TargetKind desired, hpa_TargetName := hpa_TargetName desired,
                                    hpa_MinReplicas := hpa_MinReplicas desired, hpa_MaxReplicas := hpa_MaxReplicas desired,
                                    hpa_Metrics := hpa_Metrics desired,
                                    hpa_Meta := copyLabels (hpa_Meta desired) (hpa_Meta existing)\<rparr>) w of
                     (Inl e, w) \<Rightarrow> if \<not> IsConflict e then (Inl e, w) else (Inr desired, w)
                   | (Inr _, w) \<Rightarrow> (Inr desired, w))))"

subsection \<open>The common shape\<close>

text \<open>
  \<open>own\<close> sets the owner reference, \<open>keep\<close> copies fields of the existing object into the
  desired one, \<open>needs\<close> decides whether to write, \<open>merge\<close> is the object written,
  \<open>created\<close> and \<open>updated\<close> are the events recorded before a write, and \<open>tolerate\<close> the
  errors of an update that are ignored.
\<close>

record ('o, 'w) policy =
  po_key :: "'o \<Rightarrow> nsname"
  po_own :: "'o \<Rightarrow> error + 'o"
  po_keep :: "'o \<Rightarrow> 'o \<Rightarrow> 'o"
  po_needs :: "'o \<Rightarrow> 'o \<Rightarrow> bool"
  po_merge :: "'o \<Rightarrow> 'o \<Rightarrow> 'o"
  po_created :: "'o \<Rightarrow> 'w \<Rightarrow> 'w"
  po_updated :: "'o \<Rightarrow> 'w \<Rightarrow> 'w"
  po_tolerate :: "error \<Rightarrow> bool"

definition upsert :: "('o, 'w) kclient \<Rightarrow> ('o, 'w) policy \<Rightarrow> 'o \<Rightarrow> 'w \<Rightarrow> (error + 'o) \<times> 'w" where
  "upsert c p desired w =
     (case po_own p desired of
        Inl e \<Rightarrow> (Inl e, w)
      | Inr d \<Rightarrow>
          (case kc_Get c (po_key p d) w of
             (Inl e, w) \<Rightarrow> if IsNotFound e then kc_Create c d (po_created p d w) else (Inl e, w)
           | (Inr ex, w) \<Rightarrow>
               (let d = po_keep p ex d
                in if \<not> po_needs p ex d then (Inr d, w)
                   else (case kc_Update c (po_merge p ex d) (po_updated p d w) of
                           (Inl e, w) \<Rightarrow> if po_tolerate p e then (Inr d, w) else (Inl e, w)
                         | (Inr _, w) \<Rightarrow> (Inr d, w)))))"

text \<open>\<^verbatim>\<open>SetControllerReference\<close> lifted from the metadata to the object.\<close>

definition own_with :: "'w reconciler \<Rightarrow> TlnDB \<Rightarrow> ('o \<Rightarrow> ObjectMeta) \<Rightarrow> (ObjectMeta \<Rightarrow> 'o \<Rightarrow> 'o)
    \<Rightarrow> 'o \<Rightarrow> error + 'o" where
  "own_with r inst meta set_meta d =
     (case r_SetControllerReference r inst (meta d) of Inl e \<Rightarrow> Inl e | Inr m \<Rightarrow> Inr (set_meta m d))"

text \<open>
  The policies of the ten typed kinds, over the merge and keep functions the locale
  below is interpreted on.
\<close>

definition merge_ConfigMap :: "ConfigMap \<Rightarrow> ConfigMap \<Rightarrow> ConfigMap" where
  "merge_ConfigMap ex d = ex\<lparr>cm_Data := cm_Data d, cm_Meta := copyLabels (cm_Meta d) (cm_Meta ex)\<rparr>"

definition merge_ServiceAccount :: "ServiceAccount \<Rightarrow> ServiceAccount \<Rightarrow> ServiceAccount" where
  "merge_ServiceAccount ex d = ex\<lparr>sa_Meta := copyLabels (sa_Meta d) (sa_Meta ex)\<rparr>"

definition merge_Role :: "Role \<Rightarrow> Role \<Rightarrow> Role" where
  "merge_Role ex d = ex\<lparr>role_Rules := role_Rules d, role_Meta := copyLabels (role_Meta d) (role_Meta ex)\<rparr>"

definition merge_RoleBinding :: "RoleBinding \<Rightarrow> RoleBinding \<Rightarrow> RoleBinding" where
  "merge_RoleBinding ex d = ex\<lparr>rb_RoleRef := rb_RoleRef d, rb_Subjects := rb_Subjects d,
     rb_Meta := copyLabels (rb_Meta d) (rb_Meta ex)\<rparr>"

definition keep_StatefulSet :: "StatefulSet \<Rightarrow> StatefulSet \<Rightarrow> StatefulSet" where
  "keep_StatefulSet ex d = d\<lparr>
     sts_Meta := (sts_Meta d)\<lparr>om_ResourceVersion := om_ResourceVersion (sts_Meta ex)\<rparr>,
     sts_Spec := (sts_Spec d)\<lparr>ss_VolumeClaimTemplates := ss_VolumeClaimTemplates (sts_Spec ex)\<rparr>\<rparr>"

definition merge_StatefulSet :: "StatefulSet \<Rightarrow> StatefulSet \<Rightarrow> StatefulSet" where
  "merge_StatefulSet ex d = ex\<lparr>
     sts_Spec := (sts_Spec ex)\<lparr>ss_Replicas := ss_Replicas (sts_Spec d), ss_Template := ss_Template (sts_Spec d)\<rparr>,
     sts_Meta := copyLabels (sts_Meta d) (sts_Meta ex)\<rparr>"

definition keep_Service :: "Service \<Rightarrow> Service \<Rightarrow> Service" where
  "keep_Service ex d = d\<lparr>
     svc_Spec := (svc_Spec d)\<lparr>ks_ClusterIP := ks_ClusterIP (svc_Spec ex)\<rparr>,
     svc_Meta := (svc_Meta d)\<lparr>om_ResourceVersion := om_ResourceVersion (svc_Meta ex)\<rparr>\<rparr>"

definition merge_Service :: "Service \<Rightarrow> Service \<Rightarrow> Service" where
  "merge_Service ex d = ex\<lparr>svc_Spec := svc_Spec d,
     svc_Meta := copyAnnotations (svc_Meta d) (copyLabels (svc_Meta d) (svc_Meta ex))\<rparr>"

definition keep_Ingress :: "Ingress \<Rightarrow> Ingress \<Rightarrow> Ingress" where
  "keep_Ingress ex d = d\<lparr>ing_Meta := (ing_Meta d)\<lparr>om_ResourceVersion := om_ResourceVersion (ing_Meta ex)\<rparr>\<rparr>"

definition merge_Ingress :: "Ingress \<Rightarrow> Ingress \<Rightarrow> Ingress" where
  "merge_Ingress ex d = ex\<lparr>ing_ClassName := ing_ClassName d, ing_Rules := ing_Rules d, ing_TLS := ing_TLS d,
     ing_Meta := copyAnnotations (ing_Meta d) (copyLabels (ing_Meta d) (ing_Meta ex))\<rparr>"

definition merge_NetworkPolicy :: "NetworkPolicy \<Rightarrow> NetworkPolicy \<Rightarrow> NetworkPolicy" where
  "merge_NetworkPolicy ex d = ex\<lparr>np_PodSelector := np_PodSelector d, np_PolicyTypes := np_PolicyTypes d,
     np_Ingress := np_Ingress d, np_Egress := np_Egress d, np_Meta := copyLabels (np_Meta d) (np_Meta ex)\<rparr>"

definition merge_PDB :: "PodDisruptionBudget \<Rightarrow> PodDisruptionBudget \<Rightarrow> PodDisruptionBudget" where
  "merge_PDB ex d = ex\<lparr>pdb_Selector := pdb_Selector d, pdb_MinAvailable := pdb_MinAvailable d,
     pdb_MaxUnavailable := pdb_MaxUnavailable d, pdb_Meta := copyLabels (pdb_Meta d) (pdb_Meta ex)\<rparr>"

definition merge_HPA ::
    "HorizontalPodAutoscaler \<Rightarrow> HorizontalPodAutoscaler \<Rightarrow> HorizontalPodAutoscaler" where
  "merge_HPA ex d = ex\<lparr>hpa_TargetAPIVersion := hpa_TargetAPIVersion d, hpa_TargetKind := hpa_TargetKind d,
     hpa_TargetName := hpa_TargetName d, hpa_MinReplicas := hpa_MinReplicas d,
     hpa_MaxReplicas := hpa_MaxReplicas d, hpa_Metrics := hpa_Metrics d,
     hpa_Meta := copyLabels (hpa_Meta d) (hpa_Meta ex)\<rparr>"

lemmas merge_defs = merge_ConfigMap_def merge_ServiceAccount_def merge_Role_def merge_RoleBinding_def
  merge_StatefulSet_def merge_Service_def merge_Ingress_def merge_NetworkPolicy_def merge_PDB_def
  merge_HPA_def keep_StatefulSet_def keep_Service_def keep_Ingress_def copyLabels_def copyAnnotations_def

text \<open>A policy that records no event, keeps nothing and tolerates nothing.\<close>

definition plain :: "('o \<Rightarrow> nsname) \<Rightarrow> ('o \<Rightarrow> error + 'o) \<Rightarrow> ('o \<Rightarrow> 'o \<Rightarrow> bool) \<Rightarrow> ('o \<Rightarrow> 'o \<Rightarrow> 'o)
    \<Rightarrow> ('o, 'w) policy" where
  "plain key own needs merge = \<lparr>po_key = key, po_own = own, po_keep = (\<lambda>_ d. d), po_needs = needs,
     po_merge = merge, po_created = (\<lambda>_ w. w), po_updated = (\<lambda>_ w. w), po_tolerate = (\<lambda>_. False)\<rparr>"

definition policy_ConfigMap :: "'w reconciler \<Rightarrow> TlnDB \<Rightarrow> (ConfigMap, 'w) policy" where
  "policy_ConfigMap r inst = plain (\<lambda>x. meta_key (cm_Meta x)) (own_with r inst cm_Meta (\<lambda>m. cm_Meta_update (\<lambda>_. m)))
     (\<lambda>ex d. cm_Data ex \<noteq> cm_Data d) merge_ConfigMap"

definition policy_ServiceAccount :: "'w reconciler \<Rightarrow> TlnDB \<Rightarrow> (ServiceAccount, 'w) policy" where
  "policy_ServiceAccount r inst = plain (\<lambda>x. meta_key (sa_Meta x)) (own_with r inst sa_Meta (\<lambda>m. sa_Meta_update (\<lambda>_. m)))
     (\<lambda>_ _. True) merge_ServiceAccount"

definition policy_Role :: "'w reconciler \<Rightarrow> TlnDB \<Rightarrow> (Role, 'w) policy" where
  "policy_Role r inst = plain (\<lambda>x. meta_key (role_Meta x)) (own_with r inst role_Meta (\<lambda>m. role_Meta_update (\<lambda>_. m)))
     (\<lambda>ex d. role_Rules ex \<noteq> role_Rules d) merge_Role"

definition policy_RoleBinding :: "'w reconciler \<Rightarrow> TlnDB \<Rightarrow> (RoleBinding, 'w) policy" where
  "policy_RoleBinding r inst = plain (\<lambda>x. meta_key (rb_Meta x)) (own_with r inst rb_Meta (\<lambda>m. rb_Meta_update (\<lambda>_. m)))
     (\<lambda>ex d. rb_RoleRef ex \<noteq> rb_RoleRef d \<or> rb_Subjects ex \<noteq> rb_Subjects d) merge_RoleBinding"

definition policy_StatefulSet :: "'w reconciler \<Rightarrow> TlnDB \<Rightarrow> (StatefulSet, 'w) policy" where
  "policy_StatefulSet r inst =
     (plain (\<lambda>x. meta_key (sts_Meta x)) (own_with r inst sts_Meta (\<lambda>m. sts_Meta_update (\<lambda>_. m)))
        statefulSetNeedsUpdate merge_StatefulSet)
     \<lparr>po_keep := keep_StatefulSet,
      po_created := (\<lambda>d. r_Eventf r inst ''Normal'' ''Created'' (''Created StatefulSet '' @ om_Name (sts_Meta d))),
      po_updated := (\<lambda>d. r_Eventf r inst ''Normal'' ''Updated'' (''Updated StatefulSet '' @ om_Name (sts_Meta d)))\<rparr>"

definition policy_Service :: "'w reconciler \<Rightarrow> TlnDB \<Rightarrow> (Service, 'w) policy" where
  "policy_Service r inst =
     (plain (\<lambda>x. meta_key (svc_Meta x)) (own_with r inst svc_Meta (\<lambda>m. svc_Meta_update (\<lambda>_. m)))
        (\<lambda>_ _. True) merge_Service)\<lparr>po_keep := keep_Service\<rparr>"

definition policy_Ingress :: "'w reconciler \<Rightarrow> TlnDB \<Rightarrow> (Ingress, 'w) policy" where
  "policy_Ingress r inst =
     (plain (\<lambda>x. meta_key (ing_Meta x)) (own_with r inst ing_Meta (\<lambda>m. ing_Meta_update (\<lambda>_. m)))
        (\<lambda>_ _. True) merge_Ingress)\<lparr>po_keep := keep_Ingress\<rparr>"

definition policy_NetworkPolicy :: "'w reconciler \<Rightarrow> TlnDB \<Rightarrow> (NetworkPolicy, 'w) policy" where
  "policy_NetworkPolicy r inst = plain (\<lambda>x. meta_key (np_Meta x)) (own_with r inst np_Meta (\<lambda>m. np_Meta_update (\<lambda>_. m)))
     (\<lambda>_ _. True) merge_NetworkPolicy"

definition policy_PDB :: "'w reconciler \<Rightarrow> TlnDB \<Rightarrow> (PodDisruptionBudget, 'w) policy" where
  "policy_PDB r inst =
     (plain (\<lambda>x. meta_key (pdb_Meta x)) (own_with r inst pdb_Meta (\<lambda>m. pdb_Meta_update (\<lambda>_. m)))
        (\<lambda>_ _. True) merge_PDB)\<lparr>po_tolerate := IsConflict\<rparr>"

definition policy_HPA :: "'w reconciler \<Rightarrow> TlnDB \<Rightarrow> (HorizontalPodAutoscaler, 'w) policy" where
  "policy_HPA r inst =
     (plain (\<lambda>x. meta_key (hpa_Meta x)) (own_with r inst hpa_Meta (\<lambda>m. hpa_Meta_update (\<lambda>_. m)))
        (\<lambda>_ _. True) merge_HPA)\<lparr>po_tolerate := IsConflict\<rparr>"

lemmas policy_defs = policy_ConfigMap_def policy_ServiceAccount_def policy_Role_def policy_RoleBinding_def
  policy_StatefulSet_def policy_Service_def policy_Ingress_def policy_NetworkPolicy_def policy_PDB_def
  policy_HPA_def plain_def

subsection \<open>Every method is an upsert\<close>

lemmas upsert_unfold = upsert_def own_with_def policy_defs merge_defs updateExisting_def

lemma createOrUpdateConfigMap_upsert:
  "createOrUpdateConfigMap r inst = upsert (r_ConfigMap r) (policy_ConfigMap r inst)"
  by (intro ext) (simp add: createOrUpdateConfigMap_def upsert_unfold Let_def split: sum.split prod.split)

lemma createOrUpdateServiceAccount_upsert:
  "createOrUpdateServiceAccount r inst = upsert (r_ServiceAccount r) (policy_ServiceAccount r inst)"
  by (intro ext) (simp add: createOrUpdateServiceAccount_def upsert_unfold Let_def split: sum.split prod.split)

lemma createOrUpdateRole_upsert:
  "createOrUpdateRole r inst = upsert (r_Role r) (policy_Role r inst)"
  by (intro ext) (simp add: createOrUpdateRole_def upsert_unfold Let_def split: sum.split prod.split)

lemma createOrUpdateRoleBinding_upsert:
  "createOrUpdateRoleBinding r inst = upsert (r_RoleBinding r) (policy_RoleBinding r inst)"
  by (intro ext) (simp add: createOrUpdateRoleBinding_def upsert_unfold Let_def split: sum.split prod.split)

lemma createOrUpdateStatefulSet_upsert:
  "createOrUpdateStatefulSet r inst = upsert (r_StatefulSet r) (policy_StatefulSet r inst)"
  by (intro ext) (simp add: createOrUpdateStatefulSet_def upsert_unfold Let_def split: sum.split prod.split)

lemma createOrUpdateService_upsert:
  "createOrUpdateService r inst = upsert (r_Service r) (policy_Service r inst)"
  by (intro ext) (simp add: createOrUpdateService_def upsert_unfold Let_def split: sum.split prod.split)

lemma createOrUpdateIngress_upsert:
  "createOrUpdateIngress r inst = upsert (r_Ingress r) (policy_Ingress r inst)"
  by (intro ext) (simp add: createOrUpdateIngress_def upsert_unfold Let_def split: sum.split prod.split)

lemma createOrUpdateNetworkPolicy_upsert:
  "createOrUpdateNetworkPolicy r inst = upsert (r_NetworkPolicy r) (policy_NetworkPolicy r inst)"
  by (intro ext) (simp add: createOrUpdateNetworkPolicy_def upsert_unfold Let_def split: sum.split prod.split)

lemma createOrUpdatePDB_upsert:
  "createOrUpdatePDB r inst = upsert (r_PDB r) (policy_PDB r inst)"
  by (intro ext) (simp add: createOrUpdatePDB_def upsert_unfold Let_def split: sum.split prod.split)

lemma createOrUpdateHPA_upsert:
  "createOrUpdateHPA r inst = upsert (r_HPA r) (policy_HPA r inst)"
  by (intro ext) (simp add: createOrUpdateHPA_def upsert_unfold Let_def split: sum.split prod.split)

lemmas upsert_eqs = createOrUpdateConfigMap_upsert createOrUpdateServiceAccount_upsert
  createOrUpdateRole_upsert createOrUpdateRoleBinding_upsert createOrUpdateStatefulSet_upsert
  createOrUpdateService_upsert createOrUpdateIngress_upsert createOrUpdateNetworkPolicy_upsert
  createOrUpdatePDB_upsert createOrUpdateHPA_upsert

end
