(* ===== verification/ApiJson.thy ===== *)
theory ApiJson
  imports ApiTypes "HOL-Library.Monad_Syntax"
begin

section \<open>The resource on the wire (api/v1alpha1/tlndb\_types.go)\<close>

text \<open>
  Whenever the operator sends the instance (\<^verbatim>\<open>r.Update\<close> when it adds or removes the finalizer)
  \<^verbatim>\<open>encoding/json\<close> writes the structs with their tags, the API server fills in the defaults
  of the CRD schema (the \<^verbatim>\<open>+kubebuilder:default\<close> markers) and what it stores is read back. For
  every struct of \<^verbatim>\<open>tlndb_types.go\<close>: \<open>marshal\<close> by its tags, \<open>unmarshal\<close>, which fails on values of
  the wrong type or out of range, \<open>default\<close>, the schema's defaults on the JSON document, and
  \<open>fill\<close>, what these defaults mean for the struct. All fields are tagged
  \<^verbatim>\<open>omitempty\<close>: zero numbers, empty strings, slices and maps, false and nil are not
  written, but nested structs always are.
\<close>

named_theorems codec \<open>encoding and decoding of fields\<close>

subsection \<open>Fields\<close>

definition put :: "string \<Rightarrow> json option \<Rightarrow> (string, json) fmap \<Rightarrow> (string, json) fmap" where
  "put k jo m = (case jo of None \<Rightarrow> m | Some j \<Rightarrow> fmupd k j m)"

definition strJ :: "string \<Rightarrow> json option" where "strJ s = (if s = [] then None else Some (JStr s))"
definition intJ :: "int \<Rightarrow> json option" where "intJ n = (if n = 0 then None else Some (JInt n))"
definition boolJ :: "bool \<Rightarrow> json option" where "boolJ b = (if b then Some (JBool b) else None)"
definition ptrJ :: "('a \<Rightarrow> json) \<Rightarrow> 'a option \<Rightarrow> json option" where "ptrJ enc p = map_option enc p"
definition listJ :: "('a \<Rightarrow> json) \<Rightarrow> 'a list \<Rightarrow> json option" where
  "listJ enc xs = (if xs = [] then None else Some (JArr (map enc xs)))"
definition mapJ :: "strmap \<Rightarrow> json option" where
  "mapJ m = (if m = fmempty then None else Some (JObj (fmmap JStr m)))"

text \<open>Decoding; \<^verbatim>\<open>null\<close> leaves the zero value.\<close>

definition scalar :: "(json \<Rightarrow> 'a option) \<Rightarrow> 'a \<Rightarrow> json option \<Rightarrow> 'a option" where
  "scalar dec z jo = (case jo of None \<Rightarrow> Some z | Some j \<Rightarrow> if j = JNull then Some z else dec j)"

definition pointer :: "(json \<Rightarrow> 'a option) \<Rightarrow> json option \<Rightarrow> 'a option option" where
  "pointer dec jo = scalar (\<lambda>j. map_option Some (dec j)) None jo"

definition nested :: "(json \<Rightarrow> 'a option) \<Rightarrow> json option \<Rightarrow> 'a option" where
  "nested dec jo = (case jo of None \<Rightarrow> dec JNull | Some j \<Rightarrow> dec j)"

definition asObj :: "json \<Rightarrow> (string, json) fmap option" where
  "asObj j = (case j of JObj m \<Rightarrow> Some m | JNull \<Rightarrow> Some fmempty | _ \<Rightarrow> None)"

definition asStr :: "json \<Rightarrow> string option" where
  "asStr j = (case j of JStr s \<Rightarrow> Some s | JNull \<Rightarrow> Some [] | _ \<Rightarrow> None)"

definition asBool :: "json \<Rightarrow> bool option" where
  "asBool j = (case j of JBool b \<Rightarrow> Some b | JNull \<Rightarrow> Some False | _ \<Rightarrow> None)"

definition int32_ok :: "int \<Rightarrow> bool" where "int32_ok n \<longleftrightarrow> - (2 ^ 31) \<le> n \<and> n < 2 ^ 31"
definition int64_ok :: "int \<Rightarrow> bool" where "int64_ok n \<longleftrightarrow> - (2 ^ 63) \<le> n \<and> n < 2 ^ 63"

definition asInt32 :: "json \<Rightarrow> int option" where
  "asInt32 j = (case j of JInt n \<Rightarrow> if int32_ok n then Some n else None | JNull \<Rightarrow> Some 0 | _ \<Rightarrow> None)"

definition asInt64 :: "json \<Rightarrow> int option" where
  "asInt64 j = (case j of JInt n \<Rightarrow> if int64_ok n then Some n else None | JNull \<Rightarrow> Some 0 | _ \<Rightarrow> None)"

definition asList :: "(json \<Rightarrow> 'a option) \<Rightarrow> json \<Rightarrow> 'a list option" where
  "asList dec j = (case j of JArr js \<Rightarrow> those (map dec js) | JNull \<Rightarrow> Some [] | _ \<Rightarrow> None)"

definition asMap :: "json \<Rightarrow> strmap option" where
  "asMap j = (case j of
     JObj m \<Rightarrow> if fmpred (\<lambda>_ v. asStr v \<noteq> None) m then Some (fmmap (\<lambda>v. the (asStr v)) m) else None
   | JNull \<Rightarrow> Some fmempty
   | _ \<Rightarrow> None)"

subsection \<open>Structs of the Kubernetes packages\<close>

text \<open>
  Their encoding is a parameter. Values that the operator passes on unseen are JSON
  documents already. \<open>trips\<close>: a value is read back as it was written, and is not written as \<^verbatim>\<open>null\<close>.
\<close>

record 'a wire =
  cd_to :: "'a \<Rightarrow> json"
  cd_of :: "json \<Rightarrow> 'a option"
  cd_zero :: 'a

record kube_json =
  kj_LocalRef :: "string wire"
  kj_Quantity :: "Quantity wire"
  kj_EnvVar :: "EnvVar wire"
  kj_Container :: "Container wire"
  kj_Volume :: "Volume wire"
  kj_VolumeMount :: "VolumeMount wire"
  kj_Condition :: "Condition wire"
  kj_Time :: "time wire"
  kj_Meta :: "ObjectMeta wire"

definition trips :: "'a wire \<Rightarrow> 'a \<Rightarrow> bool" where
  "trips c x \<longleftrightarrow> cd_of c (cd_to c x) = Some x \<and> cd_to c x \<noteq> JNull"

subsection \<open>Schema defaults\<close>

definition onObject :: "((string, json) fmap \<Rightarrow> (string, json) fmap) \<Rightarrow> json \<Rightarrow> json" where
  "onObject f j = (case j of JObj m \<Rightarrow> JObj (f m) | _ \<Rightarrow> j)"

text \<open>An absent key gets the default; a default inside an object applies where the object is present.\<close>

definition defaulted :: "string \<Rightarrow> json \<Rightarrow> (string, json) fmap \<Rightarrow> (string, json) fmap" where
  "defaulted k d m = (if fmlookup m k = None then fmupd k d m else m)"

definition within :: "string \<Rightarrow> (json \<Rightarrow> json) \<Rightarrow> (string, json) fmap \<Rightarrow> (string, json) fmap" where
  "within k f m = (case fmlookup m k of None \<Rightarrow> m | Some j \<Rightarrow> fmupd k (f j) m)"

definition orElse :: "json option \<Rightarrow> json \<Rightarrow> json" where
  "orElse jo d = (case jo of None \<Rightarrow> d | Some j \<Rightarrow> j)"

subsection \<open>Facts about fields\<close>

definition firstJ :: "json option \<Rightarrow> json option \<Rightarrow> json option" where
  "firstJ a b = (case a of None \<Rightarrow> b | Some j \<Rightarrow> Some j)"

text \<open>Keeps the simplifier out of the rest of a decoder until the field before it is read.\<close>

lemma bind_weak: "x = y \<Longrightarrow> Option.bind x f = Option.bind y f"
  by simp

lemma firstJ_None [codec]: "firstJ a None = a"
  by (simp add: firstJ_def split: option.split)

lemma firstJ_Some [codec]: "firstJ (Some j) b = Some j"
  by (simp add: firstJ_def)

lemma put_lookup [codec]:
  "fmlookup (put k jo m) k' = (if k = k' then firstJ jo (fmlookup m k') else fmlookup m k')"
  by (simp add: put_def firstJ_def split: option.split)

lemma defaulted_lookup [codec]:
  "fmlookup (defaulted k d m) k' = (if k = k' then Some (orElse (fmlookup m k) d) else fmlookup m k')"
  by (auto simp: defaulted_def orElse_def split: option.split)

lemma within_lookup [codec]:
  "fmlookup (within k f m) k' = (if k = k' then map_option f (fmlookup m k) else fmlookup m k')"
  by (auto simp: within_def split: option.split)

lemma object_shape [codec]:
  "asObj (JObj m) = Some m" "onObject f (JObj m) = JObj (f m)" "nested dec (Some j) = dec j"
  by (simp_all add: asObj_def onObject_def nested_def)

lemma those_all: "list_all (\<lambda>x. dec (enc x) = Some x) xs \<Longrightarrow> those (map (dec \<circ> enc) xs) = Some xs"
  by (induction xs) simp_all

lemma plain_fields [codec]:
  "scalar asStr [] (strJ s) = Some s" "scalar asBool False (boolJ b) = Some b"
  "int32_ok n \<Longrightarrow> scalar asInt32 0 (intJ n) = Some n" "int64_ok n \<Longrightarrow> scalar asInt64 0 (intJ n) = Some n"
  "scalar asMap fmempty (mapJ m) = Some m"
  "scalar Some JNull (Some j) = Some j"
  by (auto simp: scalar_def strJ_def boolJ_def intJ_def mapJ_def asStr_def asBool_def asInt32_def asInt64_def asMap_def
      fmap.map_comp comp_def fmap.map_ident fmpred_iff)

lemma pointer_fields [codec]:
  "pointer asBool (ptrJ JBool p) = Some p" "pointer asStr (ptrJ JStr q) = Some q"
  "pred_option int32_ok n \<Longrightarrow> pointer asInt32 (ptrJ JInt n) = Some n"
  "pred_option int64_ok n \<Longrightarrow> pointer asInt64 (ptrJ JInt n) = Some n"
  "d \<noteq> Some JNull \<Longrightarrow> pointer Some (ptrJ id d) = Some d"
  by (cases p; cases q; cases n; cases d;
      simp add: pointer_def scalar_def ptrJ_def asBool_def asStr_def asInt32_def asInt64_def)+

lemma list_fields [codec]:
  "scalar (asList asStr) [] (listJ JStr xs) = Some xs" "scalar (asList Some) [] (listJ id js) = Some js"
  using those_all [of asStr JStr xs] those_all [of Some id js]
  by (simp_all add: scalar_def listJ_def asList_def asStr_def list_all_iff comp_def)

lemma trips_fields [codec]:
  "trips c x \<Longrightarrow> scalar (cd_of c) z (Some (cd_to c x)) = Some x"
  "list_all (trips c) xs \<Longrightarrow> scalar (asList (cd_of c)) [] (listJ (cd_to c) xs) = Some xs"
  "pred_option (trips c) p \<Longrightarrow> pointer (cd_of c) (ptrJ (cd_to c) p) = Some p"
proof -
  show "trips c x \<Longrightarrow> scalar (cd_of c) z (Some (cd_to c x)) = Some x" by (simp add: trips_def scalar_def)
  show "list_all (trips c) xs \<Longrightarrow> scalar (asList (cd_of c)) [] (listJ (cd_to c) xs) = Some xs"
    using those_all [of "cd_of c" "cd_to c" xs] by (simp add: scalar_def listJ_def asList_def trips_def list_all_iff)
  show "pred_option (trips c) p \<Longrightarrow> pointer (cd_of c) (ptrJ (cd_to c) p) = Some p"
    by (cases p) (simp_all add: pointer_def scalar_def ptrJ_def trips_def)
qed

lemma default_fields [codec]:
  "scalar asStr [] (Some (orElse (strJ s) (JStr d))) = Some (if s = [] then d else s)"
  "int32_ok n \<Longrightarrow> int32_ok i \<Longrightarrow> scalar asInt32 0 (Some (orElse (intJ n) (JInt i))) = Some (if n = 0 then i else n)"
  "pointer asBool (Some (orElse (ptrJ JBool p) (JBool b))) = Some (case p of None \<Rightarrow> Some b | Some v \<Rightarrow> Some v)"
  "pred_option int32_ok q \<Longrightarrow> int32_ok i \<Longrightarrow>
     pointer asInt32 (Some (orElse (ptrJ JInt q) (JInt i))) = Some (case q of None \<Rightarrow> Some i | Some v \<Rightarrow> Some v)"
proof -
  show "scalar asStr [] (Some (orElse (strJ s) (JStr d))) = Some (if s = [] then d else s)"
    by (simp add: scalar_def orElse_def strJ_def asStr_def)
  show "int32_ok n \<Longrightarrow> int32_ok i \<Longrightarrow> scalar asInt32 0 (Some (orElse (intJ n) (JInt i))) = Some (if n = 0 then i else n)"
    by (simp add: scalar_def orElse_def intJ_def asInt32_def)
  show "pointer asBool (Some (orElse (ptrJ JBool p) (JBool b))) = Some (case p of None \<Rightarrow> Some b | Some v \<Rightarrow> Some v)"
    by (cases p) (simp_all add: pointer_def scalar_def orElse_def ptrJ_def asBool_def)
  show "pred_option int32_ok q \<Longrightarrow> int32_ok i \<Longrightarrow>
     pointer asInt32 (Some (orElse (ptrJ JInt q) (JInt i))) = Some (case q of None \<Rightarrow> Some i | Some v \<Rightarrow> Some v)"
    by (cases q) (simp_all add: pointer_def scalar_def orElse_def ptrJ_def asInt32_def)
qed

lemma default_numbers [codec]: "int32_ok 1" "int32_ok 10" "int32_ok 600" "int32_ok 9090"
  by (simp_all add: int32_ok_def)

subsection \<open>ImageSpec\<close>

definition marshalImage :: "kube_json \<Rightarrow> ImageSpec \<Rightarrow> json" where
  "marshalImage J x = JObj
       (put ''repository'' (strJ (img_Repository x))
       (put ''tag'' (strJ (img_Tag x))
       (put ''digest'' (strJ (img_Digest x))
       (put ''pullPolicy'' (strJ (img_PullPolicy x))
       (put ''pullSecrets'' (listJ (cd_to (kj_LocalRef J)) (img_PullSecrets x)) fmempty)))))"

definition unmarshalImage :: "kube_json \<Rightarrow> json \<Rightarrow> ImageSpec option" where
  "unmarshalImage J j = do {
     m \<leftarrow> asObj j;
     v1 \<leftarrow> scalar asStr [] (fmlookup m ''repository'');
     v2 \<leftarrow> scalar asStr [] (fmlookup m ''tag'');
     v3 \<leftarrow> scalar asStr [] (fmlookup m ''digest'');
     v4 \<leftarrow> scalar asStr [] (fmlookup m ''pullPolicy'');
     v5 \<leftarrow> scalar (asList (cd_of (kj_LocalRef J))) [] (fmlookup m ''pullSecrets'');
     Some \<lparr>img_Repository = v1, img_Tag = v2, img_Digest = v3, img_PullPolicy = v4, img_PullSecrets =
       v5\<rparr>
   }"

definition wireImage :: "kube_json \<Rightarrow> ImageSpec \<Rightarrow> bool" where
  "wireImage J x \<longleftrightarrow>
     list_all (trips (kj_LocalRef J)) (img_PullSecrets x)"

lemma Image_roundtrip [codec]: "wireImage J x \<Longrightarrow> unmarshalImage J (marshalImage J x) = Some x"
  by (cases x) (simp add: unmarshalImage_def marshalImage_def wireImage_def codec cong: bind_weak)

subsection \<open>TlnDBConfig\<close>

definition marshalConfig :: "TlnDBConfig \<Rightarrow> json" where
  "marshalConfig x = JObj
       (put ''dbPath'' (strJ (cfg_DBPath x))
       (put ''tcp'' (strJ (cfg_TCP x))
       (put ''http'' (strJ (cfg_HTTP x))
       (put ''socket'' (strJ (cfg_Socket x))
       (put ''extraConfig'' (strJ (cfg_ExtraConfig x)) fmempty)))))"

definition unmarshalConfig :: "json \<Rightarrow> TlnDBConfig option" where
  "unmarshalConfig j = do {
     m \<leftarrow> asObj j;
     v1 \<leftarrow> scalar asStr [] (fmlookup m ''dbPath'');
     v2 \<leftarrow> scalar asStr [] (fmlookup m ''tcp'');
     v3 \<leftarrow> scalar asStr [] (fmlookup m ''http'');
     v4 \<leftarrow> scalar asStr [] (fmlookup m ''socket'');
     v5 \<leftarrow> scalar asStr [] (fmlookup m ''extraConfig'');
     Some \<lparr>cfg_DBPath = v1, cfg_TCP = v2, cfg_HTTP = v3, cfg_Socket = v4, cfg_ExtraConfig = v5\<rparr>
   }"

definition defaultConfig :: "json \<Rightarrow> json" where
  "defaultConfig = onObject (defaulted ''dbPath'' (JStr ''/data/tlndb.bbolt'') \<circ>
     defaulted ''tcp'' (JStr '':9899'') \<circ>
     defaulted ''http'' (JStr '':8080''))"

definition fillConfig :: "TlnDBConfig \<Rightarrow> TlnDBConfig" where
  "fillConfig x = x\<lparr>cfg_DBPath := (if cfg_DBPath x = [] then ''/data/tlndb.bbolt'' else cfg_DBPath x),
     cfg_TCP := (if cfg_TCP x = [] then '':9899'' else cfg_TCP x),
     cfg_HTTP := (if cfg_HTTP x = [] then '':8080'' else cfg_HTTP x)\<rparr>"

lemma Config_roundtrip [codec]: "unmarshalConfig (marshalConfig x) = Some x"
  by (cases x) (simp add: unmarshalConfig_def marshalConfig_def codec cong: bind_weak)

lemma Config_resent [codec]: "unmarshalConfig (defaultConfig (marshalConfig x)) = Some (fillConfig x)"
  by (cases x) (simp add: unmarshalConfig_def marshalConfig_def defaultConfig_def fillConfig_def codec cong: bind_weak)

subsection \<open>PersistenceSpec\<close>

definition marshalPersistence :: "kube_json \<Rightarrow> PersistenceSpec \<Rightarrow> json" where
  "marshalPersistence J x = JObj
       (put ''enabled'' (ptrJ JBool (per_Enabled x))
       (put ''size'' (Some (cd_to (kj_Quantity J) (per_Size x)))
       (put ''storageClassName'' (ptrJ JStr (per_StorageClassName x))
       (put ''accessModes'' (listJ JStr (per_AccessModes x))
       (put ''existingClaim'' (strJ (per_ExistingClaim x)) fmempty)))))"

definition unmarshalPersistence :: "kube_json \<Rightarrow> json \<Rightarrow> PersistenceSpec option" where
  "unmarshalPersistence J j = do {
     m \<leftarrow> asObj j;
     v1 \<leftarrow> pointer asBool (fmlookup m ''enabled'');
     v2 \<leftarrow> scalar (cd_of (kj_Quantity J)) (cd_zero (kj_Quantity J)) (fmlookup m ''size'');
     v3 \<leftarrow> pointer asStr (fmlookup m ''storageClassName'');
     v4 \<leftarrow> scalar (asList asStr) [] (fmlookup m ''accessModes'');
     v5 \<leftarrow> scalar asStr [] (fmlookup m ''existingClaim'');
     Some \<lparr>per_Enabled = v1, per_Size = v2, per_StorageClassName = v3, per_AccessModes = v4,
       per_ExistingClaim = v5\<rparr>
   }"

definition defaultPersistence :: "json \<Rightarrow> json" where
  "defaultPersistence = onObject (defaulted ''enabled'' (JBool True))"

definition fillPersistence :: "PersistenceSpec \<Rightarrow> PersistenceSpec" where
  "fillPersistence x = x\<lparr>per_Enabled := (case per_Enabled x of None \<Rightarrow> Some True | Some v \<Rightarrow> Some v)\<rparr>"

definition wirePersistence :: "kube_json \<Rightarrow> PersistenceSpec \<Rightarrow> bool" where
  "wirePersistence J x \<longleftrightarrow>
     trips (kj_Quantity J) (per_Size x)"

lemma Persistence_roundtrip [codec]: "wirePersistence J x \<Longrightarrow> unmarshalPersistence J (marshalPersistence J x) = Some x"
  by (cases x) (simp add: unmarshalPersistence_def marshalPersistence_def wirePersistence_def codec cong: bind_weak)

lemma Persistence_resent [codec]: "wirePersistence J x \<Longrightarrow> unmarshalPersistence J (defaultPersistence (marshalPersistence J x)) = Some (fillPersistence x)"
  by (cases x) (simp add: unmarshalPersistence_def marshalPersistence_def wirePersistence_def defaultPersistence_def fillPersistence_def codec cong: bind_weak)

subsection \<open>StorageSpec\<close>

definition marshalStorage :: "kube_json \<Rightarrow> StorageSpec \<Rightarrow> json" where
  "marshalStorage J x = JObj
       (put ''persistence'' (Some (marshalPersistence J (sto_Persistence x))) fmempty)"

definition unmarshalStorage :: "kube_json \<Rightarrow> json \<Rightarrow> StorageSpec option" where
  "unmarshalStorage J j = do {
     m \<leftarrow> asObj j;
     v1 \<leftarrow> nested (unmarshalPersistence J) (fmlookup m ''persistence'');
     Some \<lparr>sto_Persistence = v1\<rparr>
   }"

definition defaultStorage :: "json \<Rightarrow> json" where
  "defaultStorage = onObject (within ''persistence'' defaultPersistence)"

definition fillStorage :: "StorageSpec \<Rightarrow> StorageSpec" where
  "fillStorage x = x\<lparr>sto_Persistence := fillPersistence (sto_Persistence x)\<rparr>"

definition wireStorage :: "kube_json \<Rightarrow> StorageSpec \<Rightarrow> bool" where
  "wireStorage J x \<longleftrightarrow>
     wirePersistence J (sto_Persistence x)"

lemma Storage_roundtrip [codec]: "wireStorage J x \<Longrightarrow> unmarshalStorage J (marshalStorage J x) = Some x"
  by (cases x) (simp add: unmarshalStorage_def marshalStorage_def wireStorage_def codec cong: bind_weak)

lemma Storage_resent [codec]: "wireStorage J x \<Longrightarrow> unmarshalStorage J (defaultStorage (marshalStorage J x)) = Some (fillStorage x)"
  by (cases x) (simp add: unmarshalStorage_def marshalStorage_def wireStorage_def defaultStorage_def fillStorage_def codec cong: bind_weak)

subsection \<open>ReplicationSpec\<close>

definition marshalReplication :: "ReplicationSpec \<Rightarrow> json" where
  "marshalReplication x = JObj
       (put ''readReplicas'' (intJ (rep_ReadReplicas x))
       (put ''oplogRetention'' (intJ (rep_OplogRetention x)) fmempty))"

definition unmarshalReplication :: "json \<Rightarrow> ReplicationSpec option" where
  "unmarshalReplication j = do {
     m \<leftarrow> asObj j;
     v1 \<leftarrow> scalar asInt32 0 (fmlookup m ''readReplicas'');
     v2 \<leftarrow> scalar asInt64 0 (fmlookup m ''oplogRetention'');
     Some \<lparr>rep_ReadReplicas = v1, rep_OplogRetention = v2\<rparr>
   }"

definition defaultReplication :: "json \<Rightarrow> json" where
  "defaultReplication = onObject (defaulted ''readReplicas'' (JInt 1))"

definition fillReplication :: "ReplicationSpec \<Rightarrow> ReplicationSpec" where
  "fillReplication x = x\<lparr>rep_ReadReplicas := (if rep_ReadReplicas x = 0 then 1 else rep_ReadReplicas x)\<rparr>"

definition wireReplication :: "ReplicationSpec \<Rightarrow> bool" where
  "wireReplication x \<longleftrightarrow>
     int32_ok (rep_ReadReplicas x) \<and>
     int64_ok (rep_OplogRetention x)"

lemma Replication_roundtrip [codec]: "wireReplication x \<Longrightarrow> unmarshalReplication (marshalReplication x) = Some x"
  by (cases x) (simp add: unmarshalReplication_def marshalReplication_def wireReplication_def codec cong: bind_weak)

lemma Replication_resent [codec]: "wireReplication x \<Longrightarrow> unmarshalReplication (defaultReplication (marshalReplication x)) = Some (fillReplication x)"
  by (cases x) (simp add: unmarshalReplication_def marshalReplication_def wireReplication_def defaultReplication_def fillReplication_def codec cong: bind_weak)

subsection \<open>ServiceSpec\<close>

definition marshalService :: "ServiceSpec \<Rightarrow> json" where
  "marshalService x = JObj
       (put ''type'' (strJ (ssp_Type x))
       (put ''annotations'' (mapJ (ssp_Annotations x))
       (put ''labels'' (mapJ (ssp_Labels x)) fmempty)))"

definition unmarshalService :: "json \<Rightarrow> ServiceSpec option" where
  "unmarshalService j = do {
     m \<leftarrow> asObj j;
     v1 \<leftarrow> scalar asStr [] (fmlookup m ''type'');
     v2 \<leftarrow> scalar asMap fmempty (fmlookup m ''annotations'');
     v3 \<leftarrow> scalar asMap fmempty (fmlookup m ''labels'');
     Some \<lparr>ssp_Type = v1, ssp_Annotations = v2, ssp_Labels = v3\<rparr>
   }"

lemma Service_roundtrip [codec]: "unmarshalService (marshalService x) = Some x"
  by (cases x) (simp add: unmarshalService_def marshalService_def codec cong: bind_weak)

subsection \<open>IngressSpec\<close>

definition marshalIngress :: "IngressSpec \<Rightarrow> json" where
  "marshalIngress x = JObj
       (put ''enabled'' (boolJ (isp_Enabled x))
       (put ''className'' (ptrJ JStr (isp_ClassName x))
       (put ''host'' (strJ (isp_Host x))
       (put ''path'' (strJ (isp_Path x))
       (put ''tlsSecretName'' (strJ (isp_TLSSecretName x))
       (put ''annotations'' (mapJ (isp_Annotations x)) fmempty))))))"

definition unmarshalIngress :: "json \<Rightarrow> IngressSpec option" where
  "unmarshalIngress j = do {
     m \<leftarrow> asObj j;
     v1 \<leftarrow> scalar asBool False (fmlookup m ''enabled'');
     v2 \<leftarrow> pointer asStr (fmlookup m ''className'');
     v3 \<leftarrow> scalar asStr [] (fmlookup m ''host'');
     v4 \<leftarrow> scalar asStr [] (fmlookup m ''path'');
     v5 \<leftarrow> scalar asStr [] (fmlookup m ''tlsSecretName'');
     v6 \<leftarrow> scalar asMap fmempty (fmlookup m ''annotations'');
     Some \<lparr>isp_Enabled = v1, isp_ClassName = v2, isp_Host = v3, isp_Path = v4, isp_TLSSecretName = v5,
       isp_Annotations = v6\<rparr>
   }"

definition defaultIngress :: "json \<Rightarrow> json" where
  "defaultIngress = onObject (defaulted ''path'' (JStr ''/''))"

definition fillIngress :: "IngressSpec \<Rightarrow> IngressSpec" where
  "fillIngress x = x\<lparr>isp_Path := (if isp_Path x = [] then ''/'' else isp_Path x)\<rparr>"

lemma Ingress_roundtrip [codec]: "unmarshalIngress (marshalIngress x) = Some x"
  by (cases x) (simp add: unmarshalIngress_def marshalIngress_def codec cong: bind_weak)

lemma Ingress_resent [codec]: "unmarshalIngress (defaultIngress (marshalIngress x)) = Some (fillIngress x)"
  by (cases x) (simp add: unmarshalIngress_def marshalIngress_def defaultIngress_def fillIngress_def codec cong: bind_weak)

subsection \<open>NetworkPolicySpec\<close>

definition marshalNetworkPolicy :: "NetworkPolicySpec \<Rightarrow> json" where
  "marshalNetworkPolicy x = JObj
       (put ''enabled'' (boolJ (nsp_Enabled x))
       (put ''ingressRules'' (listJ id (nsp_IngressRules x))
       (put ''egressRules'' (listJ id (nsp_EgressRules x)) fmempty)))"

definition unmarshalNetworkPolicy :: "json \<Rightarrow> NetworkPolicySpec option" where
  "unmarshalNetworkPolicy j = do {
     m \<leftarrow> asObj j;
     v1 \<leftarrow> scalar asBool False (fmlookup m ''enabled'');
     v2 \<leftarrow> scalar (asList Some) [] (fmlookup m ''ingressRules'');
     v3 \<leftarrow> scalar (asList Some) [] (fmlookup m ''egressRules'');
     Some \<lparr>nsp_Enabled = v1, nsp_IngressRules = v2, nsp_EgressRules = v3\<rparr>
   }"

lemma NetworkPolicy_roundtrip [codec]: "unmarshalNetworkPolicy (marshalNetworkPolicy x) = Some x"
  by (cases x) (simp add: unmarshalNetworkPolicy_def marshalNetworkPolicy_def codec cong: bind_weak)

subsection \<open>NetworkingSpec\<close>

definition marshalNetworking :: "NetworkingSpec \<Rightarrow> json" where
  "marshalNetworking x = JObj
       (put ''service'' (Some (marshalService (net_Service x)))
       (put ''ingress'' (Some (marshalIngress (net_Ingress x)))
       (put ''networkPolicy'' (Some (marshalNetworkPolicy (net_NetworkPolicy x))) fmempty)))"

definition unmarshalNetworking :: "json \<Rightarrow> NetworkingSpec option" where
  "unmarshalNetworking j = do {
     m \<leftarrow> asObj j;
     v1 \<leftarrow> nested unmarshalService (fmlookup m ''service'');
     v2 \<leftarrow> nested unmarshalIngress (fmlookup m ''ingress'');
     v3 \<leftarrow> nested unmarshalNetworkPolicy (fmlookup m ''networkPolicy'');
     Some \<lparr>net_Service = v1, net_Ingress = v2, net_NetworkPolicy = v3\<rparr>
   }"

definition defaultNetworking :: "json \<Rightarrow> json" where
  "defaultNetworking = onObject (within ''ingress'' defaultIngress)"

definition fillNetworking :: "NetworkingSpec \<Rightarrow> NetworkingSpec" where
  "fillNetworking x = x\<lparr>net_Ingress := fillIngress (net_Ingress x)\<rparr>"

lemma Networking_roundtrip [codec]: "unmarshalNetworking (marshalNetworking x) = Some x"
  by (cases x) (simp add: unmarshalNetworking_def marshalNetworking_def codec cong: bind_weak)

lemma Networking_resent [codec]: "unmarshalNetworking (defaultNetworking (marshalNetworking x)) = Some (fillNetworking x)"
  by (cases x) (simp add: unmarshalNetworking_def marshalNetworking_def defaultNetworking_def fillNetworking_def codec cong: bind_weak)

subsection \<open>ServiceMonitorSpec\<close>

definition marshalServiceMonitor :: "ServiceMonitorSpec \<Rightarrow> json" where
  "marshalServiceMonitor x = JObj
       (put ''enabled'' (boolJ (sms_Enabled x))
       (put ''interval'' (strJ (sms_Interval x))
       (put ''labels'' (mapJ (sms_Labels x)) fmempty)))"

definition unmarshalServiceMonitor :: "json \<Rightarrow> ServiceMonitorSpec option" where
  "unmarshalServiceMonitor j = do {
     m \<leftarrow> asObj j;
     v1 \<leftarrow> scalar asBool False (fmlookup m ''enabled'');
     v2 \<leftarrow> scalar asStr [] (fmlookup m ''interval'');
     v3 \<leftarrow> scalar asMap fmempty (fmlookup m ''labels'');
     Some \<lparr>sms_Enabled = v1, sms_Interval = v2, sms_Labels = v3\<rparr>
   }"

lemma ServiceMonitor_roundtrip [codec]: "unmarshalServiceMonitor (marshalServiceMonitor x) = Some x"
  by (cases x) (simp add: unmarshalServiceMonitor_def marshalServiceMonitor_def codec cong: bind_weak)

subsection \<open>MetricsSpec\<close>

definition marshalMetrics :: "MetricsSpec \<Rightarrow> json" where
  "marshalMetrics x = JObj
       (put ''enabled'' (ptrJ JBool (met_Enabled x))
       (put ''port'' (intJ (met_Port x))
       (put ''path'' (strJ (met_Path x))
       (put ''serviceMonitor'' (Some (marshalServiceMonitor (met_ServiceMonitor x))) fmempty))))"

definition unmarshalMetrics :: "json \<Rightarrow> MetricsSpec option" where
  "unmarshalMetrics j = do {
     m \<leftarrow> asObj j;
     v1 \<leftarrow> pointer asBool (fmlookup m ''enabled'');
     v2 \<leftarrow> scalar asInt32 0 (fmlookup m ''port'');
     v3 \<leftarrow> scalar asStr [] (fmlookup m ''path'');
     v4 \<leftarrow> nested unmarshalServiceMonitor (fmlookup m ''serviceMonitor'');
     Some \<lparr>met_Enabled = v1, met_Port = v2, met_Path = v3, met_ServiceMonitor = v4\<rparr>
   }"

definition defaultMetrics :: "json \<Rightarrow> json" where
  "defaultMetrics = onObject (defaulted ''enabled'' (JBool True) \<circ>
     defaulted ''port'' (JInt 9090) \<circ>
     defaulted ''path'' (JStr ''/metrics''))"

definition fillMetrics :: "MetricsSpec \<Rightarrow> MetricsSpec" where
  "fillMetrics x = x\<lparr>met_Enabled := (case met_Enabled x of None \<Rightarrow> Some True | Some v \<Rightarrow> Some v),
     met_Port := (if met_Port x = 0 then 9090 else met_Port x),
     met_Path := (if met_Path x = [] then ''/metrics'' else met_Path x)\<rparr>"

definition wireMetrics :: "MetricsSpec \<Rightarrow> bool" where
  "wireMetrics x \<longleftrightarrow>
     int32_ok (met_Port x)"

lemma Metrics_roundtrip [codec]: "wireMetrics x \<Longrightarrow> unmarshalMetrics (marshalMetrics x) = Some x"
  by (cases x) (simp add: unmarshalMetrics_def marshalMetrics_def wireMetrics_def codec cong: bind_weak)

lemma Metrics_resent [codec]: "wireMetrics x \<Longrightarrow> unmarshalMetrics (defaultMetrics (marshalMetrics x)) = Some (fillMetrics x)"
  by (cases x) (simp add: unmarshalMetrics_def marshalMetrics_def wireMetrics_def defaultMetrics_def fillMetrics_def codec cong: bind_weak)

subsection \<open>HealthSpec\<close>

definition marshalHealth :: "HealthSpec \<Rightarrow> json" where
  "marshalHealth x = JObj
       (put ''initialDelaySeconds'' (intJ (hlt_InitialDelaySeconds x))
       (put ''startupTimeoutSeconds'' (intJ (hlt_StartupTimeoutSeconds x)) fmempty))"

definition unmarshalHealth :: "json \<Rightarrow> HealthSpec option" where
  "unmarshalHealth j = do {
     m \<leftarrow> asObj j;
     v1 \<leftarrow> scalar asInt32 0 (fmlookup m ''initialDelaySeconds'');
     v2 \<leftarrow> scalar asInt32 0 (fmlookup m ''startupTimeoutSeconds'');
     Some \<lparr>hlt_InitialDelaySeconds = v1, hlt_StartupTimeoutSeconds = v2\<rparr>
   }"

definition defaultHealth :: "json \<Rightarrow> json" where
  "defaultHealth = onObject (defaulted ''initialDelaySeconds'' (JInt 10) \<circ>
     defaulted ''startupTimeoutSeconds'' (JInt 600))"

definition fillHealth :: "HealthSpec \<Rightarrow> HealthSpec" where
  "fillHealth x = x\<lparr>hlt_InitialDelaySeconds := (if hlt_InitialDelaySeconds x = 0 then 10 else hlt_InitialDelaySeconds x),
     hlt_StartupTimeoutSeconds := (if hlt_StartupTimeoutSeconds x = 0 then 600 else hlt_StartupTimeoutSeconds x)\<rparr>"

definition wireHealth :: "HealthSpec \<Rightarrow> bool" where
  "wireHealth x \<longleftrightarrow>
     int32_ok (hlt_InitialDelaySeconds x) \<and>
     int32_ok (hlt_StartupTimeoutSeconds x)"

lemma Health_roundtrip [codec]: "wireHealth x \<Longrightarrow> unmarshalHealth (marshalHealth x) = Some x"
  by (cases x) (simp add: unmarshalHealth_def marshalHealth_def wireHealth_def codec cong: bind_weak)

lemma Health_resent [codec]: "wireHealth x \<Longrightarrow> unmarshalHealth (defaultHealth (marshalHealth x)) = Some (fillHealth x)"
  by (cases x) (simp add: unmarshalHealth_def marshalHealth_def wireHealth_def defaultHealth_def fillHealth_def codec cong: bind_weak)

subsection \<open>ObservabilitySpec\<close>

definition marshalObservability :: "ObservabilitySpec \<Rightarrow> json" where
  "marshalObservability x = JObj
       (put ''metrics'' (Some (marshalMetrics (obs_Metrics x)))
       (put ''health'' (Some (marshalHealth (obs_Health x))) fmempty))"

definition unmarshalObservability :: "json \<Rightarrow> ObservabilitySpec option" where
  "unmarshalObservability j = do {
     m \<leftarrow> asObj j;
     v1 \<leftarrow> nested unmarshalMetrics (fmlookup m ''metrics'');
     v2 \<leftarrow> nested unmarshalHealth (fmlookup m ''health'');
     Some \<lparr>obs_Metrics = v1, obs_Health = v2\<rparr>
   }"

definition defaultObservability :: "json \<Rightarrow> json" where
  "defaultObservability = onObject (within ''metrics'' defaultMetrics \<circ>
     within ''health'' defaultHealth)"

definition fillObservability :: "ObservabilitySpec \<Rightarrow> ObservabilitySpec" where
  "fillObservability x = x\<lparr>obs_Metrics := fillMetrics (obs_Metrics x),
     obs_Health := fillHealth (obs_Health x)\<rparr>"

definition wireObservability :: "ObservabilitySpec \<Rightarrow> bool" where
  "wireObservability x \<longleftrightarrow>
     wireMetrics (obs_Metrics x) \<and>
     wireHealth (obs_Health x)"

lemma Observability_roundtrip [codec]: "wireObservability x \<Longrightarrow> unmarshalObservability (marshalObservability x) = Some x"
  by (cases x) (simp add: unmarshalObservability_def marshalObservability_def wireObservability_def codec cong: bind_weak)

lemma Observability_resent [codec]: "wireObservability x \<Longrightarrow> unmarshalObservability (defaultObservability (marshalObservability x)) = Some (fillObservability x)"
  by (cases x) (simp add: unmarshalObservability_def marshalObservability_def wireObservability_def defaultObservability_def fillObservability_def codec cong: bind_weak)

subsection \<open>PDBSpec\<close>

definition marshalPDB :: "PDBSpec \<Rightarrow> json" where
  "marshalPDB x = JObj
       (put ''enabled'' (boolJ (pds_Enabled x))
       (put ''minAvailable'' (ptrJ JInt (pds_MinAvailable x))
       (put ''maxUnavailable'' (ptrJ JInt (pds_MaxUnavailable x)) fmempty)))"

definition unmarshalPDB :: "json \<Rightarrow> PDBSpec option" where
  "unmarshalPDB j = do {
     m \<leftarrow> asObj j;
     v1 \<leftarrow> scalar asBool False (fmlookup m ''enabled'');
     v2 \<leftarrow> pointer asInt32 (fmlookup m ''minAvailable'');
     v3 \<leftarrow> pointer asInt32 (fmlookup m ''maxUnavailable'');
     Some \<lparr>pds_Enabled = v1, pds_MinAvailable = v2, pds_MaxUnavailable = v3\<rparr>
   }"

definition wirePDB :: "PDBSpec \<Rightarrow> bool" where
  "wirePDB x \<longleftrightarrow>
     pred_option int32_ok (pds_MinAvailable x) \<and>
     pred_option int32_ok (pds_MaxUnavailable x)"

lemma PDB_roundtrip [codec]: "wirePDB x \<Longrightarrow> unmarshalPDB (marshalPDB x) = Some x"
  by (cases x) (simp add: unmarshalPDB_def marshalPDB_def wirePDB_def codec cong: bind_weak)

subsection \<open>HPASpec\<close>

definition marshalHPA :: "HPASpec \<Rightarrow> json" where
  "marshalHPA x = JObj
       (put ''enabled'' (boolJ (hps_Enabled x))
       (put ''minReplicas'' (ptrJ JInt (hps_MinReplicas x))
       (put ''maxReplicas'' (intJ (hps_MaxReplicas x))
       (put ''cpuUtilization'' (ptrJ JInt (hps_CPUUtilization x))
       (put ''memoryUtilization'' (ptrJ JInt (hps_MemoryUtilization x)) fmempty)))))"

definition unmarshalHPA :: "json \<Rightarrow> HPASpec option" where
  "unmarshalHPA j = do {
     m \<leftarrow> asObj j;
     v1 \<leftarrow> scalar asBool False (fmlookup m ''enabled'');
     v2 \<leftarrow> pointer asInt32 (fmlookup m ''minReplicas'');
     v3 \<leftarrow> scalar asInt32 0 (fmlookup m ''maxReplicas'');
     v4 \<leftarrow> pointer asInt32 (fmlookup m ''cpuUtilization'');
     v5 \<leftarrow> pointer asInt32 (fmlookup m ''memoryUtilization'');
     Some \<lparr>hps_Enabled = v1, hps_MinReplicas = v2, hps_MaxReplicas = v3, hps_CPUUtilization = v4,
       hps_MemoryUtilization = v5\<rparr>
   }"

definition wireHPA :: "HPASpec \<Rightarrow> bool" where
  "wireHPA x \<longleftrightarrow>
     pred_option int32_ok (hps_MinReplicas x) \<and>
     int32_ok (hps_MaxReplicas x) \<and>
     pred_option int32_ok (hps_CPUUtilization x) \<and>
     pred_option int32_ok (hps_MemoryUtilization x)"

lemma HPA_roundtrip [codec]: "wireHPA x \<Longrightarrow> unmarshalHPA (marshalHPA x) = Some x"
  by (cases x) (simp add: unmarshalHPA_def marshalHPA_def wireHPA_def codec cong: bind_weak)

subsection \<open>AvailabilitySpec\<close>

definition marshalAvailability :: "AvailabilitySpec \<Rightarrow> json" where
  "marshalAvailability x = JObj
       (put ''podDisruptionBudget'' (Some (marshalPDB (av_PodDisruptionBudget x)))
       (put ''horizontalPodAutoscaler'' (Some (marshalHPA (av_HorizontalPodAutoscaler x))) fmempty))"

definition unmarshalAvailability :: "json \<Rightarrow> AvailabilitySpec option" where
  "unmarshalAvailability j = do {
     m \<leftarrow> asObj j;
     v1 \<leftarrow> nested unmarshalPDB (fmlookup m ''podDisruptionBudget'');
     v2 \<leftarrow> nested unmarshalHPA (fmlookup m ''horizontalPodAutoscaler'');
     Some \<lparr>av_PodDisruptionBudget = v1, av_HorizontalPodAutoscaler = v2\<rparr>
   }"

definition wireAvailability :: "AvailabilitySpec \<Rightarrow> bool" where
  "wireAvailability x \<longleftrightarrow>
     wirePDB (av_PodDisruptionBudget x) \<and>
     wireHPA (av_HorizontalPodAutoscaler x)"

lemma Availability_roundtrip [codec]: "wireAvailability x \<Longrightarrow> unmarshalAvailability (marshalAvailability x) = Some x"
  by (cases x) (simp add: unmarshalAvailability_def marshalAvailability_def wireAvailability_def codec cong: bind_weak)

subsection \<open>SecuritySpec\<close>

definition marshalSecurity :: "SecuritySpec \<Rightarrow> json" where
  "marshalSecurity x = JObj
       (put ''podSecurityContext'' (ptrJ id (sec_PodSecurityContext x))
       (put ''containerSecurityContext'' (ptrJ id (sec_ContainerSecurityContext x))
       (put ''fsGroup'' (ptrJ JInt (sec_FSGroup x)) fmempty)))"

definition unmarshalSecurity :: "json \<Rightarrow> SecuritySpec option" where
  "unmarshalSecurity j = do {
     m \<leftarrow> asObj j;
     v1 \<leftarrow> pointer Some (fmlookup m ''podSecurityContext'');
     v2 \<leftarrow> pointer Some (fmlookup m ''containerSecurityContext'');
     v3 \<leftarrow> pointer asInt64 (fmlookup m ''fsGroup'');
     Some \<lparr>sec_PodSecurityContext = v1, sec_ContainerSecurityContext = v2, sec_FSGroup = v3\<rparr>
   }"

definition wireSecurity :: "SecuritySpec \<Rightarrow> bool" where
  "wireSecurity x \<longleftrightarrow>
     sec_PodSecurityContext x \<noteq> Some JNull \<and>
     sec_ContainerSecurityContext x \<noteq> Some JNull \<and>
     pred_option int64_ok (sec_FSGroup x)"

lemma Security_roundtrip [codec]: "wireSecurity x \<Longrightarrow> unmarshalSecurity (marshalSecurity x) = Some x"
  by (cases x) (simp add: unmarshalSecurity_def marshalSecurity_def wireSecurity_def codec cong: bind_weak)

subsection \<open>TlnDBSpec\<close>

definition marshalSpec :: "kube_json \<Rightarrow> TlnDBSpec \<Rightarrow> json" where
  "marshalSpec J x = JObj
       (put ''mode'' (strJ (spec_Mode x))
       (put ''replication'' (Some (marshalReplication (spec_Replication x)))
       (put ''image'' (Some (marshalImage J (spec_Image x)))
       (put ''replicas'' (ptrJ JInt (spec_Replicas x))
       (put ''config'' (Some (marshalConfig (spec_Config x)))
       (put ''configFrom'' (ptrJ (cd_to (kj_LocalRef J)) (spec_ConfigFrom x))
       (put ''env'' (listJ (cd_to (kj_EnvVar J)) (spec_Env x))
       (put ''envFrom'' (listJ id (spec_EnvFrom x))
       (put ''resources'' (Some (spec_Resources x))
       (put ''storage'' (Some (marshalStorage J (spec_Storage x)))
       (put ''networking'' (Some (marshalNetworking (spec_Networking x)))
       (put ''security'' (Some (marshalSecurity (spec_Security x)))
       (put ''observability'' (Some (marshalObservability (spec_Observability x)))
       (put ''availability'' (Some (marshalAvailability (spec_Availability x)))
       (put ''nodeSelector'' (mapJ (spec_NodeSelector x))
       (put ''tolerations'' (listJ id (spec_Tolerations x))
       (put ''affinity'' (ptrJ id (spec_Affinity x))
       (put ''podAnnotations'' (mapJ (spec_PodAnnotations x))
       (put ''serviceAccountName'' (strJ (spec_ServiceAccountName x))
       (put ''initContainers'' (listJ (cd_to (kj_Container J)) (spec_InitContainers x))
       (put ''additionalContainers'' (listJ (cd_to (kj_Container J)) (spec_AdditionalContainers x))
       (put ''additionalVolumes'' (listJ (cd_to (kj_Volume J)) (spec_AdditionalVolumes x))
       (put ''additionalVolumeMounts'' (listJ (cd_to (kj_VolumeMount J)) (spec_AdditionalVolumeMounts x)) fmempty)))))))))))))))))))))))"

definition unmarshalSpec :: "kube_json \<Rightarrow> json \<Rightarrow> TlnDBSpec option" where
  "unmarshalSpec J j = do {
     m \<leftarrow> asObj j;
     v1 \<leftarrow> scalar asStr [] (fmlookup m ''mode'');
     v2 \<leftarrow> nested unmarshalReplication (fmlookup m ''replication'');
     v3 \<leftarrow> nested (unmarshalImage J) (fmlookup m ''image'');
     v4 \<leftarrow> pointer asInt32 (fmlookup m ''replicas'');
     v5 \<leftarrow> nested unmarshalConfig (fmlookup m ''config'');
     v6 \<leftarrow> pointer (cd_of (kj_LocalRef J)) (fmlookup m ''configFrom'');
     v7 \<leftarrow> scalar (asList (cd_of (kj_EnvVar J))) [] (fmlookup m ''env'');
     v8 \<leftarrow> scalar (asList Some) [] (fmlookup m ''envFrom'');
     v9 \<leftarrow> scalar Some JNull (fmlookup m ''resources'');
     v10 \<leftarrow> nested (unmarshalStorage J) (fmlookup m ''storage'');
     v11 \<leftarrow> nested unmarshalNetworking (fmlookup m ''networking'');
     v12 \<leftarrow> nested unmarshalSecurity (fmlookup m ''security'');
     v13 \<leftarrow> nested unmarshalObservability (fmlookup m ''observability'');
     v14 \<leftarrow> nested unmarshalAvailability (fmlookup m ''availability'');
     v15 \<leftarrow> scalar asMap fmempty (fmlookup m ''nodeSelector'');
     v16 \<leftarrow> scalar (asList Some) [] (fmlookup m ''tolerations'');
     v17 \<leftarrow> pointer Some (fmlookup m ''affinity'');
     v18 \<leftarrow> scalar asMap fmempty (fmlookup m ''podAnnotations'');
     v19 \<leftarrow> scalar asStr [] (fmlookup m ''serviceAccountName'');
     v20 \<leftarrow> scalar (asList (cd_of (kj_Container J))) [] (fmlookup m ''initContainers'');
     v21 \<leftarrow> scalar (asList (cd_of (kj_Container J))) [] (fmlookup m ''additionalContainers'');
     v22 \<leftarrow> scalar (asList (cd_of (kj_Volume J))) [] (fmlookup m ''additionalVolumes'');
     v23 \<leftarrow> scalar (asList (cd_of (kj_VolumeMount J))) [] (fmlookup m ''additionalVolumeMounts'');
     Some \<lparr>spec_Mode = v1, spec_Replication = v2, spec_Image = v3, spec_Replicas = v4, spec_Config = v5,
       spec_ConfigFrom = v6, spec_Env = v7, spec_EnvFrom = v8, spec_Resources = v9, spec_Storage = v10,
       spec_Networking = v11, spec_Security = v12, spec_Observability = v13, spec_Availability = v14,
       spec_NodeSelector = v15, spec_Tolerations = v16, spec_Affinity = v17, spec_PodAnnotations = v18,
       spec_ServiceAccountName = v19, spec_InitContainers = v20, spec_AdditionalContainers = v21,
       spec_AdditionalVolumes = v22, spec_AdditionalVolumeMounts = v23\<rparr>
   }"

definition defaultSpec :: "json \<Rightarrow> json" where
  "defaultSpec = onObject (defaulted ''mode'' (JStr ''standalone'') \<circ>
     within ''replication'' defaultReplication \<circ>
     defaulted ''replicas'' (JInt 1) \<circ>
     within ''config'' defaultConfig \<circ>
     within ''storage'' defaultStorage \<circ>
     within ''networking'' defaultNetworking \<circ>
     within ''observability'' defaultObservability)"

definition fillSpec :: "TlnDBSpec \<Rightarrow> TlnDBSpec" where
  "fillSpec x = x\<lparr>spec_Mode := (if spec_Mode x = [] then ''standalone'' else spec_Mode x),
     spec_Replication := fillReplication (spec_Replication x),
     spec_Replicas := (case spec_Replicas x of None \<Rightarrow> Some 1 | Some v \<Rightarrow> Some v),
     spec_Config := fillConfig (spec_Config x),
     spec_Storage := fillStorage (spec_Storage x),
     spec_Networking := fillNetworking (spec_Networking x),
     spec_Observability := fillObservability (spec_Observability x)\<rparr>"

definition wireSpec :: "kube_json \<Rightarrow> TlnDBSpec \<Rightarrow> bool" where
  "wireSpec J x \<longleftrightarrow>
     wireReplication (spec_Replication x) \<and>
     wireImage J (spec_Image x) \<and>
     pred_option int32_ok (spec_Replicas x) \<and>
     pred_option (trips (kj_LocalRef J)) (spec_ConfigFrom x) \<and>
     list_all (trips (kj_EnvVar J)) (spec_Env x) \<and>
     wireStorage J (spec_Storage x) \<and>
     wireSecurity (spec_Security x) \<and>
     wireObservability (spec_Observability x) \<and>
     wireAvailability (spec_Availability x) \<and>
     spec_Affinity x \<noteq> Some JNull \<and>
     list_all (trips (kj_Container J)) (spec_InitContainers x) \<and>
     list_all (trips (kj_Container J)) (spec_AdditionalContainers x) \<and>
     list_all (trips (kj_Volume J)) (spec_AdditionalVolumes x) \<and>
     list_all (trips (kj_VolumeMount J)) (spec_AdditionalVolumeMounts x)"

lemma Spec_roundtrip [codec]: "wireSpec J x \<Longrightarrow> unmarshalSpec J (marshalSpec J x) = Some x"
  by (cases x) (simp add: unmarshalSpec_def marshalSpec_def wireSpec_def codec cong: bind_weak)

lemma Spec_resent [codec]: "wireSpec J x \<Longrightarrow> unmarshalSpec J (defaultSpec (marshalSpec J x)) = Some (fillSpec x)"
  by (cases x) (simp add: unmarshalSpec_def marshalSpec_def wireSpec_def defaultSpec_def fillSpec_def codec cong: bind_weak)

subsection \<open>TlnDBStatus\<close>

definition marshalStatus :: "kube_json \<Rightarrow> TlnDBStatus \<Rightarrow> json" where
  "marshalStatus J x = JObj
       (put ''phase'' (strJ (sta_Phase x))
       (put ''conditions'' (listJ (cd_to (kj_Condition J)) (sta_Conditions x))
       (put ''observedGeneration'' (intJ (sta_ObservedGeneration x))
       (put ''readyReplicas'' (intJ (sta_ReadyReplicas x))
       (put ''currentImage'' (strJ (sta_CurrentImage x))
       (put ''managedResources'' (listJ JStr (sta_ManagedResources x))
       (put ''lastUpdateTime'' (ptrJ (cd_to (kj_Time J)) (sta_LastUpdateTime x)) fmempty)))))))"

definition unmarshalStatus :: "kube_json \<Rightarrow> json \<Rightarrow> TlnDBStatus option" where
  "unmarshalStatus J j = do {
     m \<leftarrow> asObj j;
     v1 \<leftarrow> scalar asStr [] (fmlookup m ''phase'');
     v2 \<leftarrow> scalar (asList (cd_of (kj_Condition J))) [] (fmlookup m ''conditions'');
     v3 \<leftarrow> scalar asInt64 0 (fmlookup m ''observedGeneration'');
     v4 \<leftarrow> scalar asInt32 0 (fmlookup m ''readyReplicas'');
     v5 \<leftarrow> scalar asStr [] (fmlookup m ''currentImage'');
     v6 \<leftarrow> scalar (asList asStr) [] (fmlookup m ''managedResources'');
     v7 \<leftarrow> pointer (cd_of (kj_Time J)) (fmlookup m ''lastUpdateTime'');
     Some \<lparr>sta_Phase = v1, sta_Conditions = v2, sta_ObservedGeneration = v3, sta_ReadyReplicas = v4,
       sta_CurrentImage = v5, sta_ManagedResources = v6, sta_LastUpdateTime = v7\<rparr>
   }"

definition wireStatus :: "kube_json \<Rightarrow> TlnDBStatus \<Rightarrow> bool" where
  "wireStatus J x \<longleftrightarrow>
     list_all (trips (kj_Condition J)) (sta_Conditions x) \<and>
     int64_ok (sta_ObservedGeneration x) \<and>
     int32_ok (sta_ReadyReplicas x) \<and>
     pred_option (trips (kj_Time J)) (sta_LastUpdateTime x)"

lemma Status_roundtrip [codec]: "wireStatus J x \<Longrightarrow> unmarshalStatus J (marshalStatus J x) = Some x"
  by (cases x) (simp add: unmarshalStatus_def marshalStatus_def wireStatus_def codec cong: bind_weak)

subsection \<open>TlnDB\<close>

definition marshalTlnDB :: "kube_json \<Rightarrow> TypeMeta \<Rightarrow> TlnDB \<Rightarrow> json" where
  "marshalTlnDB J tm x = JObj
       (put ''kind'' (strJ (tm_Kind tm))
       (put ''apiVersion'' (strJ (tm_APIVersion tm))
       (put ''metadata'' (Some (cd_to (kj_Meta J) (db_Meta x)))
       (put ''spec'' (Some (marshalSpec J (db_Spec x)))
       (put ''status'' (Some (marshalStatus J (db_Status x))) fmempty)))))"

definition unmarshalTlnDB :: "kube_json \<Rightarrow> json \<Rightarrow> (TypeMeta \<times> TlnDB) option" where
  "unmarshalTlnDB J j = do {
     m \<leftarrow> asObj j;
     k1 \<leftarrow> scalar asStr [] (fmlookup m ''kind'');
     k2 \<leftarrow> scalar asStr [] (fmlookup m ''apiVersion'');
     v1 \<leftarrow> scalar (cd_of (kj_Meta J)) (cd_zero (kj_Meta J)) (fmlookup m ''metadata'');
     v2 \<leftarrow> nested (unmarshalSpec J) (fmlookup m ''spec'');
     v3 \<leftarrow> nested (unmarshalStatus J) (fmlookup m ''status'');
     Some (\<lparr>tm_Kind = k1, tm_APIVersion = k2\<rparr>, \<lparr>db_Meta = v1, db_Spec = v2, db_Status =
       v3\<rparr>)
   }"

definition defaultTlnDB :: "json \<Rightarrow> json" where
  "defaultTlnDB = onObject (within ''spec'' defaultSpec)"

definition fillTlnDB :: "TlnDB \<Rightarrow> TlnDB" where
  "fillTlnDB x = x\<lparr>db_Spec := fillSpec (db_Spec x)\<rparr>"

definition wireTlnDB :: "kube_json \<Rightarrow> TlnDB \<Rightarrow> bool" where
  "wireTlnDB J x \<longleftrightarrow>
     trips (kj_Meta J) (db_Meta x) \<and>
     wireSpec J (db_Spec x) \<and>
     wireStatus J (db_Status x)"

lemma TlnDB_roundtrip [codec]: "wireTlnDB J x \<Longrightarrow> unmarshalTlnDB J (marshalTlnDB J tm x) = Some (tm, x)"
  by (cases x; cases tm) (simp add: unmarshalTlnDB_def marshalTlnDB_def wireTlnDB_def codec cong: bind_weak)

lemma TlnDB_resent [codec]: "wireTlnDB J x \<Longrightarrow> unmarshalTlnDB J (defaultTlnDB (marshalTlnDB J tm x)) = Some (tm, fillTlnDB x)"
  by (cases x; cases tm) (simp add: unmarshalTlnDB_def marshalTlnDB_def wireTlnDB_def defaultTlnDB_def fillTlnDB_def codec cong: bind_weak)

subsection \<open>A sample encoding of the Kubernetes structs\<close>

definition name_of :: "json \<Rightarrow> string \<Rightarrow> string option" where
  "name_of j k = do { m \<leftarrow> asObj j; scalar asStr [] (fmlookup m k) }"

definition sample_json :: kube_json where
  "sample_json = \<lparr>
     kj_LocalRef = \<lparr>cd_to = (\<lambda>n. JObj (put ''name'' (strJ n) fmempty)), cd_of = (\<lambda>j. name_of j ''name''), cd_zero = []\<rparr>,
     kj_Quantity = \<lparr>cd_to = (\<lambda>q. case q of Quantity s \<Rightarrow> JStr s), cd_of = (\<lambda>j. map_option Quantity (asStr j)), cd_zero = Quantity ''0''\<rparr>,
     kj_EnvVar = \<lparr>
       cd_to = (\<lambda>e. JObj (put ''name'' (strJ (env_Name e)) (put ''value'' (strJ (env_Value e)) (put ''valueFrom'' (env_ValueFrom e) fmempty)))),
       cd_of = (\<lambda>j. do { n \<leftarrow> name_of j ''name''; v \<leftarrow> name_of j ''value''; m \<leftarrow> asObj j;
                        Some \<lparr>env_Name = n, env_Value = v, env_ValueFrom = fmlookup m ''valueFrom''\<rparr> }),
       cd_zero = \<lparr>env_Name = [], env_Value = [], env_ValueFrom = None\<rparr>\<rparr>,
     kj_Container = \<lparr>cd_to = (\<lambda>_. JNull), cd_of = (\<lambda>_. None), cd_zero = undefined\<rparr>,
     kj_Volume = \<lparr>cd_to = (\<lambda>_. JNull), cd_of = (\<lambda>_. None), cd_zero = undefined\<rparr>,
     kj_VolumeMount = \<lparr>cd_to = (\<lambda>_. JNull), cd_of = (\<lambda>_. None), cd_zero = undefined\<rparr>,
     kj_Condition = \<lparr>cd_to = (\<lambda>_. JNull), cd_of = (\<lambda>_. None), cd_zero = undefined\<rparr>,
     kj_Time = \<lparr>cd_to = JInt, cd_of = asInt64, cd_zero = 0\<rparr>,
     kj_Meta = \<lparr>
       cd_to = (\<lambda>m. JObj (put ''name'' (strJ (om_Name m)) (put ''namespace'' (strJ (om_Namespace m)) fmempty))),
       cd_of = (\<lambda>j. do { n \<leftarrow> name_of j ''name''; ns \<leftarrow> name_of j ''namespace'';
                        Some (zero_ObjectMeta\<lparr>om_Name := n, om_Namespace := ns\<rparr>) }),
       cd_zero = zero_ObjectMeta\<rparr>\<rparr>"

text \<open>An instance with a pull secret, an environment variable and five replicas.\<close>

definition wire_demo :: TlnDB where
  "wire_demo = newInstance\<lparr>db_Spec := zero_TlnDBSpec\<lparr>
     spec_Image := \<lparr>img_Repository = [], img_Tag = ''v1'', img_Digest = [], img_PullPolicy = [], img_PullSecrets = [''pull'']\<rparr>,
     spec_Replicas := Some 5,
     spec_Env := [\<lparr>env_Name = ''A'', env_Value = ''1'', env_ValueFrom = None\<rparr>]\<rparr>\<rparr>"

lemmas wire_defs = wireTlnDB_def wireSpec_def wireImage_def wirePersistence_def wireStorage_def wireReplication_def
  wireObservability_def wireMetrics_def wireHealth_def wireAvailability_def wirePDB_def wireHPA_def wireSecurity_def wireStatus_def

lemma wire_demo_ok: "wireTlnDB sample_json wire_demo"
  by (simp add: wire_defs trips_def sample_json_def wire_demo_def zero_defs name_of_def int32_ok_def int64_ok_def asStr_def codec)

abbreviation sample_type :: TypeMeta where
  "sample_type \<equiv> \<lparr>tm_Kind = ''TlnDB'', tm_APIVersion = ''db.tlndb.io/v1alpha1''\<rparr>"

subsection \<open>The properties\<close>

text \<open>
  C26: encoding loses nothing by itself. Every instance whose numbers fit their Go types, and
  whose Kubernetes values are read back as they were written, is recovered exactly from the
  JSON document the tags of the API structs produce.
\<close>

theorem api_roundtrip:
  assumes "wireTlnDB J inst"
  shows "unmarshalTlnDB J (marshalTlnDB J tm inst) = Some (tm, inst)"
  using TlnDB_roundtrip [OF assms] .

theorem api_roundtrip_witness:
  "unmarshalTlnDB sample_json (marshalTlnDB sample_json sample_type wire_demo) = Some (sample_type, wire_demo)"
  using api_roundtrip [OF wire_demo_ok] .

text \<open>
  A request for no read replicas does not survive the operator's own update. Sending the
  instance back keeps every replication setting except one: \<^verbatim>\<open>readReplicas: 0\<close> is dropped by
  \<^verbatim>\<open>omitempty\<close> and comes back as the schema default 1, so after the finalizer is added the
  instance asks for a follower, although zero is documented to run a leader only.
\<close>

theorem read_replicas_zero_is_lost:
  assumes "int32_ok (rep_ReadReplicas rep)" and "int64_ok (rep_OplogRetention rep)"
  shows "unmarshalReplication (defaultReplication (marshalReplication rep))
     = Some (rep\<lparr>rep_ReadReplicas := (if rep_ReadReplicas rep = 0 then 1 else rep_ReadReplicas rep)\<rparr>)"
  using Replication_resent [of rep] assms by (simp add: wireReplication_def fillReplication_def)

theorem read_replicas_zero_is_lost_witness:
  "unmarshalReplication (defaultReplication (marshalReplication \<lparr>rep_ReadReplicas = 0, rep_OplogRetention = 7\<rparr>))
     = Some \<lparr>rep_ReadReplicas = 1, rep_OplogRetention = 7\<rparr>"
  using read_replicas_zero_is_lost [of "\<lparr>rep_ReadReplicas = 0, rep_OplogRetention = 7\<rparr>"]
  by (simp add: int32_ok_def int64_ok_def)

end
