(* ===== verification/MemCluster.thy ===== *)
theory MemCluster
  imports KubeClient ApiJson
begin

section \<open>One concrete environment\<close>

text \<open>
  An in-memory API server: a store of objects by kind, namespace and name, a store of
  instances, a clock and an event log. It satisfies \<open>env_laws\<close>, which shows that the
  hypotheses can hold, and the reconciler runs on it at concrete inputs.
\<close>

record mem =
  mem_store :: cluster
  mem_dbs :: "nsname \<Rightarrow> TlnDB option"
  mem_time :: time
  mem_events :: "(string \<times> string \<times> string) list"

definition mem_GetName :: "Unstructured \<Rightarrow> string" where
  "mem_GetName u = (case jpath [''metadata'', ''name''] (us_Object u) of Some (JStr s) \<Rightarrow> s | _ \<Rightarrow> [])"

definition mem_GetNamespace :: "Unstructured \<Rightarrow> string" where
  "mem_GetNamespace u = (case jpath [''metadata'', ''namespace''] (us_Object u) of Some (JStr s) \<Rightarrow> s | _ \<Rightarrow> [])"

definition mem_GroupVersionKind :: "Unstructured \<Rightarrow> string" where
  "mem_GroupVersionKind u = (case jpath [''kind''] (us_Object u) of Some (JStr s) \<Rightarrow> s | _ \<Rightarrow> [])"

fun kobject_key :: "kobject \<Rightarrow> kkey" where
  "kobject_key (KConfigMap x) = (ConfigMapKind, meta_key (cm_Meta x))"
| "kobject_key (KServiceAccount x) = (ServiceAccountKind, meta_key (sa_Meta x))"
| "kobject_key (KRole x) = (RoleKind, meta_key (role_Meta x))"
| "kobject_key (KRoleBinding x) = (RoleBindingKind, meta_key (rb_Meta x))"
| "kobject_key (KStatefulSet x) = (StatefulSetKind, meta_key (sts_Meta x))"
| "kobject_key (KService x) = (ServiceKind, meta_key (svc_Meta x))"
| "kobject_key (KIngress x) = (IngressKind, meta_key (ing_Meta x))"
| "kobject_key (KNetworkPolicy x) = (NetworkPolicyKind, meta_key (np_Meta x))"
| "kobject_key (KPDB x) = (PDBKind, meta_key (pdb_Meta x))"
| "kobject_key (KHPA x) = (HPAKind, meta_key (hpa_Meta x))"
| "kobject_key (KUnstructured x) = (MonitorKind, mem_GetNamespace x, mem_GetName x)"

fun kobject_valid :: "kobject \<Rightarrow> bool" where
  "kobject_valid (KStatefulSet x) = valid_StatefulSet x"
| "kobject_valid _ = True"

text \<open>The well-typed part of the store.\<close>

definition mem_view :: "mem \<Rightarrow> cluster" where
  "mem_view w q = (case mem_store w q of
     Some x \<Rightarrow> if kobject_key x = q \<and> kobject_valid x then Some x else None | None \<Rightarrow> None)"

definition mem_client :: "kind \<Rightarrow> ('o \<Rightarrow> kobject) \<Rightarrow> (kobject \<Rightarrow> 'o) \<Rightarrow> ('o \<Rightarrow> nsname) \<Rightarrow> ('o, mem) kclient" where
  "mem_client K into out key = \<lparr>
     kc_Get = (\<lambda>k w. (case mem_view w (K, k) of
                        None \<Rightarrow> Inl (NotFoundErr ''not found'') | Some x \<Rightarrow> Inr (out x), w)),
     kc_Create = (\<lambda>x w.
        if \<not> kobject_valid (into x) then (Inl (OtherErr ''invalid''), w)
        else if mem_view w (K, key x) \<noteq> None then (Inl (OtherErr ''already exists''), w)
        else (Inr x, w\<lparr>mem_store := (mem_store w)((K, key x) \<mapsto> into x)\<rparr>)),
     kc_Update = (\<lambda>x w.
        if \<not> kobject_valid (into x) then (Inl (OtherErr ''invalid''), w)
        else if mem_view w (K, key x) = None then (Inl (NotFoundErr ''not found''), w)
        else (Inr x, w\<lparr>mem_store := (mem_store w)((K, key x) \<mapsto> into x)\<rparr>)),
     kc_Delete = (\<lambda>x w.
        if mem_view w (K, key x) = None then (Some (NotFoundErr ''not found''), w)
        else (None, w\<lparr>mem_store := (mem_store w)((K, key x) := None)\<rparr>))\<rparr>"

definition mem_instances :: "mem \<Rightarrow> nsname \<Rightarrow> TlnDB option" where
  "mem_instances w k = (case mem_dbs w k of Some i \<Rightarrow> if meta_key (db_Meta i) = k then Some i else None | None \<Rightarrow> None)"

text \<open>
  An Update of an instance fills in the defaults of the schema, leaves status and deletion
  timestamp alone, and removes an instance being deleted when its last finalizer goes.
\<close>

definition mem_Update :: "TlnDB \<Rightarrow> mem \<Rightarrow> (error + TlnDB) \<times> mem" where
  "mem_Update i w = (case mem_instances w (meta_key (db_Meta i)) of
     None \<Rightarrow> (Inl (NotFoundErr ''not found''), w)
   | Some cur \<Rightarrow>
       (let j = i\<lparr>db_Spec := fillSpec (db_Spec i), db_Status := db_Status cur,
                  db_Meta := (db_Meta i)\<lparr>om_DeletionTimestamp := om_DeletionTimestamp (db_Meta cur)\<rparr>\<rparr>
        in (Inr j, w\<lparr>mem_dbs := (mem_dbs w)(meta_key (db_Meta i) :=
              (if om_Finalizers (db_Meta i) = [] \<and> om_DeletionTimestamp (db_Meta cur) \<noteq> None then None else Some j))\<rparr>)))"

definition mem_TlnDB :: "(TlnDB, mem) kclient" where
  "mem_TlnDB = \<lparr>
     kc_Get = (\<lambda>k w. (case mem_dbs w k of
                        Some i \<Rightarrow> if meta_key (db_Meta i) = k then Inr i else Inl (NotFoundErr ''not found'')
                      | None \<Rightarrow> Inl (NotFoundErr ''not found''), w)),
     kc_Create = (\<lambda>i w. (Inr i, w\<lparr>mem_dbs := (mem_dbs w)(meta_key (db_Meta i) \<mapsto> i)\<rparr>)),
     kc_Update = mem_Update,
     kc_Delete = (\<lambda>i w. (None, w\<lparr>mem_dbs := (mem_dbs w)(meta_key (db_Meta i) := None)\<rparr>))\<rparr>"

definition mem_StatusPatch :: "TlnDB \<Rightarrow> TlnDB \<Rightarrow> mem \<Rightarrow> (error + TlnDB) \<times> mem" where
  "mem_StatusPatch m b w = (case mem_dbs w (meta_key (db_Meta m)) of
     None \<Rightarrow> (Inl (NotFoundErr ''not found''), w)
   | Some cur \<Rightarrow>
       if same_object cur m
       then (Inr (cur\<lparr>db_Status := db_Status m\<rparr>),
             w\<lparr>mem_dbs := (mem_dbs w)(meta_key (db_Meta m) \<mapsto> cur\<lparr>db_Status := db_Status m\<rparr>)\<rparr>)
       else (Inl (ConflictErr ''conflict''), w))"

definition mem_SetStatusCondition :: "Condition list \<Rightarrow> Condition \<Rightarrow> mem \<Rightarrow> Condition list \<times> mem" where
  "mem_SetStatusCondition cs c w =
     (filter (\<lambda>x. cond_Type x \<noteq> cond_Type c) cs @ [c\<lparr>cond_LastTransitionTime := mem_time w\<rparr>], w)"

text \<open>Extractors of the stored objects.\<close>

fun un_ConfigMap where "un_ConfigMap (KConfigMap x) = x" | "un_ConfigMap _ = undefined"
fun un_ServiceAccount where "un_ServiceAccount (KServiceAccount x) = x" | "un_ServiceAccount _ = undefined"
fun un_Role where "un_Role (KRole x) = x" | "un_Role _ = undefined"
fun un_RoleBinding where "un_RoleBinding (KRoleBinding x) = x" | "un_RoleBinding _ = undefined"
fun un_StatefulSet where "un_StatefulSet (KStatefulSet x) = x" | "un_StatefulSet _ = undefined"
fun un_Service where "un_Service (KService x) = x" | "un_Service _ = undefined"
fun un_Ingress where "un_Ingress (KIngress x) = x" | "un_Ingress _ = undefined"
fun un_NetworkPolicy where "un_NetworkPolicy (KNetworkPolicy x) = x" | "un_NetworkPolicy _ = undefined"
fun un_PDB where "un_PDB (KPDB x) = x" | "un_PDB _ = undefined"
fun un_HPA where "un_HPA (KHPA x) = x" | "un_HPA _ = undefined"
fun un_Unstructured where "un_Unstructured (KUnstructured x) = x" | "un_Unstructured _ = undefined"

definition mem_owner :: "TlnDB \<Rightarrow> OwnerReference" where
  "mem_owner inst = \<lparr>or_APIVersion = ''db.tlndb.io/v1alpha1'', or_Kind = ''TlnDB'', or_Name = db_Name inst,
     or_UID = om_UID (db_Meta inst), or_Controller = Some True, or_BlockOwnerDeletion = Some True\<rparr>"

definition mem_reconciler :: "mem reconciler" where
  "mem_reconciler = \<lparr>
     r_lib = sample_lib,
     r_TlnDB = mem_TlnDB,
     r_StatusPatch = mem_StatusPatch,
     r_ConfigMap = mem_client ConfigMapKind KConfigMap un_ConfigMap (\<lambda>x. meta_key (cm_Meta x)),
     r_ServiceAccount = mem_client ServiceAccountKind KServiceAccount un_ServiceAccount (\<lambda>x. meta_key (sa_Meta x)),
     r_Role = mem_client RoleKind KRole un_Role (\<lambda>x. meta_key (role_Meta x)),
     r_RoleBinding = mem_client RoleBindingKind KRoleBinding un_RoleBinding (\<lambda>x. meta_key (rb_Meta x)),
     r_StatefulSet = mem_client StatefulSetKind KStatefulSet un_StatefulSet (\<lambda>x. meta_key (sts_Meta x)),
     r_Service = mem_client ServiceKind KService un_Service (\<lambda>x. meta_key (svc_Meta x)),
     r_Ingress = mem_client IngressKind KIngress un_Ingress (\<lambda>x. meta_key (ing_Meta x)),
     r_NetworkPolicy = mem_client NetworkPolicyKind KNetworkPolicy un_NetworkPolicy (\<lambda>x. meta_key (np_Meta x)),
     r_PDB = mem_client PDBKind KPDB un_PDB (\<lambda>x. meta_key (pdb_Meta x)),
     r_HPA = mem_client HPAKind KHPA un_HPA (\<lambda>x. meta_key (hpa_Meta x)),
     r_Unstructured = (\<lambda>g. mem_client MonitorKind KUnstructured un_Unstructured
                            (\<lambda>u. (mem_GetNamespace u, mem_GetName u))),
     r_SetControllerReference = (\<lambda>inst m. Inr (m\<lparr>om_OwnerReferences := [mem_owner inst]\<rparr>)),
     r_SetControllerReferenceU = (\<lambda>inst u. Inr u),
     r_GroupVersionKind = mem_GroupVersionKind,
     r_GetName = mem_GetName,
     r_GetNamespace = mem_GetNamespace,
     r_GetResourceVersion = (\<lambda>u. []),
     r_SetResourceVersion = (\<lambda>v u. u),
     r_ContainsFinalizer = (\<lambda>m f. f \<in> set (om_Finalizers m)),
     r_AddFinalizer = (\<lambda>m f. m\<lparr>om_Finalizers := om_Finalizers m @ [f]\<rparr>),
     r_RemoveFinalizer = (\<lambda>m f. m\<lparr>om_Finalizers := filter (\<lambda>x. x \<noteq> f) (om_Finalizers m)\<rparr>),
     r_SetStatusCondition = mem_SetStatusCondition,
     r_Eventf = (\<lambda>i t reason msg w. w\<lparr>mem_events := mem_events w @ [(t, reason, msg)]\<rparr>),
     r_Now = (\<lambda>w. (mem_time w, w\<lparr>mem_time := mem_time w + 1\<rparr>))\<rparr>"

definition empty_mem :: mem where
  "empty_mem = \<lparr>mem_store = (\<lambda>_. None), mem_dbs = (\<lambda>_. None), mem_time = 0, mem_events = []\<rparr>"

subsection \<open>It satisfies the laws\<close>

lemma mem_reconciler_fields [simp]:
  "r_lib mem_reconciler = sample_lib"
  "r_TlnDB mem_reconciler = mem_TlnDB"
  "r_StatusPatch mem_reconciler = mem_StatusPatch"
  "r_ConfigMap mem_reconciler = mem_client ConfigMapKind KConfigMap un_ConfigMap (\<lambda>x. meta_key (cm_Meta x))"
  "r_ServiceAccount mem_reconciler = mem_client ServiceAccountKind KServiceAccount un_ServiceAccount (\<lambda>x. meta_key (sa_Meta x))"
  "r_Role mem_reconciler = mem_client RoleKind KRole un_Role (\<lambda>x. meta_key (role_Meta x))"
  "r_RoleBinding mem_reconciler = mem_client RoleBindingKind KRoleBinding un_RoleBinding (\<lambda>x. meta_key (rb_Meta x))"
  "r_StatefulSet mem_reconciler = mem_client StatefulSetKind KStatefulSet un_StatefulSet (\<lambda>x. meta_key (sts_Meta x))"
  "r_Service mem_reconciler = mem_client ServiceKind KService un_Service (\<lambda>x. meta_key (svc_Meta x))"
  "r_Ingress mem_reconciler = mem_client IngressKind KIngress un_Ingress (\<lambda>x. meta_key (ing_Meta x))"
  "r_NetworkPolicy mem_reconciler = mem_client NetworkPolicyKind KNetworkPolicy un_NetworkPolicy (\<lambda>x. meta_key (np_Meta x))"
  "r_PDB mem_reconciler = mem_client PDBKind KPDB un_PDB (\<lambda>x. meta_key (pdb_Meta x))"
  "r_HPA mem_reconciler = mem_client HPAKind KHPA un_HPA (\<lambda>x. meta_key (hpa_Meta x))"
  "r_Unstructured mem_reconciler = (\<lambda>g. mem_client MonitorKind KUnstructured un_Unstructured (\<lambda>u. (mem_GetNamespace u, mem_GetName u)))"
  "r_SetControllerReference mem_reconciler = (\<lambda>inst m. Inr (m\<lparr>om_OwnerReferences := [mem_owner inst]\<rparr>))"
  "r_SetControllerReferenceU mem_reconciler = (\<lambda>inst u. Inr u)"
  "r_GroupVersionKind mem_reconciler = mem_GroupVersionKind"
  "r_GetName mem_reconciler = mem_GetName"
  "r_GetNamespace mem_reconciler = mem_GetNamespace"
  "r_GetResourceVersion mem_reconciler = (\<lambda>u. [])"
  "r_SetResourceVersion mem_reconciler = (\<lambda>v u. u)"
  "r_ContainsFinalizer mem_reconciler = (\<lambda>m f. f \<in> set (om_Finalizers m))"
  "r_AddFinalizer mem_reconciler = (\<lambda>m f. m\<lparr>om_Finalizers := om_Finalizers m @ [f]\<rparr>)"
  "r_RemoveFinalizer mem_reconciler = (\<lambda>m f. m\<lparr>om_Finalizers := filter (\<lambda>x. x \<noteq> f) (om_Finalizers m)\<rparr>)"
  "r_SetStatusCondition mem_reconciler = mem_SetStatusCondition"
  "r_Eventf mem_reconciler = (\<lambda>i t reason msg w. w\<lparr>mem_events := mem_events w @ [(t, reason, msg)]\<rparr>)"
  "r_Now mem_reconciler = (\<lambda>w. (mem_time w, w\<lparr>mem_time := mem_time w + 1\<rparr>))"
  by (simp_all add: mem_reconciler_def)

lemma mem_view_other:
  "q \<noteq> k \<Longrightarrow> mem_view (w\<lparr>mem_store := (mem_store w)(k := x)\<rparr>) q = mem_view w q"
  by (simp add: mem_view_def)

lemma mem_view_indep [simp]:
  "mem_view (w\<lparr>mem_dbs := d\<rparr>) = mem_view w" "mem_view (w\<lparr>mem_time := t\<rparr>) = mem_view w"
  "mem_view (w\<lparr>mem_events := e\<rparr>) = mem_view w"
  by (simp_all add: mem_view_def fun_eq_iff)

lemma mem_instances_indep [simp]:
  "mem_instances (w\<lparr>mem_store := c\<rparr>) = mem_instances w" "mem_instances (w\<lparr>mem_time := t\<rparr>) = mem_instances w"
  "mem_instances (w\<lparr>mem_events := e\<rparr>) = mem_instances w"
  by (simp_all add: mem_instances_def fun_eq_iff)

lemma mem_instances_upd:
  "meta_key (db_Meta i) = k \<Longrightarrow> mem_instances (w\<lparr>mem_dbs := (mem_dbs w)(k \<mapsto> i)\<rparr>) = (mem_instances w)(k \<mapsto> i)"
  by (auto simp: mem_instances_def fun_eq_iff)

lemma mem_instances_remove:
  "mem_instances (w\<lparr>mem_dbs := (mem_dbs w)(k := None)\<rparr>) = (mem_instances w)(k := None)"
  by (auto simp: mem_instances_def fun_eq_iff)

lemma mem_instancesD: "mem_instances w k = Some i \<Longrightarrow> mem_dbs w k = Some i \<and> meta_key (db_Meta i) = k"
  by (auto simp: mem_instances_def split: option.splits if_splits)

lemma mem_view_stored:
  "kobject_key x = q \<Longrightarrow> kobject_valid x \<Longrightarrow> mem_view (w\<lparr>mem_store := (mem_store w)(q \<mapsto> x)\<rparr>) q = Some x"
  by (simp add: mem_view_def)

lemma mem_client_laws:
  assumes key: "\<And>x. kobject_key (into x) = (K, key x)"
    and typed: "\<And>x k. kobject_key x = (K, k) \<Longrightarrow> x = into (out x)"
    and valid: "\<And>x. valid x = kobject_valid (into x)"
  shows "client_laws mem_view (mem_client K into out key) K into key valid norm"
proof -
  have get: "x = into (out x) \<and> key (out x) = k \<and> kobject_valid x" if "mem_view w (K, k) = Some x" for w k x
  proof -
    have "kobject_key x = (K, k)" "kobject_valid x"
      using that by (auto simp: mem_view_def split: option.splits if_splits)
    then show ?thesis using typed [of x k] key [of "out x"] by simp
  qed
  have "get_laws mem_view (mem_client K into out key) K into key valid"
    unfolding get_laws_def using get valid
    by (auto simp: mem_client_def split: option.splits)
  moreover have "write_laws mem_view (kc_Create (mem_client K into out key)) K into key norm"
    "write_laws mem_view (kc_Update (mem_client K into out key)) K into key norm"
    unfolding write_laws_def
    by (simp_all add: mem_client_def mem_view_other mem_view_stored key)
  moreover have "delete_laws mem_view (kc_Delete (mem_client K into out key)) K key"
    unfolding delete_laws_def by (simp add: mem_client_def mem_view_other gone_def) (simp add: mem_view_def)
  ultimately show ?thesis
    unfolding client_laws_def by simp
qed

lemma mem_env_laws: "env_laws mem_view mem_reconciler"
proof -
  have owner: "owner_laws mem_reconciler"
    unfolding owner_laws_def by auto
  have status: "status_laws mem_view mem_reconciler"
    unfolding status_laws_def
    by (auto simp: mem_StatusPatch_def mem_SetStatusCondition_def same_object_def split: option.split)
  have tlndb: "tlndb_laws mem_view mem_reconciler"
    unfolding tlndb_laws_def by (auto simp: mem_TlnDB_def mem_Update_def Let_def split: option.splits if_splits)
  have key: "key_Unstructured mem_reconciler = (\<lambda>u. (mem_GetNamespace u, mem_GetName u))"
    by (simp add: key_Unstructured_def fun_eq_iff)
  have unstr: "unstructured_laws mem_view mem_reconciler"
    unfolding unstructured_laws_def key
    by (auto simp: mem_GetName_def mem_GetNamespace_def intro!: mem_client_laws elim!: kobject_key.elims)
  show ?thesis
    unfolding env_laws_def using owner status tlndb unstr
    by (auto intro!: mem_client_laws elim!: kobject_key.elims)
qed

text \<open>Clusters with one object, for concrete runs.\<close>

definition mem_one :: "kobject \<Rightarrow> mem" where
  "mem_one x = empty_mem\<lparr>mem_store := [kobject_key x \<mapsto> x]\<rparr>"

lemma mem_one_view: "kobject_valid x \<Longrightarrow> mem_view (mem_one x) (kobject_key x) = Some x"
  by (simp add: mem_one_def mem_view_def)

lemma mem_one_get:
  "valid_StatefulSet s \<Longrightarrow> kc_Get (r_StatefulSet mem_reconciler) (meta_key (sts_Meta s)) (mem_one (KStatefulSet s))
     = (Inr s, mem_one (KStatefulSet s))"
  "kc_Get (r_Service mem_reconciler) (meta_key (svc_Meta v)) (mem_one (KService v)) = (Inr v, mem_one (KService v))"
  using mem_one_view [of "KStatefulSet s"] mem_one_view [of "KService v"] by (simp_all add: mem_client_def)

end
