(* ===== verification/Managed.thy ===== *)
theory Managed
  imports Upserts MemCluster
begin

section \<open>What an upsert achieves\<close>

text \<open>
  The locale \<open>managed_kind\<close> is the contract between the per-kind policies and the generic
  \<open>upsert\<close>: which object is written, and when none has to be. Its lemmas say what the
  cluster holds after an upsert and what it leaves alone. The locale is interpreted for
  each of the ten typed kinds.
\<close>

subsection \<open>Consequences of the client laws\<close>

lemma get_lawsD:
  assumes "get_laws V c K into key valid"
  shows "V (snd (kc_Get c k w)) = V w"
    and "fst (kc_Get c k w) = Inr o1 \<Longrightarrow> V w (K, k) = Some (into o1) \<and> key o1 = k \<and> valid o1"
    and "fst (kc_Get c k w) = Inl e \<Longrightarrow> IsNotFound e \<Longrightarrow> V w (K, k) = None"
  using assms unfolding get_laws_def by blast+

lemma write_lawsD:
  assumes "write_laws V call K into key norm"
  shows "q \<noteq> (K, key o1) \<Longrightarrow> V (snd (call o1 w)) q = V w q"
    and "fst (call o1 w) = Inr o2 \<Longrightarrow>
           V (snd (call o1 w)) (K, key o1) = Some (into o2) \<and> key o2 = key o1 \<and> norm o2 = norm o1"
  using assms unfolding write_laws_def by blast+

lemma client_lawsD:
  assumes "client_laws V c K into key valid norm"
  shows "get_laws V c K into key valid" "write_laws V (kc_Create c) K into key norm"
    "write_laws V (kc_Update c) K into key norm"
    "delete_laws V (kc_Delete c) K key"
  using assms unfolding client_laws_def by blast+

lemma delete_lawsD:
  assumes "delete_laws V call K key"
  shows "q \<noteq> (K, key o1) \<Longrightarrow> V (snd (call o1 w)) q = V w q"
    and "call o1 w = (None, w') \<Longrightarrow> gone (V w') (K, key o1)"
    and "call o1 w = (Some e, w') \<Longrightarrow> IsNotFound e \<Longrightarrow> gone (V w') (K, key o1)"
proof -
  show "q \<noteq> (K, key o1) \<Longrightarrow> V (snd (call o1 w)) q = V w q" using assms unfolding delete_laws_def by blast
  have g: "(case fst (call o1 w) of None \<Rightarrow> True | Some e \<Rightarrow> IsNotFound e) \<Longrightarrow>
      gone (V (snd (call o1 w))) (K, key o1)" using assms unfolding delete_laws_def by blast
  show "call o1 w = (None, w') \<Longrightarrow> gone (V w') (K, key o1)"
    "call o1 w = (Some e, w') \<Longrightarrow> IsNotFound e \<Longrightarrow> gone (V w') (K, key o1)" using g by simp_all
qed

text \<open>
  A policy fits a contract: it uses the contract's functions, setting the owner reference
  changes neither key, validity nor the managed fields, and events leave the cluster alone.
\<close>

definition policy_ok :: "('w \<Rightarrow> cluster) \<Rightarrow> ('o, 'w) policy \<Rightarrow> ('o \<Rightarrow> nsname) \<Rightarrow> ('o \<Rightarrow> 'o \<Rightarrow> 'o)
    \<Rightarrow> ('o \<Rightarrow> 'o \<Rightarrow> bool) \<Rightarrow> ('o \<Rightarrow> 'o \<Rightarrow> 'o) \<Rightarrow> ('o \<Rightarrow> bool) \<Rightarrow> ('o \<Rightarrow> 'v) \<Rightarrow> bool" where
  "policy_ok V p key keep needs merge valid norm \<longleftrightarrow>
     po_key p = key \<and> po_keep p = keep \<and> po_needs p = needs \<and> po_merge p = merge \<and>
     (\<forall>d d'. po_own p d = Inr d' \<longrightarrow> key d' = key d \<and> norm d' = norm d \<and> valid d' = valid d) \<and>
     (\<forall>d w. V (po_created p d w) = V w \<and> V (po_updated p d w) = V w)"

lemma policy_okD:
  assumes "policy_ok V p key keep needs merge valid norm"
  shows "po_key p = key" "po_keep p = keep" "po_needs p = needs" "po_merge p = merge"
    "po_own p d = Inr d' \<Longrightarrow> key d' = key d \<and> norm d' = norm d \<and> valid d' = valid d"
    "V (po_created p d w) = V w" "V (po_updated p d w) = V w"
  using assms unfolding policy_ok_def by blast+

text \<open>The cluster holds an object of kind \<open>K\<close> that agrees with \<open>d\<close> on the managed fields.\<close>

definition holds :: "cluster \<Rightarrow> kind \<Rightarrow> ('o \<Rightarrow> kobject) \<Rightarrow> ('o \<Rightarrow> nsname) \<Rightarrow> ('o \<Rightarrow> 'v) \<Rightarrow> 'o \<Rightarrow> bool" where
  "holds c K into key norm d \<longleftrightarrow> (\<exists>o1. c (K, key d) = Some (into o1) \<and> norm o1 = norm d)"

lemma holdsI: "c (K, key d) = Some (into o1) \<Longrightarrow> norm o1 = norm d \<Longrightarrow> holds c K into key norm d"
  by (auto simp: holds_def)

lemma holds_cong: "c (K, key d) = c' (K, key d) \<Longrightarrow> holds c K into key norm d = holds c' K into key norm d"
  by (simp add: holds_def)

text \<open>
  A create-or-update method \<open>cou\<close> of kind \<open>K\<close>: it changes at most the object it is given, and
  returns it under its own name; and when it succeeds the cluster holds that object.
\<close>

definition frame_contract :: "('w \<Rightarrow> cluster) \<Rightarrow> kind \<Rightarrow> ('o \<Rightarrow> nsname)
    \<Rightarrow> (TlnDB \<Rightarrow> 'o \<Rightarrow> 'w \<Rightarrow> (error + 'o) \<times> 'w) \<Rightarrow> bool" where
  "frame_contract V K key cou \<longleftrightarrow>
     (\<forall>inst d w q. q \<noteq> (K, key d) \<longrightarrow> V (snd (cou inst d w)) q = V w q) \<and>
     (\<forall>inst d w d' w'. cou inst d w = (Inr d', w') \<longrightarrow> key d' = key d)"

definition holds_contract :: "('w \<Rightarrow> cluster) \<Rightarrow> kind \<Rightarrow> ('o \<Rightarrow> kobject) \<Rightarrow> ('o \<Rightarrow> nsname) \<Rightarrow> ('o \<Rightarrow> bool)
    \<Rightarrow> ('o \<Rightarrow> 'v) \<Rightarrow> (TlnDB \<Rightarrow> 'o \<Rightarrow> 'w \<Rightarrow> (error + 'o) \<times> 'w) \<Rightarrow> bool" where
  "holds_contract V K into key valid norm cou \<longleftrightarrow>
     (\<forall>inst d w d' w'. valid d \<longrightarrow> cou inst d w = (Inr d', w') \<longrightarrow>
        holds (V w') K into key norm d \<and> norm d' = norm d)"

lemma upsert_cases:
  assumes "upsert c p d w = (res, w')"
  obtains (unowned) e where "po_own p d = Inl e" "res = Inl e" "w' = w"
  | (unread) d1 e where "po_own p d = Inr d1" "fst (kc_Get c (po_key p d1) w) = Inl e" "\<not> IsNotFound e"
      "res = Inl e" "w' = snd (kc_Get c (po_key p d1) w)"
  | (create) d1 e where "po_own p d = Inr d1" "fst (kc_Get c (po_key p d1) w) = Inl e" "IsNotFound e"
      "(res, w') = kc_Create c d1 (po_created p d1 (snd (kc_Get c (po_key p d1) w)))"
  | (skip) d1 ex where "po_own p d = Inr d1" "fst (kc_Get c (po_key p d1) w) = Inr ex"
      "\<not> po_needs p ex (po_keep p ex d1)" "res = Inr (po_keep p ex d1)"
      "w' = snd (kc_Get c (po_key p d1) w)"
  | (update) d1 ex u where "po_own p d = Inr d1" "fst (kc_Get c (po_key p d1) w) = Inr ex"
      "po_needs p ex (po_keep p ex d1)"
      "(u, w') = kc_Update c (po_merge p ex (po_keep p ex d1))
                   (po_updated p (po_keep p ex d1) (snd (kc_Get c (po_key p d1) w)))"
      "res = (case u of Inl e \<Rightarrow> if po_tolerate p e then Inr (po_keep p ex d1) else Inl e
                      | Inr _ \<Rightarrow> Inr (po_keep p ex d1))"
proof (cases "po_own p d")
  case (Inl e)
  with assms show ?thesis by (intro unowned [of e]) (auto simp: upsert_def)
next
  case (Inr d1)
  obtain g w1 where g: "kc_Get c (po_key p d1) w = (g, w1)" by force
  show ?thesis
  proof (cases g)
    case (Inl e)
    show ?thesis
    proof (cases "IsNotFound e")
      case True
      with assms Inr Inl g show ?thesis by (intro create [of d1 e]) (auto simp: upsert_def)
    next
      case False
      with assms Inr Inl g show ?thesis by (intro unread [of d1 e]) (auto simp: upsert_def)
    qed
  next
    case (Inr ex)
    note ex = \<open>po_own p d = Inr d1\<close> g Inr
    show ?thesis
    proof (cases "po_needs p ex (po_keep p ex d1)")
      case False
      with assms ex show ?thesis by (intro skip [of d1 ex]) (auto simp: upsert_def Let_def)
    next
      case True
      obtain u w2 where "kc_Update c (po_merge p ex (po_keep p ex d1)) (po_updated p (po_keep p ex d1) w1) = (u, w2)"
        by force
      with True assms ex show ?thesis
        by (intro update [of d1 ex u]) (auto simp: upsert_def Let_def split: sum.splits if_splits)
    qed
  qed
qed

subsection \<open>The contract\<close>

locale managed_kind =
  fixes key :: "'o \<Rightarrow> nsname"
    and keep :: "'o \<Rightarrow> 'o \<Rightarrow> 'o"
    and needs :: "'o \<Rightarrow> 'o \<Rightarrow> bool"
    and merge :: "'o \<Rightarrow> 'o \<Rightarrow> 'o"
    and valid :: "'o \<Rightarrow> bool"
    and norm :: "'o \<Rightarrow> 'v"
  assumes keep_key: "key (keep ex d) = key d"
    and keep_norm: "norm (keep ex d) = norm d"
    and keep_valid: "valid (keep ex d) = valid d"
    and merge_key: "key (merge ex d) = key ex"
    and merge_norm: "norm (merge ex d) = norm d"
    and settled: "valid ex \<Longrightarrow> valid d \<Longrightarrow> \<not> needs ex d \<Longrightarrow> norm ex = norm d"
begin

lemma upsert_frame:
  assumes laws: "client_laws V c K into key valid norm"
    and p: "policy_ok V p key keep needs merge valid norm"
    and q: "q \<noteq> (K, key d)"
  shows "V (snd (upsert c p d w)) q = V w q"
proof -
  obtain res w' where u: "upsert c p d w = (res, w')" by force
  have get: "V (snd (kc_Get c k w)) = V w" for k w
    using client_lawsD(1) [OF laws] by (rule get_lawsD)
  have "V w' q = V w q"
    using u
  proof (cases rule: upsert_cases)
    case (create d1 e)
    then have "key d1 = key d" using policy_okD(5) [OF p] by blast
    with q have "V (snd (kc_Create c d1 w1)) q = V w1 q" for w1
      using write_lawsD(1) [OF client_lawsD(2) [OF laws]] by simp
    with create(4) show ?thesis using get policy_okD(6) [OF p] by (metis snd_conv)
  next
    case (update d1 ex u1)
    then have "key ex = key d"
      using get_lawsD(2) [OF client_lawsD(1) [OF laws]] policy_okD(1,5) [OF p] by metis
    with q have "V (snd (kc_Update c (merge ex d2) w1)) q = V w1 q" for d2 w1
      using write_lawsD(1) [OF client_lawsD(3) [OF laws]] by (simp add: merge_key)
    with update(4) show ?thesis using get policy_okD(4,7) [OF p] by (metis snd_conv)
  qed (simp_all add: get)
  with u show ?thesis by simp
qed

lemma upsert_result:
  assumes laws: "client_laws V c K into key valid norm"
    and p: "policy_ok V p key keep needs merge valid norm"
    and res: "upsert c p d w = (Inr d', w')"
  shows "key d' = key d \<and> norm d' = norm d"
  using res
proof (cases rule: upsert_cases)
  case (create d1 e)
  then have "key d' = key d1 \<and> norm d' = norm d1"
    using write_lawsD(2) [OF client_lawsD(2) [OF laws]] by (metis fst_conv)
  with create(1) show ?thesis using policy_okD(5) [OF p] by metis
next
  case (skip d1 ex)
  then show ?thesis using policy_okD(2,5) [OF p] by (simp add: keep_key keep_norm)
next
  case (update d1 ex u)
  then have "d' = po_keep p ex d1" by (auto split: sum.splits if_splits)
  with update(1) show ?thesis using policy_okD(2,5) [OF p] by (simp add: keep_key keep_norm)
qed simp_all

lemma upsert_holds:
  assumes laws: "client_laws V c K into key valid norm"
    and p: "policy_ok V p key keep needs merge valid norm"
    and d: "valid d"
    and res: "upsert c p d w = (Inr d', w')"
  shows "holds (V w') K into key norm d \<or> (\<exists>e u w1. po_tolerate p e \<and> fst (kc_Update c u w1) = Inl e)"
  using res
proof (cases rule: upsert_cases)
  case (create d1 e)
  then have own: "key d1 = key d \<and> norm d1 = norm d" using policy_okD(5) [OF p] by blast
  let ?w = "po_created p d1 (snd (kc_Get c (po_key p d1) w))"
  have "fst (kc_Create c d1 ?w) = Inr d'" "w' = snd (kc_Create c d1 ?w)"
    using create(4) by (metis fst_conv, metis snd_conv)
  then have "V w' (K, key d1) = Some (into d') \<and> norm d' = norm d1"
    using write_lawsD(2) [OF client_lawsD(2) [OF laws]] by blast
  with own show ?thesis by (auto intro: holdsI)
next
  case (skip d1 ex)
  then have own: "key d1 = key d" "norm d1 = norm d" "valid d1" using policy_okD(5) [OF p] d by blast+
  have ex: "V w (K, key d1) = Some (into ex)" "valid ex"
    using get_lawsD(2) [OF client_lawsD(1) [OF laws]] skip(2) policy_okD(1) [OF p] by metis+
  have "norm ex = norm d"
    using settled [of ex "keep ex d1"] skip(3) own ex policy_okD(2,3) [OF p]
    by (simp add: keep_norm keep_valid)
  moreover have "V w' = V w" using skip(5) get_lawsD(1) [OF client_lawsD(1) [OF laws]] by simp
  ultimately show ?thesis using ex own by (auto intro: holdsI)
next
  case (update d1 ex u)
  then have own: "key d1 = key d \<and> norm d1 = norm d" using policy_okD(5) [OF p] by blast
  have ex: "key ex = key d" using get_lawsD(2) [OF client_lawsD(1) [OF laws]] update(2) policy_okD(1) [OF p] own by metis
  let ?m = "merge ex (keep ex d1)" and ?w = "po_updated p (keep ex d1) (snd (kc_Get c (po_key p d1) w))"
  have u: "(u, w') = kc_Update c ?m ?w" using update(4) policy_okD(2,4) [OF p] by simp
  show ?thesis
  proof (cases u)
    case (Inl e)
    then have "po_tolerate p e" using update(5) by (simp split: if_splits)
    with Inl u show ?thesis by (metis fst_conv)
  next
    case (Inr o2)
    then have "V w' (K, key ?m) = Some (into o2) \<and> norm o2 = norm ?m"
      using write_lawsD(2) [OF client_lawsD(3) [OF laws]] u by (metis fst_conv snd_conv)
    then show ?thesis using ex own by (auto simp: merge_key merge_norm keep_norm intro: holdsI)
  qed
qed simp_all

lemma upsert_frame_contract:
  assumes "client_laws V c K into key valid norm"
    and "\<And>inst. policy_ok V (pol inst) key keep needs merge valid norm"
  shows "frame_contract V K key (\<lambda>inst. upsert c (pol inst))"
  unfolding frame_contract_def using upsert_frame [OF assms] upsert_result [OF assms] by blast

lemma upsert_holds_contract:
  assumes "client_laws V c K into key valid norm"
    and "\<And>inst. policy_ok V (pol inst) key keep needs merge valid norm"
    and "\<And>inst. po_tolerate (pol inst) = (\<lambda>_. False)"
  shows "holds_contract V K into key valid norm (\<lambda>inst. upsert c (pol inst))"
  unfolding holds_contract_def
  using upsert_holds [OF assms(1,2)] upsert_result [OF assms(1,2)] assms(3) by auto

end

subsection \<open>The kinds\<close>

lemma needs_StatefulSet_iff:
  assumes "valid_StatefulSet ex" and "valid_StatefulSet d"
  shows "statefulSetNeedsUpdate ex d \<longleftrightarrow> norm_StatefulSet ex \<noteq> norm_StatefulSet d"
  using assms by (auto simp: statefulSetNeedsUpdate_def norm_StatefulSet_def valid_StatefulSet_def hd_conv_nth)

lemma norm_keep_StatefulSet: "norm_StatefulSet (keep_StatefulSet ex d) = norm_StatefulSet d"
  by (simp add: norm_StatefulSet_def merge_defs)

lemma meta_key_copies [simp]:
  "meta_key (copyLabels d m) = meta_key m" "meta_key (copyAnnotations d m) = meta_key m"
  "meta_key (m\<lparr>om_ResourceVersion := v\<rparr>) = meta_key m" "meta_key (m\<lparr>om_OwnerReferences := os\<rparr>) = meta_key m"
  by (simp_all add: meta_key_def copyLabels_def copyAnnotations_def)

interpretation cm_kind: managed_kind "\<lambda>x. meta_key (cm_Meta x)" "\<lambda>_ d. d"
    "\<lambda>ex d. cm_Data ex \<noteq> cm_Data d" merge_ConfigMap "\<lambda>_. True" norm_ConfigMap
  by unfold_locales (simp_all add: merge_ConfigMap_def norm_ConfigMap_def meta_key_def copyLabels_def copyAnnotations_def)

interpretation sa_kind: managed_kind "\<lambda>x. meta_key (sa_Meta x)" "\<lambda>_ d. d"
    "\<lambda>_ _. True" merge_ServiceAccount "\<lambda>_. True" norm_ServiceAccount
  by unfold_locales (simp_all add: merge_ServiceAccount_def norm_ServiceAccount_def meta_key_def copyLabels_def copyAnnotations_def)

interpretation role_kind: managed_kind "\<lambda>x. meta_key (role_Meta x)" "\<lambda>_ d. d"
    "\<lambda>ex d. role_Rules ex \<noteq> role_Rules d" merge_Role "\<lambda>_. True" norm_Role
  by unfold_locales (simp_all add: merge_Role_def norm_Role_def meta_key_def copyLabels_def copyAnnotations_def)

interpretation rb_kind: managed_kind "\<lambda>x. meta_key (rb_Meta x)" "\<lambda>_ d. d"
    "\<lambda>ex d. rb_RoleRef ex \<noteq> rb_RoleRef d \<or> rb_Subjects ex \<noteq> rb_Subjects d" merge_RoleBinding "\<lambda>_. True" norm_RoleBinding
  by unfold_locales (simp_all add: merge_RoleBinding_def norm_RoleBinding_def meta_key_def copyLabels_def copyAnnotations_def)

interpretation sts_kind: managed_kind "\<lambda>x. meta_key (sts_Meta x)" keep_StatefulSet statefulSetNeedsUpdate merge_StatefulSet valid_StatefulSet norm_StatefulSet
  by unfold_locales
    (simp_all add: norm_keep_StatefulSet needs_StatefulSet_iff keep_StatefulSet_def merge_StatefulSet_def
      norm_StatefulSet_def valid_StatefulSet_def)

interpretation svc_kind: managed_kind "\<lambda>x. meta_key (svc_Meta x)" keep_Service
    "\<lambda>_ _. True" merge_Service "\<lambda>_. True" norm_Service
  by unfold_locales (simp_all add: keep_Service_def merge_Service_def norm_Service_def meta_key_def copyLabels_def copyAnnotations_def)

interpretation ing_kind: managed_kind "\<lambda>x. meta_key (ing_Meta x)" keep_Ingress
    "\<lambda>_ _. True" merge_Ingress "\<lambda>_. True" norm_Ingress
  by unfold_locales (simp_all add: keep_Ingress_def merge_Ingress_def norm_Ingress_def meta_key_def copyLabels_def copyAnnotations_def)

interpretation np_kind: managed_kind "\<lambda>x. meta_key (np_Meta x)" "\<lambda>_ d. d"
    "\<lambda>_ _. True" merge_NetworkPolicy "\<lambda>_. True" norm_NetworkPolicy
  by unfold_locales (simp_all add: merge_NetworkPolicy_def norm_NetworkPolicy_def meta_key_def copyLabels_def copyAnnotations_def)

interpretation pdb_kind: managed_kind "\<lambda>x. meta_key (pdb_Meta x)" "\<lambda>_ d. d"
    "\<lambda>_ _. True" merge_PDB "\<lambda>_. True" norm_PDB
  by unfold_locales (simp_all add: merge_PDB_def norm_PDB_def meta_key_def copyLabels_def copyAnnotations_def)

interpretation hpa_kind: managed_kind "\<lambda>x. meta_key (hpa_Meta x)" "\<lambda>_ d. d"
    "\<lambda>_ _. True" merge_HPA "\<lambda>_. True" norm_HPA
  by unfold_locales (simp_all add: merge_HPA_def norm_HPA_def meta_key_def copyLabels_def copyAnnotations_def)

subsection \<open>The methods under the environment's laws\<close>

lemma own_with_okD:
  assumes "owner_laws r" and "own_with r inst meta set_meta d = Inr d'"
  shows "\<exists>os. d' = set_meta ((meta d)\<lparr>om_OwnerReferences := os\<rparr>) d"
proof -
  obtain m where "r_SetControllerReference r inst (meta d) = Inr m" "d' = set_meta m d"
    using assms(2) by (auto simp: own_with_def split: sum.splits)
  then show ?thesis using assms(1) unfolding owner_laws_def by metis
qed

lemma policy_ConfigMap_ok:
  assumes "owner_laws r" and "status_laws V r"
  shows "policy_ok V (policy_ConfigMap r inst) (\<lambda>x. meta_key (cm_Meta x)) (\<lambda>_ d. d)
    (\<lambda>ex d. cm_Data ex \<noteq> cm_Data d) merge_ConfigMap (\<lambda>_. True) norm_ConfigMap"
  using assms(2) by (auto simp: policy_defs policy_ok_def norm_ConfigMap_def status_laws_def dest!: own_with_okD [OF assms(1)])

lemma policy_ServiceAccount_ok:
  assumes "owner_laws r" and "status_laws V r"
  shows "policy_ok V (policy_ServiceAccount r inst) (\<lambda>x. meta_key (sa_Meta x)) (\<lambda>_ d. d)
    (\<lambda>_ _. True) merge_ServiceAccount (\<lambda>_. True) norm_ServiceAccount"
  using assms(2) by (auto simp: policy_defs policy_ok_def norm_ServiceAccount_def status_laws_def dest!: own_with_okD [OF assms(1)])

lemma policy_Role_ok:
  assumes "owner_laws r" and "status_laws V r"
  shows "policy_ok V (policy_Role r inst) (\<lambda>x. meta_key (role_Meta x)) (\<lambda>_ d. d)
    (\<lambda>ex d. role_Rules ex \<noteq> role_Rules d) merge_Role (\<lambda>_. True) norm_Role"
  using assms(2) by (auto simp: policy_defs policy_ok_def norm_Role_def status_laws_def dest!: own_with_okD [OF assms(1)])

lemma policy_RoleBinding_ok:
  assumes "owner_laws r" and "status_laws V r"
  shows "policy_ok V (policy_RoleBinding r inst) (\<lambda>x. meta_key (rb_Meta x)) (\<lambda>_ d. d)
    (\<lambda>ex d. rb_RoleRef ex \<noteq> rb_RoleRef d \<or> rb_Subjects ex \<noteq> rb_Subjects d) merge_RoleBinding (\<lambda>_. True) norm_RoleBinding"
  using assms(2) by (auto simp: policy_defs policy_ok_def norm_RoleBinding_def status_laws_def dest!: own_with_okD [OF assms(1)])

lemma policy_StatefulSet_ok:
  assumes "owner_laws r" and "status_laws V r"
  shows "policy_ok V (policy_StatefulSet r inst) (\<lambda>x. meta_key (sts_Meta x)) keep_StatefulSet
    statefulSetNeedsUpdate merge_StatefulSet valid_StatefulSet norm_StatefulSet"
  using assms(2) by (auto simp: policy_defs policy_ok_def norm_StatefulSet_def status_laws_def valid_StatefulSet_def dest!: own_with_okD [OF assms(1)])

lemma policy_Service_ok:
  assumes "owner_laws r" and "status_laws V r"
  shows "policy_ok V (policy_Service r inst) (\<lambda>x. meta_key (svc_Meta x)) keep_Service
    (\<lambda>_ _. True) merge_Service (\<lambda>_. True) norm_Service"
  using assms(2) by (auto simp: policy_defs policy_ok_def norm_Service_def status_laws_def dest!: own_with_okD [OF assms(1)])

lemma policy_Ingress_ok:
  assumes "owner_laws r" and "status_laws V r"
  shows "policy_ok V (policy_Ingress r inst) (\<lambda>x. meta_key (ing_Meta x)) keep_Ingress
    (\<lambda>_ _. True) merge_Ingress (\<lambda>_. True) norm_Ingress"
  using assms(2) by (auto simp: policy_defs policy_ok_def norm_Ingress_def status_laws_def dest!: own_with_okD [OF assms(1)])

lemma policy_NetworkPolicy_ok:
  assumes "owner_laws r" and "status_laws V r"
  shows "policy_ok V (policy_NetworkPolicy r inst) (\<lambda>x. meta_key (np_Meta x)) (\<lambda>_ d. d)
    (\<lambda>_ _. True) merge_NetworkPolicy (\<lambda>_. True) norm_NetworkPolicy"
  using assms(2) by (auto simp: policy_defs policy_ok_def norm_NetworkPolicy_def status_laws_def dest!: own_with_okD [OF assms(1)])

lemma policy_PDB_ok:
  assumes "owner_laws r" and "status_laws V r"
  shows "policy_ok V (policy_PDB r inst) (\<lambda>x. meta_key (pdb_Meta x)) (\<lambda>_ d. d)
    (\<lambda>_ _. True) merge_PDB (\<lambda>_. True) norm_PDB"
  using assms(2) by (auto simp: policy_defs policy_ok_def norm_PDB_def status_laws_def dest!: own_with_okD [OF assms(1)])

lemma policy_HPA_ok:
  assumes "owner_laws r" and "status_laws V r"
  shows "policy_ok V (policy_HPA r inst) (\<lambda>x. meta_key (hpa_Meta x)) (\<lambda>_ d. d)
    (\<lambda>_ _. True) merge_HPA (\<lambda>_. True) norm_HPA"
  using assms(2) by (auto simp: policy_defs policy_ok_def norm_HPA_def status_laws_def dest!: own_with_okD [OF assms(1)])

lemma env_lawsD:
  assumes "env_laws V r"
  shows "owner_laws r" "status_laws V r" "tlndb_laws V r" "unstructured_laws V r"
    "client_laws V (r_ConfigMap r) ConfigMapKind KConfigMap (\<lambda>x. meta_key (cm_Meta x)) (\<lambda>_. True) norm_ConfigMap"
    "client_laws V (r_ServiceAccount r) ServiceAccountKind KServiceAccount (\<lambda>x. meta_key (sa_Meta x)) (\<lambda>_. True) norm_ServiceAccount"
    "client_laws V (r_Role r) RoleKind KRole (\<lambda>x. meta_key (role_Meta x)) (\<lambda>_. True) norm_Role"
    "client_laws V (r_RoleBinding r) RoleBindingKind KRoleBinding (\<lambda>x. meta_key (rb_Meta x)) (\<lambda>_. True) norm_RoleBinding"
    "client_laws V (r_StatefulSet r) StatefulSetKind KStatefulSet (\<lambda>x. meta_key (sts_Meta x)) valid_StatefulSet norm_StatefulSet"
    "client_laws V (r_Service r) ServiceKind KService (\<lambda>x. meta_key (svc_Meta x)) (\<lambda>_. True) norm_Service"
    "client_laws V (r_Ingress r) IngressKind KIngress (\<lambda>x. meta_key (ing_Meta x)) (\<lambda>_. True) norm_Ingress"
    "client_laws V (r_NetworkPolicy r) NetworkPolicyKind KNetworkPolicy (\<lambda>x. meta_key (np_Meta x)) (\<lambda>_. True) norm_NetworkPolicy"
    "client_laws V (r_PDB r) PDBKind KPDB (\<lambda>x. meta_key (pdb_Meta x)) (\<lambda>_. True) norm_PDB"
    "client_laws V (r_HPA r) HPAKind KHPA (\<lambda>x. meta_key (hpa_Meta x)) (\<lambda>_. True) norm_HPA"
  using assms unfolding env_laws_def by blast+

lemma ConfigMap_contract:
  assumes "env_laws V r"
  shows "frame_contract V ConfigMapKind (\<lambda>x. meta_key (cm_Meta x)) (createOrUpdateConfigMap r)"
    and "holds_contract V ConfigMapKind KConfigMap (\<lambda>x. meta_key (cm_Meta x)) (\<lambda>_. True) norm_ConfigMap (createOrUpdateConfigMap r)"
  using cm_kind.upsert_frame_contract [OF env_lawsD(5) [OF assms] policy_ConfigMap_ok [OF env_lawsD(1,2) [OF assms]]]
    cm_kind.upsert_holds_contract [OF env_lawsD(5) [OF assms] policy_ConfigMap_ok [OF env_lawsD(1,2) [OF assms]]]
  by (simp_all add: createOrUpdateConfigMap_upsert [abs_def] policy_defs)

lemma ServiceAccount_contract:
  assumes "env_laws V r"
  shows "frame_contract V ServiceAccountKind (\<lambda>x. meta_key (sa_Meta x)) (createOrUpdateServiceAccount r)"
    and "holds_contract V ServiceAccountKind KServiceAccount (\<lambda>x. meta_key (sa_Meta x)) (\<lambda>_. True) norm_ServiceAccount (createOrUpdateServiceAccount r)"
  using sa_kind.upsert_frame_contract [OF env_lawsD(6) [OF assms] policy_ServiceAccount_ok [OF env_lawsD(1,2) [OF assms]]]
    sa_kind.upsert_holds_contract [OF env_lawsD(6) [OF assms] policy_ServiceAccount_ok [OF env_lawsD(1,2) [OF assms]]]
  by (simp_all add: createOrUpdateServiceAccount_upsert [abs_def] policy_defs)

lemma Role_contract:
  assumes "env_laws V r"
  shows "frame_contract V RoleKind (\<lambda>x. meta_key (role_Meta x)) (createOrUpdateRole r)"
    and "holds_contract V RoleKind KRole (\<lambda>x. meta_key (role_Meta x)) (\<lambda>_. True) norm_Role (createOrUpdateRole r)"
  using role_kind.upsert_frame_contract [OF env_lawsD(7) [OF assms] policy_Role_ok [OF env_lawsD(1,2) [OF assms]]]
    role_kind.upsert_holds_contract [OF env_lawsD(7) [OF assms] policy_Role_ok [OF env_lawsD(1,2) [OF assms]]]
  by (simp_all add: createOrUpdateRole_upsert [abs_def] policy_defs)

lemma RoleBinding_contract:
  assumes "env_laws V r"
  shows "frame_contract V RoleBindingKind (\<lambda>x. meta_key (rb_Meta x)) (createOrUpdateRoleBinding r)"
    and "holds_contract V RoleBindingKind KRoleBinding (\<lambda>x. meta_key (rb_Meta x)) (\<lambda>_. True) norm_RoleBinding (createOrUpdateRoleBinding r)"
  using rb_kind.upsert_frame_contract [OF env_lawsD(8) [OF assms] policy_RoleBinding_ok [OF env_lawsD(1,2) [OF assms]]]
    rb_kind.upsert_holds_contract [OF env_lawsD(8) [OF assms] policy_RoleBinding_ok [OF env_lawsD(1,2) [OF assms]]]
  by (simp_all add: createOrUpdateRoleBinding_upsert [abs_def] policy_defs)

lemma StatefulSet_contract:
  assumes "env_laws V r"
  shows "frame_contract V StatefulSetKind (\<lambda>x. meta_key (sts_Meta x)) (createOrUpdateStatefulSet r)"
    and "holds_contract V StatefulSetKind KStatefulSet (\<lambda>x. meta_key (sts_Meta x)) valid_StatefulSet norm_StatefulSet (createOrUpdateStatefulSet r)"
  using sts_kind.upsert_frame_contract [OF env_lawsD(9) [OF assms] policy_StatefulSet_ok [OF env_lawsD(1,2) [OF assms]]]
    sts_kind.upsert_holds_contract [OF env_lawsD(9) [OF assms] policy_StatefulSet_ok [OF env_lawsD(1,2) [OF assms]]]
  by (simp_all add: createOrUpdateStatefulSet_upsert [abs_def] policy_defs)

lemma Service_contract:
  assumes "env_laws V r"
  shows "frame_contract V ServiceKind (\<lambda>x. meta_key (svc_Meta x)) (createOrUpdateService r)"
    and "holds_contract V ServiceKind KService (\<lambda>x. meta_key (svc_Meta x)) (\<lambda>_. True) norm_Service (createOrUpdateService r)"
  using svc_kind.upsert_frame_contract [OF env_lawsD(10) [OF assms] policy_Service_ok [OF env_lawsD(1,2) [OF assms]]]
    svc_kind.upsert_holds_contract [OF env_lawsD(10) [OF assms] policy_Service_ok [OF env_lawsD(1,2) [OF assms]]]
  by (simp_all add: createOrUpdateService_upsert [abs_def] policy_defs)

lemma Ingress_contract:
  assumes "env_laws V r"
  shows "frame_contract V IngressKind (\<lambda>x. meta_key (ing_Meta x)) (createOrUpdateIngress r)"
    and "holds_contract V IngressKind KIngress (\<lambda>x. meta_key (ing_Meta x)) (\<lambda>_. True) norm_Ingress (createOrUpdateIngress r)"
  using ing_kind.upsert_frame_contract [OF env_lawsD(11) [OF assms] policy_Ingress_ok [OF env_lawsD(1,2) [OF assms]]]
    ing_kind.upsert_holds_contract [OF env_lawsD(11) [OF assms] policy_Ingress_ok [OF env_lawsD(1,2) [OF assms]]]
  by (simp_all add: createOrUpdateIngress_upsert [abs_def] policy_defs)

lemma NetworkPolicy_contract:
  assumes "env_laws V r"
  shows "frame_contract V NetworkPolicyKind (\<lambda>x. meta_key (np_Meta x)) (createOrUpdateNetworkPolicy r)"
    and "holds_contract V NetworkPolicyKind KNetworkPolicy (\<lambda>x. meta_key (np_Meta x)) (\<lambda>_. True) norm_NetworkPolicy (createOrUpdateNetworkPolicy r)"
  using np_kind.upsert_frame_contract [OF env_lawsD(12) [OF assms] policy_NetworkPolicy_ok [OF env_lawsD(1,2) [OF assms]]]
    np_kind.upsert_holds_contract [OF env_lawsD(12) [OF assms] policy_NetworkPolicy_ok [OF env_lawsD(1,2) [OF assms]]]
  by (simp_all add: createOrUpdateNetworkPolicy_upsert [abs_def] policy_defs)

lemma PDB_contract:
  assumes "env_laws V r"
  shows "frame_contract V PDBKind (\<lambda>x. meta_key (pdb_Meta x)) (createOrUpdatePDB r)"
  using pdb_kind.upsert_frame_contract [OF env_lawsD(13) [OF assms] policy_PDB_ok [OF env_lawsD(1,2) [OF assms]]]
  by (simp add: createOrUpdatePDB_upsert [abs_def])

lemma HPA_contract:
  assumes "env_laws V r"
  shows "frame_contract V HPAKind (\<lambda>x. meta_key (hpa_Meta x)) (createOrUpdateHPA r)"
  using hpa_kind.upsert_frame_contract [OF env_lawsD(14) [OF assms] policy_HPA_ok [OF env_lawsD(1,2) [OF assms]]]
  by (simp add: createOrUpdateHPA_upsert [abs_def])

lemma ServiceMonitor_contract:
  assumes "env_laws V r"
  shows "frame_contract V MonitorKind (key_Unstructured r) (createOrUpdateServiceMonitor r)"
proof -
  have u: "unstructured_laws V r" using assms by (rule env_lawsD)
  have laws: "client_laws V (r_Unstructured r g) MonitorKind KUnstructured (key_Unstructured r) (\<lambda>_. True) (\<lambda>_. ())" for g
    using u by (simp add: unstructured_laws_def)
  note get = get_lawsD(1) [OF client_lawsD(1) [OF laws]]
  note create = write_lawsD [OF client_lawsD(2) [OF laws]]
  note update = write_lawsD [OF client_lawsD(3) [OF laws]]
  have rv: "key_Unstructured r (r_SetResourceVersion r v x) = key_Unstructured r x" for v x
    using u by (simp add: unstructured_laws_def)
  have own: "key_Unstructured r (case r_SetControllerReferenceU r inst d of Inl e \<Rightarrow> d | Inr d' \<Rightarrow> d')
      = key_Unstructured r d" for inst d
    using u by (auto simp: unstructured_laws_def split: sum.split)
  have step: "(q \<noteq> (MonitorKind, key_Unstructured r d) \<longrightarrow> V (snd (createOrUpdateServiceMonitor r inst d w)) q = V w q) \<and>
      (fst (createOrUpdateServiceMonitor r inst d w) = Inr d' \<longrightarrow> key_Unstructured r d' = key_Unstructured r d)" for inst d w q d'
  proof -
    define d1 where "d1 = (case r_SetControllerReferenceU r inst d of Inl e \<Rightarrow> d | Inr d' \<Rightarrow> d')"
    let ?k = "(r_GetNamespace r d1, r_GetName r d1)"
    obtain g w1 where g: "kc_Get (r_Unstructured r (r_GroupVersionKind r d1)) ?k w = (g, w1)" by force
    have k: "key_Unstructured r d1 = key_Unstructured r d" unfolding d1_def by (rule own)
    have V1: "V w1 = V w" using get [of "r_GroupVersionKind r d1" ?k w] g by simp
    show ?thesis
    proof (cases g)
      case (Inl e)
      then show ?thesis
        using g V1 k create(1) create(2)
        by (simp add: createOrUpdateServiceMonitor_def Let_def flip: d1_def)
    next
      case (Inr ex)
      then show ?thesis
        using g V1 k update(1) update(2) rv
        by (simp add: createOrUpdateServiceMonitor_def Let_def flip: d1_def)
    qed
  qed
  show ?thesis unfolding frame_contract_def using step by (metis fst_conv)
qed

lemma deleteStatefulSet_effect:
  assumes "env_laws V r" and run: "deleteStatefulSetIfExists r ns n w = (e, w')"
  shows "q \<noteq> (StatefulSetKind, ns, n) \<Longrightarrow> V w' q = V w q"
    and "e = None \<Longrightarrow> gone (V w') (StatefulSetKind, ns, n)"
proof -
  note laws = env_lawsD(9) [OF assms(1)]
  obtain g w1 where g: "kc_Get (r_StatefulSet r) (ns, n) w = (g, w1)" by force
  have V1: "V w1 = V w" using get_lawsD(1) [OF client_lawsD(1) [OF laws], of "(ns, n)" w] g by simp
  note getD = get_lawsD [OF client_lawsD(1) [OF laws]]
  have "(q \<noteq> (StatefulSetKind, ns, n) \<longrightarrow> V w' q = V w q) \<and> (e = None \<longrightarrow> gone (V w') (StatefulSetKind, ns, n))"
  proof (cases g)
    case (Inl x)
    then have "w' = w1" "e = (if IsNotFound x then None else Some x)"
      using run g by (auto simp: deleteStatefulSetIfExists_def split: if_splits)
    moreover have "IsNotFound x \<Longrightarrow> V w (StatefulSetKind, ns, n) = None" using getD(3) g Inl by (metis fst_conv)
    ultimately show ?thesis using V1 by (simp add: gone_def)
  next
    case (Inr ex)
    have k: "meta_key (sts_Meta ex) = (ns, n)" using getD(2) [of "(ns, n)" w ex] g Inr by simp
    obtain e2 w2 where d: "kc_Delete (r_StatefulSet r) ex w1 = (e2, w2)" by force
    then have "w' = w2" "e = (case e2 of Some x \<Rightarrow> if IsNotFound x then None else Some x | None \<Rightarrow> None)"
      using run g Inr by (auto simp: deleteStatefulSetIfExists_def split: option.splits if_splits)
    then show ?thesis
      using delete_lawsD [OF client_lawsD(4) [OF laws], where ?o1.0 = ex and w = w1] d k V1
      by (auto split: option.splits if_splits)
  qed
  then show "q \<noteq> (StatefulSetKind, ns, n) \<Longrightarrow> V w' q = V w q"
    and "e = None \<Longrightarrow> gone (V w') (StatefulSetKind, ns, n)" by blast+
qed

subsection \<open>Properties\<close>

lemma createOrUpdateStatefulSet_existing:
  assumes "r_SetControllerReference r inst (sts_Meta d) = Inr m"
    and "kc_Get (r_StatefulSet r) (meta_key m) w = (Inr ex, w1)"
  shows "createOrUpdateStatefulSet r inst d w =
    (let d1 = keep_StatefulSet ex (d\<lparr>sts_Meta := m\<rparr>)
     in if statefulSetNeedsUpdate ex d1
        then updateExisting (r_StatefulSet r) (merge_StatefulSet ex d1) d1
               (r_Eventf r inst ''Normal'' ''Updated'' (''Updated StatefulSet '' @ om_Name m) w1)
        else (Inr d1, w1))"
  using assms by (simp add: createOrUpdateStatefulSet_def Let_def merge_defs)

lemma updateExisting_world: "snd (updateExisting c u d w) = snd (kc_Update c u w)"
  by (simp add: updateExisting_def split: prod.split sum.split)

lemma updateExisting_error: "fst (updateExisting c u d w) = Inl e \<longleftrightarrow> fst (kc_Update c u w) = Inl e"
  by (auto simp: updateExisting_def split: prod.split sum.split)

text \<open>
  C10: rolling out a StatefulSet that already exists. If the stored set agrees with the desired
  one on the replica count, the config-hash annotation and the image of the first
  container, nothing is written and the call succeeds. Otherwise exactly one Update is
  sent (its error, if any, is returned): it carries the desired replicas, pod template
  and labels, and keeps the stored name, resource version and every field the API server
  treats as immutable: selector, service name, pod management policy and volume claim
  templates.
\<close>

theorem statefulset_rollout:
  assumes "r_SetControllerReference r inst (sts_Meta d) = Inr m"
    and "kc_Get (r_StatefulSet r) (meta_key m) w = (Inr ex, w1)"
    and "sts_Containers ex \<noteq> []" and "sts_Containers d \<noteq> []"
  shows "let agree = (ss_Replicas (sts_Spec ex) = ss_Replicas (sts_Spec d) \<and>
               str_at (pt_Annotations (sts_Template ex)) ConfigHashAnnotation
                 = str_at (pt_Annotations (sts_Template d)) ConfigHashAnnotation \<and>
               c_Image (hd (sts_Containers ex)) = c_Image (hd (sts_Containers d)));
             call = createOrUpdateStatefulSet r inst d w;
             w2 = r_Eventf r inst ''Normal'' ''Updated'' (''Updated StatefulSet '' @ om_Name m) w1
    in (agree \<longrightarrow> snd call = w1 \<and> (\<exists>d'. fst call = Inr d')) \<and>
       (\<not> agree \<longrightarrow> (\<exists>u. snd call = snd (kc_Update (r_StatefulSet r) u w2) \<and>
          (\<forall>e. fst call = Inl e \<longleftrightarrow> fst (kc_Update (r_StatefulSet r) u w2) = Inl e) \<and>
          ss_Replicas (sts_Spec u) = ss_Replicas (sts_Spec d) \<and> sts_Template u = sts_Template d \<and>
          sts_Meta u = (sts_Meta ex)\<lparr>om_Labels := om_Labels m\<rparr> \<and>
          (sts_Spec u)\<lparr>ss_Replicas := None, ss_Template := sts_Template ex\<rparr>
            = (sts_Spec ex)\<lparr>ss_Replicas := None\<rparr>))"
proof -
  let ?d1 = "keep_StatefulSet ex (d\<lparr>sts_Meta := m\<rparr>)"
  have needs: "statefulSetNeedsUpdate ex ?d1 \<longleftrightarrow> norm_StatefulSet ex \<noteq> norm_StatefulSet d"
    using assms(3,4) needs_StatefulSet_iff [of ex ?d1]
    by (simp add: valid_StatefulSet_def norm_keep_StatefulSet) (simp add: norm_StatefulSet_def merge_defs)
  let ?u = "merge_StatefulSet ex ?d1"
  have u: "ss_Replicas (sts_Spec ?u) = ss_Replicas (sts_Spec d)" "sts_Template ?u = sts_Template d"
    "sts_Meta ?u = (sts_Meta ex)\<lparr>om_Labels := om_Labels m\<rparr>"
    "(sts_Spec ?u)\<lparr>ss_Replicas := None, ss_Template := sts_Template ex\<rparr> = (sts_Spec ex)\<lparr>ss_Replicas := None\<rparr>"
    by (simp_all add: merge_defs)
  show ?thesis
  proof (cases "norm_StatefulSet ex = norm_StatefulSet d")
    case True
    then show ?thesis
      using createOrUpdateStatefulSet_existing [OF assms(1,2)] needs
      by (simp add: Let_def) (simp add: norm_StatefulSet_def)
  next
    case False
    then have "createOrUpdateStatefulSet r inst d w = updateExisting (r_StatefulSet r) ?u ?d1
        (r_Eventf r inst ''Normal'' ''Updated'' (''Updated StatefulSet '' @ om_Name m) w1)"
      using createOrUpdateStatefulSet_existing [OF assms(1,2)] needs by (simp add: Let_def)
    then show ?thesis
      using False u unfolding Let_def norm_StatefulSet_def
      by (auto simp: updateExisting_world updateExisting_error intro!: exI [of _ ?u])
  qed
qed

theorem statefulset_rollout_witness:
  "\<exists>u. snd (createOrUpdateStatefulSet mem_reconciler newInstance (BuildStatefulSet sample_lib newInstance ''h1'')
             (mem_one (KStatefulSet (BuildStatefulSet sample_lib newInstance ''h0''))))
         = snd (kc_Update (r_StatefulSet mem_reconciler) u
             (r_Eventf mem_reconciler newInstance ''Normal'' ''Updated'' (''Updated StatefulSet '' @ ''db1'')
               (mem_one (KStatefulSet (BuildStatefulSet sample_lib newInstance ''h0'')))))
       \<and> sts_Template u = sts_Template (BuildStatefulSet sample_lib newInstance ''h1'')"
proof -
  let ?d = "BuildStatefulSet sample_lib newInstance ''h1''" and ?ex = "BuildStatefulSet sample_lib newInstance ''h0''"
  let ?m = "(sts_Meta ?d)\<lparr>om_OwnerReferences := [mem_owner newInstance]\<rparr>"
  have ne: "sts_Containers ?ex \<noteq> []" "sts_Containers ?d \<noteq> []" by (simp_all add: standalone_wl.build_containers)
  have "meta_key ?m = meta_key (sts_Meta ?ex)"
    by (simp add: standalone_child.key_eq)
  then have get: "kc_Get (r_StatefulSet mem_reconciler) (meta_key ?m) (mem_one (KStatefulSet ?ex))
      = (Inr ?ex, mem_one (KStatefulSet ?ex))"
    using mem_one_get(1) [of ?ex] ne by (simp add: valid_StatefulSet_def)
  have own: "r_SetControllerReference mem_reconciler newInstance (sts_Meta ?d) = Inr ?m" by simp
  have n: "om_Name ?m = ''db1''" by (simp add: standalone_wl.build_name ResourceName_def zero_defs)
  have diff: "str_at (pt_Annotations (sts_Template ?ex)) ConfigHashAnnotation
      \<noteq> str_at (pt_Annotations (sts_Template ?d)) ConfigHashAnnotation"
    by (simp add: str_at_def standalone_wl.hash_annotation zero_defs)
  show ?thesis
    using statefulset_rollout [OF own get ne] diff unfolding Let_def n by blast
qed

text \<open>
  C19: updating a Service that already exists keeps what the cluster assigned: exactly one
  Update is sent, with the desired selector, ports, type, labels and annotations, the
  stored cluster IP, and the stored name and resource version.
\<close>

theorem service_update_keeps_cluster_ip:
  assumes "r_SetControllerReference r inst (svc_Meta d) = Inr m"
    and "kc_Get (r_Service r) (meta_key m) w = (Inr ex, w1)"
  shows "\<exists>u. snd (createOrUpdateService r inst d w) = snd (kc_Update (r_Service r) u w1) \<and>
    (\<forall>e. fst (createOrUpdateService r inst d w) = Inl e \<longleftrightarrow> fst (kc_Update (r_Service r) u w1) = Inl e) \<and>
    svc_Spec u = (svc_Spec d)\<lparr>ks_ClusterIP := ks_ClusterIP (svc_Spec ex)\<rparr> \<and>
    svc_Meta u = (svc_Meta ex)\<lparr>om_Labels := om_Labels m, om_Annotations := om_Annotations m\<rparr>"
  using assms
  by (intro exI [of _ "merge_Service ex (keep_Service ex (d\<lparr>svc_Meta := m\<rparr>))"])
    (simp add: createOrUpdateService_def Let_def updateExisting_world updateExisting_error merge_defs)

theorem service_update_keeps_cluster_ip_witness:
  "\<exists>u. snd (createOrUpdateService mem_reconciler newInstance (BuildWriteService newInstance)
             (mem_one (KService (BuildService newInstance))))
         = snd (kc_Update (r_Service mem_reconciler) u (mem_one (KService (BuildService newInstance))))
       \<and> ks_Selector (svc_Spec u) = roleSelector newInstance RoleLeader"
proof -
  let ?d = "BuildWriteService newInstance" and ?ex = "BuildService newInstance"
  let ?m = "(svc_Meta ?d)\<lparr>om_OwnerReferences := [mem_owner newInstance]\<rparr>"
  have own: "r_SetControllerReference mem_reconciler newInstance (svc_Meta ?d) = Inr ?m" by simp
  have "meta_key ?m = meta_key (svc_Meta ?ex)" by (simp add: write_svc.key_eq main_svc.key_eq)
  then have get: "kc_Get (r_Service mem_reconciler) (meta_key ?m) (mem_one (KService ?ex))
      = (Inr ?ex, mem_one (KService ?ex))"
    using mem_one_get(2) [of ?ex] by simp
  show ?thesis
    using service_update_keeps_cluster_ip [OF own get] write_svc.build_selector [of newInstance]
    by (metis KServiceSpec.select_convs(2) KServiceSpec.surjective KServiceSpec.update_convs(4))
qed

text \<open>
  Changes of the pod template that touch neither image, replicas nor configuration never
  reach a running set: after any change of environment, resources, scheduling
  constraints or security contexts, and in replicated mode of the oplog retention, the
  newly built set is not considered different from the one built before.
\<close>

theorem template_changes_not_rolled_out:
  "let inst' = inst\<lparr>db_Spec := (db_Spec inst)\<lparr>spec_Env := env, spec_EnvFrom := envFrom, spec_Resources := res,
                      spec_Security := sec, spec_NodeSelector := ns, spec_Tolerations := tol, spec_Affinity := aff\<rparr>\<rparr>
   in \<not> statefulSetNeedsUpdate (BuildStatefulSet L inst h) (BuildStatefulSet L inst' h) \<and>
      \<not> statefulSetNeedsUpdate (BuildLeaderStatefulSet L inst h ret) (BuildLeaderStatefulSet L inst' h ret') \<and>
      \<not> statefulSetNeedsUpdate (BuildFollowerStatefulSet L inst h addr n ret) (BuildFollowerStatefulSet L inst' h addr n ret')"
  by (simp add: statefulSetNeedsUpdate_def build_defs Let_def buildMainContainer_def)

text \<open>
  The replica count of a StatefulSet is not the autoscaler's to keep: a standalone set
  scaled to any count other than the one of the instance's spec is considered
  different and is set back to it by the next reconciliation.
\<close>

theorem scaling_is_reverted:
  assumes "ss_Replicas (sts_Spec ex) \<noteq> Some (case spec_Replicas (db_Spec inst) of None \<Rightarrow> 1 | Some n \<Rightarrow> n)"
  shows "statefulSetNeedsUpdate ex (BuildStatefulSet L inst h) \<and>
    ss_Replicas (sts_Spec (merge_StatefulSet ex (BuildStatefulSet L inst h)))
      = Some (case spec_Replicas (db_Spec inst) of None \<Rightarrow> 1 | Some n \<Rightarrow> n)"
  using assms by (simp add: statefulSetNeedsUpdate_def merge_StatefulSet_def build_defs Let_def)

theorem scaling_is_reverted_witness:
  "statefulSetNeedsUpdate
     ((BuildStatefulSet sample_lib newInstance ''h'')
        \<lparr>sts_Spec := (sts_Spec (BuildStatefulSet sample_lib newInstance ''h''))\<lparr>ss_Replicas := Some 4\<rparr>\<rparr>)
     (BuildStatefulSet sample_lib newInstance ''h'')"
  using scaling_is_reverted [of "(BuildStatefulSet sample_lib newInstance ''h'')
        \<lparr>sts_Spec := (sts_Spec (BuildStatefulSet sample_lib newInstance ''h''))\<lparr>ss_Replicas := Some 4\<rparr>\<rparr>" newInstance sample_lib "''h''"]
  by (simp add: zero_defs)

end
