(* ===== verification/Controller.thy ===== *)
theory Controller
  imports Managed
begin

section \<open>The reconciler (internal/controller/tlndb\_controller.go)\<close>

text \<open>
  \<^verbatim>\<open>Reconcile\<close> and what it calls. The instance is mutated in place by the status helpers
  (and overwritten by the server's response to a status patch), so operations that may
  change it return it. The body of \<^verbatim>\<open>reconcileResources\<close> is a sequence of stages over its
  local variables (\<open>rstate\<close>): a stage returns an error, which ends the function as
  \<^verbatim>\<open>return err\<close> does, or nothing. Logging is left out.
\<close>

subsection \<open>Status helpers\<close>

text \<open>
  The status patch with the handling the source gives it three times: on success the
  response overwrites the instance, a conflict is ignored.
\<close>

definition patchStatus :: "'w reconciler \<Rightarrow> TlnDB \<Rightarrow> TlnDB \<Rightarrow> 'w \<Rightarrow> error option \<times> TlnDB \<times> 'w" where
  "patchStatus r inst base w =
     (case r_StatusPatch r inst base w of
        (Inl e, w) \<Rightarrow> if \<not> IsConflict e then (Some e, inst, w) else (None, inst, w)
      | (Inr inst', w) \<Rightarrow> (None, inst', w))"

definition setPhase :: "'w reconciler \<Rightarrow> TlnDB \<Rightarrow> string \<Rightarrow> 'w \<Rightarrow> error option \<times> TlnDB \<times> 'w" where
  "setPhase r inst phase w =
     (let base = inst;
          (now, w) = r_Now r w;
          inst = inst\<lparr>db_Status := (db_Status inst)\<lparr>sta_Phase := phase, sta_LastUpdateTime := Some now\<rparr>\<rparr>
      in patchStatus r inst base w)"

definition mkCondition :: "TlnDB \<Rightarrow> string \<Rightarrow> ConditionStatus \<Rightarrow> string \<Rightarrow> string \<Rightarrow> Condition" where
  "mkCondition inst condType status reason message =
     \<lparr>cond_Type = condType, cond_Status = status, cond_ObservedGeneration = om_Generation (db_Meta inst),
      cond_LastTransitionTime = 0, cond_Reason = reason, cond_Message = message\<rparr>"

definition setConditionOnInstance :: "'w reconciler \<Rightarrow> TlnDB \<Rightarrow> string
    \<Rightarrow> ConditionStatus \<times> string \<times> string \<Rightarrow> 'w \<Rightarrow> TlnDB \<times> 'w" where
  "setConditionOnInstance r inst condType fn w =
     (let (status, reason, message) = fn;
          (conds, w) = r_SetStatusCondition r (sta_Conditions (db_Status inst))
                         (mkCondition inst condType status reason message) w
      in (inst\<lparr>db_Status := (db_Status inst)\<lparr>sta_Conditions := conds\<rparr>\<rparr>, w))"

text \<open>\<^verbatim>\<open>setCondition\<close> returns no error: a failed patch is only logged.\<close>

definition setCondition :: "'w reconciler \<Rightarrow> TlnDB \<Rightarrow> string \<Rightarrow> ConditionStatus \<Rightarrow> string \<Rightarrow> string
    \<Rightarrow> 'w \<Rightarrow> TlnDB \<times> 'w" where
  "setCondition r inst condType status reason message w =
     (let base = inst;
          (conds, w) = r_SetStatusCondition r (sta_Conditions (db_Status inst))
                         (mkCondition inst condType status reason message) w;
          inst = inst\<lparr>db_Status := (db_Status inst)\<lparr>sta_Conditions := conds\<rparr>\<rparr>
      in case r_StatusPatch r inst base w of
           (Inl e, w) \<Rightarrow> (inst, w)
         | (Inr inst', w) \<Rightarrow> (inst', w))"

subsection \<open>reconcileResources\<close>

record 'w rstate =
  rs_inst :: TlnDB
  rs_managed :: "string list"
  rs_hash :: string
  rs_world :: 'w

type_synonym 'w stage = "'w rstate \<Rightarrow> error option \<times> 'w rstate"

primrec run :: "'w stage list \<Rightarrow> 'w stage" where
  "run [] s = (None, s)"
| "run (f # fs) s = (case f s of (Some e, s') \<Rightarrow> (Some e, s') | (None, s') \<Rightarrow> run fs s')"

definition only_if :: "(TlnDB \<Rightarrow> bool) \<Rightarrow> 'w stage \<Rightarrow> 'w stage" where
  "only_if b f s = (if b (rs_inst s) then f s else (None, s))"

text \<open>
  The pattern of every resource: build it, create or update it, wrap an error with
  \<^verbatim>\<open>fmt.Errorf\<close>, and append \<^verbatim>\<open>kind/name\<close> to \<^verbatim>\<open>managed\<close>.
\<close>

definition ensure :: "string \<Rightarrow> string \<Rightarrow> ('o \<Rightarrow> string) \<Rightarrow> (TlnDB \<Rightarrow> 'o \<Rightarrow> 'w \<Rightarrow> (error + 'o) \<times> 'w)
    \<Rightarrow> (TlnDB \<Rightarrow> 'o) \<Rightarrow> 'w stage" where
  "ensure what kindName nameOf createOrUpdate build s =
     (case createOrUpdate (rs_inst s) (build (rs_inst s)) (rs_world s) of
        (Inl e, w) \<Rightarrow> (Some (WrapErr what e), s\<lparr>rs_world := w\<rparr>)
      | (Inr d, w) \<Rightarrow> (None, s\<lparr>rs_world := w, rs_managed := rs_managed s @ [kindName @ ''/'' @ nameOf d]\<rparr>))"

definition condition :: "'w reconciler \<Rightarrow> string \<Rightarrow> ConditionStatus \<Rightarrow> string \<Rightarrow> string \<Rightarrow> 'w stage" where
  "condition r condType status reason message s =
     (let (inst, w) = setCondition r (rs_inst s) condType status reason message (rs_world s)
      in (None, s\<lparr>rs_inst := inst, rs_world := w\<rparr>))"

definition stageRBAC :: "'w reconciler \<Rightarrow> 'w stage" where
  "stageRBAC r = only_if (\<lambda>inst. spec_ServiceAccountName (db_Spec inst) = [])
     (run [ensure ''ServiceAccount'' ''ServiceAccount'' (\<lambda>x. om_Name (sa_Meta x))
             (createOrUpdateServiceAccount r) BuildServiceAccount,
           ensure ''role'' ''Role'' (\<lambda>x. om_Name (role_Meta x)) (createOrUpdateRole r) BuildRole,
           ensure ''RoleBinding'' ''RoleBinding'' (\<lambda>x. om_Name (rb_Meta x))
             (createOrUpdateRoleBinding r) BuildRoleBinding,
           condition r ConditionRBACReady ConditionTrue ''RBACReady'' ''RBAC reconciled''])"

text \<open>
  The error message reads the reference again after \<^verbatim>\<open>setCondition\<close>, that is from the server's
  response: if the reference has gone meanwhile the source dereferences nil, which the
  controller runtime turns into an error.
\<close>

definition stageExternalConfig :: "'w reconciler \<Rightarrow> string \<Rightarrow> 'w stage" where
  "stageExternalConfig r name s =
     (let quoted = Quote (lib_IsPrint (r_lib r)) name
      in case kc_Get (r_ConfigMap r) (db_Namespace (rs_inst s), name) (rs_world s) of
           (Inl e, w) \<Rightarrow>
             if IsNotFound e
             then (let (_, s) = condition r ConditionConfigMapReady ConditionFalse ''ExternalConfigMapNotFound''
                                  (''referenced ConfigMap '' @ quoted @ '' not found'') (s\<lparr>rs_world := w\<rparr>)
                   in case spec_ConfigFrom (db_Spec (rs_inst s)) of
                        Some name \<Rightarrow>
                          (Some (WrapErr (''external ConfigMap '' @ Quote (lib_IsPrint (r_lib r)) name @ '' not found'') e), s)
                      | None \<Rightarrow> (Some (OtherErr ''nil pointer dereference''), s))
             else (Some e, s\<lparr>rs_world := w\<rparr>)
         | (Inr externalCM, w) \<Rightarrow>
             condition r ConditionConfigMapReady ConditionTrue ''ExternalConfigMapFound'' ''External ConfigMap found''
               (s\<lparr>rs_world := w, rs_hash := HashStringData (cm_Data externalCM)\<rparr>))"

definition stageRenderedConfig :: "'w reconciler \<Rightarrow> 'w stage" where
  "stageRenderedConfig r s =
     (case createOrUpdateConfigMap r (rs_inst s) (BuildConfigMap (r_lib r) (rs_inst s)) (rs_world s) of
        (Inl e, w) \<Rightarrow> (Some (WrapErr ''ConfigMap'' e), s\<lparr>rs_world := w\<rparr>)
      | (Inr cm, w) \<Rightarrow>
          condition r ConditionConfigMapReady ConditionTrue ''ConfigMapReady'' ''ConfigMap reconciled''
            (s\<lparr>rs_world := w, rs_hash := HashStringData (cm_Data cm),
               rs_managed := rs_managed s @ [''ConfigMap/'' @ om_Name (cm_Meta cm)]\<rparr>))"

definition stageConfig :: "'w reconciler \<Rightarrow> 'w stage" where
  "stageConfig r s =
     (case spec_ConfigFrom (db_Spec (rs_inst s)) of
        Some name \<Rightarrow> stageExternalConfig r name s
      | None \<Rightarrow> stageRenderedConfig r s)"

definition ensureService :: "'w reconciler \<Rightarrow> string \<Rightarrow> (TlnDB \<Rightarrow> Service) \<Rightarrow> 'w stage" where
  "ensureService r what build =
     ensure what ''Service'' (\<lambda>x. om_Name (svc_Meta x)) (createOrUpdateService r) build"

definition ensureStatefulSet :: "'w reconciler \<Rightarrow> string \<Rightarrow> (TlnDB \<Rightarrow> StatefulSet) \<Rightarrow> 'w stage" where
  "ensureStatefulSet r what build =
     ensure what ''StatefulSet'' (\<lambda>x. om_Name (sts_Meta x)) (createOrUpdateStatefulSet r) build"

definition stageHeadless :: "'w reconciler \<Rightarrow> 'w stage" where
  "stageHeadless r = ensureService r ''headless Service'' BuildHeadlessService"

definition leaderAddr :: "TlnDB \<Rightarrow> string" where
  "leaderAddr inst = ResourceName inst @ ''.'' @ db_Namespace inst @ ''.svc.cluster.local:'' @ FormatInt (grpcPort inst)"

definition stagePruneFollowers :: "'w reconciler \<Rightarrow> 'w stage" where
  "stagePruneFollowers r s =
     (case deleteStatefulSetIfExists r (db_Namespace (rs_inst s)) (FollowerStatefulSetName (rs_inst s)) (rs_world s) of
        (Some e, w) \<Rightarrow> (Some (WrapErr ''prune follower StatefulSet'' e), s\<lparr>rs_world := w\<rparr>)
      | (None, w) \<Rightarrow> (None, s\<lparr>rs_world := w\<rparr>))"

definition stageFollowers :: "'w reconciler \<Rightarrow> string \<Rightarrow> string \<Rightarrow> int64 \<Rightarrow> 'w stage" where
  "stageFollowers r configHash addr retention s =
     (if rep_ReadReplicas (spec_Replication (db_Spec (rs_inst s))) > 0
      then ensureStatefulSet r ''follower StatefulSet''
             (\<lambda>inst. BuildFollowerStatefulSet (r_lib r) inst configHash addr
                       (rep_ReadReplicas (spec_Replication (db_Spec inst))) retention) s
      else stagePruneFollowers r s)"

definition stageReplicated :: "'w reconciler \<Rightarrow> 'w stage" where
  "stageReplicated r s =
     (let retention = rep_OplogRetention (spec_Replication (db_Spec (rs_inst s)));
          addr = leaderAddr (rs_inst s);
          configHash = rs_hash s
      in run [ensureStatefulSet r ''leader StatefulSet''
                (\<lambda>inst. BuildLeaderStatefulSet (r_lib r) inst configHash retention),
              stageFollowers r configHash addr retention,
              ensureService r ''write Service'' BuildWriteService,
              ensureService r ''read Service'' BuildReadService,
              condition r ConditionServiceReady ConditionTrue ''ServiceReady'' ''Services reconciled''] s)"

definition stageStandalone :: "'w reconciler \<Rightarrow> 'w stage" where
  "stageStandalone r s =
     (let configHash = rs_hash s
      in run [ensureStatefulSet r ''StatefulSet'' (\<lambda>inst. BuildStatefulSet (r_lib r) inst configHash),
              ensureService r ''service'' BuildService,
              condition r ConditionServiceReady ConditionTrue ''ServiceReady'' ''Service reconciled''] s)"

definition stageWorkloads :: "'w reconciler \<Rightarrow> 'w stage" where
  "stageWorkloads r s = (if Replicated (rs_inst s) then stageReplicated r s else stageStandalone r s)"

definition stageIngress :: "'w reconciler \<Rightarrow> 'w stage" where
  "stageIngress r = only_if (\<lambda>inst. isp_Enabled (net_Ingress (spec_Networking (db_Spec inst))))
     (ensure ''ingress'' ''Ingress'' (\<lambda>x. om_Name (ing_Meta x)) (createOrUpdateIngress r) BuildIngress)"

definition stageNetworkPolicy :: "'w reconciler \<Rightarrow> 'w stage" where
  "stageNetworkPolicy r = only_if (\<lambda>inst. nsp_Enabled (net_NetworkPolicy (spec_Networking (db_Spec inst))))
     (run [ensure ''NetworkPolicy'' ''NetworkPolicy'' (\<lambda>x. om_Name (np_Meta x))
             (createOrUpdateNetworkPolicy r) BuildNetworkPolicy,
           condition r ConditionNetworkPolicyReady ConditionTrue ''NetworkPolicyReady'' ''NetworkPolicy reconciled''])"

definition stageServiceMonitor :: "'w reconciler \<Rightarrow> 'w stage" where
  "stageServiceMonitor r = only_if
     (\<lambda>inst. sms_Enabled (met_ServiceMonitor (obs_Metrics (spec_Observability (db_Spec inst)))))
     (\<lambda>s. case createOrUpdateServiceMonitor r (rs_inst s) (BuildServiceMonitor (rs_inst s)) (rs_world s) of
        (Inl e, w) \<Rightarrow>
          condition r ConditionServiceMonitorReady ConditionFalse ''ServiceMonitorCRDMissing'' (Error e) (s\<lparr>rs_world := w\<rparr>)
      | (Inr sm, w) \<Rightarrow>
          condition r ConditionServiceMonitorReady ConditionTrue ''ServiceMonitorReady'' ''ServiceMonitor reconciled''
            (s\<lparr>rs_world := w, rs_managed := rs_managed s @ [''ServiceMonitor/'' @ r_GetName r sm]\<rparr>))"

definition stagePDB :: "'w reconciler \<Rightarrow> 'w stage" where
  "stagePDB r = only_if (\<lambda>inst. pds_Enabled (av_PodDisruptionBudget (spec_Availability (db_Spec inst))))
     (ensure ''PodDisruptionBudget'' ''PodDisruptionBudget'' (\<lambda>x. om_Name (pdb_Meta x)) (createOrUpdatePDB r) BuildPDB)"

definition stageHPA :: "'w reconciler \<Rightarrow> 'w stage" where
  "stageHPA r = only_if (\<lambda>inst. hps_Enabled (av_HorizontalPodAutoscaler (spec_Availability (db_Spec inst))))
     (ensure ''HorizontalPodAutoscaler'' ''HorizontalPodAutoscaler'' (\<lambda>x. om_Name (hpa_Meta x))
        (createOrUpdateHPA r) BuildHPA)"

definition stagePersist :: "'w reconciler \<Rightarrow> 'w stage" where
  "stagePersist r s =
     (let managed = sort (rs_managed s);
          base = rs_inst s;
          (now, w) = r_Now r (rs_world s);
          inst = base\<lparr>db_Status := (db_Status base)
                   \<lparr>sta_ManagedResources := managed,
                    sta_CurrentImage := ImageRef (spec_Image (db_Spec base)),
                    sta_LastUpdateTime := Some now,
                    sta_ObservedGeneration := om_Generation (db_Meta base)\<rparr>\<rparr>;
          (e, inst, w) = patchStatus r inst base w
      in (e, s\<lparr>rs_inst := inst, rs_managed := managed, rs_world := w\<rparr>))"

definition reconcileResources :: "'w reconciler \<Rightarrow> TlnDB \<Rightarrow> 'w \<Rightarrow> error option \<times> TlnDB \<times> 'w" where
  "reconcileResources r inst w =
     (let (e, s) = run [stageRBAC r, stageConfig r, stageHeadless r, stageWorkloads r, stageIngress r,
                        stageNetworkPolicy r, stageServiceMonitor r, stagePDB r, stageHPA r, stagePersist r]
                     \<lparr>rs_inst = inst, rs_managed = [], rs_hash = [], rs_world = w\<rparr>
      in (e, rs_inst s, rs_world s))"

subsection \<open>Status, deletion and Reconcile\<close>

text \<open>\<^verbatim>\<open>ctrl.Result\<close>; durations in nanoseconds.\<close>

record Result =
  res_Requeue :: bool
  res_RequeueAfter :: int

definition zero_Result :: Result where
  "zero_Result = \<lparr>res_Requeue = False, res_RequeueAfter = 0\<rparr>"

definition second :: int where "second = 1000000000"

definition primaryStatefulSetName :: "TlnDB \<Rightarrow> string" where
  "primaryStatefulSetName inst =
     (if Replicated inst then LeaderStatefulSetName inst else ResourceName inst)"

definition desiredReplicas :: "TlnDB \<Rightarrow> int32" where
  "desiredReplicas inst =
     (case spec_Replicas (db_Spec inst) of
        Some n \<Rightarrow> if \<not> Replicated inst then n else 1
      | None \<Rightarrow> 1)"

definition phaseOf :: "StatefulSet \<Rightarrow> int32 \<Rightarrow> string" where
  "phaseOf sts desired =
     (if st_ObservedGeneration (sts_Status sts) < om_Generation (sts_Meta sts) then PhaseProvisioning
      else if st_ReadyReplicas (sts_Status sts) < desired then PhaseDegraded
      else PhaseRunning)"

definition readyCondition :: "string \<Rightarrow> int32 \<Rightarrow> int32 \<Rightarrow> ConditionStatus \<times> string \<times> string" where
  "readyCondition phase ready desired =
     (let message = FormatInt ready @ ''/'' @ FormatInt desired @ '' replicas ready''
      in if phase = PhaseRunning then (ConditionTrue, ''StatefulSetReady'', message)
         else (ConditionFalse, ''StatefulSetNotReady'', message))"

definition syncStatus :: "'w reconciler \<Rightarrow> TlnDB \<Rightarrow> 'w \<Rightarrow> (Result \<times> error option) \<times> TlnDB \<times> 'w" where
  "syncStatus r inst w =
     (case kc_Get (r_StatefulSet r) (db_Namespace inst, primaryStatefulSetName inst) w of
        (Inl e, w) \<Rightarrow>
          if IsNotFound e then ((zero_Result\<lparr>res_RequeueAfter := 5 * second\<rparr>, None), inst, w)
          else ((zero_Result, Some e), inst, w)
      | (Inr sts, w) \<Rightarrow>
          (let desired = desiredReplicas inst;
               ready = st_ReadyReplicas (sts_Status sts);
               base = inst;
               phase = phaseOf sts desired;
               inst = inst\<lparr>db_Status := (db_Status inst)\<lparr>sta_ReadyReplicas := ready, sta_Phase := phase\<rparr>\<rparr>;
               (inst, w) = setConditionOnInstance r inst ConditionStatefulSetReady
                             (readyCondition phase ready desired) w;
               (e, inst, w) = patchStatus r inst base w
           in case e of
                Some e \<Rightarrow> ((zero_Result, Some e), inst, w)
              | None \<Rightarrow>
                  if phase \<noteq> PhaseRunning
                  then ((zero_Result\<lparr>res_RequeueAfter := 10 * second\<rparr>, None), inst, w)
                  else ((zero_Result, None), inst, w)))"

text \<open>The client's Update overwrites the instance with the response.\<close>

definition updateInstance :: "'w reconciler \<Rightarrow> TlnDB \<Rightarrow> 'w \<Rightarrow> error option \<times> TlnDB \<times> 'w" where
  "updateInstance r inst w =
     (case kc_Update (r_TlnDB r) inst w of
        (Inl e, w) \<Rightarrow> (Some e, inst, w)
      | (Inr inst', w) \<Rightarrow> (None, inst', w))"

definition reconcileDeletion :: "'w reconciler \<Rightarrow> TlnDB \<Rightarrow> 'w \<Rightarrow> (Result \<times> error option) \<times> TlnDB \<times> 'w" where
  "reconcileDeletion r inst w =
     (if r_ContainsFinalizer r (db_Meta inst) FinalizerName
      then (case setPhase r inst PhaseTerminating w of
              (Some e, inst, w) \<Rightarrow> ((zero_Result, Some e), inst, w)
            | (None, inst, w) \<Rightarrow>
                (let inst = inst\<lparr>db_Meta := r_RemoveFinalizer r (db_Meta inst) FinalizerName\<rparr>
                 in case updateInstance r inst w of
                      (Some e, inst, w) \<Rightarrow> ((zero_Result, Some e), inst, w)
                    | (None, inst, w) \<Rightarrow> ((zero_Result, None), inst, w)))
      else ((zero_Result, None), inst, w))"

text \<open>The part of \<^verbatim>\<open>Reconcile\<close> after the finalizer is in place.\<close>

definition reconcilePresent :: "'w reconciler \<Rightarrow> TlnDB \<Rightarrow> 'w \<Rightarrow> (Result \<times> error option) \<times> TlnDB \<times> 'w" where
  "reconcilePresent r inst w =
     (case reconcileResources r inst w of
        (Some e, inst, w) \<Rightarrow>
          (let w = r_Eventf r inst ''Warning'' ''ReconcileError'' (''Failed to reconcile resources: '' @ Error e) w;
               (_, inst, w) = setPhase r inst PhaseFailed w
           in ((zero_Result, Some e), inst, w))
      | (None, inst, w) \<Rightarrow> syncStatus r inst w)"

definition reconcileInstance :: "'w reconciler \<Rightarrow> TlnDB \<Rightarrow> 'w \<Rightarrow> (Result \<times> error option) \<times> TlnDB \<times> 'w" where
  "reconcileInstance r inst w =
     (if om_DeletionTimestamp (db_Meta inst) \<noteq> None then reconcileDeletion r inst w
      else if \<not> r_ContainsFinalizer r (db_Meta inst) FinalizerName then
        (let inst = inst\<lparr>db_Meta := r_AddFinalizer r (db_Meta inst) FinalizerName\<rparr>
         in case updateInstance r inst w of
              (Some e, inst, w) \<Rightarrow> ((zero_Result, Some e), inst, w)
            | (None, inst, w) \<Rightarrow> ((zero_Result\<lparr>res_Requeue := True\<rparr>, None), inst, w))
      else if sta_Phase (db_Status inst) = [] then
        (case setPhase r inst PhaseProvisioning w of
           (Some e, inst, w) \<Rightarrow> ((zero_Result, Some e), inst, w)
         | (None, inst, w) \<Rightarrow> reconcilePresent r inst w)
      else reconcilePresent r inst w)"

definition Reconcile :: "'w reconciler \<Rightarrow> nsname \<Rightarrow> 'w \<Rightarrow> (Result \<times> error option) \<times> 'w" where
  "Reconcile r req w =
     (case kc_Get (r_TlnDB r) req w of
        (Inl e, w) \<Rightarrow> if IsNotFound e then ((zero_Result, None), w) else ((zero_Result, Some e), w)
      | (Inr inst, w) \<Rightarrow> (let (res, inst, w) = reconcileInstance r inst w in (res, w)))"

end
