(* ===== verification/Reconciliation.thy ===== *)
theory Reconciliation
  imports Controller
begin

section \<open>What a reconciliation achieves\<close>

text \<open>
  A small program logic for the stages of \<^verbatim>\<open>reconcileResources\<close> (\<open>stage_spec\<close>: which entries of
  the cluster a stage may change, what it adds to the list of managed resources, and what
  holds of the cluster when it succeeds), one specification per stage, and the properties
  of the whole: the cluster matches the abstract specification \<open>realised\<close> after a
  successful run, and no run changes anything outside \<open>footprint\<close>.
\<close>

subsection \<open>Builders depend on name, namespace and spec only\<close>

lemma same_objectD:
  assumes "same_object j i"
  shows "db_Name j = db_Name i" "db_Namespace j = db_Namespace i" "db_Spec j = db_Spec i"
  using assms by (simp_all add: same_object_def)

lemma name_cong:
  assumes "same_object j i"
  shows "ResourceName j = ResourceName i" "ConfigMapName j = ConfigMapName i"
    "HeadlessServiceName j = HeadlessServiceName i" "LeaderStatefulSetName j = LeaderStatefulSetName i"
    "FollowerStatefulSetName j = FollowerStatefulSetName i" "ReadServiceName j = ReadServiceName i"
    "Labels j = Labels i" "SelectorLabels j = SelectorLabels i" "roleSelector j role = roleSelector i role"
    "Replicated j = Replicated i" "MetricsEnabled j = MetricsEnabled i" "MetricsPort j = MetricsPort i"
  using same_objectD [OF assms]
  by (simp_all add: name_defs Labels_def SelectorLabels_def roleSelector_def Replicated_def
      MetricsEnabled_def MetricsPort_def)

lemma pod_cong:
  assumes "same_object j i"
  shows "persistenceEnabled j = persistenceEnabled i" "serviceAccountName j = serviceAccountName i"
    "buildPodSecurityContext j = buildPodSecurityContext i" "buildVolumes j = buildVolumes i"
    "buildContainers j env = buildContainers i env"
    "buildVolumeClaimTemplate L j = buildVolumeClaimTemplate L i"
    "buildServicePorts j = buildServicePorts i"
  using same_objectD [OF assms] name_cong [OF assms]
  by (simp_all add: persistenceEnabled_def serviceAccountName_def buildPodSecurityContext_def buildVolumes_def
      buildContainers_def buildMainContainer_def containerPorts_def buildProbe_def
      buildContainerSecurityContext_def buildVolumeClaimTemplate_def buildServicePorts_def
      cong: if_cong option.case_cong)

lemmas cong_facts = same_objectD name_cong pod_cong

lemma builder_cong:
  assumes "same_object j i"
  shows "BuildServiceAccount j = BuildServiceAccount i" "BuildRole j = BuildRole i"
    "BuildRoleBinding j = BuildRoleBinding i" "BuildConfigMap L j = BuildConfigMap L i"
    "BuildHeadlessService j = BuildHeadlessService i" "BuildService j = BuildService i"
    "BuildWriteService j = BuildWriteService i" "BuildReadService j = BuildReadService i"
    "BuildStatefulSet L j h = BuildStatefulSet L i h"
    "BuildLeaderStatefulSet L j h ret = BuildLeaderStatefulSet L i h ret"
    "BuildFollowerStatefulSet L j h addr n ret = BuildFollowerStatefulSet L i h addr n ret"
    "BuildIngress j = BuildIngress i" "BuildNetworkPolicy j = BuildNetworkPolicy i"
    "BuildServiceMonitor j = BuildServiceMonitor i" "BuildPDB j = BuildPDB i" "BuildHPA j = BuildHPA i"
    "leaderAddr j = leaderAddr i" "primaryStatefulSetName j = primaryStatefulSetName i"
  using cong_facts [OF assms]
  by (simp_all add: build_defs renderConfigYAML_def BuildServiceMonitor_def buildDefaultIngressRules_def
      leaderAddr_def primaryStatefulSetName_def
      cong: if_cong option.case_cong)

subsection \<open>Stage specifications\<close>

definition stage_spec :: "('w \<Rightarrow> cluster) \<Rightarrow> TlnDB \<Rightarrow> string \<Rightarrow> kkey set \<Rightarrow> string list set
    \<Rightarrow> (cluster \<Rightarrow> bool) \<Rightarrow> 'w stage \<Rightarrow> bool" where
  "stage_spec V i h F M P f \<longleftrightarrow>
     (\<forall>s e s'. same_object (rs_inst s) i \<longrightarrow> rs_hash s = h \<longrightarrow> f s = (e, s') \<longrightarrow>
        same_object (rs_inst s') i \<and> rs_hash s' = h \<and>
        (\<forall>q. q \<notin> F \<longrightarrow> V (rs_world s') q = V (rs_world s) q) \<and>
        (e = None \<longrightarrow> P (V (rs_world s')) \<and> (\<exists>m \<in> M. rs_managed s' = rs_managed s @ m)))"

text \<open>\<open>P\<close> looks only at the entries in \<open>F\<close>.\<close>

definition supported :: "kkey set \<Rightarrow> (cluster \<Rightarrow> bool) \<Rightarrow> bool" where
  "supported F P \<longleftrightarrow> (\<forall>c c'. (\<forall>q \<in> F. c q = c' q) \<longrightarrow> P c \<longrightarrow> P c')"

lemma supported_True [simp]: "supported F (\<lambda>_. True)"
  by (simp add: supported_def)

lemma supported_holds [simp]: "(K, key d) \<in> F \<Longrightarrow> supported F (\<lambda>c. holds c K into key norm d)"
  by (auto simp: supported_def holds_def)

lemma supported_gone [simp]: "q \<in> F \<Longrightarrow> supported F (\<lambda>c. gone c q)"
  by (auto simp: supported_def gone_def)

lemma supported_conj: "supported F P \<Longrightarrow> supported G Q \<Longrightarrow> supported (F \<union> G) (\<lambda>c. P c \<and> Q c)"
  by (auto simp: supported_def) blast+

lemma supported_imp: "supported F P \<Longrightarrow> supported (if b then F else {}) (\<lambda>c. b \<longrightarrow> P c)"
  by (auto simp: supported_def)

lemma supported_weak_conj: "supported F P \<Longrightarrow> supported F Q \<Longrightarrow> supported F (\<lambda>c. P c \<and> Q c)"
  by (auto simp: supported_def)

lemma supported_weak_imp: "supported F P \<Longrightarrow> supported F (\<lambda>c. b \<longrightarrow> P c)"
  by (auto simp: supported_def)

lemma stage_specI:
  assumes "\<And>s e s'. same_object (rs_inst s) i \<Longrightarrow> rs_hash s = h \<Longrightarrow> f s = (e, s') \<Longrightarrow>
      same_object (rs_inst s') i \<and> rs_hash s' = h \<and> (\<forall>q. q \<notin> F \<longrightarrow> V (rs_world s') q = V (rs_world s) q) \<and>
      (e = None \<longrightarrow> P (V (rs_world s')) \<and> (\<exists>m \<in> M. rs_managed s' = rs_managed s @ m))"
  shows "stage_spec V i h F M P f"
  using assms unfolding stage_spec_def by blast

lemma stage_specD:
  assumes "stage_spec V i h F M P f" and "same_object (rs_inst s) i" and "rs_hash s = h" and "f s = (e, s')"
  shows "same_object (rs_inst s') i" "rs_hash s' = h" "q \<notin> F \<Longrightarrow> V (rs_world s') q = V (rs_world s) q"
    "e = None \<Longrightarrow> P (V (rs_world s'))" "e = None \<Longrightarrow> \<exists>m \<in> M. rs_managed s' = rs_managed s @ m"
  using assms unfolding stage_spec_def by blast+

lemma stage_spec_weaken:
  assumes "stage_spec V i h F M P f" and "F \<subseteq> G" and "\<And>c. P c \<Longrightarrow> Q c" and "M \<subseteq> N"
  shows "stage_spec V i h G N Q f"
proof (rule stage_specI)
  fix s e s'
  assume "same_object (rs_inst s) i" "rs_hash s = h" "f s = (e, s')"
  note D = stage_specD [OF assms(1) this]
  then show "same_object (rs_inst s') i \<and> rs_hash s' = h \<and>
      (\<forall>q. q \<notin> G \<longrightarrow> V (rs_world s') q = V (rs_world s) q) \<and>
      (e = None \<longrightarrow> Q (V (rs_world s')) \<and> (\<exists>m \<in> N. rs_managed s' = rs_managed s @ m))"
    using assms(2-4) by blast
qed

lemma spec_nil: "stage_spec V i h {} {[]} (\<lambda>_. True) (run [])"
  by (rule stage_specI) auto

lemma spec_cons:
  assumes f: "stage_spec V i h F M P f" and fs: "stage_spec V i h G N Q (run fs)"
    and "F \<inter> G = {}" and "supported F P"
  shows "stage_spec V i h (F \<union> G) {m @ n |m n. m \<in> M \<and> n \<in> N} (\<lambda>c. P c \<and> Q c) (run (f # fs))"
proof (rule stage_specI)
  fix s e s'
  assume s: "same_object (rs_inst s) i" "rs_hash s = h" and r: "run (f # fs) s = (e, s')"
  obtain e1 s1 where f1: "f s = (e1, s1)" by force
  note fD = stage_specD [OF f s f1]
  show "same_object (rs_inst s') i \<and> rs_hash s' = h \<and>
      (\<forall>q. q \<notin> F \<union> G \<longrightarrow> V (rs_world s') q = V (rs_world s) q) \<and>
      (e = None \<longrightarrow> (P (V (rs_world s')) \<and> Q (V (rs_world s'))) \<and>
         (\<exists>m \<in> {m @ n |m n. m \<in> M \<and> n \<in> N}. rs_managed s' = rs_managed s @ m))"
  proof (cases e1)
    case (Some x)
    with r f1 fD show ?thesis by auto
  next
    case None
    with r f1 have r2: "run fs s1 = (e, s')" by simp
    note gD = stage_specD [OF fs fD(1,2) r2]
    have "P (V (rs_world s'))"
      using fD(4) [OF None] gD(3) assms(3,4) unfolding supported_def by (metis disjoint_iff)
    moreover have "e = None \<Longrightarrow> \<exists>m \<in> {m @ n |m n. m \<in> M \<and> n \<in> N}. rs_managed s' = rs_managed s @ m"
      using fD(5) [OF None] gD(5) by fastforce
    ultimately show ?thesis using fD(3) gD by simp
  qed
qed

lemma spec_only_if:
  assumes "\<And>j. same_object j i \<Longrightarrow> b j = b i" and "stage_spec V i h F M P f"
  shows "stage_spec V i h (if b i then F else {}) (if b i then M else {[]}) (\<lambda>c. b i \<longrightarrow> P c) (only_if b f)"
proof (rule stage_specI)
  fix s e s'
  assume s: "same_object (rs_inst s) i" "rs_hash s = h" and r: "only_if b f s = (e, s')"
  show "same_object (rs_inst s') i \<and> rs_hash s' = h \<and>
      (\<forall>q. q \<notin> (if b i then F else {}) \<longrightarrow> V (rs_world s') q = V (rs_world s) q) \<and>
      (e = None \<longrightarrow> (b i \<longrightarrow> P (V (rs_world s'))) \<and>
         (\<exists>m \<in> (if b i then M else {[]}). rs_managed s' = rs_managed s @ m))"
  proof (cases "b i")
    case True
    with r assms(1) [OF s(1)] have "f s = (e, s')" by (simp add: only_if_def)
    from stage_specD [OF assms(2) s this] True show ?thesis by simp
  next
    case False
    with r s assms(1) [OF s(1)] show ?thesis by (simp add: only_if_def)
  qed
qed

subsection \<open>Status calls leave the objects alone\<close>

lemma status_lawsD:
  assumes "status_laws V r"
  shows "V (snd (r_StatusPatch r m b w)) = V w"
    and "fst (r_StatusPatch r m b w) = Inr i \<Longrightarrow> same_object i m"
    and "fst (r_StatusPatch r m b w) = Inr i \<Longrightarrow> db_Status i = db_Status m"
    and "V (snd (r_SetStatusCondition r cs c w)) = V w"
    and "V (r_Eventf r j t re msg w) = V w"
    and "V (snd (r_Now r w)) = V w"
  using assms unfolding status_laws_def by blast+

lemma same_object_status [simp]:
  "same_object (inst\<lparr>db_Status := st\<rparr>) i = same_object inst i" "same_object i (inst\<lparr>db_Status := st\<rparr>) = same_object i inst"
  by (simp_all add: same_object_def)

lemma patchStatus_effect:
  assumes "status_laws V r" and "patchStatus r inst base w = (e, inst', w')"
  shows "V w' = V w" and "same_object inst' inst" and "e = None \<Longrightarrow> db_Status inst' = db_Status inst"
proof -
  obtain p w1 where p: "r_StatusPatch r inst base w = (p, w1)" by force
  note D = status_lawsD(1-3) [OF assms(1), of inst base w]
  show "V w' = V w" using D(1) assms(2) p by (auto simp: patchStatus_def split: sum.splits if_splits)
  show "same_object inst' inst" using D(2) assms(2) p by (auto simp: patchStatus_def split: sum.splits if_splits)
  show "e = None \<Longrightarrow> db_Status inst' = db_Status inst"
    using D(3) assms(2) p by (auto simp: patchStatus_def split: sum.splits if_splits)
qed

lemma setPhase_effect:
  assumes "status_laws V r" and "setPhase r inst phase w = (e, inst', w')"
  shows "V w' = V w" and "same_object inst' inst" and "e = None \<Longrightarrow> sta_Phase (db_Status inst') = phase"
proof -
  obtain now w1 where now: "r_Now r w = (now, w1)" by force
  then have V1: "V w1 = V w" using status_lawsD(6) [OF assms(1), of w] by simp
  let ?inst = "inst\<lparr>db_Status := (db_Status inst)\<lparr>sta_Phase := phase, sta_LastUpdateTime := Some now\<rparr>\<rparr>"
  have "patchStatus r ?inst inst w1 = (e, inst', w')" using assms(2) now by (simp add: setPhase_def Let_def)
  note P = patchStatus_effect [OF assms(1) this]
  show "V w' = V w" "same_object inst' inst" "e = None \<Longrightarrow> sta_Phase (db_Status inst') = phase"
    using P V1 by auto
qed

lemma setCondition_effect:
  assumes "status_laws V r" and "setCondition r inst t st re msg w = (inst', w')"
  shows "V w' = V w" and "same_object inst' inst"
proof -
  obtain cs w1 where c: "r_SetStatusCondition r (sta_Conditions (db_Status inst)) (mkCondition inst t st re msg) w = (cs, w1)"
    by force
  then have V1: "V w1 = V w" using status_lawsD(4) [OF assms(1)] by (metis snd_conv)
  let ?inst = "inst\<lparr>db_Status := (db_Status inst)\<lparr>sta_Conditions := cs\<rparr>\<rparr>"
  obtain p w2 where p: "r_StatusPatch r ?inst inst w1 = (p, w2)" by force
  note D = status_lawsD(1-3) [OF assms(1), of ?inst inst w1]
  show "V w' = V w" using D(1) V1 assms(2) c p by (auto simp: setCondition_def split: sum.splits)
  show "same_object inst' inst" using D(2) assms(2) c p by (auto simp: setCondition_def split: sum.splits)
qed

lemma condition_effect:
  assumes "status_laws V r" and "condition r t st re msg s = (e, s')"
  shows "e = None" "V (rs_world s') = V (rs_world s)" "same_object (rs_inst s') (rs_inst s)"
    "rs_hash s' = rs_hash s" "rs_managed s' = rs_managed s"
proof -
  obtain inst w where c: "setCondition r (rs_inst s) t st re msg (rs_world s) = (inst, w)" by force
  then have "e = None" "s' = s\<lparr>rs_inst := inst, rs_world := w\<rparr>" using assms(2) by (auto simp: condition_def)
  with setCondition_effect [OF assms(1) c]
  show "e = None" "V (rs_world s') = V (rs_world s)" "same_object (rs_inst s') (rs_inst s)"
    "rs_hash s' = rs_hash s" "rs_managed s' = rs_managed s" by simp_all
qed

lemma spec_condition:
  assumes "status_laws V r"
  shows "stage_spec V i h {} {[]} (\<lambda>_. True) (condition r t st re msg)"
proof (rule stage_specI)
  fix s e s'
  assume "same_object (rs_inst s) i" "rs_hash s = h" "condition r t st re msg s = (e, s')"
  note this(1,2) condition_effect [OF assms this(3)]
  then show "same_object (rs_inst s') i \<and> rs_hash s' = h \<and> (\<forall>q. q \<notin> {} \<longrightarrow> V (rs_world s') q = V (rs_world s) q) \<and>
      (e = None \<longrightarrow> True \<and> (\<exists>m \<in> {[]}. rs_managed s' = rs_managed s @ m))"
    using same_object_trans by auto
qed

lemma spec_ensure:
  assumes frame: "frame_contract V K key cou"
    and cong: "\<And>j. same_object j i \<Longrightarrow> build j = build i"
    and name: "\<And>d. nameOf d = snd (key d)"
    and post: "\<And>j w d' w'. cou j (build i) w = (Inr d', w') \<Longrightarrow> P (V w')"
  shows "stage_spec V i h {(K, key (build i))} {[kindName @ ''/'' @ nameOf (build i)]} P
    (ensure what kindName nameOf cou build)"
proof (rule stage_specI)
  fix s e s'
  assume s: "same_object (rs_inst s) i" "rs_hash s = h" and r: "ensure what kindName nameOf cou build s = (e, s')"
  obtain res w where c: "cou (rs_inst s) (build i) (rs_world s) = (res, w)" by force
  have V: "q \<notin> {(K, key (build i))} \<Longrightarrow> V w q = V (rs_world s) q" for q
    using frame c unfolding frame_contract_def by (metis insertI1 snd_conv)
  show "same_object (rs_inst s') i \<and> rs_hash s' = h \<and>
      (\<forall>q. q \<notin> {(K, key (build i))} \<longrightarrow> V (rs_world s') q = V (rs_world s) q) \<and>
      (e = None \<longrightarrow> P (V (rs_world s')) \<and>
         (\<exists>m \<in> {[kindName @ ''/'' @ nameOf (build i)]}. rs_managed s' = rs_managed s @ m))"
  proof (cases res)
    case (Inl x)
    with c r s V cong [OF s(1)] show ?thesis by (auto simp: ensure_def)
  next
    case (Inr d)
    have "nameOf d = nameOf (build i)"
      using frame c Inr name unfolding frame_contract_def by metis
    moreover have "P (V w)" using post c Inr by blast
    ultimately show ?thesis using Inr c r s V cong [OF s(1)] by (auto simp: ensure_def)
  qed
qed

lemma spec_ensure_holds:
  assumes "frame_contract V K key cou" and "holds_contract V K into key valid norm cou"
    and "\<And>j. same_object j i \<Longrightarrow> build j = build i" and "\<And>d. nameOf d = snd (key d)" and "valid (build i)"
  shows "stage_spec V i h {(K, key (build i))} {[kindName @ ''/'' @ nameOf (build i)]}
    (\<lambda>c. holds c K into key norm (build i)) (ensure what kindName nameOf cou build)"
proof (rule spec_ensure [OF assms(1)])
  show "build j = build i" if "same_object j i" for j using that by (rule assms(3))
  show "nameOf d = snd (key d)" for d by (rule assms(4))
  show "holds (V w') K into key norm (build i)" if "cou j (build i) w = (Inr d', w')" for j w d' w'
    using that assms(2,5) unfolding holds_contract_def by blast
qed

lemma spec_same:
  assumes "\<And>s. same_object (rs_inst s) i \<Longrightarrow> rs_hash s = h \<Longrightarrow> f s = g s" and "stage_spec V i h F M P g"
  shows "stage_spec V i h F M P f"
proof (rule stage_specI)
  fix s e s'
  assume s: "same_object (rs_inst s) i" "rs_hash s = h" and "f s = (e, s')"
  then have "g s = (e, s')" using assms(1) by metis
  from stage_specD [OF assms(2) s this]
  show "same_object (rs_inst s') i \<and> rs_hash s' = h \<and>
      (\<forall>q. q \<notin> F \<longrightarrow> V (rs_world s') q = V (rs_world s) q) \<and>
      (e = None \<longrightarrow> P (V (rs_world s')) \<and> (\<exists>m \<in> M. rs_managed s' = rs_managed s @ m))"
    by blast
qed

lemma spec_last:
  assumes "stage_spec V i h F M P f"
  shows "stage_spec V i h F M P (run [f])"
  by (rule spec_same [OF _ assms]) (simp split: prod.split option.split)

lemma spec_seq:
  assumes "stage_spec V i h F {m} P f" and "stage_spec V i h G {n} Q (run fs)"
    and "F \<inter> G = {}" and "supported F P"
  shows "stage_spec V i h (F \<union> G) {m @ n} (\<lambda>c. P c \<and> Q c) (run (f # fs))"
  by (rule stage_spec_weaken [OF spec_cons [OF assms]]) auto

subsection \<open>The abstract specification\<close>

text \<open>\<open>has_X c d\<close>: the cluster holds an object that agrees with \<open>d\<close> on the managed fields.\<close>

abbreviation has_ConfigMap where
  "has_ConfigMap c \<equiv> holds c ConfigMapKind KConfigMap (\<lambda>x. meta_key (cm_Meta x)) norm_ConfigMap"
abbreviation has_ServiceAccount where
  "has_ServiceAccount c \<equiv> holds c ServiceAccountKind KServiceAccount (\<lambda>x. meta_key (sa_Meta x)) norm_ServiceAccount"
abbreviation has_Role where
  "has_Role c \<equiv> holds c RoleKind KRole (\<lambda>x. meta_key (role_Meta x)) norm_Role"
abbreviation has_RoleBinding where
  "has_RoleBinding c \<equiv> holds c RoleBindingKind KRoleBinding (\<lambda>x. meta_key (rb_Meta x)) norm_RoleBinding"
abbreviation has_StatefulSet where
  "has_StatefulSet c \<equiv> holds c StatefulSetKind KStatefulSet (\<lambda>x. meta_key (sts_Meta x)) norm_StatefulSet"
abbreviation has_Service where
  "has_Service c \<equiv> holds c ServiceKind KService (\<lambda>x. meta_key (svc_Meta x)) norm_Service"
abbreviation has_Ingress where
  "has_Ingress c \<equiv> holds c IngressKind KIngress (\<lambda>x. meta_key (ing_Meta x)) norm_Ingress"
abbreviation has_NetworkPolicy where
  "has_NetworkPolicy c \<equiv> holds c NetworkPolicyKind KNetworkPolicy (\<lambda>x. meta_key (np_Meta x)) norm_NetworkPolicy"

text \<open>The conditions under which the optional parts are wanted.\<close>

abbreviation wants_rbac :: "TlnDB \<Rightarrow> bool" where
  "wants_rbac inst \<equiv> spec_ServiceAccountName (db_Spec inst) = []"
abbreviation wants_ingress :: "TlnDB \<Rightarrow> bool" where
  "wants_ingress inst \<equiv> isp_Enabled (net_Ingress (spec_Networking (db_Spec inst)))"
abbreviation wants_np :: "TlnDB \<Rightarrow> bool" where
  "wants_np inst \<equiv> nsp_Enabled (net_NetworkPolicy (spec_Networking (db_Spec inst)))"
abbreviation wants_sm :: "TlnDB \<Rightarrow> bool" where
  "wants_sm inst \<equiv> sms_Enabled (met_ServiceMonitor (obs_Metrics (spec_Observability (db_Spec inst))))"
abbreviation wants_pdb :: "TlnDB \<Rightarrow> bool" where
  "wants_pdb inst \<equiv> pds_Enabled (av_PodDisruptionBudget (spec_Availability (db_Spec inst)))"
abbreviation wants_hpa :: "TlnDB \<Rightarrow> bool" where
  "wants_hpa inst \<equiv> hps_Enabled (av_HorizontalPodAutoscaler (spec_Availability (db_Spec inst)))"
abbreviation retention :: "TlnDB \<Rightarrow> int64" where
  "retention inst \<equiv> rep_OplogRetention (spec_Replication (db_Spec inst))"
abbreviation readReplicas :: "TlnDB \<Rightarrow> int32" where
  "readReplicas inst \<equiv> rep_ReadReplicas (spec_Replication (db_Spec inst))"

definition rbac_realised :: "TlnDB \<Rightarrow> cluster \<Rightarrow> bool" where
  "rbac_realised inst c \<longleftrightarrow> has_ServiceAccount c (BuildServiceAccount inst) \<and> has_Role c (BuildRole inst)
     \<and> has_RoleBinding c (BuildRoleBinding inst)"

text \<open>The configuration is in place and \<open>h\<close> is its hash.\<close>

definition config_realised :: "lib \<Rightarrow> TlnDB \<Rightarrow> string \<Rightarrow> cluster \<Rightarrow> bool" where
  "config_realised L inst h c \<longleftrightarrow>
     (case spec_ConfigFrom (db_Spec inst) of
        None \<Rightarrow> has_ConfigMap c (BuildConfigMap L inst) \<and> h = HashStringData (cm_Data (BuildConfigMap L inst))
      | Some n \<Rightarrow> (\<exists>cm. c (ConfigMapKind, db_Namespace inst, n) = Some (KConfigMap cm) \<and>
                        h = HashStringData (cm_Data cm)))"

definition workloads_realised :: "lib \<Rightarrow> TlnDB \<Rightarrow> string \<Rightarrow> cluster \<Rightarrow> bool" where
  "workloads_realised L inst h c \<longleftrightarrow>
     (if Replicated inst
      then has_StatefulSet c (BuildLeaderStatefulSet L inst h (retention inst)) \<and>
           (0 < readReplicas inst \<longrightarrow>
              has_StatefulSet c (BuildFollowerStatefulSet L inst h (leaderAddr inst) (readReplicas inst) (retention inst))) \<and>
           (readReplicas inst \<le> 0 \<longrightarrow> gone c (StatefulSetKind, db_Namespace inst, FollowerStatefulSetName inst)) \<and>
           has_Service c (BuildWriteService inst) \<and> has_Service c (BuildReadService inst)
      else has_StatefulSet c (BuildStatefulSet L inst h) \<and> has_Service c (BuildService inst))"

text \<open>
  The promise of the operator for an instance: everything the instance asks for exists
  with the managed fields as built, and the pods carry the hash of the configuration in
  place. (ServiceMonitor, disruption budget and autoscaler are best effort: their
  failures, or conflicts, are ignored.)
\<close>

definition realised :: "lib \<Rightarrow> TlnDB \<Rightarrow> string \<Rightarrow> cluster \<Rightarrow> bool" where
  "realised L inst h c \<longleftrightarrow>
     (wants_rbac inst \<longrightarrow> rbac_realised inst c) \<and>
     config_realised L inst h c \<and>
     has_Service c (BuildHeadlessService inst) \<and>
     workloads_realised L inst h c \<and>
     (wants_ingress inst \<longrightarrow> has_Ingress c (BuildIngress inst)) \<and>
     (wants_np inst \<longrightarrow> has_NetworkPolicy c (BuildNetworkPolicy inst))"

abbreviation db_key :: "TlnDB \<Rightarrow> nsname" where
  "db_key i \<equiv> (db_Namespace i, db_Name i)"

text \<open>The entries of the cluster a reconciliation of the instance may change, part by part.\<close>

definition rbac_keys :: "TlnDB \<Rightarrow> kkey set" where
  "rbac_keys i = (if wants_rbac i then {(ServiceAccountKind, db_key i), (RoleKind, db_key i), (RoleBindingKind, db_key i)}
     else {})"

definition config_keys :: "TlnDB \<Rightarrow> kkey set" where
  "config_keys i = (if spec_ConfigFrom (db_Spec i) = None then {(ConfigMapKind, db_Namespace i, ConfigMapName i)} else {})"

definition workload_keys :: "TlnDB \<Rightarrow> kkey set" where
  "workload_keys i =
     (if Replicated i
      then {(StatefulSetKind, db_Namespace i, LeaderStatefulSetName i), (StatefulSetKind, db_Namespace i, FollowerStatefulSetName i),
            (ServiceKind, db_Namespace i, ResourceName i), (ServiceKind, db_Namespace i, ReadServiceName i)}
      else {(StatefulSetKind, db_Namespace i, ResourceName i), (ServiceKind, db_Namespace i, ResourceName i)})"

definition optional_keys :: "TlnDB \<Rightarrow> kkey set" where
  "optional_keys i =
     (if wants_ingress i then {(IngressKind, db_key i)} else {})
     \<union> (if wants_np i then {(NetworkPolicyKind, db_key i)} else {})
     \<union> (if wants_sm i then {(MonitorKind, db_key i)} else {})
     \<union> (if wants_pdb i then {(PDBKind, db_key i)} else {})
     \<union> (if wants_hpa i then {(HPAKind, db_key i)} else {})"

definition touched :: "TlnDB \<Rightarrow> kkey set" where
  "touched i = rbac_keys i \<union> config_keys i \<union> {(ServiceKind, db_Namespace i, HeadlessServiceName i)}
     \<union> workload_keys i \<union> optional_keys i"

text \<open>All entries the operator may ever change for the instance \<open>(ns, n)\<close>, whatever its spec.\<close>

definition footprint :: "nsname \<Rightarrow> kkey set" where
  "footprint k = (case k of (ns, n) \<Rightarrow>
     {(ServiceAccountKind, ns, n), (RoleKind, ns, n), (RoleBindingKind, ns, n), (ConfigMapKind, ns, n @ ''-config''),
      (ServiceKind, ns, n @ ''-headless''), (ServiceKind, ns, n), (ServiceKind, ns, n @ ''-read''),
      (StatefulSetKind, ns, n), (StatefulSetKind, ns, n @ ''-leader''), (StatefulSetKind, ns, n @ ''-follower''),
      (IngressKind, ns, n), (NetworkPolicyKind, ns, n), (MonitorKind, ns, n), (PDBKind, ns, n), (HPAKind, ns, n)})"

lemma touched_footprint: "touched i \<subseteq> footprint (db_key i)"
  by (auto simp: touched_def rbac_keys_def config_keys_def workload_keys_def optional_keys_def footprint_def name_defs
      split: if_splits)

text \<open>The entries of \<^verbatim>\<open>status.managedResources\<close>, before sorting; \<open>sm\<close>: the ServiceMonitor succeeded.\<close>

definition workload_names :: "TlnDB \<Rightarrow> string list" where
  "workload_names inst =
     (if Replicated inst
      then [''StatefulSet/'' @ LeaderStatefulSetName inst]
           @ (if 0 < readReplicas inst then [''StatefulSet/'' @ FollowerStatefulSetName inst] else [])
           @ [''Service/'' @ ResourceName inst, ''Service/'' @ ReadServiceName inst]
      else [''StatefulSet/'' @ ResourceName inst, ''Service/'' @ ResourceName inst])"

definition managed_names :: "TlnDB \<Rightarrow> bool \<Rightarrow> string list" where
  "managed_names inst sm =
     (if wants_rbac inst then [''ServiceAccount/'' @ ResourceName inst, ''Role/'' @ ResourceName inst,
        ''RoleBinding/'' @ ResourceName inst] else [])
     @ (if spec_ConfigFrom (db_Spec inst) = None then [''ConfigMap/'' @ ConfigMapName inst] else [])
     @ [''Service/'' @ HeadlessServiceName inst]
     @ workload_names inst
     @ (if wants_ingress inst then [''Ingress/'' @ ResourceName inst] else [])
     @ (if wants_np inst then [''NetworkPolicy/'' @ ResourceName inst] else [])
     @ (if wants_sm inst \<and> sm then [''ServiceMonitor/'' @ ResourceName inst] else [])
     @ (if wants_pdb inst then [''PodDisruptionBudget/'' @ ResourceName inst] else [])
     @ (if wants_hpa inst then [''HorizontalPodAutoscaler/'' @ ResourceName inst] else [])"

subsection \<open>One specification per stage\<close>

lemmas child_keys = sa_child.key_eq role_child.key_eq rb_child.key_eq cm_child.key_eq
  headless_svc.key_eq main_svc.key_eq write_svc.key_eq read_svc.key_eq standalone_child.key_eq
  leader_child.key_eq follower_child.key_eq ing_child.key_eq np_child.key_eq pdb_child.key_eq hpa_child.key_eq

lemmas child_names = sa_child.meta_name role_child.meta_name rb_child.meta_name cm_child.meta_name
  headless_svc.meta_name main_svc.meta_name write_svc.meta_name read_svc.meta_name standalone_child.meta_name
  leader_child.meta_name follower_child.meta_name ing_child.meta_name np_child.meta_name pdb_child.meta_name
  hpa_child.meta_name

lemma name_of_key: "om_Name m = snd (meta_key m)"
  by (simp add: meta_key_def)

lemma ensure_ServiceAccount:
  assumes "env_laws V r" and "\<And>j. same_object j i \<Longrightarrow> build j = build i"
  shows "stage_spec V i h {(ServiceAccountKind, meta_key (sa_Meta (build i)))} {[k @ ''/'' @ om_Name (sa_Meta (build i))]}
    (\<lambda>c. has_ServiceAccount c (build i)) (ensure what k (\<lambda>x. om_Name (sa_Meta x)) (createOrUpdateServiceAccount r) build)"
  by (rule spec_ensure_holds [OF ServiceAccount_contract [OF assms(1)]], erule assms(2)) (simp_all add: meta_key_def)

lemma ensure_Role:
  assumes "env_laws V r" and "\<And>j. same_object j i \<Longrightarrow> build j = build i"
  shows "stage_spec V i h {(RoleKind, meta_key (role_Meta (build i)))} {[k @ ''/'' @ om_Name (role_Meta (build i))]}
    (\<lambda>c. has_Role c (build i)) (ensure what k (\<lambda>x. om_Name (role_Meta x)) (createOrUpdateRole r) build)"
  by (rule spec_ensure_holds [OF Role_contract [OF assms(1)]], erule assms(2)) (simp_all add: meta_key_def)

lemma ensure_RoleBinding:
  assumes "env_laws V r" and "\<And>j. same_object j i \<Longrightarrow> build j = build i"
  shows "stage_spec V i h {(RoleBindingKind, meta_key (rb_Meta (build i)))} {[k @ ''/'' @ om_Name (rb_Meta (build i))]}
    (\<lambda>c. has_RoleBinding c (build i)) (ensure what k (\<lambda>x. om_Name (rb_Meta x)) (createOrUpdateRoleBinding r) build)"
  by (rule spec_ensure_holds [OF RoleBinding_contract [OF assms(1)]], erule assms(2)) (simp_all add: meta_key_def)

lemma ensure_StatefulSet:
  assumes "env_laws V r" and "\<And>j. same_object j i \<Longrightarrow> build j = build i" and "valid_StatefulSet (build i)"
  shows "stage_spec V i h {(StatefulSetKind, meta_key (sts_Meta (build i)))} {[''StatefulSet/'' @ om_Name (sts_Meta (build i))]}
    (\<lambda>c. has_StatefulSet c (build i)) (ensureStatefulSet r what build)"
proof -
  have "stage_spec V i h {(StatefulSetKind, meta_key (sts_Meta (build i)))}
      {[''StatefulSet'' @ ''/'' @ om_Name (sts_Meta (build i))]} (\<lambda>c. has_StatefulSet c (build i))
      (ensure what ''StatefulSet'' (\<lambda>x. om_Name (sts_Meta x)) (createOrUpdateStatefulSet r) build)"
    by (rule spec_ensure_holds [OF StatefulSet_contract [OF assms(1)]], erule assms(2))
      (simp_all add: meta_key_def assms(3))
  then show ?thesis by (simp add: ensureStatefulSet_def)
qed

lemma ensure_Service:
  assumes "env_laws V r" and "\<And>j. same_object j i \<Longrightarrow> build j = build i"
  shows "stage_spec V i h {(ServiceKind, meta_key (svc_Meta (build i)))} {[''Service/'' @ om_Name (svc_Meta (build i))]}
    (\<lambda>c. has_Service c (build i)) (ensureService r what build)"
proof -
  have "stage_spec V i h {(ServiceKind, meta_key (svc_Meta (build i)))}
      {[''Service'' @ ''/'' @ om_Name (svc_Meta (build i))]} (\<lambda>c. has_Service c (build i))
      (ensure what ''Service'' (\<lambda>x. om_Name (svc_Meta x)) (createOrUpdateService r) build)"
    by (rule spec_ensure_holds [OF Service_contract [OF assms(1)]], erule assms(2)) (simp_all add: meta_key_def)
  then show ?thesis by (simp add: ensureService_def)
qed

lemma ensure_Ingress:
  assumes "env_laws V r" and "\<And>j. same_object j i \<Longrightarrow> build j = build i"
  shows "stage_spec V i h {(IngressKind, meta_key (ing_Meta (build i)))} {[k @ ''/'' @ om_Name (ing_Meta (build i))]}
    (\<lambda>c. has_Ingress c (build i)) (ensure what k (\<lambda>x. om_Name (ing_Meta x)) (createOrUpdateIngress r) build)"
  by (rule spec_ensure_holds [OF Ingress_contract [OF assms(1)]], erule assms(2)) (simp_all add: meta_key_def)

lemma ensure_NetworkPolicy:
  assumes "env_laws V r" and "\<And>j. same_object j i \<Longrightarrow> build j = build i"
  shows "stage_spec V i h {(NetworkPolicyKind, meta_key (np_Meta (build i)))} {[k @ ''/'' @ om_Name (np_Meta (build i))]}
    (\<lambda>c. has_NetworkPolicy c (build i)) (ensure what k (\<lambda>x. om_Name (np_Meta x)) (createOrUpdateNetworkPolicy r) build)"
  by (rule spec_ensure_holds [OF NetworkPolicy_contract [OF assms(1)]], erule assms(2)) (simp_all add: meta_key_def)

lemma ensure_PDB:
  assumes "env_laws V r" and "\<And>j. same_object j i \<Longrightarrow> build j = build i"
  shows "stage_spec V i h {(PDBKind, meta_key (pdb_Meta (build i)))} {[k @ ''/'' @ om_Name (pdb_Meta (build i))]}
    (\<lambda>_. True) (ensure what k (\<lambda>x. om_Name (pdb_Meta x)) (createOrUpdatePDB r) build)"
  by (rule spec_ensure [OF PDB_contract [OF assms(1)]], erule assms(2)) (simp_all add: meta_key_def)

lemma ensure_HPA:
  assumes "env_laws V r" and "\<And>j. same_object j i \<Longrightarrow> build j = build i"
  shows "stage_spec V i h {(HPAKind, meta_key (hpa_Meta (build i)))} {[k @ ''/'' @ om_Name (hpa_Meta (build i))]}
    (\<lambda>_. True) (ensure what k (\<lambda>x. om_Name (hpa_Meta x)) (createOrUpdateHPA r) build)"
  by (rule spec_ensure [OF HPA_contract [OF assms(1)]], erule assms(2)) (simp_all add: meta_key_def)

lemma stageRBAC_spec:
  assumes "env_laws V r"
  shows "stage_spec V i h (rbac_keys i)
    (if wants_rbac i then {[''ServiceAccount/'' @ ResourceName i, ''Role/'' @ ResourceName i, ''RoleBinding/'' @ ResourceName i]}
     else {[]})
    (\<lambda>c. wants_rbac i \<longrightarrow> rbac_realised i c) (stageRBAC r)"
proof -
  note sa = ensure_ServiceAccount [OF assms, of i BuildServiceAccount h "''ServiceAccount''" "''ServiceAccount''",
      OF builder_cong(1)]
  note role = ensure_Role [OF assms, of i BuildRole h "''Role''" "''role''", OF builder_cong(2)]
  note rb = ensure_RoleBinding [OF assms, of i BuildRoleBinding h "''RoleBinding''" "''RoleBinding''", OF builder_cong(3)]
  note cond = spec_last [OF spec_condition [OF env_lawsD(2) [OF assms]], of i h ConditionRBACReady ConditionTrue
      "''RBACReady''" "''RBAC reconciled''"]
  note seq = spec_seq [OF sa spec_seq [OF role spec_seq [OF rb cond]]]
  have "stage_spec V i h {(ServiceAccountKind, db_key i), (RoleKind, db_key i), (RoleBindingKind, db_key i)}
      {[''ServiceAccount/'' @ ResourceName i, ''Role/'' @ ResourceName i, ''RoleBinding/'' @ ResourceName i]} (rbac_realised i)
      (run [ensure ''ServiceAccount'' ''ServiceAccount'' (\<lambda>x. om_Name (sa_Meta x))
             (createOrUpdateServiceAccount r) BuildServiceAccount,
           ensure ''role'' ''Role'' (\<lambda>x. om_Name (role_Meta x)) (createOrUpdateRole r) BuildRole,
           ensure ''RoleBinding'' ''RoleBinding'' (\<lambda>x. om_Name (rb_Meta x)) (createOrUpdateRoleBinding r) BuildRoleBinding,
           condition r ConditionRBACReady ConditionTrue ''RBACReady'' ''RBAC reconciled''])"
    by (rule stage_spec_weaken, rule seq)
      (auto simp: child_keys child_names ResourceName_def rbac_realised_def)
  then show ?thesis
    unfolding stageRBAC_def rbac_keys_def by (rule spec_only_if [rotated]) (auto dest: same_objectD(3))
qed

end
