(* ===== verification/Reconciled.thy ===== *)
theory Reconciled
  imports Reconciliation
begin

section \<open>Stage by stage, and the whole reconciliation\<close>

text \<open>
  The specifications of the remaining stages of \<^verbatim>\<open>reconcileResources\<close>, their composition, and
  the properties of \<^verbatim>\<open>reconcileResources\<close>, \<^verbatim>\<open>syncStatus\<close>, \<^verbatim>\<open>reconcileDeletion\<close> and \<^verbatim>\<open>Reconcile\<close>.
\<close>

subsection \<open>Workloads\<close>

lemma built_valid:
  "valid_StatefulSet (BuildStatefulSet L i h)" "valid_StatefulSet (BuildLeaderStatefulSet L i h ret)"
  "valid_StatefulSet (BuildFollowerStatefulSet L i h addr n ret)"
  by (simp_all add: valid_StatefulSet_def standalone_wl.build_containers leader_wl.build_containers
      follower_wl.build_containers)

lemma stageHeadless_spec:
  assumes "env_laws V r"
  shows "stage_spec V i h {(ServiceKind, db_Namespace i, HeadlessServiceName i)} {[''Service/'' @ HeadlessServiceName i]}
    (\<lambda>c. has_Service c (BuildHeadlessService i)) (stageHeadless r)"
  unfolding stageHeadless_def
  using ensure_Service [OF assms, of i BuildHeadlessService h "''headless Service''", OF builder_cong(5)]
  by (simp add: child_keys child_names)

lemma stagePruneFollowers_spec:
  assumes "env_laws V r"
  shows "stage_spec V i h {(StatefulSetKind, db_Namespace i, FollowerStatefulSetName i)} {[]}
    (\<lambda>c. gone c (StatefulSetKind, db_Namespace i, FollowerStatefulSetName i)) (stagePruneFollowers r)"
proof (rule stage_specI)
  fix s e s'
  assume s: "same_object (rs_inst s) i" "rs_hash s = h" and r: "stagePruneFollowers r s = (e, s')"
  let ?q = "(StatefulSetKind, db_Namespace i, FollowerStatefulSetName i)"
  obtain e1 w1 where d: "deleteStatefulSetIfExists r (db_Namespace i) (FollowerStatefulSetName i) (rs_world s) = (e1, w1)"
    by force
  then have s': "s' = s\<lparr>rs_world := w1\<rparr>" "e = None \<longleftrightarrow> e1 = None"
    using r same_objectD(2) [OF s(1)] name_cong(5) [OF s(1)]
    by (auto simp: stagePruneFollowers_def split: option.splits)
  then show "same_object (rs_inst s') i \<and> rs_hash s' = h \<and>
      (\<forall>q. q \<notin> {?q} \<longrightarrow> V (rs_world s') q = V (rs_world s) q) \<and>
      (e = None \<longrightarrow> gone (V (rs_world s')) ?q \<and> (\<exists>m \<in> {[]}. rs_managed s' = rs_managed s @ m))"
    using s deleteStatefulSet_effect [OF assms d] by simp
qed

lemma stageFollowers_spec:
  assumes "env_laws V r"
  shows "stage_spec V i h {(StatefulSetKind, db_Namespace i, FollowerStatefulSetName i)}
    {if 0 < readReplicas i then [''StatefulSet/'' @ FollowerStatefulSetName i] else []}
    (\<lambda>c. (0 < readReplicas i \<longrightarrow> has_StatefulSet c (BuildFollowerStatefulSet (r_lib r) i hash addr (readReplicas i) ret)) \<and>
         (readReplicas i \<le> 0 \<longrightarrow> gone c (StatefulSetKind, db_Namespace i, FollowerStatefulSetName i)))
    (stageFollowers r hash addr ret)"
proof -
  let ?build = "\<lambda>inst. BuildFollowerStatefulSet (r_lib r) inst hash addr (readReplicas inst) ret"
  have cong: "?build j = ?build i" if "same_object j i" for j
    using builder_cong(11) [OF that] same_objectD(3) [OF that] by simp
  show ?thesis
  proof (cases "0 < readReplicas i")
    case True
    have "stage_spec V i h {(StatefulSetKind, db_Namespace i, FollowerStatefulSetName i)}
        {[''StatefulSet/'' @ FollowerStatefulSetName i]} (\<lambda>c. has_StatefulSet c (?build i))
        (ensureStatefulSet r ''follower StatefulSet'' ?build)"
      using ensure_StatefulSet [OF assms, of i ?build h "''follower StatefulSet''", OF cong built_valid(3)]
      by (simp add: child_keys child_names)
    then show ?thesis
      using True by (intro spec_same [where f = "stageFollowers r hash addr ret"])
        (frule same_objectD(3), simp_all add: stageFollowers_def)
  next
    case False
    then show ?thesis
      using stagePruneFollowers_spec [OF assms, of i h]
      by (intro spec_same [where f = "stageFollowers r hash addr ret"])
        (frule same_objectD(3), simp_all add: stageFollowers_def)
  qed
qed

lemma stageReplicated_spec:
  assumes "env_laws V r" and "Replicated i"
  shows "stage_spec V i h (workload_keys i) {workload_names i} (workloads_realised (r_lib r) i h)
    (stageReplicated r)"
proof -
  let ?fs = "[ensureStatefulSet r ''leader StatefulSet'' (\<lambda>inst. BuildLeaderStatefulSet (r_lib r) inst h (retention i)),
    stageFollowers r h (leaderAddr i) (retention i), ensureService r ''write Service'' BuildWriteService,
    ensureService r ''read Service'' BuildReadService,
    condition r ConditionServiceReady ConditionTrue ''ServiceReady'' ''Services reconciled'']"
  note leader = ensure_StatefulSet [OF assms(1), of i "\<lambda>inst. BuildLeaderStatefulSet (r_lib r) inst h (retention i)" h
      "''leader StatefulSet''", OF builder_cong(10) built_valid(2), unfolded child_keys child_names]
  note follower = stageFollowers_spec [OF assms(1), of i h h "leaderAddr i" "retention i"]
  note wsvc = ensure_Service [OF assms(1), of i BuildWriteService h "''write Service''", OF builder_cong(7),
      unfolded child_keys child_names]
  note rsvc = ensure_Service [OF assms(1), of i BuildReadService h "''read Service''", OF builder_cong(8),
      unfolded child_keys child_names]
  note cond = spec_last [OF spec_condition [OF env_lawsD(2) [OF assms(1)]], of i h ConditionServiceReady ConditionTrue
      "''ServiceReady''" "''Services reconciled''"]
  have "stage_spec V i h (workload_keys i) {workload_names i} (workloads_realised (r_lib r) i h) (run ?fs)"
    by (rule stage_spec_weaken, rule spec_seq [OF leader spec_seq [OF follower spec_seq [OF wsvc spec_seq [OF rsvc cond]]]])
      (use assms(2) in \<open>auto simp: workload_keys_def name_defs workload_names_def workloads_realised_def child_keys
        intro!: supported_weak_imp supported_weak_conj\<close>)
  then show ?thesis
    by (rule spec_same [rotated]) (simp add: stageReplicated_def Let_def same_objectD builder_cong)
qed

lemma stageStandalone_spec:
  assumes "env_laws V r" and "\<not> Replicated i"
  shows "stage_spec V i h (workload_keys i) {workload_names i} (workloads_realised (r_lib r) i h)
    (stageStandalone r)"
proof -
  let ?fs = "[ensureStatefulSet r ''StatefulSet'' (\<lambda>inst. BuildStatefulSet (r_lib r) inst h),
    ensureService r ''service'' BuildService,
    condition r ConditionServiceReady ConditionTrue ''ServiceReady'' ''Service reconciled'']"
  note sts = ensure_StatefulSet [OF assms(1), of i "\<lambda>inst. BuildStatefulSet (r_lib r) inst h" h
      "''StatefulSet''", OF builder_cong(9) built_valid(1), unfolded child_keys child_names]
  note svc = ensure_Service [OF assms(1), of i BuildService h "''service''", OF builder_cong(6),
      unfolded child_keys child_names]
  note cond = spec_last [OF spec_condition [OF env_lawsD(2) [OF assms(1)]], of i h ConditionServiceReady ConditionTrue
      "''ServiceReady''" "''Service reconciled''"]
  have "stage_spec V i h (workload_keys i) {workload_names i} (workloads_realised (r_lib r) i h) (run ?fs)"
    by (rule stage_spec_weaken, rule spec_seq [OF sts spec_seq [OF svc cond]])
      (use assms(2) in \<open>auto simp: workload_keys_def workload_names_def workloads_realised_def child_keys\<close>)
  then show ?thesis
    by (rule spec_same [rotated]) (simp add: stageStandalone_def Let_def)
qed

lemma stageWorkloads_spec:
  assumes "env_laws V r"
  shows "stage_spec V i h (workload_keys i) {workload_names i} (workloads_realised (r_lib r) i h)
    (stageWorkloads r)"
proof (cases "Replicated i")
  case True
  show ?thesis
    by (rule spec_same [OF _ stageReplicated_spec [OF assms True]]) (simp add: stageWorkloads_def name_cong(10) True)
next
  case False
  show ?thesis
    by (rule spec_same [OF _ stageStandalone_spec [OF assms False]]) (simp add: stageWorkloads_def name_cong(10) False)
qed

subsection \<open>Optional resources\<close>

lemma stageIngress_spec:
  assumes "env_laws V r"
  shows "stage_spec V i h (if wants_ingress i then {(IngressKind, db_key i)} else {}) (if wants_ingress i then {[''Ingress/'' @ ResourceName i]} else {[]})
    (\<lambda>c. wants_ingress i \<longrightarrow> has_Ingress c (BuildIngress i)) (stageIngress r)"
proof -
  have "stage_spec V i h {(IngressKind, db_key i)} {[''Ingress/'' @ ResourceName i]} (\<lambda>c. has_Ingress c (BuildIngress i))
      (ensure ''ingress'' ''Ingress'' (\<lambda>x. om_Name (ing_Meta x)) (createOrUpdateIngress r) BuildIngress)"
    using ensure_Ingress [OF assms, of i BuildIngress h "''Ingress''" "''ingress''", OF builder_cong(12)]
    by (simp add: child_keys child_names ResourceName_def)
  then show ?thesis
    unfolding stageIngress_def by (rule spec_only_if [rotated]) (auto dest: same_objectD(3))
qed

lemma stageNetworkPolicy_spec:
  assumes "env_laws V r"
  shows "stage_spec V i h (if wants_np i then {(NetworkPolicyKind, db_key i)} else {}) (if wants_np i then {[''NetworkPolicy/'' @ ResourceName i]} else {[]})
    (\<lambda>c. wants_np i \<longrightarrow> has_NetworkPolicy c (BuildNetworkPolicy i)) (stageNetworkPolicy r)"
proof -
  note np = ensure_NetworkPolicy [OF assms, of i BuildNetworkPolicy h "''NetworkPolicy''" "''NetworkPolicy''",
      OF builder_cong(13), unfolded child_keys child_names]
  note cond = spec_last [OF spec_condition [OF env_lawsD(2) [OF assms]], of i h ConditionNetworkPolicyReady ConditionTrue
      "''NetworkPolicyReady''" "''NetworkPolicy reconciled''"]
  have "stage_spec V i h {(NetworkPolicyKind, db_key i)} {[''NetworkPolicy/'' @ ResourceName i]}
      (\<lambda>c. has_NetworkPolicy c (BuildNetworkPolicy i))
      (run [ensure ''NetworkPolicy'' ''NetworkPolicy'' (\<lambda>x. om_Name (np_Meta x)) (createOrUpdateNetworkPolicy r) BuildNetworkPolicy,
            condition r ConditionNetworkPolicyReady ConditionTrue ''NetworkPolicyReady'' ''NetworkPolicy reconciled''])"
    by (rule stage_spec_weaken, rule spec_seq [OF np cond]) (auto simp: child_keys ResourceName_def)
  then show ?thesis
    unfolding stageNetworkPolicy_def by (rule spec_only_if [rotated]) (auto dest: same_objectD(3))
qed

lemma ServiceMonitor_key:
  assumes "env_laws V r"
  shows "key_Unstructured r (BuildServiceMonitor i) = db_key i"
  using env_lawsD(4) [OF assms] ServiceMonitor_metadata [of i]
  by (simp add: unstructured_laws_def key_Unstructured_def ResourceName_def)

lemma stageServiceMonitor_spec:
  assumes "env_laws V r"
  shows "stage_spec V i h (if wants_sm i then {(MonitorKind, db_key i)} else {}) (if wants_sm i then {[], [''ServiceMonitor/'' @ ResourceName i]} else {[]})
    (\<lambda>c. wants_sm i \<longrightarrow> True) (stageServiceMonitor r)"
proof -
  have "stage_spec V i h {(MonitorKind, db_key i)} {[], [''ServiceMonitor/'' @ ResourceName i]} (\<lambda>_. True)
      (\<lambda>s. case createOrUpdateServiceMonitor r (rs_inst s) (BuildServiceMonitor (rs_inst s)) (rs_world s) of
        (Inl e, w) \<Rightarrow>
          condition r ConditionServiceMonitorReady ConditionFalse ''ServiceMonitorCRDMissing'' (Error e) (s\<lparr>rs_world := w\<rparr>)
      | (Inr sm, w) \<Rightarrow>
          condition r ConditionServiceMonitorReady ConditionTrue ''ServiceMonitorReady'' ''ServiceMonitor reconciled''
            (s\<lparr>rs_world := w, rs_managed := rs_managed s @ [''ServiceMonitor/'' @ r_GetName r sm]\<rparr>))"
  proof (rule stage_specI, goal_cases)
    case (1 s e s')
    let ?sm = "BuildServiceMonitor (rs_inst s)"
    obtain res w where c: "createOrUpdateServiceMonitor r (rs_inst s) ?sm (rs_world s) = (res, w)" by force
    have k: "key_Unstructured r ?sm = db_key i"
      using ServiceMonitor_key [OF assms] builder_cong(14) [OF 1(1)] by simp
    have V: "q \<noteq> (MonitorKind, db_key i) \<Longrightarrow> V w q = V (rs_world s) q" for q
      using ServiceMonitor_contract [OF assms] c k unfolding frame_contract_def by (metis snd_conv)
    show ?case
    proof (cases res)
      case (Inl x)
      then have "condition r ConditionServiceMonitorReady ConditionFalse ''ServiceMonitorCRDMissing'' (Error x)
          (s\<lparr>rs_world := w\<rparr>) = (e, s')" using 1(3) c by simp
      from condition_effect [OF env_lawsD(2) [OF assms] this] V 1 show ?thesis
        by (auto intro: same_object_trans)
    next
      case (Inr sm)
      then have "key_Unstructured r sm = db_key i"
        using ServiceMonitor_contract [OF assms] c k unfolding frame_contract_def by metis
      then have n: "r_GetName r sm = ResourceName i" by (simp add: key_Unstructured_def ResourceName_def)
      have "condition r ConditionServiceMonitorReady ConditionTrue ''ServiceMonitorReady'' ''ServiceMonitor reconciled''
          (s\<lparr>rs_world := w, rs_managed := rs_managed s @ [''ServiceMonitor/'' @ r_GetName r sm]\<rparr>) = (e, s')"
        using 1(3) c Inr by simp
      from condition_effect [OF env_lawsD(2) [OF assms] this] V 1 n show ?thesis
        by (auto intro: same_object_trans)
    qed
  qed
  then show ?thesis
    unfolding stageServiceMonitor_def by (rule spec_only_if [rotated]) (auto dest: same_objectD(3))
qed

lemma stagePDB_spec:
  assumes "env_laws V r"
  shows "stage_spec V i h (if wants_pdb i then {(PDBKind, db_key i)} else {}) (if wants_pdb i then {[''PodDisruptionBudget/'' @ ResourceName i]} else {[]})
    (\<lambda>c. wants_pdb i \<longrightarrow> True) (stagePDB r)"
proof -
  have "stage_spec V i h {(PDBKind, db_key i)} {[''PodDisruptionBudget/'' @ ResourceName i]} (\<lambda>_. True)
      (ensure ''PodDisruptionBudget'' ''PodDisruptionBudget'' (\<lambda>x. om_Name (pdb_Meta x)) (createOrUpdatePDB r) BuildPDB)"
    using ensure_PDB [OF assms, of i BuildPDB h "''PodDisruptionBudget''" "''PodDisruptionBudget''", OF builder_cong(15)]
    by (simp add: child_keys child_names ResourceName_def)
  then show ?thesis
    unfolding stagePDB_def by (rule spec_only_if [rotated]) (auto dest: same_objectD(3))
qed

lemma stageHPA_spec:
  assumes "env_laws V r"
  shows "stage_spec V i h (if wants_hpa i then {(HPAKind, db_key i)} else {}) (if wants_hpa i then {[''HorizontalPodAutoscaler/'' @ ResourceName i]} else {[]})
    (\<lambda>c. wants_hpa i \<longrightarrow> True) (stageHPA r)"
proof -
  have "stage_spec V i h {(HPAKind, db_key i)} {[''HorizontalPodAutoscaler/'' @ ResourceName i]} (\<lambda>_. True)
      (ensure ''HorizontalPodAutoscaler'' ''HorizontalPodAutoscaler'' (\<lambda>x. om_Name (hpa_Meta x)) (createOrUpdateHPA r) BuildHPA)"
    using ensure_HPA [OF assms, of i BuildHPA h "''HorizontalPodAutoscaler''" "''HorizontalPodAutoscaler''", OF builder_cong(16)]
    by (simp add: child_keys child_names ResourceName_def)
  then show ?thesis
    unfolding stageHPA_def by (rule spec_only_if [rotated]) (auto dest: same_objectD(3))
qed

text \<open>The part of \<open>managed_names\<close> the optional stages contribute.\<close>

definition optional_names :: "TlnDB \<Rightarrow> bool \<Rightarrow> string list" where
  "optional_names inst sm =
     (if wants_ingress inst then [''Ingress/'' @ ResourceName inst] else [])
     @ (if wants_np inst then [''NetworkPolicy/'' @ ResourceName inst] else [])
     @ (if wants_sm inst \<and> sm then [''ServiceMonitor/'' @ ResourceName inst] else [])
     @ (if wants_pdb inst then [''PodDisruptionBudget/'' @ ResourceName inst] else [])
     @ (if wants_hpa inst then [''HorizontalPodAutoscaler/'' @ ResourceName inst] else [])"

lemma if_singleton: "m \<in> (if b then {a} else {[]}) \<longleftrightarrow> m = (if b then a else [])"
  by simp

lemma if_optional: "m \<in> (if b then {[], a} else {[]}) \<Longrightarrow> \<exists>ok. m = (if b \<and> ok then a else [])"
  by (cases b) auto

lemma optional_names_mem:
  assumes "m1 \<in> (if wants_ingress i then {[''Ingress/'' @ ResourceName i]} else {[]})"
    and "m2 \<in> (if wants_np i then {[''NetworkPolicy/'' @ ResourceName i]} else {[]})"
    and "m3 \<in> (if wants_sm i then {[], [''ServiceMonitor/'' @ ResourceName i]} else {[]})"
    and "m4 \<in> (if wants_pdb i then {[''PodDisruptionBudget/'' @ ResourceName i]} else {[]})"
    and "m5 \<in> (if wants_hpa i then {[''HorizontalPodAutoscaler/'' @ ResourceName i]} else {[]})"
  shows "m1 @ m2 @ m3 @ m4 @ m5 \<in> range (optional_names i)"
proof -
  obtain ok where "m3 = (if wants_sm i \<and> ok then [''ServiceMonitor/'' @ ResourceName i] else [])"
    using if_optional [OF assms(3)] by blast
  with assms(1,2,4,5) have "m1 @ m2 @ m3 @ m4 @ m5 = optional_names i ok"
    unfolding if_singleton by (simp only: optional_names_def)
  then show ?thesis by blast
qed

lemma optional_spec:
  assumes "env_laws V r"
  shows "stage_spec V i h (optional_keys i) (range (optional_names i))
    (\<lambda>c. (wants_ingress i \<longrightarrow> has_Ingress c (BuildIngress i)) \<and> (wants_np i \<longrightarrow> has_NetworkPolicy c (BuildNetworkPolicy i)))
    (run [stageIngress r, stageNetworkPolicy r, stageServiceMonitor r, stagePDB r, stageHPA r])"
proof (rule stage_spec_weaken,
    rule spec_cons [OF stageIngress_spec [OF assms] spec_cons [OF stageNetworkPolicy_spec [OF assms]
      spec_cons [OF stageServiceMonitor_spec [OF assms] spec_cons [OF stagePDB_spec [OF assms]
        spec_last [OF stageHPA_spec [OF assms]]]]]], goal_cases)
  case 11
  show ?case by (rule subsetI) (use optional_names_mem in blast)
qed (auto simp: child_keys ResourceName_def optional_keys_def intro!: supported_imp split: if_splits)

subsection \<open>Configuration and the final status patch\<close>

definition config_names :: "TlnDB \<Rightarrow> string list" where
  "config_names inst = (if spec_ConfigFrom (db_Spec inst) = None then [''ConfigMap/'' @ ConfigMapName inst] else [])"

lemma stageRenderedConfig_effect:
  assumes env: "env_laws V r" and i: "same_object (rs_inst s) i" and c: "spec_ConfigFrom (db_Spec i) = None"
    and run: "stageRenderedConfig r s = (e, s')"
  shows "same_object (rs_inst s') i"
    and "q \<noteq> (ConfigMapKind, db_Namespace i, ConfigMapName i) \<Longrightarrow> V (rs_world s') q = V (rs_world s) q"
    and "e = None \<Longrightarrow> config_realised (r_lib r) i (rs_hash s') (V (rs_world s')) \<and>
           rs_managed s' = rs_managed s @ config_names i"
proof -
  let ?cm = "BuildConfigMap (r_lib r) i"
  obtain res w where u: "createOrUpdateConfigMap r (rs_inst s) ?cm (rs_world s) = (res, w)" by force
  have k: "meta_key (cm_Meta ?cm) = (db_Namespace i, ConfigMapName i)" by (rule cm_child.key_eq)
  have V: "q \<noteq> (ConfigMapKind, db_Namespace i, ConfigMapName i) \<Longrightarrow> V w q = V (rs_world s) q"
    using ConfigMap_contract(1) [OF env] u k unfolding frame_contract_def by (metis snd_conv)
  have "same_object (rs_inst s') i
    \<and> (q \<noteq> (ConfigMapKind, db_Namespace i, ConfigMapName i) \<longrightarrow> V (rs_world s') q = V (rs_world s) q)
    \<and> (e = None \<longrightarrow> config_realised (r_lib r) i (rs_hash s') (V (rs_world s')) \<and>
           rs_managed s' = rs_managed s @ config_names i)"
  proof (cases res)
    case (Inl x)
    then show ?thesis using run u V i builder_cong(4) [OF i] by (auto simp: stageRenderedConfig_def)
  next
    case (Inr cm)
    have kcm: "meta_key (cm_Meta cm) = (db_Namespace i, ConfigMapName i)"
      using ConfigMap_contract(1) [OF env] u k Inr unfolding frame_contract_def by metis
    have hcm: "has_ConfigMap (V w) ?cm" "norm_ConfigMap cm = norm_ConfigMap ?cm"
      using ConfigMap_contract(2) [OF env] u Inr unfolding holds_contract_def by blast+
    let ?s = "s\<lparr>rs_world := w, rs_hash := HashStringData (cm_Data cm),
        rs_managed := rs_managed s @ [''ConfigMap/'' @ om_Name (cm_Meta cm)]\<rparr>"
    have "condition r ConditionConfigMapReady ConditionTrue ''ConfigMapReady'' ''ConfigMap reconciled'' ?s = (e, s')"
      using run u Inr builder_cong(4) [OF i] by (simp add: stageRenderedConfig_def)
    note E = condition_effect [OF env_lawsD(2) [OF env] this]
    have "config_realised (r_lib r) i (rs_hash s') (V (rs_world s'))"
      using E hcm c by (simp add: config_realised_def norm_ConfigMap_def)
    moreover have "om_Name (cm_Meta cm) = ConfigMapName i" using kcm by (simp add: meta_key_def)
    ultimately show ?thesis
      using E V i c by (auto simp: config_names_def intro: same_object_trans)
  qed
  then show "same_object (rs_inst s') i"
    and "q \<noteq> (ConfigMapKind, db_Namespace i, ConfigMapName i) \<Longrightarrow> V (rs_world s') q = V (rs_world s) q"
    and "e = None \<Longrightarrow> config_realised (r_lib r) i (rs_hash s') (V (rs_world s')) \<and>
           rs_managed s' = rs_managed s @ config_names i" by blast+
qed

lemma stageExternalConfig_effect:
  assumes env: "env_laws V r" and i: "same_object (rs_inst s) i" and c: "spec_ConfigFrom (db_Spec i) = Some n"
    and run: "stageExternalConfig r n s = (e, s')"
  shows "same_object (rs_inst s') i" and "V (rs_world s') = V (rs_world s)"
    and "e = None \<Longrightarrow> config_realised (r_lib r) i (rs_hash s') (V (rs_world s')) \<and>
           rs_managed s' = rs_managed s @ config_names i"
proof -
  note laws = client_lawsD(1) [OF env_lawsD(5) [OF env]]
  obtain g w where g: "kc_Get (r_ConfigMap r) (db_Namespace i, n) (rs_world s) = (g, w)" by force
  have V: "V w = V (rs_world s)" using get_lawsD(1) [OF laws] g by (metis snd_conv)
  have "same_object (rs_inst s') i \<and> V (rs_world s') = V (rs_world s)
    \<and> (e = None \<longrightarrow> config_realised (r_lib r) i (rs_hash s') (V (rs_world s')) \<and>
           rs_managed s' = rs_managed s @ config_names i)"
  proof (cases g)
    case (Inl x)
    show ?thesis
    proof (cases "IsNotFound x")
      case True
      let ?msg = "''referenced ConfigMap '' @ Quote (lib_IsPrint (r_lib r)) n @ '' not found''"
      obtain e1 s1 where c1: "condition r ConditionConfigMapReady ConditionFalse ''ExternalConfigMapNotFound'' ?msg
          (s\<lparr>rs_world := w\<rparr>) = (e1, s1)" by force
      then have "s' = s1" "e \<noteq> None"
        using run g Inl True same_objectD(2) [OF i]
        by (auto simp: stageExternalConfig_def split: option.splits)
      then show ?thesis
        using condition_effect [OF env_lawsD(2) [OF env] c1] V i by (auto intro: same_object_trans)
    next
      case False
      then show ?thesis using run g Inl V i same_objectD(2) [OF i] by (auto simp: stageExternalConfig_def)
    qed
  next
    case (Inr cm)
    then have cm: "V (rs_world s) (ConfigMapKind, db_Namespace i, n) = Some (KConfigMap cm)"
      using get_lawsD(2) [OF laws] g by (metis fst_conv)
    have "condition r ConditionConfigMapReady ConditionTrue ''ExternalConfigMapFound'' ''External ConfigMap found''
        (s\<lparr>rs_world := w, rs_hash := HashStringData (cm_Data cm)\<rparr>) = (e, s')"
      using run g Inr same_objectD(2) [OF i] by (simp add: stageExternalConfig_def)
    from condition_effect [OF env_lawsD(2) [OF env] this] show ?thesis
      using cm V i c by (auto simp: config_realised_def config_names_def intro: same_object_trans)
  qed
  then show "same_object (rs_inst s') i" and "V (rs_world s') = V (rs_world s)"
    and "e = None \<Longrightarrow> config_realised (r_lib r) i (rs_hash s') (V (rs_world s')) \<and>
           rs_managed s' = rs_managed s @ config_names i" by blast+
qed

lemma stageConfig_effect:
  assumes env: "env_laws V r" and i: "same_object (rs_inst s) i" and run: "stageConfig r s = (e, s')"
  shows "same_object (rs_inst s') i"
    and "q \<notin> config_keys i \<Longrightarrow> V (rs_world s') q = V (rs_world s) q"
    and "e = None \<Longrightarrow> config_realised (r_lib r) i (rs_hash s') (V (rs_world s')) \<and>
           rs_managed s' = rs_managed s @ config_names i"
proof -
  have "same_object (rs_inst s') i
    \<and> (q \<notin> config_keys i \<longrightarrow> V (rs_world s') q = V (rs_world s) q)
    \<and> (e = None \<longrightarrow> config_realised (r_lib r) i (rs_hash s') (V (rs_world s')) \<and>
           rs_managed s' = rs_managed s @ config_names i)"
  proof (cases "spec_ConfigFrom (db_Spec i)")
    case None
    then have "stageRenderedConfig r s = (e, s')"
      using run same_objectD(3) [OF i] by (simp add: stageConfig_def)
    note R = stageRenderedConfig_effect [OF env i None this]
    show ?thesis using R(1) R(2) [of q] R(3) None by (simp add: config_keys_def)
  next
    case (Some n)
    then have "stageExternalConfig r n s = (e, s')"
      using run same_objectD(3) [OF i] by (simp add: stageConfig_def)
    from stageExternalConfig_effect [OF env i Some this] show ?thesis by simp
  qed
  then show "same_object (rs_inst s') i"
    and "q \<notin> config_keys i \<Longrightarrow> V (rs_world s') q = V (rs_world s) q"
    and "e = None \<Longrightarrow> config_realised (r_lib r) i (rs_hash s') (V (rs_world s')) \<and>
           rs_managed s' = rs_managed s @ config_names i" by blast+
qed

lemma stagePersist_effect:
  assumes env: "env_laws V r" and run: "stagePersist r s = (e, s')"
  shows "V (rs_world s') = V (rs_world s)" and "same_object (rs_inst s') (rs_inst s)"
    and "e = None \<Longrightarrow> sta_ManagedResources (db_Status (rs_inst s')) = sort (rs_managed s) \<and>
           sta_CurrentImage (db_Status (rs_inst s')) = ImageRef (spec_Image (db_Spec (rs_inst s)))"
proof -
  let ?base = "rs_inst s"
  obtain now w where now: "r_Now r (rs_world s) = (now, w)" by force
  have V1: "V w = V (rs_world s)" using status_lawsD(6) [OF env_lawsD(2) [OF env]] now by (metis snd_conv)
  let ?inst = "?base\<lparr>db_Status := (db_Status ?base)\<lparr>sta_ManagedResources := sort (rs_managed s),
      sta_CurrentImage := ImageRef (spec_Image (db_Spec ?base)), sta_LastUpdateTime := Some now,
      sta_ObservedGeneration := om_Generation (db_Meta ?base)\<rparr>\<rparr>"
  obtain e1 inst w1 where p: "patchStatus r ?inst ?base w = (e1, inst, w1)" by (metis prod_cases3)
  have s': "e = e1" "rs_inst s' = inst" "rs_world s' = w1"
    using run now p by (auto simp: stagePersist_def Let_def)
  note P = patchStatus_effect [OF env_lawsD(2) [OF env] p]
  show "V (rs_world s') = V (rs_world s)" "same_object (rs_inst s') (rs_inst s)"
    "e = None \<Longrightarrow> sta_ManagedResources (db_Status (rs_inst s')) = sort (rs_managed s) \<and>
       sta_CurrentImage (db_Status (rs_inst s')) = ImageRef (spec_Image (db_Spec (rs_inst s)))"
    using P V1 s' by auto
qed

subsection \<open>The whole of reconcileResources\<close>

lemma run_append:
  "run (fs @ gs) s = (case run fs s of (Some e, s') \<Rightarrow> (Some e, s') | (None, s') \<Rightarrow> run gs s')"
  by (induction fs arbitrary: s) (simp_all split: prod.split option.split)

definition later_stages :: "'w reconciler \<Rightarrow> 'w stage list" where
  "later_stages r = [stageHeadless r, stageWorkloads r, stageIngress r, stageNetworkPolicy r, stageServiceMonitor r,
     stagePDB r, stageHPA r]"

definition later_keys :: "TlnDB \<Rightarrow> kkey set" where
  "later_keys i = {(ServiceKind, db_Namespace i, HeadlessServiceName i)} \<union> (workload_keys i \<union> optional_keys i)"

definition later_realised :: "lib \<Rightarrow> TlnDB \<Rightarrow> string \<Rightarrow> cluster \<Rightarrow> bool" where
  "later_realised L i h c \<longleftrightarrow> has_Service c (BuildHeadlessService i) \<and> workloads_realised L i h c
     \<and> (wants_ingress i \<longrightarrow> has_Ingress c (BuildIngress i)) \<and> (wants_np i \<longrightarrow> has_NetworkPolicy c (BuildNetworkPolicy i))"

lemma supported_workloads: "supported (workload_keys i) (workloads_realised L i h)"
  unfolding supported_def workloads_realised_def holds_def workload_keys_def child_keys gone_def by simp

lemma later_spec:
  assumes "env_laws V r"
  shows "stage_spec V i h (later_keys i)
    {[''Service/'' @ HeadlessServiceName i] @ workload_names i @ optional_names i ok |ok. True} (later_realised (r_lib r) i h)
    (run (later_stages r))"
  unfolding later_stages_def
proof (rule stage_spec_weaken,
    rule spec_cons [OF stageHeadless_spec [OF assms] spec_cons [OF stageWorkloads_spec [OF assms] optional_spec [OF assms]]],
    goal_cases)
  case 1
  show ?case by (auto simp: workload_keys_def optional_keys_def split: if_splits)
next
  case 2
  show ?case by (rule supported_workloads)
next
  case 3
  show ?case by (auto simp: workload_keys_def optional_keys_def name_defs split: if_splits)
next
  case 7
  show ?case by blast
qed (auto simp: later_keys_def later_realised_def child_keys)

lemma config_realised_cong:
  "(\<And>k. c (ConfigMapKind, k) = c' (ConfigMapKind, k)) \<Longrightarrow> config_realised L i h c = config_realised L i h c'"
  by (simp add: config_realised_def holds_def split: option.split)

lemma supported_rbac: "supported (rbac_keys i) (\<lambda>c. wants_rbac i \<longrightarrow> rbac_realised i c)"
  unfolding supported_def rbac_realised_def holds_def rbac_keys_def child_keys by (simp add: ResourceName_def)

lemma touched_eq: "touched i = rbac_keys i \<union> config_keys i \<union> later_keys i"
  by (auto simp: touched_def later_keys_def)

lemma later_keys_disjoint: "(ConfigMapKind, k) \<notin> later_keys i" "rbac_keys i \<inter> later_keys i = {}"
  "rbac_keys i \<inter> config_keys i = {}"
  by (auto simp: later_keys_def rbac_keys_def config_keys_def workload_keys_def optional_keys_def split: if_splits)

lemma managed_names_eq:
  "managed_names i ok = (if wants_rbac i then [''ServiceAccount/'' @ ResourceName i, ''Role/'' @ ResourceName i,
        ''RoleBinding/'' @ ResourceName i] else [])
     @ config_names i @ [''Service/'' @ HeadlessServiceName i] @ workload_names i @ optional_names i ok"
  by (simp only: managed_names_def config_names_def optional_names_def append_assoc)

lemma reconcile_stages:
  "[stageRBAC r, stageConfig r, stageHeadless r, stageWorkloads r, stageIngress r,
    stageNetworkPolicy r, stageServiceMonitor r, stagePDB r, stageHPA r, stagePersist r]
   = stageRBAC r # stageConfig r # later_stages r @ [stagePersist r]"
  by (simp add: later_stages_def)

lemma reconcileResources_cases:
  assumes "reconcileResources r i w = (e, i', w')"
  obtains (rbac) e1 s1 where "stageRBAC r \<lparr>rs_inst = i, rs_managed = [], rs_hash = [], rs_world = w\<rparr> = (Some e1, s1)"
      "e = Some e1" "i' = rs_inst s1" "w' = rs_world s1"
  | (config) s1 e2 s2 where "stageRBAC r \<lparr>rs_inst = i, rs_managed = [], rs_hash = [], rs_world = w\<rparr> = (None, s1)"
      "stageConfig r s1 = (Some e2, s2)" "e = Some e2" "i' = rs_inst s2" "w' = rs_world s2"
  | (later) s1 s2 e3 s3 where "stageRBAC r \<lparr>rs_inst = i, rs_managed = [], rs_hash = [], rs_world = w\<rparr> = (None, s1)"
      "stageConfig r s1 = (None, s2)"
      "run (later_stages r) s2 = (Some e3, s3)" "e = Some e3" "i' = rs_inst s3" "w' = rs_world s3"
  | (persist) s1 s2 s3 s4 where "stageRBAC r \<lparr>rs_inst = i, rs_managed = [], rs_hash = [], rs_world = w\<rparr> = (None, s1)"
      "stageConfig r s1 = (None, s2)"
      "run (later_stages r) s2 = (None, s3)" "stagePersist r s3 = (e, s4)" "i' = rs_inst s4" "w' = rs_world s4"
proof -
  obtain o1 s1 where r1: "stageRBAC r \<lparr>rs_inst = i, rs_managed = [], rs_hash = [], rs_world = w\<rparr> = (o1, s1)" by force
  obtain o2 s2 where r2: "stageConfig r s1 = (o2, s2)" by force
  obtain o3 s3 where r3: "run (later_stages r) s2 = (o3, s3)" by force
  obtain o4 s4 where r4: "stagePersist r s3 = (o4, s4)" by force
  note all = assms [unfolded reconcileResources_def reconcile_stages run.simps(2) r1 r2 run_append r3 r4]
  show ?thesis
  proof (cases o1)
    case (Some e1)
    then show ?thesis using r1 all by (intro rbac [of e1 s1]) (simp_all add: r1)
  next
    case n1: None
    show ?thesis
    proof (cases o2)
      case (Some e2)
      then show ?thesis using r1 r2 n1 all by (intro config [of s1 e2 s2]) (simp_all add: r1 r2)
    next
      case n2: None
      show ?thesis
      proof (cases o3)
        case (Some e3)
        then show ?thesis using r1 r2 r3 n1 n2 all
          by (intro later [of s1 s2 e3 s3]) (simp_all add: r1 r2 r3 run_append)
      next
        case None
        then show ?thesis using r1 r2 r3 r4 n1 n2 all
          by (intro persist [of s1 s2 s3 s4]) (simp_all add: r1 r2 r3 r4 run_append split: option.splits)
      qed
    qed
  qed
qed

lemma later_realised_realised:
  assumes "wants_rbac i \<longrightarrow> rbac_realised i c" "config_realised L i h c" "later_realised L i h c"
  shows "realised L i h c"
  using assms by (simp add: realised_def later_realised_def)

lemma reconcileResources_effect:
  assumes env: "env_laws V r" and run: "reconcileResources r i w = (e, i', w')"
  shows "same_object i' i" and "q \<notin> touched i \<Longrightarrow> V w' q = V w q"
    and "e = None \<Longrightarrow> \<exists>h. realised (r_lib r) i h (V w')"
    and "e = None \<Longrightarrow> \<exists>ok. sta_ManagedResources (db_Status i') = sort (managed_names i ok)"
    and "e = None \<Longrightarrow> sta_CurrentImage (db_Status i') = ImageRef (spec_Image (db_Spec i))"
proof -
  let ?s = "\<lparr>rs_inst = i, rs_managed = [], rs_hash = [], rs_world = w\<rparr>"
  have s: "same_object (rs_inst ?s) i" "rs_hash ?s = []" by simp_all
  note R = stage_specD [OF stageRBAC_spec [OF env] s]
  have "same_object i' i \<and> (q \<notin> touched i \<longrightarrow> V w' q = V w q) \<and>
    (e = None \<longrightarrow> (\<exists>h. realised (r_lib r) i h (V w')) \<and>
       (\<exists>ok. sta_ManagedResources (db_Status i') = sort (managed_names i ok)) \<and>
       sta_CurrentImage (db_Status i') = ImageRef (spec_Image (db_Spec i)))"
    using run
  proof (cases rule: reconcileResources_cases)
    case (rbac e1 s1)
    then show ?thesis using R(1,3) [OF rbac(1)] by (simp add: touched_eq)
  next
    case (config s1 e2 s2)
    note C = stageConfig_effect [OF env R(1) [OF config(1)] config(2)]
    show ?thesis using C(1) C(2) [of q] R(3) [OF config(1)] config(3-5) by (simp add: touched_eq)
  next
    case (later s1 s2 e3 s3)
    note C = stageConfig_effect [OF env R(1) [OF later(1)] later(2)]
    note D = stage_specD [OF later_spec [OF env] C(1) refl later(3)]
    show ?thesis using D(1) D(3) [of q] C(2) [of q] R(3) [OF later(1)] later(4-6) by (simp add: touched_eq)
  next
    case (persist s1 s2 s3 s4)
    note C = stageConfig_effect [OF env R(1) [OF persist(1)] persist(2)]
    note D = stage_specD [OF later_spec [OF env] C(1) refl persist(3)]
    note P = stagePersist_effect [OF env persist(4)]
    have frame: "q \<notin> touched i \<Longrightarrow> V w' q = V w q"
      using P(1) D(3) [of q] C(2) [of q] R(3) [OF persist(1)] persist(5,6) by (simp add: touched_eq)
    have V: "V w' = V (rs_world s3)" using P(1) persist(6) by simp
    have "\<forall>k \<in> rbac_keys i. V (rs_world s1) k = V w' k"
      using C(2) D(3) V later_keys_disjoint(2,3) by (metis disjoint_iff)
    then have rb: "wants_rbac i \<longrightarrow> rbac_realised i (V w')"
      using R(4) [OF persist(1)] supported_rbac [of i] unfolding supported_def by blast
    have "config_realised (r_lib r) i (rs_hash s2) (V w')"
      using C(3) D(3) later_keys_disjoint(1) V config_realised_cong
      by (metis (no_types, lifting))
    then have real: "realised (r_lib r) i (rs_hash s2) (V w')"
      using later_realised_realised [OF rb _] D(4) V by simp
    obtain ok where "rs_managed s3 = managed_names i ok"
      using R(5) [OF persist(1)] C(3) D(5) unfolding managed_names_eq by (auto split: if_splits)
    then have "e = None \<longrightarrow> sta_ManagedResources (db_Status i') = sort (managed_names i ok)"
      using P(3) persist(5) by simp
    moreover have "e = None \<longrightarrow> sta_CurrentImage (db_Status i') = ImageRef (spec_Image (db_Spec i))"
      using P(3) persist(5) same_objectD(3) [OF D(1)] by simp
    moreover have "same_object i' i" using P(2) D(1) persist(5) same_object_trans by blast
    ultimately show ?thesis using frame real by blast
  qed
  then show "same_object i' i" and "q \<notin> touched i \<Longrightarrow> V w' q = V w q"
    and "e = None \<Longrightarrow> \<exists>h. realised (r_lib r) i h (V w')"
    and "e = None \<Longrightarrow> \<exists>ok. sta_ManagedResources (db_Status i') = sort (managed_names i ok)"
    and "e = None \<Longrightarrow> sta_CurrentImage (db_Status i') = ImageRef (spec_Image (db_Spec i))" by blast+
qed

subsection \<open>The other paths of Reconcile leave the objects alone\<close>

lemma tlndb_lawsD:
  assumes "tlndb_laws V r"
  shows "V (snd (kc_Get (r_TlnDB r) k w)) = V w"
    and "fst (kc_Get (r_TlnDB r) k w) = Inr i \<Longrightarrow> meta_key (db_Meta i) = k"
    and "V (snd (kc_Update (r_TlnDB r) i w)) = V w"
  using assms unfolding tlndb_laws_def by blast+

lemma updateInstance_frame:
  assumes "tlndb_laws V r" and "updateInstance r inst w = (e, inst', w')"
  shows "V w' = V w"
  using tlndb_lawsD(3) [OF assms(1), of inst w] assms(2)
  by (auto simp: updateInstance_def split: prod.splits sum.splits)

lemma setConditionOnInstance_effect:
  assumes "status_laws V r" and "setConditionOnInstance r inst t fn w = (inst', w')"
  shows "V w' = V w" and "same_object inst' inst"
    and "sta_Phase (db_Status inst') = sta_Phase (db_Status inst)"
    and "sta_ReadyReplicas (db_Status inst') = sta_ReadyReplicas (db_Status inst)"
proof -
  obtain st re msg where fn: "fn = (st, re, msg)" by (cases fn)
  obtain cs w1 where c: "r_SetStatusCondition r (sta_Conditions (db_Status inst)) (mkCondition inst t st re msg) w = (cs, w1)"
    by force
  have "V w1 = V w" using status_lawsD(4) [OF assms(1)] c by (metis snd_conv)
  then show "V w' = V w" "same_object inst' inst"
    "sta_Phase (db_Status inst') = sta_Phase (db_Status inst)"
    "sta_ReadyReplicas (db_Status inst') = sta_ReadyReplicas (db_Status inst)"
    using assms(2) c fn by (auto simp: setConditionOnInstance_def)
qed

text \<open>The effect of \<^verbatim>\<open>syncStatus\<close> when the primary StatefulSet is read.\<close>

lemma syncStatus_found:
  assumes "env_laws V r"
    and get: "kc_Get (r_StatefulSet r) (db_Namespace inst, primaryStatefulSetName inst) w = (Inr sts, w1)"
    and run: "syncStatus r inst w = ((res, e), inst', w')"
  shows "V w' = V w1"
    and "e = None \<Longrightarrow> sta_Phase (db_Status inst') = phaseOf sts (desiredReplicas inst)"
    and "e = None \<Longrightarrow> sta_ReadyReplicas (db_Status inst') = st_ReadyReplicas (sts_Status sts)"
    and "e = None \<Longrightarrow> res = (if phaseOf sts (desiredReplicas inst) = PhaseRunning then zero_Result
           else zero_Result\<lparr>res_RequeueAfter := 10 * second\<rparr>)"
    and "e \<noteq> None \<Longrightarrow> res = zero_Result"
proof -
  let ?phase = "phaseOf sts (desiredReplicas inst)" and ?ready = "st_ReadyReplicas (sts_Status sts)"
  let ?i1 = "inst\<lparr>db_Status := (db_Status inst)\<lparr>sta_ReadyReplicas := ?ready, sta_Phase := ?phase\<rparr>\<rparr>"
  obtain i2 w2 where c: "setConditionOnInstance r ?i1 ConditionStatefulSetReady
      (readyCondition ?phase ?ready (desiredReplicas inst)) w1 = (i2, w2)" by force
  obtain e3 i3 w3 where p: "patchStatus r i2 inst w2 = (e3, i3, w3)" by (metis prod_cases3)
  note C = setConditionOnInstance_effect [OF env_lawsD(2) [OF assms(1)] c]
  note P = patchStatus_effect [OF env_lawsD(2) [OF assms(1)] p]
  have r: "e = e3" "inst' = i3" "w' = w3"
    "res = (if e3 = None \<and> ?phase \<noteq> PhaseRunning then zero_Result\<lparr>res_RequeueAfter := 10 * second\<rparr> else zero_Result)"
    using run get c p by (auto simp: syncStatus_def Let_def split: option.splits if_splits)
  show "V w' = V w1" using C P r by simp
  show "e = None \<Longrightarrow> sta_Phase (db_Status inst') = ?phase" "e = None \<Longrightarrow> sta_ReadyReplicas (db_Status inst') = ?ready"
    using C P r by simp_all
  show "e = None \<Longrightarrow> res = (if ?phase = PhaseRunning then zero_Result else zero_Result\<lparr>res_RequeueAfter := 10 * second\<rparr>)"
    "e \<noteq> None \<Longrightarrow> res = zero_Result" using r by auto
qed

lemma syncStatus_frame:
  assumes "env_laws V r" and "syncStatus r inst w = (res, inst', w')"
  shows "V w' = V w"
proof -
  obtain g w1 where g: "kc_Get (r_StatefulSet r) (db_Namespace inst, primaryStatefulSetName inst) w = (g, w1)" by force
  have V: "V w1 = V w" using get_lawsD(1) [OF client_lawsD(1) [OF env_lawsD(9) [OF assms(1)]]] g by (metis snd_conv)
  show ?thesis
  proof (cases g)
    case (Inl e)
    then show ?thesis using assms(2) g V by (auto simp: syncStatus_def split: if_splits)
  next
    case (Inr sts)
    then show ?thesis using syncStatus_found(1) [OF assms(1)] g V assms(2) by (metis prod.exhaust)
  qed
qed

lemma reconcileDeletion_frame:
  assumes "env_laws V r" and "reconcileDeletion r inst w = (res, inst', w')"
  shows "V w' = V w"
proof (cases "r_ContainsFinalizer r (db_Meta inst) FinalizerName")
  case False
  then show ?thesis using assms(2) by (simp add: reconcileDeletion_def)
next
  case True
  obtain e1 i1 w1 where p: "setPhase r inst PhaseTerminating w = (e1, i1, w1)" by (metis prod_cases3)
  let ?i = "i1\<lparr>db_Meta := r_RemoveFinalizer r (db_Meta i1) FinalizerName\<rparr>"
  obtain e2 i2 w2 where u: "updateInstance r ?i w1 = (e2, i2, w2)" by (metis prod_cases3)
  have "w' = w1 \<or> w' = w2"
    using assms(2) True p u by (auto simp: reconcileDeletion_def split: option.splits)
  then show ?thesis
    using setPhase_effect(1) [OF env_lawsD(2) [OF assms(1)] p] updateInstance_frame [OF env_lawsD(3) [OF assms(1)] u]
    by auto
qed

lemma reconcilePresent_frame:
  assumes env: "env_laws V r" and run: "reconcilePresent r inst w = (res, inst', w')" and q: "q \<notin> touched inst"
  shows "V w' q = V w q"
proof -
  obtain e1 i1 w1 where r: "reconcileResources r inst w = (e1, i1, w1)" by (metis prod_cases3)
  have 1: "V w1 q = V w q" using reconcileResources_effect(2) [OF env r q] .
  show ?thesis
  proof (cases e1)
    case None
    then show ?thesis using run r 1 syncStatus_frame [OF env] by (auto simp: reconcilePresent_def)
  next
    case (Some e)
    let ?w = "r_Eventf r i1 ''Warning'' ''ReconcileError'' (''Failed to reconcile resources: '' @ Error e) w1"
    obtain e2 i2 w2 where p: "setPhase r i1 PhaseFailed ?w = (e2, i2, w2)" by (metis prod_cases3)
    have "w' = w2" using run r Some p by (simp add: reconcilePresent_def Let_def)
    then show ?thesis
      using setPhase_effect(1) [OF env_lawsD(2) [OF env] p] status_lawsD(5) [OF env_lawsD(2) [OF env]] 1 by simp
  qed
qed

lemma touched_cong: "same_object j i \<Longrightarrow> touched j = touched i"
  using same_objectD [of j i] name_cong [of j i]
  by (simp add: touched_def rbac_keys_def config_keys_def workload_keys_def optional_keys_def)

lemma reconcileInstance_frame:
  assumes env: "env_laws V r" and run: "reconcileInstance r inst w = (res, inst', w')" and q: "q \<notin> touched inst"
  shows "V w' q = V w q"
proof -
  consider (del) "om_DeletionTimestamp (db_Meta inst) \<noteq> None"
    | (fin) "om_DeletionTimestamp (db_Meta inst) = None" "\<not> r_ContainsFinalizer r (db_Meta inst) FinalizerName"
    | (new) "om_DeletionTimestamp (db_Meta inst) = None" "r_ContainsFinalizer r (db_Meta inst) FinalizerName"
        "sta_Phase (db_Status inst) = []"
    | (old) "om_DeletionTimestamp (db_Meta inst) = None" "r_ContainsFinalizer r (db_Meta inst) FinalizerName"
        "sta_Phase (db_Status inst) \<noteq> []" by blast
  then show ?thesis
  proof cases
    case del
    then have "reconcileDeletion r inst w = (res, inst', w')" using run by (auto simp: reconcileInstance_def)
    then show ?thesis using reconcileDeletion_frame [OF env] by simp
  next
    case fin
    let ?i = "inst\<lparr>db_Meta := r_AddFinalizer r (db_Meta inst) FinalizerName\<rparr>"
    obtain e2 i2 w2 where u: "updateInstance r ?i w = (e2, i2, w2)" by (metis prod_cases3)
    then have "w' = w2" using run fin by (auto simp: reconcileInstance_def Let_def split: option.splits)
    then show ?thesis using updateInstance_frame [OF env_lawsD(3) [OF env] u] by simp
  next
    case new
    obtain e1 i1 w1 where p: "setPhase r inst PhaseProvisioning w = (e1, i1, w1)" by (metis prod_cases3)
    note P = setPhase_effect [OF env_lawsD(2) [OF env] p]
    show ?thesis
    proof (cases e1)
      case None
      then have "reconcilePresent r i1 w1 = (res, inst', w')" using run new p by (simp add: reconcileInstance_def)
      then show ?thesis using reconcilePresent_frame [OF env] q touched_cong [OF P(2)] P(1) by simp
    next
      case (Some e)
      then show ?thesis using run new p P(1) by (simp add: reconcileInstance_def)
    qed
  next
    case old
    then have "reconcilePresent r inst w = (res, inst', w')" using run by (simp add: reconcileInstance_def)
    then show ?thesis using reconcilePresent_frame [OF env] q by simp
  qed
qed

lemma Reconcile_frame:
  assumes "env_laws V r" and "q \<notin> footprint req"
  shows "V (snd (Reconcile r req w)) q = V w q"
proof -
  obtain g w1 where g: "kc_Get (r_TlnDB r) req w = (g, w1)" by force
  note T = tlndb_lawsD [OF env_lawsD(3) [OF assms(1)]]
  have V: "V w1 = V w" using T(1) [of req w] g by simp
  show ?thesis
  proof (cases g)
    case (Inl e)
    with g V show ?thesis by (simp add: Reconcile_def)
  next
    case (Inr inst)
    then have "db_key inst = req" using T(2) [of req w inst] g by (simp add: meta_key_def)
    then have "q \<notin> touched inst" using touched_footprint assms(2) by blast
    moreover obtain res i2 w2 where r: "reconcileInstance r inst w1 = (res, i2, w2)" by (metis prod_cases3)
    ultimately have "V w2 q = V w1 q" using reconcileInstance_frame [OF assms(1) r] by blast
    then show ?thesis using g Inr r V by (simp add: Reconcile_def)
  qed
qed

subsection \<open>A concrete run\<close>

text \<open>
  The test instance with its finalizer set and a service account supplied, in an
  otherwise empty cluster.
\<close>

definition demo :: TlnDB where
  "demo = newInstance\<lparr>db_Meta := (db_Meta newInstance)\<lparr>om_Finalizers := [FinalizerName]\<rparr>,
     db_Spec := zero_TlnDBSpec\<lparr>spec_ServiceAccountName := ''sa''\<rparr>\<rparr>"

definition mem_demo :: mem where
  "mem_demo = empty_mem\<lparr>mem_dbs := [(''ns1'', ''db1'') \<mapsto> demo]\<rparr>"

text \<open>
  Variants: with an external ConfigMap that does not exist, without the finalizer, being
  deleted, failing; and the StatefulSet of the instance once its pod is ready.
\<close>

definition external_demo :: TlnDB where
  "external_demo = demo\<lparr>db_Spec := (db_Spec demo)\<lparr>spec_ConfigFrom := Some ''ext''\<rparr>\<rparr>"

definition unfinalized_demo :: mem where
  "unfinalized_demo = empty_mem\<lparr>mem_dbs := [(''ns1'', ''db1'') \<mapsto> newInstance]\<rparr>"

definition deleted_demo :: TlnDB where
  "deleted_demo = demo\<lparr>db_Meta := (db_Meta demo)\<lparr>om_DeletionTimestamp := Some 1\<rparr>\<rparr>"

definition failing_demo :: TlnDB where
  "failing_demo = external_demo\<lparr>db_Status := zero_TlnDBStatus\<lparr>sta_Phase := PhaseRunning\<rparr>\<rparr>"

definition running_sts :: StatefulSet where
  "running_sts = (BuildStatefulSet sample_lib demo ''h'')\<lparr>sts_Status := \<lparr>st_ObservedGeneration = 0, st_ReadyReplicas = 1\<rparr>\<rparr>"

lemma demo_facts [simp]:
  "db_Name demo = ''db1''" "db_Namespace demo = ''ns1''" "spec_ServiceAccountName (db_Spec demo) = ''sa''"
  "spec_ConfigFrom (db_Spec demo) = None" "spec_Mode (db_Spec demo) = []" "meta_key (db_Meta demo) = (''ns1'', ''db1'')"
  "\<not> wants_ingress demo" "\<not> wants_np demo" "\<not> wants_sm demo" "\<not> wants_pdb demo" "\<not> wants_hpa demo"
  "om_Finalizers (db_Meta demo) = [FinalizerName]" "om_DeletionTimestamp (db_Meta demo) = None"
  by (simp_all add: demo_def zero_defs meta_key_def)

lemma valid_meta_update [simp]: "valid_StatefulSet (x\<lparr>sts_Meta := m\<rparr>) = valid_StatefulSet x"
  by (simp add: valid_StatefulSet_def)

lemmas stage_defs = stageRBAC_def only_if_def stageConfig_def stageRenderedConfig_def stageHeadless_def
  stageWorkloads_def stageStandalone_def ensureService_def ensureStatefulSet_def ensure_def condition_def
  stageIngress_def stageNetworkPolicy_def stageServiceMonitor_def stagePDB_def stageHPA_def stagePersist_def

lemmas mem_defs = mem_client_def mem_view_def mem_demo_def empty_mem_def mem_SetStatusCondition_def mem_StatusPatch_def

lemma demo_reconciles: "\<exists>i' w'. reconcileResources mem_reconciler demo mem_demo = (None, i', w')"
  by (simp add: reconcileResources_def stage_defs mem_defs setCondition_def mkCondition_def patchStatus_def
      createOrUpdateConfigMap_def createOrUpdateService_def createOrUpdateStatefulSet_def same_object_def
      child_keys name_defs Let_def Replicated_def built_valid)

end
