(* ===== verification/Idempotence.thy ===== *)
theory Idempotence
  imports Reconciled
begin

section \<open>Reconciling again\<close>

text \<open>
  The operator watches what it owns, so it reconciles again after each of its own writes.
  For the kinds it compares before writing (ConfigMap, Role, RoleBinding, StatefulSet) a
  second run on a realised cluster must write nothing: no object changes and in
  particular no pod is restarted. \<open>comparing_kind\<close> extends the contract \<open>managed_kind\<close> by the
  converse of its last law, and the stages are run under the invariant that the cluster
  agrees on these kinds with the one at the start.
\<close>

subsection \<open>Kinds that are compared before they are written\<close>

locale comparing_kind = managed_kind key keep needs merge valid norm
  for key :: "'o \<Rightarrow> nsname" and keep :: "'o \<Rightarrow> 'o \<Rightarrow> 'o" and needs :: "'o \<Rightarrow> 'o \<Rightarrow> bool"
    and merge :: "'o \<Rightarrow> 'o \<Rightarrow> 'o" and valid :: "'o \<Rightarrow> bool" and norm :: "'o \<Rightarrow> 'v" +
  assumes unneeded: "valid ex \<Longrightarrow> valid d \<Longrightarrow> norm ex = norm d \<Longrightarrow> \<not> needs ex d"
begin

lemma upsert_quiet:
  assumes laws: "client_laws V c K into key valid norm"
    and p: "policy_ok V p key keep needs merge valid norm"
    and into: "inj into" and d: "valid d" and held: "holds (V w) K into key norm d"
  shows "V (snd (upsert c p d w)) = V w"
proof -
  obtain res w' where u: "upsert c p d w = (res, w')" by force
  note getD = get_lawsD [OF client_lawsD(1) [OF laws]]
  obtain o1 where o1: "V w (K, key d) = Some (into o1)" "norm o1 = norm d" using held by (auto simp: holds_def)
  have "V w' = V w"
    using u
  proof (cases rule: upsert_cases)
    case (create d1 e)
    then have "V w (K, key d1) = None" using getD(3) policy_okD(1) [OF p] by metis
    then show ?thesis using policy_okD(5) [OF p create(1)] o1 by simp
  next
    case (update d1 ex u1)
    have own: "key d1 = key d" "norm d1 = norm d" "valid d1" using policy_okD(5) [OF p update(1)] d by blast+
    have "V w (K, key d1) = Some (into ex)" "valid ex"
      using getD(2) update(2) policy_okD(1) [OF p] by metis+
    then have "ex = o1" "valid ex" using own o1 into by (simp_all add: inj_def)
    then have "\<not> needs ex (keep ex d1)" using own o1 by (intro unneeded) (simp_all add: keep_norm keep_valid)
    then show ?thesis using update(3) policy_okD(2,3) [OF p] by simp
  qed (simp_all add: getD(1))
  then show ?thesis using u by simp
qed

end

interpretation cm_cmp: comparing_kind "\<lambda>x. meta_key (cm_Meta x)" "\<lambda>_ d. d"
    "\<lambda>ex d. cm_Data ex \<noteq> cm_Data d" merge_ConfigMap "\<lambda>_. True" norm_ConfigMap
  by unfold_locales (simp add: norm_ConfigMap_def)

interpretation role_cmp: comparing_kind "\<lambda>x. meta_key (role_Meta x)" "\<lambda>_ d. d"
    "\<lambda>ex d. role_Rules ex \<noteq> role_Rules d" merge_Role "\<lambda>_. True" norm_Role
  by unfold_locales (simp add: norm_Role_def)

interpretation rb_cmp: comparing_kind "\<lambda>x. meta_key (rb_Meta x)" "\<lambda>_ d. d"
    "\<lambda>ex d. rb_RoleRef ex \<noteq> rb_RoleRef d \<or> rb_Subjects ex \<noteq> rb_Subjects d" merge_RoleBinding "\<lambda>_. True" norm_RoleBinding
  by unfold_locales (simp add: norm_RoleBinding_def)

interpretation sts_cmp: comparing_kind "\<lambda>x. meta_key (sts_Meta x)" keep_StatefulSet statefulSetNeedsUpdate
    merge_StatefulSet valid_StatefulSet norm_StatefulSet
  by unfold_locales (simp add: needs_StatefulSet_iff)

lemma ConfigMap_quiet:
  assumes "env_laws V r" and "has_ConfigMap (V w) d"
  shows "V (snd (createOrUpdateConfigMap r inst d w)) = V w"
  unfolding createOrUpdateConfigMap_upsert
  by (rule cm_cmp.upsert_quiet [OF env_lawsD(5) [OF assms(1)] policy_ConfigMap_ok [OF env_lawsD(1,2) [OF assms(1)]]])
    (simp_all add: inj_def assms(2))

lemma Role_quiet:
  assumes "env_laws V r" and "has_Role (V w) d"
  shows "V (snd (createOrUpdateRole r inst d w)) = V w"
  unfolding createOrUpdateRole_upsert
  by (rule role_cmp.upsert_quiet [OF env_lawsD(7) [OF assms(1)] policy_Role_ok [OF env_lawsD(1,2) [OF assms(1)]]])
    (simp_all add: inj_def assms(2))

lemma RoleBinding_quiet:
  assumes "env_laws V r" and "has_RoleBinding (V w) d"
  shows "V (snd (createOrUpdateRoleBinding r inst d w)) = V w"
  unfolding createOrUpdateRoleBinding_upsert
  by (rule rb_cmp.upsert_quiet [OF env_lawsD(8) [OF assms(1)] policy_RoleBinding_ok [OF env_lawsD(1,2) [OF assms(1)]]])
    (simp_all add: inj_def assms(2))

lemma StatefulSet_quiet:
  assumes "env_laws V r" and "valid_StatefulSet d" and "has_StatefulSet (V w) d"
  shows "V (snd (createOrUpdateStatefulSet r inst d w)) = V w"
  unfolding createOrUpdateStatefulSet_upsert
  by (rule sts_cmp.upsert_quiet [OF env_lawsD(9) [OF assms(1)] policy_StatefulSet_ok [OF env_lawsD(1,2) [OF assms(1)]]])
    (simp_all add: inj_def assms(2,3))

subsection \<open>Stages that keep the compared kinds\<close>

definition compared :: "kkey set" where
  "compared = {q. fst q \<in> {ConfigMapKind, RoleKind, RoleBindingKind, StatefulSetKind}}"

definition agrees :: "cluster \<Rightarrow> cluster \<Rightarrow> bool" where
  "agrees c c' \<longleftrightarrow> (\<forall>q \<in> compared. c q = c' q)"

definition quiet :: "('w \<Rightarrow> cluster) \<Rightarrow> TlnDB \<Rightarrow> string \<Rightarrow> cluster \<Rightarrow> 'w stage \<Rightarrow> bool" where
  "quiet V i h c0 f \<longleftrightarrow>
     (\<forall>s e s'. same_object (rs_inst s) i \<longrightarrow> rs_hash s = h \<longrightarrow> agrees (V (rs_world s)) c0 \<longrightarrow> f s = (e, s') \<longrightarrow>
        same_object (rs_inst s') i \<and> rs_hash s' = h \<and> agrees (V (rs_world s')) c0)"

lemma quietI:
  assumes "\<And>s e s'. same_object (rs_inst s) i \<Longrightarrow> rs_hash s = h \<Longrightarrow> agrees (V (rs_world s)) c0 \<Longrightarrow> f s = (e, s') \<Longrightarrow>
     same_object (rs_inst s') i \<and> rs_hash s' = h \<and> agrees (V (rs_world s')) c0"
  shows "quiet V i h c0 f"
  using assms unfolding quiet_def by blast

lemma quietD:
  assumes "quiet V i h c0 f" and "same_object (rs_inst s) i" and "rs_hash s = h" and "agrees (V (rs_world s)) c0"
    and "f s = (e, s')"
  shows "same_object (rs_inst s') i" "rs_hash s' = h" "agrees (V (rs_world s')) c0"
  using assms unfolding quiet_def by blast+

lemma quiet_run:
  assumes "\<And>f. f \<in> set fs \<Longrightarrow> quiet V i h c0 f"
  shows "quiet V i h c0 (run fs)"
  using assms
proof (induction fs)
  case Nil
  show ?case by (rule quietI) simp
next
  case (Cons f fs)
  have f: "quiet V i h c0 f" and fs: "quiet V i h c0 (run fs)" using Cons by simp_all
  show ?case
  proof (rule quietI)
    fix s e s'
    assume s: "same_object (rs_inst s) i" "rs_hash s = h" "agrees (V (rs_world s)) c0" and r: "run (f # fs) s = (e, s')"
    obtain e1 s1 where f1: "f s = (e1, s1)" by force
    note D = quietD [OF f s f1]
    show "same_object (rs_inst s') i \<and> rs_hash s' = h \<and> agrees (V (rs_world s')) c0"
      using r f1 D quietD [OF fs D] by (cases e1) auto
  qed
qed

lemma quiet_only_if: "quiet V i h c0 f \<Longrightarrow> quiet V i h c0 (only_if b f)"
  by (rule quietI) (auto simp: only_if_def dest: quietD split: if_splits)

lemma quiet_same:
  assumes "\<And>s. same_object (rs_inst s) i \<Longrightarrow> rs_hash s = h \<Longrightarrow> f s = g s" and "quiet V i h c0 g"
  shows "quiet V i h c0 f"
  using assms unfolding quiet_def by metis

lemma quiet_spec:
  assumes "stage_spec V i h F M P f" and "F \<inter> compared = {}"
  shows "quiet V i h c0 f"
proof (rule quietI)
  fix s e s'
  assume s: "same_object (rs_inst s) i" "rs_hash s = h" "agrees (V (rs_world s)) c0" and "f s = (e, s')"
  note D = stage_specD [OF assms(1) s(1,2) this(4)]
  have "\<forall>q \<in> compared. V (rs_world s') q = V (rs_world s) q" using D(3) assms(2) by blast
  then show "same_object (rs_inst s') i \<and> rs_hash s' = h \<and> agrees (V (rs_world s')) c0"
    using D(1,2) s(3) by (simp add: agrees_def)
qed

lemma holds_agrees:
  "agrees c c' \<Longrightarrow> (K, key d) \<in> compared \<Longrightarrow> holds c' K into key norm d \<Longrightarrow> holds c K into key norm d"
  by (simp add: agrees_def holds_def)

text \<open>The create-or-update pattern on an object the cluster holds already.\<close>

lemma quiet_ensure:
  assumes silent: "\<And>j w. holds (V w) K into key norm (build i) \<Longrightarrow> V (snd (cou j (build i) w)) = V w"
    and cong: "\<And>j. same_object j i \<Longrightarrow> build j = build i"
    and held: "holds c0 K into key norm (build i)" and K: "(K, key (build i)) \<in> compared"
  shows "quiet V i h c0 (ensure what kindName nameOf cou build)"
proof (rule quietI)
  fix s e s'
  assume s: "same_object (rs_inst s) i" "rs_hash s = h" "agrees (V (rs_world s)) c0"
    and r: "ensure what kindName nameOf cou build s = (e, s')"
  obtain res w where c: "cou (rs_inst s) (build i) (rs_world s) = (res, w)" by force
  have "V w = V (rs_world s)" using silent [OF holds_agrees [OF s(3) K held]] c by (metis snd_conv)
  then show "same_object (rs_inst s') i \<and> rs_hash s' = h \<and> agrees (V (rs_world s')) c0"
    using r c s cong [OF s(1)] by (auto simp: ensure_def split: sum.splits)
qed

lemma quiet_ensureStatefulSet:
  assumes "env_laws V r" and "\<And>j. same_object j i \<Longrightarrow> build j = build i" and "valid_StatefulSet (build i)"
    and "has_StatefulSet c0 (build i)"
  shows "quiet V i h c0 (ensureStatefulSet r what build)"
  unfolding ensureStatefulSet_def
  by (rule quiet_ensure [where norm = norm_StatefulSet], rule StatefulSet_quiet [OF assms(1,3)], assumption)
    (erule assms(2), rule assms(4), simp add: compared_def)

subsection \<open>The stages\<close>

lemma quiet_condition: "env_laws V r \<Longrightarrow> quiet V i h c0 (condition r t st re msg)"
  by (rule quiet_spec [OF spec_condition [OF env_lawsD(2)]]) simp_all

lemma quiet_Service:
  assumes "env_laws V r" and "\<And>j. same_object j i \<Longrightarrow> build j = build i"
  shows "quiet V i h c0 (ensureService r what build)"
  by (rule quiet_spec [OF ensure_Service [OF assms(1)]], erule assms(2)) (simp add: compared_def)

lemma quiet_RBAC:
  assumes env: "env_laws V r" and real: "wants_rbac i \<longrightarrow> rbac_realised i c0"
  shows "quiet V i h c0 (stageRBAC r)"
proof (cases "wants_rbac i")
  case False
  then show ?thesis
    by (intro quiet_spec [OF stageRBAC_spec [OF env]]) (simp add: rbac_keys_def)
next
  case True
  then have h: "has_Role c0 (BuildRole i)" "has_RoleBinding c0 (BuildRoleBinding i)"
    using real by (simp_all add: rbac_realised_def)
  have "quiet V i h c0 (ensure ''ServiceAccount'' ''ServiceAccount'' (\<lambda>x. om_Name (sa_Meta x))
      (createOrUpdateServiceAccount r) BuildServiceAccount)"
    by (rule quiet_spec [OF ensure_ServiceAccount [OF env]], erule builder_cong) (simp add: compared_def)
  moreover have "quiet V i h c0 (ensure ''role'' ''Role'' (\<lambda>x. om_Name (role_Meta x)) (createOrUpdateRole r) BuildRole)"
    by (rule quiet_ensure [where norm = norm_Role], rule Role_quiet [OF env], assumption)
      (simp_all add: builder_cong h compared_def)
  moreover have "quiet V i h c0 (ensure ''RoleBinding'' ''RoleBinding'' (\<lambda>x. om_Name (rb_Meta x))
      (createOrUpdateRoleBinding r) BuildRoleBinding)"
    by (rule quiet_ensure [where norm = norm_RoleBinding], rule RoleBinding_quiet [OF env], assumption)
      (simp_all add: builder_cong h compared_def)
  ultimately show ?thesis
    unfolding stageRBAC_def using quiet_condition [OF env] by (intro quiet_only_if quiet_run) auto
qed

text \<open>The followers: either they are held already, or there is nothing to remove.\<close>

lemma quiet_prune:
  assumes env: "env_laws V r" and none: "c0 (StatefulSetKind, db_Namespace i, FollowerStatefulSetName i) = None"
  shows "quiet V i h c0 (stagePruneFollowers r)"
proof (rule quietI)
  fix s e s'
  assume s: "same_object (rs_inst s) i" "rs_hash s = h" "agrees (V (rs_world s)) c0"
    and r: "stagePruneFollowers r s = (e, s')"
  let ?k = "(db_Namespace i, FollowerStatefulSetName i)"
  obtain g w where g: "kc_Get (r_StatefulSet r) ?k (rs_world s) = (g, w)" by force
  note getD = get_lawsD [OF client_lawsD(1) [OF env_lawsD(9) [OF env]]]
  have "V (rs_world s) (StatefulSetKind, ?k) = None" using s(3) none by (simp add: agrees_def compared_def)
  then obtain x where "g = Inl x" using getD(2) [of ?k "rs_world s"] g by (cases g) auto
  moreover have "V w = V (rs_world s)" using getD(1) g by (metis snd_conv)
  ultimately show "same_object (rs_inst s') i \<and> rs_hash s' = h \<and> agrees (V (rs_world s')) c0"
    using r g s same_objectD(2) [OF s(1)] name_cong(5) [OF s(1)]
    by (auto simp: stagePruneFollowers_def deleteStatefulSetIfExists_def split: if_splits)
qed

lemma quiet_Workloads:
  assumes env: "env_laws V r" and real: "workloads_realised (r_lib r) i h c0"
    and none: "Replicated i \<Longrightarrow> readReplicas i \<le> 0 \<Longrightarrow> c0 (StatefulSetKind, db_Namespace i, FollowerStatefulSetName i) = None"
  shows "quiet V i h c0 (stageWorkloads r)"
proof (cases "Replicated i")
  case True
  let ?fs = "[ensureStatefulSet r ''leader StatefulSet'' (\<lambda>inst. BuildLeaderStatefulSet (r_lib r) inst h (retention i)),
    stageFollowers r h (leaderAddr i) (retention i), ensureService r ''write Service'' BuildWriteService,
    ensureService r ''read Service'' BuildReadService,
    condition r ConditionServiceReady ConditionTrue ''ServiceReady'' ''Services reconciled'']"
  let ?build = "\<lambda>inst. BuildFollowerStatefulSet (r_lib r) inst h (leaderAddr i) (readReplicas inst) (retention i)"
  have cong: "?build j = ?build i" if "same_object j i" for j
    using builder_cong(11) [OF that] same_objectD(3) [OF that] by simp
  have "quiet V i h c0 (stageFollowers r h (leaderAddr i) (retention i))"
  proof (cases "0 < readReplicas i")
    case pos: True
    have held: "has_StatefulSet c0 (?build i)" using real True pos by (simp add: workloads_realised_def)
    show ?thesis
      by (rule quiet_same [OF _ quiet_ensureStatefulSet [where build = ?build, OF env cong built_valid(3) held]])
        (frule same_objectD(3), simp_all add: stageFollowers_def pos)
  next
    case False
    then have "quiet V i h c0 (stagePruneFollowers r)" using none [OF True] by (intro quiet_prune [OF env]) simp
    then show ?thesis
      by (rule quiet_same [rotated]) (frule same_objectD(3), use False in \<open>simp_all add: stageFollowers_def\<close>)
  qed
  moreover have "quiet V i h c0 (ensureStatefulSet r ''leader StatefulSet''
      (\<lambda>inst. BuildLeaderStatefulSet (r_lib r) inst h (retention i)))"
    using real True
    by (intro quiet_ensureStatefulSet [OF env]) (simp_all add: builder_cong(10) built_valid workloads_realised_def)
  ultimately have "quiet V i h c0 (run ?fs)"
    using quiet_condition [OF env] quiet_Service [OF env builder_cong(7)] quiet_Service [OF env builder_cong(8)]
    by (intro quiet_run) auto
  then show ?thesis
    by (rule quiet_same [rotated])
      (simp add: stageWorkloads_def stageReplicated_def Let_def same_objectD builder_cong name_cong(10) True)
next
  case False
  let ?fs = "[ensureStatefulSet r ''StatefulSet'' (\<lambda>inst. BuildStatefulSet (r_lib r) inst h),
    ensureService r ''service'' BuildService,
    condition r ConditionServiceReady ConditionTrue ''ServiceReady'' ''Service reconciled'']"
  have "quiet V i h c0 (ensureStatefulSet r ''StatefulSet'' (\<lambda>inst. BuildStatefulSet (r_lib r) inst h))"
    using real False
    by (intro quiet_ensureStatefulSet [OF env]) (simp_all add: builder_cong(9) built_valid workloads_realised_def)
  then have "quiet V i h c0 (run ?fs)"
    using quiet_condition [OF env] quiet_Service [OF env builder_cong(6)] by (intro quiet_run) auto
  then show ?thesis
    by (rule quiet_same [rotated]) (simp add: stageWorkloads_def stageStandalone_def name_cong(10) False)
qed

lemma quiet_later:
  assumes env: "env_laws V r" and real: "workloads_realised (r_lib r) i h c0"
    and none: "Replicated i \<Longrightarrow> readReplicas i \<le> 0 \<Longrightarrow> c0 (StatefulSetKind, db_Namespace i, FollowerStatefulSetName i) = None"
  shows "quiet V i h c0 (run (later_stages r))"
proof -
  note q = quiet_spec [OF stageHeadless_spec [OF env]] quiet_spec [OF stageIngress_spec [OF env]]
    quiet_spec [OF stageNetworkPolicy_spec [OF env]] quiet_spec [OF stageServiceMonitor_spec [OF env]]
    quiet_spec [OF stagePDB_spec [OF env]] quiet_spec [OF stageHPA_spec [OF env]] quiet_Workloads [OF assms]
  show ?thesis
    unfolding later_stages_def by (rule quiet_run) (auto simp: compared_def intro!: q split: if_splits)
qed

text \<open>The configuration determines its hash.\<close>

lemma config_hash_unique:
  "config_realised L i h c \<Longrightarrow> config_realised L i h' c' \<Longrightarrow> agrees c' c \<Longrightarrow> h' = h"
  by (auto simp: config_realised_def agrees_def compared_def split: option.splits)

lemma quiet_Config:
  assumes env: "env_laws V r" and i: "same_object (rs_inst s) i" and a: "agrees (V (rs_world s)) c0"
    and real: "config_realised (r_lib r) i h c0" and run: "stageConfig r s = (e, s')"
  shows "same_object (rs_inst s') i" "agrees (V (rs_world s')) c0" "e = None \<Longrightarrow> rs_hash s' = h"
proof -
  note C = stageConfig_effect [OF env i run]
  show "same_object (rs_inst s') i" by (rule C(1))
  show agr: "agrees (V (rs_world s')) c0"
  proof (cases "spec_ConfigFrom (db_Spec i)")
    case (Some n)
    then have "V (rs_world s') q = V (rs_world s) q" for q using C(2) by (simp add: config_keys_def)
    then show ?thesis using a by (simp add: agrees_def)
  next
    case None
    let ?cm = "BuildConfigMap (r_lib r) i"
    obtain res w where c: "createOrUpdateConfigMap r (rs_inst s) ?cm (rs_world s) = (res, w)" by force
    have "has_ConfigMap c0 ?cm" using real None by (simp add: config_realised_def)
    then have "has_ConfigMap (V (rs_world s)) ?cm"
      using a by (auto simp: compared_def intro: holds_agrees)
    then have w: "V w = V (rs_world s)" using ConfigMap_quiet [OF env] c by (metis snd_conv)
    have "stageRenderedConfig r s = (e, s')"
      using run None same_objectD(3) [OF i] by (simp add: stageConfig_def)
    then have "V (rs_world s') = V w"
      using c builder_cong(4) [OF i] condition_effect(2) [OF env_lawsD(2) [OF env]]
      by (auto simp: stageRenderedConfig_def split: sum.splits)
    then show ?thesis using w a by simp
  qed
  show "rs_hash s' = h" if "e = None"
    using config_hash_unique [OF real _ agr] C(3) [OF that] by blast
qed

text \<open>All together, on a cluster that realises the instance.\<close>

lemma reconcileResources_quiet:
  assumes env: "env_laws V r" and real: "realised (r_lib r) inst h (V w)"
    and none: "Replicated inst \<Longrightarrow> readReplicas inst \<le> 0 \<Longrightarrow>
      V w (StatefulSetKind, db_Namespace inst, FollowerStatefulSetName inst) = None"
    and run: "reconcileResources r inst w = (e, inst', w')"
  shows "agrees (V w') (V w)"
proof -
  let ?s = "\<lparr>rs_inst = inst, rs_managed = [], rs_hash = [], rs_world = w\<rparr>"
  have parts: "wants_rbac inst \<longrightarrow> rbac_realised inst (V w)" "config_realised (r_lib r) inst h (V w)"
    "workloads_realised (r_lib r) inst h (V w)" using real by (simp_all add: realised_def)
  have start: "same_object (rs_inst ?s) inst" "rs_hash ?s = []" "agrees (V (rs_world ?s)) (V w)"
    by (simp_all add: agrees_def)
  note R = quietD [OF quiet_RBAC [OF env parts(1)] start]
  note C = quiet_Config [OF env R(1) R(3) parts(2)]
  note D = quietD [OF quiet_later [OF env parts(3) none]]
  show ?thesis
    using run
  proof (cases rule: reconcileResources_cases)
    case (rbac e1 s1)
    then show ?thesis using R(3) by blast
  next
    case (config s1 e2 s2)
    then show ?thesis using C(2) by blast
  next
    case (later s1 s2 e3 s3)
    then show ?thesis using D(3) C by blast
  next
    case (persist s1 s2 s3 s4)
    then have "agrees (V (rs_world s3)) (V w)" using D(3) C by blast
    then show ?thesis using stagePersist_effect(1) [OF env persist(4)] persist(6) by simp
  qed
qed

subsection \<open>The property\<close>

text \<open>
  C7: reconciling is idempotent where it compares. On a cluster that already realises the
  instance (and holds no follower set when none is wanted) another \<^verbatim>\<open>reconcileResources\<close>,
  whatever its outcome, leaves every ConfigMap, Role, RoleBinding and StatefulSet of the
  cluster exactly as it is: nothing is rewritten, and no pod is rolled.
\<close>

theorem reconcile_idempotent:
  assumes env: "env_laws V r" and real: "realised (r_lib r) inst h (V w)"
    and none: "Replicated inst \<Longrightarrow> readReplicas inst \<le> 0 \<Longrightarrow>
      V w (StatefulSetKind, db_Namespace inst, FollowerStatefulSetName inst) = None"
    and run: "reconcileResources r inst w = (e, inst', w')"
    and q: "fst q \<in> {ConfigMapKind, RoleKind, RoleBindingKind, StatefulSetKind}"
  shows "V w' q = V w q"
proof -
  have "q \<in> compared" unfolding compared_def using q by blast
  then show ?thesis using reconcileResources_quiet [OF env real none run] unfolding agrees_def by blast
qed

text \<open>The second reconciliation of the concrete run changes none of these objects.\<close>

theorem reconcile_idempotent_witness:
  "\<exists>i1 w1. reconcileResources mem_reconciler demo mem_demo = (None, i1, w1) \<and>
     mem_view (snd (snd (reconcileResources mem_reconciler demo w1))) (StatefulSetKind, ''ns1'', ''db1'')
       = mem_view w1 (StatefulSetKind, ''ns1'', ''db1'')"
proof -
  obtain i1 w1 where run: "reconcileResources mem_reconciler demo mem_demo = (None, i1, w1)"
    using demo_reconciles by blast
  obtain h where real: "realised (r_lib mem_reconciler) demo h (mem_view w1)"
    using reconcileResources_effect(3) [OF mem_env_laws run] by blast
  obtain e i2 w2 where again: "reconcileResources mem_reconciler demo w1 = (e, i2, w2)" by (metis prod_cases3)
  have "\<not> Replicated demo" by (simp add: Replicated_def)
  then have "mem_view w2 (StatefulSetKind, ''ns1'', ''db1'') = mem_view w1 (StatefulSetKind, ''ns1'', ''db1'')"
    using reconcile_idempotent [OF mem_env_laws real _ again] by simp
  then show ?thesis using run again by simp
qed

end
