(* ===== verification/Progress.thy ===== *)
theory Progress
  imports Idempotence ApiJson
begin

section \<open>Progress\<close>

text \<open>
  The results so far say what holds when a reconciliation succeeds. Here: it does succeed.
  \<open>serving\<close> collects what the operator needs from an API server that is up and that nobody
  else writes to meanwhile: reads find what is stored, creations of absent objects and
  updates that carry the stored resource version and keep the immutable fields are
  accepted, and the instance itself can be patched. Under it the stages of
  \<^verbatim>\<open>reconcileResources\<close> are run with the invariant \<open>ready\<close>; the locale \<open>updatable_kind\<close>
  extends \<open>managed_kind\<close> by what makes an update acceptable.
\<close>

subsection \<open>A server that is up\<close>

type_synonym instances = "nsname \<Rightarrow> TlnDB option"

definition serving_client :: "('w \<Rightarrow> cluster) \<Rightarrow> ('o, 'w) kclient \<Rightarrow> kind \<Rightarrow> ('o \<Rightarrow> kobject) \<Rightarrow> ('o \<Rightarrow> nsname)
    \<Rightarrow> ('o \<Rightarrow> bool) \<Rightarrow> ('o \<Rightarrow> string) \<Rightarrow> ('o \<Rightarrow> 'i) \<Rightarrow> bool" where
  "serving_client V c K into key valid ver imm \<longleftrightarrow>
     (\<forall>k w. V w (K, k) \<noteq> None \<longrightarrow> (\<exists>o1. fst (kc_Get c k w) = Inr o1)) \<and>
     (\<forall>k w. V w (K, k) = None \<longrightarrow> (\<exists>e. fst (kc_Get c k w) = Inl e \<and> IsNotFound e)) \<and>
     (\<forall>o1 w. V w (K, key o1) = None \<longrightarrow> valid o1 \<longrightarrow> ver o1 = [] \<longrightarrow> (\<exists>o2. fst (kc_Create c o1 w) = Inr o2)) \<and>
     (\<forall>o1 w o0. V w (K, key o1) = Some (into o0) \<longrightarrow> valid o1 \<longrightarrow> ver o1 = ver o0 \<longrightarrow> imm o1 = imm o0 \<longrightarrow>
        (\<exists>o2. fst (kc_Update c o1 w) = Inr o2)) \<and>
     (\<forall>o1 w. V w (K, key o1) \<noteq> None \<longrightarrow> fst (kc_Delete c o1 w) = None)"

text \<open>Calls of the other clients do not touch the instances.\<close>

definition keeps_instances :: "('w \<Rightarrow> instances) \<Rightarrow> ('o, 'w) kclient \<Rightarrow> bool" where
  "keeps_instances D c \<longleftrightarrow>
     (\<forall>k w. D (snd (kc_Get c k w)) = D w) \<and> (\<forall>x w. D (snd (kc_Create c x w)) = D w) \<and>
     (\<forall>x w. D (snd (kc_Update c x w)) = D w) \<and> (\<forall>x w. D (snd (kc_Delete c x w)) = D w)"

text \<open>
  Fields the API server refuses to change: of a StatefulSet everything but the replica
  count and the template, the cluster IP of a Service, the role of a RoleBinding.
\<close>

definition imm_StatefulSet :: "StatefulSet \<Rightarrow> string \<times> string \<times> strmap \<times> PersistentVolumeClaim list" where
  "imm_StatefulSet x = (ss_ServiceName (sts_Spec x), ss_PodManagementPolicy (sts_Spec x), ss_Selector (sts_Spec x),
     ss_VolumeClaimTemplates (sts_Spec x))"

definition imm_Service :: "Service \<Rightarrow> string" where
  "imm_Service x = ks_ClusterIP (svc_Spec x)"

abbreviation no_imm :: "'o \<Rightarrow> unit" where
  "no_imm _ \<equiv> ()"

definition accepts_status :: "('w \<Rightarrow> instances) \<Rightarrow> 'w reconciler \<Rightarrow> bool" where
  "accepts_status D r \<longleftrightarrow>
     (\<forall>m b w cur. D w (meta_key (db_Meta m)) = Some cur \<longrightarrow> same_object cur m \<longrightarrow>
        (\<exists>i. fst (r_StatusPatch r m b w) = Inr i \<and> D (snd (r_StatusPatch r m b w)) = (D w)(meta_key (db_Meta m) \<mapsto> i) \<and>
             om_Finalizers (db_Meta i) = om_Finalizers (db_Meta cur) \<and>
             om_DeletionTimestamp (db_Meta i) = om_DeletionTimestamp (db_Meta cur)))"

text \<open>
  An Update with the stored resource version: the defaults of the schema are filled in
  (\<open>fillSpec\<close>, see \<^verbatim>\<open>ApiJson\<close>), and an instance being deleted goes with its last finalizer.
\<close>

definition accepts_update :: "('w \<Rightarrow> instances) \<Rightarrow> 'w reconciler \<Rightarrow> bool" where
  "accepts_update D r \<longleftrightarrow>
     (\<forall>i w cur. D w (meta_key (db_Meta i)) = Some cur \<longrightarrow>
        om_ResourceVersion (db_Meta i) = om_ResourceVersion (db_Meta cur) \<longrightarrow>
        (\<exists>i'. fst (kc_Update (r_TlnDB r) i w) = Inr i' \<and>
              D (snd (kc_Update (r_TlnDB r) i w)) = (D w)(meta_key (db_Meta i) :=
                (if om_Finalizers (db_Meta i) = [] \<and> om_DeletionTimestamp (db_Meta cur) \<noteq> None then None else Some i')) \<and>
              same_object i' (i\<lparr>db_Spec := fillSpec (db_Spec i)\<rparr>) \<and> om_Finalizers (db_Meta i') = om_Finalizers (db_Meta i) \<and>
              om_DeletionTimestamp (db_Meta i') = om_DeletionTimestamp (db_Meta cur)))"

definition serving_instances :: "('w \<Rightarrow> instances) \<Rightarrow> 'w reconciler \<Rightarrow> bool" where
  "serving_instances D r \<longleftrightarrow>
     (\<forall>k w i. D w k = Some i \<longrightarrow> fst (kc_Get (r_TlnDB r) k w) = Inr i) \<and>
     (\<forall>k w. D (snd (kc_Get (r_TlnDB r) k w)) = D w) \<and>
     accepts_status D r \<and> accepts_update D r \<and>
     (\<forall>cs c w. D (snd (r_SetStatusCondition r cs c w)) = D w) \<and>
     (\<forall>i t re m w. D (r_Eventf r i t re m w) = D w) \<and>
     (\<forall>w. D (snd (r_Now r w)) = D w)"

text \<open>
  \<^verbatim>\<open>SetControllerReference\<close> refuses only objects of another namespace or with another
  controller; the finalizer helpers read and write \<^verbatim>\<open>metadata.finalizers\<close>.
\<close>

definition helper_laws :: "'w reconciler \<Rightarrow> bool" where
  "helper_laws r \<longleftrightarrow>
     (\<forall>i m. om_OwnerReferences m = [] \<longrightarrow> om_Namespace m = db_Namespace i \<longrightarrow>
        (\<exists>m'. r_SetControllerReference r i m = Inr m')) \<and>
     (\<forall>m f. r_ContainsFinalizer r m f \<longleftrightarrow> f \<in> set (om_Finalizers m)) \<and>
     (\<forall>m f. \<exists>fs. r_AddFinalizer r m f = m\<lparr>om_Finalizers := fs\<rparr> \<and> f \<in> set fs) \<and>
     (\<forall>m f. \<exists>fs. r_RemoveFinalizer r m f = m\<lparr>om_Finalizers := fs\<rparr> \<and> set fs = set (om_Finalizers m) - {f})"

definition serving :: "('w \<Rightarrow> cluster) \<Rightarrow> ('w \<Rightarrow> instances) \<Rightarrow> 'w reconciler \<Rightarrow> bool" where
  "serving V D r \<longleftrightarrow>
     helper_laws r \<and> serving_instances D r \<and> (\<forall>g. keeps_instances D (r_Unstructured r g)) \<and>
     keeps_instances D (r_ConfigMap r) \<and> keeps_instances D (r_ServiceAccount r) \<and> keeps_instances D (r_Role r) \<and>
     keeps_instances D (r_RoleBinding r) \<and> keeps_instances D (r_StatefulSet r) \<and> keeps_instances D (r_Service r) \<and>
     keeps_instances D (r_Ingress r) \<and> keeps_instances D (r_NetworkPolicy r) \<and> keeps_instances D (r_PDB r) \<and>
     keeps_instances D (r_HPA r) \<and>
     serving_client V (r_ConfigMap r) ConfigMapKind KConfigMap (\<lambda>x. meta_key (cm_Meta x)) (\<lambda>_. True)
       (\<lambda>x. om_ResourceVersion (cm_Meta x)) no_imm \<and>
     serving_client V (r_ServiceAccount r) ServiceAccountKind KServiceAccount (\<lambda>x. meta_key (sa_Meta x)) (\<lambda>_. True)
       (\<lambda>x. om_ResourceVersion (sa_Meta x)) no_imm \<and>
     serving_client V (r_Role r) RoleKind KRole (\<lambda>x. meta_key (role_Meta x)) (\<lambda>_. True)
       (\<lambda>x. om_ResourceVersion (role_Meta x)) no_imm \<and>
     serving_client V (r_RoleBinding r) RoleBindingKind KRoleBinding (\<lambda>x. meta_key (rb_Meta x)) (\<lambda>_. True)
       (\<lambda>x. om_ResourceVersion (rb_Meta x)) rb_RoleRef \<and>
     serving_client V (r_StatefulSet r) StatefulSetKind KStatefulSet (\<lambda>x. meta_key (sts_Meta x)) valid_StatefulSet
       (\<lambda>x. om_ResourceVersion (sts_Meta x)) imm_StatefulSet \<and>
     serving_client V (r_Service r) ServiceKind KService (\<lambda>x. meta_key (svc_Meta x)) (\<lambda>_. True)
       (\<lambda>x. om_ResourceVersion (svc_Meta x)) imm_Service \<and>
     serving_client V (r_Ingress r) IngressKind KIngress (\<lambda>x. meta_key (ing_Meta x)) (\<lambda>_. True)
       (\<lambda>x. om_ResourceVersion (ing_Meta x)) no_imm \<and>
     serving_client V (r_NetworkPolicy r) NetworkPolicyKind KNetworkPolicy (\<lambda>x. meta_key (np_Meta x)) (\<lambda>_. True)
       (\<lambda>x. om_ResourceVersion (np_Meta x)) no_imm \<and>
     serving_client V (r_PDB r) PDBKind KPDB (\<lambda>x. meta_key (pdb_Meta x)) (\<lambda>_. True)
       (\<lambda>x. om_ResourceVersion (pdb_Meta x)) no_imm \<and>
     serving_client V (r_HPA r) HPAKind KHPA (\<lambda>x. meta_key (hpa_Meta x)) (\<lambda>_. True)
       (\<lambda>x. om_ResourceVersion (hpa_Meta x)) no_imm"

lemma serving_clientD:
  assumes "serving_client V c K into key valid ver imm"
  shows "V w (K, k) \<noteq> None \<Longrightarrow> \<exists>o1. fst (kc_Get c k w) = Inr o1"
    and "V w (K, k) = None \<Longrightarrow> \<exists>e. fst (kc_Get c k w) = Inl e \<and> IsNotFound e"
    and "V w (K, key o1) = None \<Longrightarrow> valid o1 \<Longrightarrow> ver o1 = [] \<Longrightarrow> \<exists>o2. fst (kc_Create c o1 w) = Inr o2"
    and "V w (K, key o1) = Some (into o0) \<Longrightarrow> valid o1 \<Longrightarrow> ver o1 = ver o0 \<Longrightarrow> imm o1 = imm o0 \<Longrightarrow>
        \<exists>o2. fst (kc_Update c o1 w) = Inr o2"
    and "V w (K, key o1) \<noteq> None \<Longrightarrow> fst (kc_Delete c o1 w) = None"
  using assms unfolding serving_client_def by blast+

lemma keeps_instancesD:
  assumes "keeps_instances D c"
  shows "D (snd (kc_Get c k w)) = D w" "D (snd (kc_Create c x w)) = D w" "D (snd (kc_Update c x w)) = D w"
    "D (snd (kc_Delete c x w)) = D w"
  using assms unfolding keeps_instances_def by blast+

lemma servingD:
  assumes "serving V D r"
  shows "helper_laws r" "serving_instances D r" "keeps_instances D (r_Unstructured r g)"
    "keeps_instances D (r_ConfigMap r)" "keeps_instances D (r_ServiceAccount r)" "keeps_instances D (r_Role r)"
    "keeps_instances D (r_RoleBinding r)" "keeps_instances D (r_StatefulSet r)" "keeps_instances D (r_Service r)"
    "keeps_instances D (r_Ingress r)" "keeps_instances D (r_NetworkPolicy r)" "keeps_instances D (r_PDB r)"
    "keeps_instances D (r_HPA r)"
  using assms unfolding serving_def by blast+

lemma serving_clients:
  assumes "serving V D r"
  shows "serving_client V (r_ConfigMap r) ConfigMapKind KConfigMap (\<lambda>x. meta_key (cm_Meta x)) (\<lambda>_. True)
       (\<lambda>x. om_ResourceVersion (cm_Meta x)) no_imm"
    "serving_client V (r_ServiceAccount r) ServiceAccountKind KServiceAccount (\<lambda>x. meta_key (sa_Meta x)) (\<lambda>_. True)
       (\<lambda>x. om_ResourceVersion (sa_Meta x)) no_imm"
    "serving_client V (r_Role r) RoleKind KRole (\<lambda>x. meta_key (role_Meta x)) (\<lambda>_. True)
       (\<lambda>x. om_ResourceVersion (role_Meta x)) no_imm"
    "serving_client V (r_RoleBinding r) RoleBindingKind KRoleBinding (\<lambda>x. meta_key (rb_Meta x)) (\<lambda>_. True)
       (\<lambda>x. om_ResourceVersion (rb_Meta x)) rb_RoleRef"
    "serving_client V (r_StatefulSet r) StatefulSetKind KStatefulSet (\<lambda>x. meta_key (sts_Meta x)) valid_StatefulSet
       (\<lambda>x. om_ResourceVersion (sts_Meta x)) imm_StatefulSet"
    "serving_client V (r_Service r) ServiceKind KService (\<lambda>x. meta_key (svc_Meta x)) (\<lambda>_. True)
       (\<lambda>x. om_ResourceVersion (svc_Meta x)) imm_Service"
    "serving_client V (r_Ingress r) IngressKind KIngress (\<lambda>x. meta_key (ing_Meta x)) (\<lambda>_. True)
       (\<lambda>x. om_ResourceVersion (ing_Meta x)) no_imm"
    "serving_client V (r_NetworkPolicy r) NetworkPolicyKind KNetworkPolicy (\<lambda>x. meta_key (np_Meta x)) (\<lambda>_. True)
       (\<lambda>x. om_ResourceVersion (np_Meta x)) no_imm"
    "serving_client V (r_PDB r) PDBKind KPDB (\<lambda>x. meta_key (pdb_Meta x)) (\<lambda>_. True)
       (\<lambda>x. om_ResourceVersion (pdb_Meta x)) no_imm"
    "serving_client V (r_HPA r) HPAKind KHPA (\<lambda>x. meta_key (hpa_Meta x)) (\<lambda>_. True)
       (\<lambda>x. om_ResourceVersion (hpa_Meta x)) no_imm"
  using assms unfolding serving_def by blast+

subsection \<open>Updates the server accepts\<close>

lemma upsert_keeps_instances:
  assumes "keeps_instances D c" and "\<And>x w. D (po_created p x w) = D w" and "\<And>x w. D (po_updated p x w) = D w"
  shows "D (snd (upsert c p d w)) = D w"
proof -
  obtain res w' where u: "upsert c p d w = (res, w')" by force
  note K = keeps_instancesD [OF assms(1)]
  have "D w' = D w"
    using u
  proof (cases rule: upsert_cases)
    case (create d1 e)
    then show ?thesis using K(1,2) assms(2) by (metis snd_conv)
  next
    case (update d1 ex u1)
    then show ?thesis using K(1,3) assms(3) by (metis snd_conv)
  qed (simp_all add: K)
  then show ?thesis using u by simp
qed

definition fresh_meta :: "TlnDB \<Rightarrow> ObjectMeta \<Rightarrow> bool" where
  "fresh_meta j m \<longleftrightarrow> om_OwnerReferences m = [] \<and> om_ResourceVersion m = [] \<and> om_Namespace m = db_Namespace j"

text \<open>
  A create-or-update method that succeeds on every new valid object that fits what is
  stored, and keeps the instances.
\<close>

definition progress_contract :: "('w \<Rightarrow> cluster) \<Rightarrow> ('w \<Rightarrow> instances) \<Rightarrow> kind \<Rightarrow> ('o \<Rightarrow> kobject) \<Rightarrow> ('o \<Rightarrow> nsname)
    \<Rightarrow> ('o \<Rightarrow> bool) \<Rightarrow> ('o \<Rightarrow> ObjectMeta) \<Rightarrow> ('o \<Rightarrow> 'o \<Rightarrow> bool)
    \<Rightarrow> (TlnDB \<Rightarrow> 'o \<Rightarrow> 'w \<Rightarrow> (error + 'o) \<times> 'w) \<Rightarrow> bool" where
  "progress_contract V D K into key valid meta fit cou \<longleftrightarrow>
     (\<forall>j d w. valid d \<longrightarrow> fresh_meta j (meta d) \<longrightarrow> (\<forall>ex. V w (K, key d) = Some (into ex) \<longrightarrow> fit ex d) \<longrightarrow>
        (\<exists>d' w'. cou j d w = (Inr d', w') \<and> D w' = D w))"

lemma own_with_fresh:
  assumes "helper_laws r" and "owner_laws r" and "fresh_meta j (meta d)"
  shows "\<exists>os. own_with r j meta set_meta d = Inr (set_meta ((meta d)\<lparr>om_OwnerReferences := os\<rparr>) d)"
proof -
  obtain m where m: "r_SetControllerReference r j (meta d) = Inr m"
    using assms(1,3) unfolding helper_laws_def fresh_meta_def by blast
  then obtain os where "m = (meta d)\<lparr>om_OwnerReferences := os\<rparr>" using assms(2) unfolding owner_laws_def by blast
  then show ?thesis using m by (auto simp: own_with_def)
qed

text \<open>
  \<open>fit ex d\<close>: the stored object can be turned into the desired one by an update. The
  operator sends the version it read and the immutable fields it found.
\<close>

locale updatable_kind = managed_kind key keep needs merge valid norm
  for key :: "'o \<Rightarrow> nsname" and keep :: "'o \<Rightarrow> 'o \<Rightarrow> 'o" and needs :: "'o \<Rightarrow> 'o \<Rightarrow> bool"
    and merge :: "'o \<Rightarrow> 'o \<Rightarrow> 'o" and valid :: "'o \<Rightarrow> bool" and norm :: "'o \<Rightarrow> 'v" +
  fixes ver :: "'o \<Rightarrow> string" and imm :: "'o \<Rightarrow> 'i" and fit :: "'o \<Rightarrow> 'o \<Rightarrow> bool"
  assumes merge_valid: "valid ex \<Longrightarrow> valid d \<Longrightarrow> valid (merge ex (keep ex d))"
    and merge_ver: "ver (merge ex d) = ver ex"
    and merge_imm: "fit ex d \<Longrightarrow> imm (merge ex (keep ex d)) = imm ex"
begin

lemma upsert_succeeds:
  assumes laws: "client_laws V c K into key valid norm"
    and p: "policy_ok V p key keep needs merge valid norm"
    and up: "serving_client V c K into key valid ver imm"
    and d: "valid d" and own: "po_own p d = Inr d1" and fresh: "ver d1 = []"
    and fit: "\<And>ex. V w (K, key d) = Some (into ex) \<Longrightarrow> fit ex d1"
  shows "\<exists>d' w'. upsert c p d w = (Inr d', w')"
proof -
  note S = serving_clientD [OF up]
  note getD = get_lawsD [OF client_lawsD(1) [OF laws]]
  have d1: "key d1 = key d" "valid d1" using policy_okD(5) [OF p own] d by blast+
  obtain g w1 where g: "kc_Get c (key d1) w = (g, w1)" by force
  have V1: "V w1 = V w" using getD(1) g by (metis snd_conv)
  show ?thesis
  proof (cases g)
    case (Inl e)
    have none: "V w (K, key d1) = None"
      using S(1) [of w "key d1"] g Inl by (metis Inl_Inr_False fst_conv)
    then have "IsNotFound e" using S(2) g Inl by (metis fst_conv sum.inject(1))
    moreover obtain o2 where "fst (kc_Create c d1 (po_created p d1 w1)) = Inr o2"
      using S(3) [of "po_created p d1 w1" d1] policy_okD(6) [OF p] V1 none d1 fresh by metis
    ultimately show ?thesis
      using own g Inl policy_okD(1) [OF p]
      by (cases "kc_Create c d1 (po_created p d1 w1)") (auto simp: upsert_def)
  next
    case (Inr ex)
    have ex: "V w (K, key d1) = Some (into ex)" "key ex = key d1" "valid ex"
      using getD(2) g Inr by (metis fst_conv)+
    let ?d = "keep ex d1" and ?w = "po_updated p (keep ex d1) w1"
    obtain o2 where "fst (kc_Update c (merge ex ?d) ?w) = Inr o2"
      using S(4) [of ?w "merge ex ?d" ex] policy_okD(7) [OF p] V1 ex d1 fit [of ex] merge_valid merge_imm
      by (metis merge_key merge_ver)
    then show ?thesis
      using own g Inr policy_okD(1-4) [OF p]
      by (cases "kc_Update c (merge ex ?d) ?w") (auto simp: upsert_def Let_def)
  qed
qed

lemma upsert_progress:
  assumes laws: "client_laws V c K into key valid norm"
    and p: "\<And>j. policy_ok V (pol j) key keep needs merge valid norm"
    and up: "serving_client V c K into key valid ver imm"
    and keeps: "keeps_instances D c"
    and silent: "\<And>j x w. D (po_created (pol j) x w) = D w" "\<And>j x w. D (po_updated (pol j) x w) = D w"
    and own: "\<And>j d. fresh_meta j (meta d) \<Longrightarrow> \<exists>d1. po_own (pol j) d = Inr d1 \<and> ver d1 = [] \<and> (\<forall>ex. fit ex d \<longrightarrow> fit ex d1)"
  shows "progress_contract V D K into key valid meta fit (\<lambda>j. upsert c (pol j))"
  unfolding progress_contract_def
proof (intro allI impI)
  fix j d w
  assume d: "valid d" "fresh_meta j (meta d)" "\<forall>ex. V w (K, key d) = Some (into ex) \<longrightarrow> fit ex d"
  obtain d1 where d1: "po_own (pol j) d = Inr d1" "ver d1 = []" "\<forall>ex. fit ex d \<longrightarrow> fit ex d1" using own [OF d(2)] by blast
  obtain d' w' where u: "upsert c (pol j) d w = (Inr d', w')"
    using upsert_succeeds [OF laws p up d(1) d1(1,2)] d(3) d1(3) by blast
  moreover have "D w' = D w" using upsert_keeps_instances [OF keeps silent] u by (metis snd_conv)
  ultimately show "\<exists>d' w'. upsert c (pol j) d w = (Inr d', w') \<and> D w' = D w" by blast
qed

end

interpretation cm_upd: updatable_kind "\<lambda>x. meta_key (cm_Meta x)" "\<lambda>_ d. d"
    "\<lambda>ex d. cm_Data ex \<noteq> cm_Data d" merge_ConfigMap "\<lambda>_. True" norm_ConfigMap
    "\<lambda>x. om_ResourceVersion (cm_Meta x)" no_imm "\<lambda>_ _. True"
  by unfold_locales (simp_all add: merge_defs)

interpretation sa_upd: updatable_kind "\<lambda>x. meta_key (sa_Meta x)" "\<lambda>_ d. d"
    "\<lambda>_ _. True" merge_ServiceAccount "\<lambda>_. True" norm_ServiceAccount
    "\<lambda>x. om_ResourceVersion (sa_Meta x)" no_imm "\<lambda>_ _. True"
  by unfold_locales (simp_all add: merge_defs)

interpretation role_upd: updatable_kind "\<lambda>x. meta_key (role_Meta x)" "\<lambda>_ d. d"
    "\<lambda>ex d. role_Rules ex \<noteq> role_Rules d" merge_Role "\<lambda>_. True" norm_Role
    "\<lambda>x. om_ResourceVersion (role_Meta x)" no_imm "\<lambda>_ _. True"
  by unfold_locales (simp_all add: merge_defs)

interpretation rb_upd: updatable_kind "\<lambda>x. meta_key (rb_Meta x)" "\<lambda>_ d. d"
    "\<lambda>ex d. rb_RoleRef ex \<noteq> rb_RoleRef d \<or> rb_Subjects ex \<noteq> rb_Subjects d" merge_RoleBinding "\<lambda>_. True" norm_RoleBinding
    "\<lambda>x. om_ResourceVersion (rb_Meta x)" rb_RoleRef "\<lambda>ex d. rb_RoleRef ex = rb_RoleRef d"
  by unfold_locales (simp_all add: merge_defs)

interpretation sts_upd: updatable_kind "\<lambda>x. meta_key (sts_Meta x)" keep_StatefulSet statefulSetNeedsUpdate
    merge_StatefulSet valid_StatefulSet norm_StatefulSet
    "\<lambda>x. om_ResourceVersion (sts_Meta x)" imm_StatefulSet "\<lambda>_ _. True"
  by unfold_locales (simp_all add: merge_defs imm_StatefulSet_def valid_StatefulSet_def)

interpretation svc_upd: updatable_kind "\<lambda>x. meta_key (svc_Meta x)" keep_Service
    "\<lambda>_ _. True" merge_Service "\<lambda>_. True" norm_Service
    "\<lambda>x. om_ResourceVersion (svc_Meta x)" imm_Service "\<lambda>_ _. True"
  by unfold_locales (simp_all add: merge_defs imm_Service_def)

interpretation ing_upd: updatable_kind "\<lambda>x. meta_key (ing_Meta x)" keep_Ingress
    "\<lambda>_ _. True" merge_Ingress "\<lambda>_. True" norm_Ingress
    "\<lambda>x. om_ResourceVersion (ing_Meta x)" no_imm "\<lambda>_ _. True"
  by unfold_locales (simp_all add: merge_defs)

interpretation np_upd: updatable_kind "\<lambda>x. meta_key (np_Meta x)" "\<lambda>_ d. d"
    "\<lambda>_ _. True" merge_NetworkPolicy "\<lambda>_. True" norm_NetworkPolicy
    "\<lambda>x. om_ResourceVersion (np_Meta x)" no_imm "\<lambda>_ _. True"
  by unfold_locales (simp_all add: merge_defs)

interpretation pdb_upd: updatable_kind "\<lambda>x. meta_key (pdb_Meta x)" "\<lambda>_ d. d"
    "\<lambda>_ _. True" merge_PDB "\<lambda>_. True" norm_PDB
    "\<lambda>x. om_ResourceVersion (pdb_Meta x)" no_imm "\<lambda>_ _. True"
  by unfold_locales (simp_all add: merge_defs)

interpretation hpa_upd: updatable_kind "\<lambda>x. meta_key (hpa_Meta x)" "\<lambda>_ d. d"
    "\<lambda>_ _. True" merge_HPA "\<lambda>_. True" norm_HPA
    "\<lambda>x. om_ResourceVersion (hpa_Meta x)" no_imm "\<lambda>_ _. True"
  by unfold_locales (simp_all add: merge_defs)

subsection \<open>Every method succeeds\<close>

lemma serving_instancesD:
  assumes "serving_instances D r"
  shows "D w k = Some i \<Longrightarrow> fst (kc_Get (r_TlnDB r) k w) = Inr i" and "D (snd (kc_Get (r_TlnDB r) k w)) = D w"
    and "accepts_status D r" and "accepts_update D r"
    and "D (snd (r_SetStatusCondition r cs c w)) = D w" and "D (r_Eventf r i t re msg w) = D w" and "D (snd (r_Now r w)) = D w"
  using assms unfolding serving_instances_def by blast+

lemma ConfigMap_progress:
  assumes "env_laws V r" and "serving V D r"
  shows "progress_contract V D ConfigMapKind KConfigMap (\<lambda>x. meta_key (cm_Meta x)) (\<lambda>_. True) cm_Meta (\<lambda>_ _. True) (createOrUpdateConfigMap r)"
  unfolding createOrUpdateConfigMap_upsert [abs_def]
proof (rule cm_upd.upsert_progress [OF env_lawsD(5) [OF assms(1)] policy_ConfigMap_ok [OF env_lawsD(1,2) [OF assms(1)]]
      serving_clients(1) [OF assms(2)] servingD(4) [OF assms(2)]], goal_cases)
  case (3 j d)
  from own_with_fresh [OF servingD(1) [OF assms(2)] env_lawsD(1) [OF assms(1)], of j cm_Meta d "\<lambda>m. cm_Meta_update (\<lambda>_. m)"] 3
  show ?case by (auto simp: policy_defs fresh_meta_def)
qed (simp_all add: policy_defs serving_instancesD(6) [OF servingD(2) [OF assms(2)]])

lemma ServiceAccount_progress:
  assumes "env_laws V r" and "serving V D r"
  shows "progress_contract V D ServiceAccountKind KServiceAccount (\<lambda>x. meta_key (sa_Meta x)) (\<lambda>_. True) sa_Meta (\<lambda>_ _. True) (createOrUpdateServiceAccount r)"
  unfolding createOrUpdateServiceAccount_upsert [abs_def]
proof (rule sa_upd.upsert_progress [OF env_lawsD(6) [OF assms(1)] policy_ServiceAccount_ok [OF env_lawsD(1,2) [OF assms(1)]]
      serving_clients(2) [OF assms(2)] servingD(5) [OF assms(2)]], goal_cases)
  case (3 j d)
  from own_with_fresh [OF servingD(1) [OF assms(2)] env_lawsD(1) [OF assms(1)], of j sa_Meta d "\<lambda>m. sa_Meta_update (\<lambda>_. m)"] 3
  show ?case by (auto simp: policy_defs fresh_meta_def)
qed (simp_all add: policy_defs serving_instancesD(6) [OF servingD(2) [OF assms(2)]])

lemma Role_progress:
  assumes "env_laws V r" and "serving V D r"
  shows "progress_contract V D RoleKind KRole (\<lambda>x. meta_key (role_Meta x)) (\<lambda>_. True) role_Meta (\<lambda>_ _. True) (createOrUpdateRole r)"
  unfolding createOrUpdateRole_upsert [abs_def]
proof (rule role_upd.upsert_progress [OF env_lawsD(7) [OF assms(1)] policy_Role_ok [OF env_lawsD(1,2) [OF assms(1)]]
      serving_clients(3) [OF assms(2)] servingD(6) [OF assms(2)]], goal_cases)
  case (3 j d)
  from own_with_fresh [OF servingD(1) [OF assms(2)] env_lawsD(1) [OF assms(1)], of j role_Meta d "\<lambda>m. role_Meta_update (\<lambda>_. m)"] 3
  show ?case by (auto simp: policy_defs fresh_meta_def)
qed (simp_all add: policy_defs serving_instancesD(6) [OF servingD(2) [OF assms(2)]])

lemma RoleBinding_progress:
  assumes "env_laws V r" and "serving V D r"
  shows "progress_contract V D RoleBindingKind KRoleBinding (\<lambda>x. meta_key (rb_Meta x)) (\<lambda>_. True) rb_Meta (\<lambda>ex d. rb_RoleRef ex = rb_RoleRef d) (createOrUpdateRoleBinding r)"
  unfolding createOrUpdateRoleBinding_upsert [abs_def]
proof (rule rb_upd.upsert_progress [OF env_lawsD(8) [OF assms(1)] policy_RoleBinding_ok [OF env_lawsD(1,2) [OF assms(1)]]
      serving_clients(4) [OF assms(2)] servingD(7) [OF assms(2)]], goal_cases)
  case (3 j d)
  from own_with_fresh [OF servingD(1) [OF assms(2)] env_lawsD(1) [OF assms(1)], of j rb_Meta d "\<lambda>m. rb_Meta_update (\<lambda>_. m)"] 3
  show ?case by (auto simp: policy_defs fresh_meta_def)
qed (simp_all add: policy_defs serving_instancesD(6) [OF servingD(2) [OF assms(2)]])

lemma StatefulSet_progress:
  assumes "env_laws V r" and "serving V D r"
  shows "progress_contract V D StatefulSetKind KStatefulSet (\<lambda>x. meta_key (sts_Meta x)) valid_StatefulSet sts_Meta (\<lambda>_ _. True) (createOrUpdateStatefulSet r)"
  unfolding createOrUpdateStatefulSet_upsert [abs_def]
proof (rule sts_upd.upsert_progress [OF env_lawsD(9) [OF assms(1)] policy_StatefulSet_ok [OF env_lawsD(1,2) [OF assms(1)]]
      serving_clients(5) [OF assms(2)] servingD(8) [OF assms(2)]], goal_cases)
  case (3 j d)
  from own_with_fresh [OF servingD(1) [OF assms(2)] env_lawsD(1) [OF assms(1)], of j sts_Meta d "\<lambda>m. sts_Meta_update (\<lambda>_. m)"] 3
  show ?case by (auto simp: policy_defs fresh_meta_def)
qed (simp_all add: policy_defs serving_instancesD(6) [OF servingD(2) [OF assms(2)]])

lemma Service_progress:
  assumes "env_laws V r" and "serving V D r"
  shows "progress_contract V D ServiceKind KService (\<lambda>x. meta_key (svc_Meta x)) (\<lambda>_. True) svc_Meta (\<lambda>_ _. True) (createOrUpdateService r)"
  unfolding createOrUpdateService_upsert [abs_def]
proof (rule svc_upd.upsert_progress [OF env_lawsD(10) [OF assms(1)] policy_Service_ok [OF env_lawsD(1,2) [OF assms(1)]]
      serving_clients(6) [OF assms(2)] servingD(9) [OF assms(2)]], goal_cases)
  case (3 j d)
  from own_with_fresh [OF servingD(1) [OF assms(2)] env_lawsD(1) [OF assms(1)], of j svc_Meta d "\<lambda>m. svc_Meta_update (\<lambda>_. m)"] 3
  show ?case by (auto simp: policy_defs fresh_meta_def)
qed (simp_all add: policy_defs serving_instancesD(6) [OF servingD(2) [OF assms(2)]])

lemma Ingress_progress:
  assumes "env_laws V r" and "serving V D r"
  shows "progress_contract V D IngressKind KIngress (\<lambda>x. meta_key (ing_Meta x)) (\<lambda>_. True) ing_Meta (\<lambda>_ _. True) (createOrUpdateIngress r)"
  unfolding createOrUpdateIngress_upsert [abs_def]
proof (rule ing_upd.upsert_progress [OF env_lawsD(11) [OF assms(1)] policy_Ingress_ok [OF env_lawsD(1,2) [OF assms(1)]]
      serving_clients(7) [OF assms(2)] servingD(10) [OF assms(2)]], goal_cases)
  case (3 j d)
  from own_with_fresh [OF servingD(1) [OF assms(2)] env_lawsD(1) [OF assms(1)], of j ing_Meta d "\<lambda>m. ing_Meta_update (\<lambda>_. m)"] 3
  show ?case by (auto simp: policy_defs fresh_meta_def)
qed (simp_all add: policy_defs serving_instancesD(6) [OF servingD(2) [OF assms(2)]])

lemma NetworkPolicy_progress:
  assumes "env_laws V r" and "serving V D r"
  shows "progress_contract V D NetworkPolicyKind KNetworkPolicy (\<lambda>x. meta_key (np_Meta x)) (\<lambda>_. True) np_Meta (\<lambda>_ _. True) (createOrUpdateNetworkPolicy r)"
  unfolding createOrUpdateNetworkPolicy_upsert [abs_def]
proof (rule np_upd.upsert_progress [OF env_lawsD(12) [OF assms(1)] policy_NetworkPolicy_ok [OF env_lawsD(1,2) [OF assms(1)]]
      serving_clients(8) [OF assms(2)] servingD(11) [OF assms(2)]], goal_cases)
  case (3 j d)
  from own_with_fresh [OF servingD(1) [OF assms(2)] env_lawsD(1) [OF assms(1)], of j np_Meta d "\<lambda>m. np_Meta_update (\<lambda>_. m)"] 3
  show ?case by (auto simp: policy_defs fresh_meta_def)
qed (simp_all add: policy_defs serving_instancesD(6) [OF servingD(2) [OF assms(2)]])

lemma PDB_progress:
  assumes "env_laws V r" and "serving V D r"
  shows "progress_contract V D PDBKind KPDB (\<lambda>x. meta_key (pdb_Meta x)) (\<lambda>_. True) pdb_Meta (\<lambda>_ _. True) (createOrUpdatePDB r)"
  unfolding createOrUpdatePDB_upsert [abs_def]
proof (rule pdb_upd.upsert_progress [OF env_lawsD(13) [OF assms(1)] policy_PDB_ok [OF env_lawsD(1,2) [OF assms(1)]]
      serving_clients(9) [OF assms(2)] servingD(12) [OF assms(2)]], goal_cases)
  case (3 j d)
  from own_with_fresh [OF servingD(1) [OF assms(2)] env_lawsD(1) [OF assms(1)], of j pdb_Meta d "\<lambda>m. pdb_Meta_update (\<lambda>_. m)"] 3
  show ?case by (auto simp: policy_defs fresh_meta_def)
qed (simp_all add: policy_defs serving_instancesD(6) [OF servingD(2) [OF assms(2)]])

lemma HPA_progress:
  assumes "env_laws V r" and "serving V D r"
  shows "progress_contract V D HPAKind KHPA (\<lambda>x. meta_key (hpa_Meta x)) (\<lambda>_. True) hpa_Meta (\<lambda>_ _. True) (createOrUpdateHPA r)"
  unfolding createOrUpdateHPA_upsert [abs_def]
proof (rule hpa_upd.upsert_progress [OF env_lawsD(14) [OF assms(1)] policy_HPA_ok [OF env_lawsD(1,2) [OF assms(1)]]
      serving_clients(10) [OF assms(2)] servingD(13) [OF assms(2)]], goal_cases)
  case (3 j d)
  from own_with_fresh [OF servingD(1) [OF assms(2)] env_lawsD(1) [OF assms(1)], of j hpa_Meta d "\<lambda>m. hpa_Meta_update (\<lambda>_. m)"] 3
  show ?case by (auto simp: policy_defs fresh_meta_def)
qed (simp_all add: policy_defs serving_instancesD(6) [OF servingD(2) [OF assms(2)]])

end
