(* ===== verification/Convergence.thy ===== *)
theory Convergence
  imports Progress
begin

section \<open>Convergence\<close>

text \<open>
  The stages of \<^verbatim>\<open>reconcileResources\<close> and then \<^verbatim>\<open>Reconcile\<close> under a serving API server: no stage
  fails, and two calls of \<^verbatim>\<open>Reconcile\<close> bring any live instance to a cluster that realises it,
  with a status that reports the primary StatefulSet.
\<close>

subsection \<open>What is asked of the instance and its surroundings\<close>

text \<open>
  A ConfigMap the instance refers to exists, and a RoleBinding that is already there
  names the right role (the API server refuses to change that).
\<close>

definition fits :: "TlnDB \<Rightarrow> cluster \<Rightarrow> bool" where
  "fits i c \<longleftrightarrow>
     (\<forall>rb. wants_rbac i \<longrightarrow> c (RoleBindingKind, db_key i) = Some (KRoleBinding rb) \<longrightarrow>
        rb_RoleRef rb = rb_RoleRef (BuildRoleBinding i)) \<and>
     (\<forall>n. spec_ConfigFrom (db_Spec i) = Some n \<longrightarrow> c (ConfigMapKind, db_Namespace i, n) \<noteq> None)"

text \<open>The instance is stored, live and has the finalizer.\<close>

definition live :: "TlnDB \<Rightarrow> TlnDB \<Rightarrow> bool" where
  "live i cur \<longleftrightarrow> same_object cur i \<and> om_DeletionTimestamp (db_Meta cur) = None \<and>
     FinalizerName \<in> set (om_Finalizers (db_Meta cur))"

definition stored_live :: "TlnDB \<Rightarrow> instances \<Rightarrow> bool" where
  "stored_live i d \<longleftrightarrow> (\<exists>cur. d (db_key i) = Some cur \<and> live i cur)"

definition ready :: "('w \<Rightarrow> cluster) \<Rightarrow> ('w \<Rightarrow> instances) \<Rightarrow> TlnDB \<Rightarrow> 'w rstate \<Rightarrow> bool" where
  "ready V D i s \<longleftrightarrow> same_object (rs_inst s) i \<and> stored_live i (D (rs_world s)) \<and> fits i (V (rs_world s))"

definition progresses :: "('w \<Rightarrow> cluster) \<Rightarrow> ('w \<Rightarrow> instances) \<Rightarrow> TlnDB \<Rightarrow> 'w stage \<Rightarrow> bool" where
  "progresses V D i f \<longleftrightarrow> (\<forall>s. ready V D i s \<longrightarrow> (\<exists>s'. f s = (None, s') \<and> ready V D i s'))"

lemma progressesI: "(\<And>s. ready V D i s \<Longrightarrow> \<exists>s'. f s = (None, s') \<and> ready V D i s') \<Longrightarrow> progresses V D i f"
  unfolding progresses_def by blast

lemma progressesD: "progresses V D i f \<Longrightarrow> ready V D i s \<Longrightarrow> \<exists>s'. f s = (None, s') \<and> ready V D i s'"
  unfolding progresses_def by blast

lemma progresses_run: "(\<And>f. f \<in> set fs \<Longrightarrow> progresses V D i f) \<Longrightarrow> progresses V D i (run fs)"
proof (induction fs)
  case Nil
  show ?case by (rule progressesI) simp
next
  case (Cons f fs)
  show ?case
  proof (rule progressesI)
    fix s
    assume "ready V D i s"
    then obtain s1 where s1: "f s = (None, s1)" "ready V D i s1" using progressesD Cons.prems by (meson list.set_intros(1))
    then obtain s2 where "run fs s1 = (None, s2)" "ready V D i s2"
      using progressesD [OF Cons.IH] Cons.prems by (meson list.set_intros(2))
    then show "\<exists>s'. run (f # fs) s = (None, s') \<and> ready V D i s'" using s1 by simp
  qed
qed

lemma progresses_only_if: "progresses V D i f \<Longrightarrow> progresses V D i (only_if b f)"
  unfolding progresses_def only_if_def by simp

lemma progresses_same:
  assumes "\<And>s. same_object (rs_inst s) i \<Longrightarrow> f s = g s" and "progresses V D i g"
  shows "progresses V D i f"
  using assms unfolding progresses_def ready_def by metis

lemma fits_cong:
  "(\<And>q. fst q \<in> {RoleBindingKind, ConfigMapKind} \<Longrightarrow> c q = c' q) \<Longrightarrow> fits i c = fits i c'"
  by (simp add: fits_def)

lemma fresh_cong: "same_object j i \<Longrightarrow> fresh_meta j m = fresh_meta i m"
  by (simp add: fresh_meta_def same_objectD)

subsection \<open>Status calls\<close>

lemma patch_stored:
  assumes env: "env_laws V r" and up: "serving V D r" and m: "same_object m i"
    and cur: "D w (db_key i) = Some cur" "same_object cur i"
  obtains j w' where "r_StatusPatch r m b w = (Inr j, w')" "same_object j i" "db_Status j = db_Status m"
    "om_Finalizers (db_Meta j) = om_Finalizers (db_Meta cur)"
    "om_DeletionTimestamp (db_Meta j) = om_DeletionTimestamp (db_Meta cur)" "D w' = (D w)(db_key i \<mapsto> j)" "V w' = V w"
proof -
  have k: "meta_key (db_Meta m) = db_key i" using same_objectD(1,2) [OF m] by (simp add: meta_key_def)
  have "same_object cur m" using cur(2) m by (auto simp: same_object_def)
  then obtain j where j: "fst (r_StatusPatch r m b w) = Inr j" "D (snd (r_StatusPatch r m b w)) = (D w)(db_key i \<mapsto> j)"
      "om_Finalizers (db_Meta j) = om_Finalizers (db_Meta cur)"
      "om_DeletionTimestamp (db_Meta j) = om_DeletionTimestamp (db_Meta cur)"
    using serving_instancesD(3) [OF servingD(2) [OF up]] cur(1) k unfolding accepts_status_def by metis
  note S = status_lawsD(1-3) [OF env_lawsD(2) [OF env], of m b w]
  have "same_object j i" "db_Status j = db_Status m" using S(2,3) [of j] j(1) m same_object_trans by blast+
  then show thesis using j S(1) by (intro that [of j "snd (r_StatusPatch r m b w)"]) (auto simp: prod_eq_iff)
qed

lemma patch_live:
  assumes env: "env_laws V r" and up: "serving V D r" and m: "same_object m i" and st: "stored_live i (D w)"
  obtains j w' where "r_StatusPatch r m b w = (Inr j, w')" "same_object j i" "db_Status j = db_Status m" "live i j"
    "D w' (db_key i) = Some j" "stored_live i (D w')" "V w' = V w"
proof -
  obtain cur where cur: "D w (db_key i) = Some cur" "live i cur" using st by (auto simp: stored_live_def)
  then have "same_object cur i" by (simp add: live_def)
  from patch_stored [OF env up m cur(1) this, of b] obtain j w' where j: "r_StatusPatch r m b w = (Inr j, w')" "same_object j i"
    "db_Status j = db_Status m" "om_Finalizers (db_Meta j) = om_Finalizers (db_Meta cur)"
    "om_DeletionTimestamp (db_Meta j) = om_DeletionTimestamp (db_Meta cur)" "D w' = (D w)(db_key i \<mapsto> j)" "V w' = V w" by metis
  then have "live i j" using cur(2) by (simp add: live_def)
  then show thesis using j by (intro that [of j w']) (auto simp: stored_live_def)
qed

lemma progresses_condition:
  assumes env: "env_laws V r" and up: "serving V D r"
  shows "progresses V D i (condition r t st re msg)"
proof (rule progressesI)
  fix s
  assume rd: "ready V D i s"
  obtain cs w1 where c: "r_SetStatusCondition r (sta_Conditions (db_Status (rs_inst s)))
      (mkCondition (rs_inst s) t st re msg) (rs_world s) = (cs, w1)" by force
  have DV: "D w1 = D (rs_world s)" "V w1 = V (rs_world s)"
    using serving_instancesD(5) [OF servingD(2) [OF up]] status_lawsD(4) [OF env_lawsD(2) [OF env]] c by (metis snd_conv)+
  let ?m = "(rs_inst s)\<lparr>db_Status := (db_Status (rs_inst s))\<lparr>sta_Conditions := cs\<rparr>\<rparr>"
  have "same_object ?m i" "stored_live i (D w1)" using rd DV by (simp_all add: ready_def)
  from patch_live [OF env up this, of "rs_inst s"] obtain j w2 where
    "r_StatusPatch r ?m (rs_inst s) w1 = (Inr j, w2)" "same_object j i" "stored_live i (D w2)" "V w2 = V w1" by metis
  then show "\<exists>s'. condition r t st re msg s = (None, s') \<and> ready V D i s'"
    using c rd DV by (simp add: condition_def setCondition_def ready_def Let_def)
qed

lemma patchStatus_live:
  assumes "env_laws V r" and "serving V D r" and "same_object m i" and "stored_live i (D w)"
  obtains j w' where "patchStatus r m b w = (None, j, w')" "same_object j i" "db_Status j = db_Status m" "live i j"
    "D w' (db_key i) = Some j" "stored_live i (D w')" "V w' = V w"
  using patch_live [OF assms, of b] by (metis (no_types, lifting) patchStatus_def case_prod_conv sum.case(2))

lemma setPhase_stored:
  assumes env: "env_laws V r" and up: "serving V D r" and i: "same_object inst i"
    and cur: "D w (db_key i) = Some cur" "same_object cur i"
  obtains j w' where "setPhase r inst phase w = (None, j, w')" "same_object j i"
    "om_Finalizers (db_Meta j) = om_Finalizers (db_Meta cur)"
    "om_DeletionTimestamp (db_Meta j) = om_DeletionTimestamp (db_Meta cur)" "D w' = (D w)(db_key i \<mapsto> j)" "V w' = V w"
proof -
  obtain now w1 where now: "r_Now r w = (now, w1)" by force
  have DV: "D w1 = D w" "V w1 = V w"
    using serving_instancesD(7) [OF servingD(2) [OF up]] status_lawsD(6) [OF env_lawsD(2) [OF env]] now by (metis snd_conv)+
  let ?m = "inst\<lparr>db_Status := (db_Status inst)\<lparr>sta_Phase := phase, sta_LastUpdateTime := Some now\<rparr>\<rparr>"
  have "same_object ?m i" "D w1 (db_key i) = Some cur" using i cur DV by simp_all
  from patch_stored [OF env up this cur(2), of inst] obtain j w2 where
    "r_StatusPatch r ?m inst w1 = (Inr j, w2)" "same_object j i" "om_Finalizers (db_Meta j) = om_Finalizers (db_Meta cur)"
    "om_DeletionTimestamp (db_Meta j) = om_DeletionTimestamp (db_Meta cur)" "D w2 = (D w1)(db_key i \<mapsto> j)" "V w2 = V w1" by metis
  then show thesis using that now DV by (simp add: setPhase_def patchStatus_def Let_def)
qed

lemma setPhase_live:
  assumes env: "env_laws V r" and up: "serving V D r" and i: "same_object inst i" and st: "stored_live i (D w)"
  obtains j w' where "setPhase r inst phase w = (None, j, w')" "same_object j i" "live i j"
    "D w' (db_key i) = Some j" "stored_live i (D w')" "V w' = V w"
proof -
  obtain cur where cur: "D w (db_key i) = Some cur" "live i cur" using st by (auto simp: stored_live_def)
  then have "same_object cur i" by (simp add: live_def)
  from setPhase_stored [OF env up i cur(1) this, of phase] obtain j w' where j: "setPhase r inst phase w = (None, j, w')"
    "same_object j i" "om_Finalizers (db_Meta j) = om_Finalizers (db_Meta cur)"
    "om_DeletionTimestamp (db_Meta j) = om_DeletionTimestamp (db_Meta cur)" "D w' = (D w)(db_key i \<mapsto> j)" "V w' = V w" by metis
  then have "live i j" using cur(2) by (simp add: live_def)
  then show thesis using that j by (auto simp: stored_live_def)
qed

subsection \<open>Create-or-update stages\<close>

lemma progresses_ensure:
  assumes prog: "progress_contract V D K into key valid meta fit cou" and frame: "frame_contract V K key cou"
    and cong: "\<And>j. same_object j i \<Longrightarrow> build j = build i"
    and valid: "valid (build i)" and fresh: "fresh_meta i (meta (build i))"
    and fit: "\<And>c ex. fits i c \<Longrightarrow> c (K, key (build i)) = Some (into ex) \<Longrightarrow> fit ex (build i)"
    and keep: "\<And>j w d' w'. fits i (V w) \<Longrightarrow> cou j (build i) w = (Inr d', w') \<Longrightarrow> fits i (V w')"
  shows "progresses V D i (ensure what kindName nameOf cou build)"
proof (rule progressesI)
  fix s
  assume rd: "ready V D i s"
  have i: "same_object (rs_inst s) i" and f: "fits i (V (rs_world s))" using rd by (simp_all add: ready_def)
  have "fresh_meta (rs_inst s) (meta (build i))" using fresh fresh_cong [OF i] by simp
  then obtain d' w' where c: "cou (rs_inst s) (build i) (rs_world s) = (Inr d', w')" "D w' = D (rs_world s)"
    using prog valid fit [OF f] unfolding progress_contract_def by blast
  then show "\<exists>s'. ensure what kindName nameOf cou build s = (None, s') \<and> ready V D i s'"
    using rd cong [OF i] keep [OF f c(1)] by (simp add: ensure_def ready_def)
qed

text \<open>Kinds other than RoleBinding and ConfigMap do not matter to \<open>fits\<close>.\<close>

lemma progresses_ensure_plain:
  assumes "progress_contract V D K into key valid meta (\<lambda>_ _. True) cou" and frame: "frame_contract V K key cou"
    and "\<And>j. same_object j i \<Longrightarrow> build j = build i" and "valid (build i)" and "fresh_meta i (meta (build i))"
    and K: "K \<notin> {RoleBindingKind, ConfigMapKind}"
  shows "progresses V D i (ensure what kindName nameOf cou build)"
proof (rule progresses_ensure [OF assms(1,2)])
  show "fits i (V w')" if "fits i (V w)" "cou j (build i) w = (Inr d', w')" for j w d' w'
  proof -
    have "V w' q = V w q" if "fst q \<in> {RoleBindingKind, ConfigMapKind}" for q
      using frame K that \<open>cou j (build i) w = (Inr d', w')\<close> unfolding frame_contract_def by (metis fst_conv snd_conv)
    then show ?thesis using that(1) fits_cong by metis
  qed
qed (erule assms(3), rule assms(4), rule assms(5), rule TrueI)

lemmas child_fresh = sa_child.meta_fresh role_child.meta_fresh rb_child.meta_fresh cm_child.meta_fresh
  headless_svc.meta_fresh main_svc.meta_fresh write_svc.meta_fresh read_svc.meta_fresh standalone_child.meta_fresh
  leader_child.meta_fresh follower_child.meta_fresh ing_child.meta_fresh np_child.meta_fresh pdb_child.meta_fresh
  hpa_child.meta_fresh

lemmas child_namespaces = sa_child.meta_namespace role_child.meta_namespace rb_child.meta_namespace cm_child.meta_namespace
  headless_svc.meta_namespace main_svc.meta_namespace write_svc.meta_namespace read_svc.meta_namespace
  standalone_child.meta_namespace leader_child.meta_namespace follower_child.meta_namespace ing_child.meta_namespace
  np_child.meta_namespace pdb_child.meta_namespace hpa_child.meta_namespace

lemma progresses_RBAC:
  assumes env: "env_laws V r" and up: "serving V D r"
  shows "progresses V D i (stageRBAC r)"
proof (cases "wants_rbac i")
  case False
  show ?thesis
    by (rule progressesI) (use False in \<open>auto simp: stageRBAC_def only_if_def ready_def dest: same_objectD(3)\<close>)
next
  case True
  have "progresses V D i (ensure ''ServiceAccount'' ''ServiceAccount'' (\<lambda>x. om_Name (sa_Meta x))
      (createOrUpdateServiceAccount r) BuildServiceAccount)"
    by (rule progresses_ensure_plain [OF ServiceAccount_progress [OF env up] ServiceAccount_contract(1) [OF env]])
      (simp_all add: builder_cong fresh_meta_def child_fresh child_namespaces)
  moreover have "progresses V D i (ensure ''role'' ''Role'' (\<lambda>x. om_Name (role_Meta x)) (createOrUpdateRole r) BuildRole)"
    by (rule progresses_ensure_plain [OF Role_progress [OF env up] Role_contract(1) [OF env]])
      (simp_all add: builder_cong fresh_meta_def child_fresh child_namespaces)
  moreover have "progresses V D i (ensure ''RoleBinding'' ''RoleBinding'' (\<lambda>x. om_Name (rb_Meta x))
      (createOrUpdateRoleBinding r) BuildRoleBinding)"
  proof (rule progresses_ensure [OF RoleBinding_progress [OF env up] RoleBinding_contract(1) [OF env]])
    show "rb_RoleRef ex = rb_RoleRef (BuildRoleBinding i)"
      if "fits i c" "c (RoleBindingKind, meta_key (rb_Meta (BuildRoleBinding i))) = Some (KRoleBinding ex)" for c ex
      using that True by (simp add: fits_def child_keys ResourceName_def)
    show "fits i (V w')" if f: "fits i (V w)" and c: "createOrUpdateRoleBinding r j (BuildRoleBinding i) w = (Inr d', w')"
      for j w d' w'
    proof -
      have "has_RoleBinding (V w') (BuildRoleBinding i)"
        using RoleBinding_contract(2) [OF env] c unfolding holds_contract_def by blast
      moreover have "V w' (ConfigMapKind, k) = V w (ConfigMapKind, k)" for k
        using RoleBinding_contract(1) [OF env] c unfolding frame_contract_def
        by (metis Pair_inject kind.distinct(3) kind.distinct(5) snd_conv)
      ultimately show ?thesis
        using f by (auto simp: fits_def holds_def norm_RoleBinding_def child_keys ResourceName_def)
    qed
  qed (simp_all add: builder_cong fresh_meta_def child_fresh child_namespaces)
  ultimately show ?thesis
    unfolding stageRBAC_def using progresses_condition [OF env up] by (intro progresses_only_if progresses_run) auto
qed

end
