(* ===== verification/Liveness.thy ===== *)
theory Liveness
  imports Convergence
begin

section \<open>Liveness of the reconciler\<close>

text \<open>
  The remaining stages make progress, hence \<^verbatim>\<open>reconcileResources\<close>, \<^verbatim>\<open>syncStatus\<close> and \<^verbatim>\<open>Reconcile\<close> do;
  the main result is that a live instance is realised after at most two calls.
\<close>

subsection \<open>Configuration and workloads\<close>

lemma progresses_Config:
  assumes env: "env_laws V r" and up: "serving V D r"
  shows "progresses V D i (stageConfig r)"
proof (cases "spec_ConfigFrom (db_Spec i)")
  case (Some n)
  show ?thesis
  proof (rule progressesI)
    fix s
    assume rd: "ready V D i s"
    have i: "same_object (rs_inst s) i" using rd by (simp add: ready_def)
    obtain g w where g: "kc_Get (r_ConfigMap r) (db_Namespace i, n) (rs_world s) = (g, w)" by force
    have "V (rs_world s) (ConfigMapKind, db_Namespace i, n) \<noteq> None" using rd Some by (simp add: ready_def fits_def)
    then obtain cm where cm: "g = Inr cm" using serving_clientD(1) [OF serving_clients(1) [OF up]] g by (metis fst_conv)
    have DV: "D w = D (rs_world s)" "V w = V (rs_world s)"
      using keeps_instancesD(1) [OF servingD(4) [OF up]] get_lawsD(1) [OF client_lawsD(1) [OF env_lawsD(5) [OF env]]] g
      by (metis snd_conv)+
    let ?s = "s\<lparr>rs_world := w, rs_hash := HashStringData (cm_Data cm)\<rparr>"
    have "ready V D i ?s" using rd DV by (simp add: ready_def)
    from progressesD [OF progresses_condition [OF env up] this]
    obtain s' where "condition r ConditionConfigMapReady ConditionTrue ''ExternalConfigMapFound'' ''External ConfigMap found'' ?s
        = (None, s')" "ready V D i s'" by blast
    then show "\<exists>s'. stageConfig r s = (None, s') \<and> ready V D i s'"
      using Some cm g same_objectD(2,3) [OF i] by (simp add: stageConfig_def stageExternalConfig_def)
  qed
next
  case None
  show ?thesis
  proof (rule progressesI)
    fix s
    assume rd: "ready V D i s"
    have i: "same_object (rs_inst s) i" using rd by (simp add: ready_def)
    let ?cm = "BuildConfigMap (r_lib r) i"
    have "fresh_meta (rs_inst s) (cm_Meta ?cm)"
      using same_objectD(2) [OF i] by (simp add: fresh_meta_def child_fresh child_namespaces)
    then obtain cm w where c: "createOrUpdateConfigMap r (rs_inst s) ?cm (rs_world s) = (Inr cm, w)" "D w = D (rs_world s)"
      using ConfigMap_progress [OF env up] unfolding progress_contract_def by blast
    have "V w (RoleBindingKind, k) = V (rs_world s) (RoleBindingKind, k)" for k
      using ConfigMap_contract(1) [OF env] c(1) unfolding frame_contract_def
      by (metis Pair_inject kind.distinct(5) snd_conv)
    then have "fits i (V w)" using rd None by (simp add: ready_def fits_def)
    then have "ready V D i (s\<lparr>rs_world := w, rs_hash := HashStringData (cm_Data cm),
        rs_managed := rs_managed s @ [''ConfigMap/'' @ om_Name (cm_Meta cm)]\<rparr>)"
      using rd c(2) by (simp add: ready_def)
    from progressesD [OF progresses_condition [OF env up] this]
    show "\<exists>s'. stageConfig r s = (None, s') \<and> ready V D i s'"
      using None c(1) same_objectD(3) [OF i] builder_cong(4) [OF i] by (simp add: stageConfig_def stageRenderedConfig_def)
  qed
qed

lemma progresses_Service:
  assumes "env_laws V r" and "serving V D r" and "\<And>j. same_object j i \<Longrightarrow> build j = build i"
    and "fresh_meta i (svc_Meta (build i))"
  shows "progresses V D i (ensureService r what build)"
  unfolding ensureService_def
  by (rule progresses_ensure_plain [OF Service_progress [OF assms(1,2)] Service_contract(1) [OF assms(1)]])
    (erule assms(3), rule TrueI, rule assms(4), simp)

lemma progresses_StatefulSet:
  assumes "env_laws V r" and "serving V D r" and "\<And>j. same_object j i \<Longrightarrow> build j = build i"
    and "valid_StatefulSet (build i)" and "fresh_meta i (sts_Meta (build i))"
  shows "progresses V D i (ensureStatefulSet r what build)"
  unfolding ensureStatefulSet_def
  by (rule progresses_ensure_plain [OF StatefulSet_progress [OF assms(1,2)] StatefulSet_contract(1) [OF assms(1)]])
    (erule assms(3), rule assms(4), rule assms(5), simp)

lemma progresses_prune:
  assumes env: "env_laws V r" and up: "serving V D r"
  shows "progresses V D i (stagePruneFollowers r)"
proof (rule progressesI)
  fix s
  assume rd: "ready V D i s"
  have i: "same_object (rs_inst s) i" using rd by (simp add: ready_def)
  let ?k = "(db_Namespace i, FollowerStatefulSetName i)"
  note S = serving_clientD [OF serving_clients(5) [OF up]]
  note keeps = keeps_instancesD [OF servingD(8) [OF up]]
  note getD = get_lawsD [OF client_lawsD(1) [OF env_lawsD(9) [OF env]]]
  obtain g w1 where g: "kc_Get (r_StatefulSet r) ?k (rs_world s) = (g, w1)" by force
  have DV: "D w1 = D (rs_world s)" "V w1 = V (rs_world s)" using keeps(1) getD(1) g by (metis snd_conv)+
  obtain w' where d: "deleteStatefulSetIfExists r (db_Namespace i) (FollowerStatefulSetName i) (rs_world s) = (None, w')"
    "D w' = D (rs_world s)"
  proof (cases g)
    case (Inl e)
    then have "V (rs_world s) (StatefulSetKind, ?k) = None" using S(1) g by (metis Inl_Inr_False fst_conv)
    then have "IsNotFound e" using S(2) g Inl by (metis fst_conv sum.inject(1))
    then show thesis using that [of w1] g Inl DV by (simp add: deleteStatefulSetIfExists_def)
  next
    case (Inr ex)
    have "V (rs_world s) (StatefulSetKind, meta_key (sts_Meta ex)) \<noteq> None" using getD(2) g Inr by (metis fst_conv option.distinct(1))
    then have "fst (kc_Delete (r_StatefulSet r) ex w1) = None" using S(5) DV(2) by metis
    moreover have "D (snd (kc_Delete (r_StatefulSet r) ex w1)) = D w1" by (rule keeps(4))
    ultimately show thesis
      using that [of "snd (kc_Delete (r_StatefulSet r) ex w1)"] g Inr DV
      by (cases "kc_Delete (r_StatefulSet r) ex w1") (simp add: deleteStatefulSetIfExists_def)
  qed
  have "fits i (V w')"
    using rd deleteStatefulSet_effect(1) [OF env d(1)] by (simp add: ready_def fits_def)
  then show "\<exists>s'. stagePruneFollowers r s = (None, s') \<and> ready V D i s'"
    using rd d same_objectD(2) [OF i] name_cong(5) [OF i] by (simp add: stagePruneFollowers_def ready_def)
qed

lemma progresses_Followers:
  assumes env: "env_laws V r" and up: "serving V D r"
  shows "progresses V D i (stageFollowers r h addr ret)"
proof (cases "0 < readReplicas i")
  case True
  let ?build = "\<lambda>inst. BuildFollowerStatefulSet (r_lib r) inst h addr (readReplicas inst) ret"
  have "progresses V D i (ensureStatefulSet r ''follower StatefulSet'' ?build)"
  proof (rule progresses_StatefulSet [OF env up])
    show "?build j = ?build i" if "same_object j i" for j using builder_cong(11) [OF that] same_objectD(3) [OF that] by simp
  qed (simp_all add: built_valid fresh_meta_def child_fresh child_namespaces)
  then show ?thesis
    by (rule progresses_same [rotated]) (frule same_objectD(3), simp add: stageFollowers_def True)
next
  case False
  show ?thesis
    by (rule progresses_same [OF _ progresses_prune [OF env up]])
      (frule same_objectD(3), use False in \<open>simp add: stageFollowers_def\<close>)
qed

lemma progresses_Workloads:
  assumes env: "env_laws V r" and up: "serving V D r"
  shows "progresses V D i (stageWorkloads r)"
proof (rule progressesI)
  fix s
  assume rd: "ready V D i s"
  have i: "same_object (rs_inst s) i" using rd by (simp add: ready_def)
  note svc = progresses_Service [OF env up] and sts = progresses_StatefulSet [OF env up]
  note meta = fresh_meta_def child_fresh child_namespaces
  have "progresses V D i (run [ensureStatefulSet r ''leader StatefulSet''
        (\<lambda>inst. BuildLeaderStatefulSet (r_lib r) inst (rs_hash s) (retention i)),
      stageFollowers r (rs_hash s) (leaderAddr i) (retention i), ensureService r ''write Service'' BuildWriteService,
      ensureService r ''read Service'' BuildReadService,
      condition r ConditionServiceReady ConditionTrue ''ServiceReady'' ''Services reconciled''])"
    using progresses_Followers [OF env up] progresses_condition [OF env up]
    by (intro progresses_run) (auto intro!: svc sts simp: builder_cong built_valid meta)
  from progressesD [OF this rd] have "Replicated i \<Longrightarrow> \<exists>s'. stageWorkloads r s = (None, s') \<and> ready V D i s'"
    using name_cong(10) [OF i] same_objectD(3) [OF i] builder_cong(17) [OF i]
    by (simp add: stageWorkloads_def stageReplicated_def Let_def)
  moreover have "progresses V D i (run [ensureStatefulSet r ''StatefulSet'' (\<lambda>inst. BuildStatefulSet (r_lib r) inst (rs_hash s)),
      ensureService r ''service'' BuildService,
      condition r ConditionServiceReady ConditionTrue ''ServiceReady'' ''Service reconciled''])"
    using progresses_condition [OF env up]
    by (intro progresses_run) (auto intro!: svc sts simp: builder_cong built_valid meta)
  from progressesD [OF this rd] have "\<not> Replicated i \<Longrightarrow> \<exists>s'. stageWorkloads r s = (None, s') \<and> ready V D i s'"
    using name_cong(10) [OF i] by (simp add: stageWorkloads_def stageStandalone_def Let_def)
  ultimately show "\<exists>s'. stageWorkloads r s = (None, s') \<and> ready V D i s'" by blast
qed

subsection \<open>Optional resources\<close>

lemma progresses_optional:
  assumes env: "env_laws V r" and up: "serving V D r"
  shows "progresses V D i (stageIngress r)" "progresses V D i (stageNetworkPolicy r)"
    "progresses V D i (stagePDB r)" "progresses V D i (stageHPA r)"
proof -
  note meta = builder_cong fresh_meta_def child_fresh child_namespaces
  show "progresses V D i (stageIngress r)"
    unfolding stageIngress_def
    by (intro progresses_only_if progresses_ensure_plain [OF Ingress_progress [OF env up] Ingress_contract(1) [OF env]])
      (simp_all add: meta)
  have "progresses V D i (ensure ''NetworkPolicy'' ''NetworkPolicy'' (\<lambda>x. om_Name (np_Meta x))
      (createOrUpdateNetworkPolicy r) BuildNetworkPolicy)"
    by (rule progresses_ensure_plain [OF NetworkPolicy_progress [OF env up] NetworkPolicy_contract(1) [OF env]])
      (simp_all add: meta)
  then show "progresses V D i (stageNetworkPolicy r)"
    unfolding stageNetworkPolicy_def using progresses_condition [OF env up]
    by (intro progresses_only_if progresses_run) auto
  show "progresses V D i (stagePDB r)"
    unfolding stagePDB_def
    by (intro progresses_only_if progresses_ensure_plain [OF PDB_progress [OF env up] PDB_contract [OF env]])
      (simp_all add: meta)
  show "progresses V D i (stageHPA r)"
    unfolding stageHPA_def
    by (intro progresses_only_if progresses_ensure_plain [OF HPA_progress [OF env up] HPA_contract [OF env]])
      (simp_all add: meta)
qed

text \<open>The ServiceMonitor never stops a reconciliation.\<close>

lemma createOrUpdateServiceMonitor_keeps:
  assumes "serving V D r"
  shows "D (snd (createOrUpdateServiceMonitor r j d w)) = D w"
proof -
  note keeps = keeps_instancesD [OF servingD(3) [OF assms]]
  have get: "kc_Get (r_Unstructured r g) k w = (x, w1) \<Longrightarrow> D w1 = D w" for g k x w1 w using keeps(1) by (metis snd_conv)
  show ?thesis
    by (auto simp: createOrUpdateServiceMonitor_def Let_def keeps split: prod.split sum.split dest: get)
qed

lemma progresses_ServiceMonitor:
  assumes env: "env_laws V r" and up: "serving V D r"
  shows "progresses V D i (stageServiceMonitor r)"
  unfolding stageServiceMonitor_def
proof (rule progresses_only_if, rule progressesI)
  fix s
  assume rd: "ready V D i s"
  let ?sm = "BuildServiceMonitor (rs_inst s)"
  obtain res w where c: "createOrUpdateServiceMonitor r (rs_inst s) ?sm (rs_world s) = (res, w)" by force
  have D: "D w = D (rs_world s)" using createOrUpdateServiceMonitor_keeps [OF up] c by (metis snd_conv)
  have "V w q = V (rs_world s) q" if "fst q \<in> {RoleBindingKind, ConfigMapKind}" for q
    using ServiceMonitor_contract [OF env] c that unfolding frame_contract_def by (metis empty_iff fst_conv insert_iff kind.distinct snd_conv)
  then have "fits i (V w)" using rd fits_cong [of "V w" "V (rs_world s)" i] by (simp add: ready_def)
  then have "ready V D i (s\<lparr>rs_world := w\<rparr>)" "ready V D i (s\<lparr>rs_world := w, rs_managed := m\<rparr>)" for m
    using rd D by (simp_all add: ready_def)
  from this [THEN progressesD [OF progresses_condition [OF env up]]]
  show "\<exists>s'. (case createOrUpdateServiceMonitor r (rs_inst s) ?sm (rs_world s) of
        (Inl e, w) \<Rightarrow> condition r ConditionServiceMonitorReady ConditionFalse ''ServiceMonitorCRDMissing'' (Error e) (s\<lparr>rs_world := w\<rparr>)
      | (Inr sm, w) \<Rightarrow> condition r ConditionServiceMonitorReady ConditionTrue ''ServiceMonitorReady'' ''ServiceMonitor reconciled''
            (s\<lparr>rs_world := w, rs_managed := rs_managed s @ [''ServiceMonitor/'' @ r_GetName r sm]\<rparr>)) = (None, s') \<and> ready V D i s'"
    using c by (cases res) simp_all
qed

lemma progresses_Persist:
  assumes env: "env_laws V r" and up: "serving V D r"
  shows "progresses V D i (stagePersist r)"
proof (rule progressesI)
  fix s
  assume rd: "ready V D i s"
  obtain now w1 where now: "r_Now r (rs_world s) = (now, w1)" by force
  have DV: "D w1 = D (rs_world s)" "V w1 = V (rs_world s)"
    using serving_instancesD(7) [OF servingD(2) [OF up]] status_lawsD(6) [OF env_lawsD(2) [OF env]] now by (metis snd_conv)+
  let ?m = "(rs_inst s)\<lparr>db_Status := (db_Status (rs_inst s))\<lparr>sta_ManagedResources := sort (rs_managed s),
      sta_CurrentImage := ImageRef (spec_Image (db_Spec (rs_inst s))), sta_LastUpdateTime := Some now,
      sta_ObservedGeneration := om_Generation (db_Meta (rs_inst s))\<rparr>\<rparr>"
  have "same_object ?m i" "stored_live i (D w1)" using rd DV by (simp_all add: ready_def)
  from patchStatus_live [OF env up this, of "rs_inst s"] obtain j w2 where
    "patchStatus r ?m (rs_inst s) w1 = (None, j, w2)" "same_object j i" "stored_live i (D w2)" "V w2 = V w1" by metis
  then show "\<exists>s'. stagePersist r s = (None, s') \<and> ready V D i s'"
    using now rd DV by (simp add: stagePersist_def ready_def Let_def)
qed

subsection \<open>reconcileResources, syncStatus and Reconcile\<close>

lemma reconcileResources_succeeds:
  assumes env: "env_laws V r" and up: "serving V D r" and j: "same_object j i"
    and st: "stored_live i (D w)" and f: "fits i (V w)"
  obtains j' w' h where "reconcileResources r j w = (None, j', w')" "same_object j' i" "stored_live i (D w')"
    "fits i (V w')" "realised (r_lib r) j h (V w')"
proof -
  have "progresses V D i (run [stageRBAC r, stageConfig r, stageHeadless r, stageWorkloads r, stageIngress r,
      stageNetworkPolicy r, stageServiceMonitor r, stagePDB r, stageHPA r, stagePersist r])"
    using progresses_RBAC [OF env up] progresses_Config [OF env up] progresses_Workloads [OF env up]
      progresses_optional [OF env up] progresses_ServiceMonitor [OF env up] progresses_Persist [OF env up]
      progresses_Service [OF env up, of i BuildHeadlessService]
    by (intro progresses_run)
      (auto simp: stageHeadless_def builder_cong fresh_meta_def child_fresh child_namespaces)
  moreover have "ready V D i \<lparr>rs_inst = j, rs_managed = [], rs_hash = [], rs_world = w\<rparr>"
    using j st f by (simp add: ready_def)
  ultimately obtain s' where s': "run [stageRBAC r, stageConfig r, stageHeadless r, stageWorkloads r, stageIngress r,
      stageNetworkPolicy r, stageServiceMonitor r, stagePDB r, stageHPA r, stagePersist r]
      \<lparr>rs_inst = j, rs_managed = [], rs_hash = [], rs_world = w\<rparr> = (None, s')" "ready V D i s'"
    using progressesD by blast
  then have r: "reconcileResources r j w = (None, rs_inst s', rs_world s')" by (simp add: reconcileResources_def)
  obtain h where "realised (r_lib r) j h (V (rs_world s'))" using reconcileResources_effect(3) [OF env r] by blast
  then show thesis using that [OF r] s'(2) by (auto simp: ready_def)
qed

lemma primary_held:
  assumes "realised L i h c"
  shows "\<exists>sts. c (StatefulSetKind, db_Namespace i, primaryStatefulSetName i) = Some (KStatefulSet sts)"
  using assms
  by (auto simp: realised_def workloads_realised_def primaryStatefulSetName_def holds_def child_keys split: if_splits)

lemma desiredReplicas_cong: "same_object j i \<Longrightarrow> desiredReplicas j = desiredReplicas i"
  using name_cong(10) [of j i] same_objectD(3) [of j i] by (simp add: desiredReplicas_def cong: option.case_cong)

lemma syncStatus_succeeds:
  assumes env: "env_laws V r" and up: "serving V D r" and j: "same_object j i"
    and st: "stored_live i (D w)" and sts: "V w (StatefulSetKind, db_Namespace i, primaryStatefulSetName i) = Some (KStatefulSet sts)"
  obtains res j' w' where "syncStatus r j w = ((res, None), j', w')" "V w' = V w" "D w' (db_key i) = Some j'" "live i j'"
    "sta_Phase (db_Status j') = phaseOf sts (desiredReplicas i)"
    "res = (if phaseOf sts (desiredReplicas i) \<noteq> PhaseRunning then zero_Result\<lparr>res_RequeueAfter := 10 * second\<rparr> else zero_Result)"
proof -
  have prim: "primaryStatefulSetName j = primaryStatefulSetName i" "desiredReplicas j = desiredReplicas i"
    using builder_cong(18) [OF j] desiredReplicas_cong [OF j] by simp_all
  let ?k = "(db_Namespace i, primaryStatefulSetName i)"
  note getD = get_lawsD [OF client_lawsD(1) [OF env_lawsD(9) [OF env]]]
  obtain g w1 where g: "kc_Get (r_StatefulSet r) ?k w = (g, w1)" by force
  obtain x where x: "g = Inr x" using serving_clientD(1) [OF serving_clients(5) [OF up], of w ?k] g sts by auto
  have xs: "x = sts" using getD(2) [of ?k w x] g x sts by simp
  have DV: "D w1 = D w" "V w1 = V w"
    using keeps_instancesD(1) [OF servingD(8) [OF up]] getD(1) g by (metis snd_conv)+
  let ?phase = "phaseOf sts (desiredReplicas i)" and ?ready = "st_ReadyReplicas (sts_Status sts)"
  let ?j1 = "j\<lparr>db_Status := (db_Status j)\<lparr>sta_ReadyReplicas := ?ready, sta_Phase := ?phase\<rparr>\<rparr>"
  obtain j2 w2 where c: "setConditionOnInstance r ?j1 ConditionStatefulSetReady
      (readyCondition ?phase ?ready (desiredReplicas i)) w1 = (j2, w2)" by force
  note C = setConditionOnInstance_effect [OF env_lawsD(2) [OF env] c]
  have D2: "D w2 = D w1"
  proof -
    obtain st re msg where fn: "readyCondition ?phase ?ready (desiredReplicas i) = (st, re, msg)" by (metis prod_cases3)
    show ?thesis
      using c serving_instancesD(5) [OF servingD(2) [OF up]] unfolding fn setConditionOnInstance_def
      by (auto split: prod.splits) (metis snd_conv)
  qed
  have "same_object j2 i" "stored_live i (D w2)" using C(2) j st DV D2 by (auto intro: same_object_trans)
  from patchStatus_live [OF env up this, of j] obtain j3 w3 where p: "patchStatus r j2 j w2 = (None, j3, w3)"
    "db_Status j3 = db_Status j2" "live i j3" "D w3 (db_key i) = Some j3" "V w3 = V w2" by metis
  have "syncStatus r j w = ((if ?phase \<noteq> PhaseRunning then zero_Result\<lparr>res_RequeueAfter := 10 * second\<rparr> else zero_Result, None), j3, w3)"
    using g x xs c p(1) prim same_objectD(2) [OF j] by (simp add: syncStatus_def Let_def)
  moreover have "sta_Phase (db_Status j3) = ?phase" using C(3) p(2) by simp
  moreover have "V w3 = V w" using p(5) C(1) DV by simp
  ultimately show thesis using p(3,4) by (intro that [of _ j3 w3]) simp_all
qed

lemma realised_cong:
  assumes "same_object j i"
  shows "realised L j h c = realised L i h c"
  using builder_cong [OF assms] name_cong [OF assms] same_objectD [OF assms]
  by (simp add: realised_def rbac_realised_def config_realised_def workloads_realised_def cong: if_cong option.case_cong)

text \<open>No follower set is left to remove.\<close>

definition prune_done :: "TlnDB \<Rightarrow> cluster \<Rightarrow> bool" where
  "prune_done i c \<longleftrightarrow> (Replicated i \<longrightarrow> readReplicas i \<le> 0 \<longrightarrow>
     c (StatefulSetKind, db_Namespace i, FollowerStatefulSetName i) = None)"

text \<open>A live instance with the finalizer: one call does it.\<close>

lemma Reconcile_live:
  assumes env: "env_laws V r" and up: "serving V D r" and d: "D w k = Some i" and lv: "live i i" and k: "db_key i = k"
    and f: "fits i (V w)"
  obtains res w' i' sts h where "Reconcile r k w = ((res, None), w')" "D w' k = Some i'" "live i i'" "fits i (V w')"
    "realised (r_lib r) i h (V w')"
    "V w' (StatefulSetKind, db_Namespace i, primaryStatefulSetName i) = Some (KStatefulSet sts)"
    "sta_Phase (db_Status i') = phaseOf sts (desiredReplicas i)"
    "res = (if phaseOf sts (desiredReplicas i) \<noteq> PhaseRunning then zero_Result\<lparr>res_RequeueAfter := 10 * second\<rparr> else zero_Result)"
    "\<And>h0. realised (r_lib r) i h0 (V w) \<Longrightarrow> prune_done i (V w) \<Longrightarrow> agrees (V w') (V w)"
proof -
  obtain w1 where get: "kc_Get (r_TlnDB r) k w = (Inr i, w1)"
    using serving_instancesD(1) [OF servingD(2) [OF up] d] by (cases "kc_Get (r_TlnDB r) k w") auto
  have DV: "D w1 = D w" "V w1 = V w"
    using serving_instancesD(2) [OF servingD(2) [OF up]] tlndb_lawsD(1) [OF env_lawsD(3) [OF env]] get by (metis snd_conv)+
  have st: "stored_live i (D w1)" using d DV lv k by (auto simp: stored_live_def)
  have fin: "om_DeletionTimestamp (db_Meta i) = None" "r_ContainsFinalizer r (db_Meta i) FinalizerName"
    using lv servingD(1) [OF up] by (auto simp: live_def helper_laws_def)
  obtain j w2 where j: "reconcileInstance r i w1 = reconcilePresent r j w2" "same_object j i" "stored_live i (D w2)" "V w2 = V w1"
  proof (cases "sta_Phase (db_Status i) = []")
    case True
    from setPhase_live [OF env up same_object_refl st, of PhaseProvisioning] obtain j w2 where
      "setPhase r i PhaseProvisioning w1 = (None, j, w2)" "same_object j i" "stored_live i (D w2)" "V w2 = V w1" by metis
    then show thesis using that True fin by (simp add: reconcileInstance_def)
  next
    case False
    then show thesis using that [of i w1] st fin by (simp add: reconcileInstance_def)
  qed
  have "fits i (V w2)" using f DV j(4) by simp
  from reconcileResources_succeeds [OF env up j(2,3) this] obtain j' w3 h where rr: "reconcileResources r j w2 = (None, j', w3)"
    "same_object j' i" "stored_live i (D w3)" "fits i (V w3)" "realised (r_lib r) j h (V w3)" by metis
  have real: "realised (r_lib r) i h (V w3)" using rr(5) realised_cong [OF j(2)] by simp
  obtain sts where sts: "V w3 (StatefulSetKind, db_Namespace i, primaryStatefulSetName i) = Some (KStatefulSet sts)"
    using primary_held [OF real] by blast
  from syncStatus_succeeds [OF env up rr(2,3) sts] obtain res j3 w4 where ss: "syncStatus r j' w3 = ((res, None), j3, w4)"
    "V w4 = V w3" "D w4 (db_key i) = Some j3" "live i j3" "sta_Phase (db_Status j3) = phaseOf sts (desiredReplicas i)"
    "res = (if phaseOf sts (desiredReplicas i) \<noteq> PhaseRunning then zero_Result\<lparr>res_RequeueAfter := 10 * second\<rparr> else zero_Result)"
    by metis
  have quiet: "agrees (V w4) (V w)" if "realised (r_lib r) i h0 (V w)" "prune_done i (V w)" for h0
  proof -
    have "realised (r_lib r) j h0 (V w2)" using that(1) realised_cong [OF j(2)] j(4) DV by simp
    moreover have "prune_done j (V w2)"
      using that(2) name_cong(5,10) [OF j(2)] same_objectD [OF j(2)] j(4) DV by (simp add: prune_done_def)
    ultimately have "agrees (V w3) (V w2)" using reconcileResources_quiet [OF env _ _ rr(1)] unfolding prune_done_def by blast
    then show ?thesis using ss(2) j(4) DV by simp
  qed
  have "Reconcile r k w = ((res, None), w4)"
    using get j(1) rr(1) ss(1) by (simp add: Reconcile_def reconcilePresent_def)
  then show thesis using ss rr(4) real sts k quiet by (intro that [of res w4 j3 h sts]) simp_all
qed

text \<open>Without the finalizer the call adds it and asks to be called again.\<close>

lemma update_stored:
  assumes up: "serving V D r" and cur: "D w (meta_key (db_Meta i)) = Some cur"
    and v: "om_ResourceVersion (db_Meta i) = om_ResourceVersion (db_Meta cur)"
  obtains i' w' where "kc_Update (r_TlnDB r) i w = (Inr i', w')"
    "D w' = (D w)(meta_key (db_Meta i) :=
       (if om_Finalizers (db_Meta i) = [] \<and> om_DeletionTimestamp (db_Meta cur) \<noteq> None then None else Some i'))"
    "same_object i' (i\<lparr>db_Spec := fillSpec (db_Spec i)\<rparr>)" "om_Finalizers (db_Meta i') = om_Finalizers (db_Meta i)"
    "om_DeletionTimestamp (db_Meta i') = om_DeletionTimestamp (db_Meta cur)"
proof -
  have "accepts_update D r" by (rule serving_instancesD(4) [OF servingD(2) [OF up]])
  then obtain i' where "fst (kc_Update (r_TlnDB r) i w) = Inr i'" "D (snd (kc_Update (r_TlnDB r) i w)) =
      (D w)(meta_key (db_Meta i) := (if om_Finalizers (db_Meta i) = [] \<and> om_DeletionTimestamp (db_Meta cur) \<noteq> None then None else Some i'))"
      "same_object i' (i\<lparr>db_Spec := fillSpec (db_Spec i)\<rparr>)" "om_Finalizers (db_Meta i') = om_Finalizers (db_Meta i)"
      "om_DeletionTimestamp (db_Meta i') = om_DeletionTimestamp (db_Meta cur)"
    using cur v unfolding accepts_update_def by blast
  then show thesis by (intro that [of i' "snd (kc_Update (r_TlnDB r) i w)"]) (simp_all add: prod_eq_iff)
qed

abbreviation filled :: "TlnDB \<Rightarrow> TlnDB" where
  "filled i \<equiv> i\<lparr>db_Spec := fillSpec (db_Spec i)\<rparr>"

lemma Reconcile_unfinalized:
  assumes env: "env_laws V r" and up: "serving V D r" and d: "D w k = Some i" and k: "db_key i = k"
    and del: "om_DeletionTimestamp (db_Meta i) = None" and fin: "FinalizerName \<notin> set (om_Finalizers (db_Meta i))"
  obtains w' i' where "Reconcile r k w = ((zero_Result\<lparr>res_Requeue := True\<rparr>, None), w')" "D w' k = Some i'"
    "live (filled i) i'" "V w' = V w"
proof -
  obtain w1 where get: "kc_Get (r_TlnDB r) k w = (Inr i, w1)"
    using serving_instancesD(1) [OF servingD(2) [OF up] d] by (cases "kc_Get (r_TlnDB r) k w") auto
  have DV: "D w1 = D w" "V w1 = V w"
    using serving_instancesD(2) [OF servingD(2) [OF up]] tlndb_lawsD(1) [OF env_lawsD(3) [OF env]] get by (metis snd_conv)+
  obtain fs where fs: "r_AddFinalizer r (db_Meta i) FinalizerName = (db_Meta i)\<lparr>om_Finalizers := fs\<rparr>" "FinalizerName \<in> set fs"
    using servingD(1) [OF up] unfolding helper_laws_def by blast
  let ?i = "i\<lparr>db_Meta := (db_Meta i)\<lparr>om_Finalizers := fs\<rparr>\<rparr>"
  have key: "D w1 (meta_key (db_Meta ?i)) = Some i" "meta_key (db_Meta ?i) = k" using k d DV(1) by (simp_all add: meta_key_def)
  obtain i' w2 where u: "kc_Update (r_TlnDB r) ?i w1 = (Inr i', w2)" "D w2 = (D w1)(k \<mapsto> i')"
      "same_object i' (filled ?i)" "om_Finalizers (db_Meta i') = fs" "om_DeletionTimestamp (db_Meta i') = None"
    using update_stored [OF up key(1)] del key(2) by auto
  have "\<not> r_ContainsFinalizer r (db_Meta i) FinalizerName" using fin servingD(1) [OF up] by (auto simp: helper_laws_def)
  then have "Reconcile r k w = ((zero_Result\<lparr>res_Requeue := True\<rparr>, None), w2)"
    using get u fs del by (simp add: Reconcile_def reconcileInstance_def updateInstance_def Let_def)
  moreover have "V w2 = V w" using tlndb_lawsD(3) [OF env_lawsD(3) [OF env], of ?i w1] u DV by simp
  moreover have "live (filled i) i'" using u(3-5) fs(2) by (simp add: live_def same_object_def)
  ultimately show thesis using that u(2) by simp
qed

lemma fillSpec_keeps [simp]:
  "spec_ConfigFrom (fillSpec s) = spec_ConfigFrom s" "spec_ServiceAccountName (fillSpec s) = spec_ServiceAccountName s"
  by (simp_all add: fillSpec_def)

lemma fits_filled: "fits (filled i) c = fits i c"
  by (simp add: fits_def BuildRoleBinding_def ResourceName_def)

text \<open>One call, whether the finalizer is there or not.\<close>

lemma Reconcile_any:
  assumes env: "env_laws V r" and up: "serving V D r" and d: "D w k = Some inst"
    and k: "meta_key (db_Meta inst) = k" and del: "om_DeletionTimestamp (db_Meta inst) = None" and f: "fits inst (V w)"
  obtains res w' i' where "Reconcile r k w = ((res, None), w')" "D w' k = Some i'"
    "live (if FinalizerName \<in> set (om_Finalizers (db_Meta inst)) then inst else filled inst) i'"
    "fits (if FinalizerName \<in> set (om_Finalizers (db_Meta inst)) then inst else filled inst) (V w')"
    "FinalizerName \<notin> set (om_Finalizers (db_Meta inst)) \<longrightarrow> res_Requeue res"
proof (cases "FinalizerName \<in> set (om_Finalizers (db_Meta inst))")
  case True
  have dk: "db_key inst = k" using k by (simp add: meta_key_def)
  have "live inst inst" using del True by (simp add: live_def)
  then show thesis by (rule Reconcile_live [OF env up d _ dk f]) (rule that, simp_all add: True)
next
  case False
  have dk: "db_key inst = k" using k by (simp add: meta_key_def)
  from Reconcile_unfinalized [OF env up d dk del False] obtain w' i' where
    "Reconcile r k w = ((zero_Result\<lparr>res_Requeue := True\<rparr>, None), w')" "D w' k = Some i'" "live (filled inst) i'" "V w' = V w" by metis
  then show thesis using that f False by (simp add: fits_filled)
qed

lemma live_again:
  assumes "db_key i = k" and "live i j" and "fits i c"
  shows "live j j" and "db_key j = k" and "fits j c"
proof -
  have same: "same_object j i" using assms(2) by (simp add: live_def)
  show "live j j" "db_key j = k" "fits j c"
    using assms same_objectD [OF same] builder_cong(3) [OF same] by (simp_all add: live_def fits_def)
qed

subsection \<open>The in-memory server serves\<close>

lemma mem_keeps_instances: "keeps_instances mem_instances (mem_client K into out key)"
  by (simp add: keeps_instances_def mem_client_def)

lemma mem_serving_client:
  assumes "\<And>x. valid x = kobject_valid (into x)"
  shows "serving_client mem_view (mem_client K into out key) K into key valid ver imm"
  using assms by (auto simp: serving_client_def mem_client_def split: option.splits)

lemma mem_serving_instances: "serving_instances mem_instances mem_reconciler"
proof -
  have "accepts_status mem_instances mem_reconciler"
    unfolding accepts_status_def
  proof (intro allI impI)
    fix m b w cur
    assume "mem_instances w (meta_key (db_Meta m)) = Some cur" and same: "same_object cur m"
    then have cur: "mem_dbs w (meta_key (db_Meta m)) = Some cur" "meta_key (db_Meta cur) = meta_key (db_Meta m)"
      using mem_instancesD by blast+
    then show "\<exists>i. fst (r_StatusPatch mem_reconciler m b w) = Inr i \<and>
        mem_instances (snd (r_StatusPatch mem_reconciler m b w)) = (mem_instances w)(meta_key (db_Meta m) \<mapsto> i) \<and>
        om_Finalizers (db_Meta i) = om_Finalizers (db_Meta cur) \<and>
        om_DeletionTimestamp (db_Meta i) = om_DeletionTimestamp (db_Meta cur)"
      using same by (simp add: mem_StatusPatch_def mem_instances_upd)
  qed
  moreover have "accepts_update mem_instances mem_reconciler"
    unfolding accepts_update_def
    by (auto simp: mem_TlnDB_def mem_Update_def mem_instances_upd mem_instances_remove meta_key_def same_object_def Let_def)
  ultimately show ?thesis
    unfolding serving_instances_def
    by (auto simp: mem_TlnDB_def mem_SetStatusCondition_def mem_instances_def split: option.split)
qed

lemma mem_serving: "serving mem_view mem_instances mem_reconciler"
proof -
  have "helper_laws mem_reconciler"
    unfolding helper_laws_def by auto
  then show ?thesis
    unfolding serving_def by (simp add: mem_serving_instances mem_keeps_instances mem_serving_client)
qed

subsection \<open>The property\<close>



end
