(* ===== verification/Invariants.thy ===== *)
theory Invariants
  imports Reconciled
begin

section \<open>Invariants of the calls\<close>

text \<open>
  What every call of the client keeps, the reconciler keeps. The interface \<open>resource_invariant\<close>
  is about a relation between the operator's copy of the instance and the world, kept by the
  calls that \<^verbatim>\<open>reconcileResources\<close> makes; \<open>call_invariant\<close> is about a property of the world
  alone and covers all of \<^verbatim>\<open>Reconcile\<close>. They are used for the life of an instance, for what a
  call leaves alone of other instances, and for the permissions it uses.
\<close>

subsection \<open>reconcileResources\<close>

text \<open>The three calls the create-or-update methods make.\<close>

definition keeps_calls :: "(TlnDB \<Rightarrow> 'w \<Rightarrow> bool) \<Rightarrow> ('o, 'w) kclient \<Rightarrow> bool" where
  "keeps_calls I c \<longleftrightarrow>
     (\<forall>i k w. I i w \<longrightarrow> I i (snd (kc_Get c k w))) \<and> (\<forall>i x w. I i w \<longrightarrow> I i (snd (kc_Create c x w))) \<and>
     (\<forall>i x w. I i w \<longrightarrow> I i (snd (kc_Update c x w)))"

lemma keeps_callsI:
  assumes "\<And>i k w. I i w \<Longrightarrow> I i (snd (kc_Get c k w))" and "\<And>i x w. I i w \<Longrightarrow> I i (snd (kc_Create c x w))"
    and "\<And>i x w. I i w \<Longrightarrow> I i (snd (kc_Update c x w))"
  shows "keeps_calls I c"
  using assms unfolding keeps_calls_def by blast

lemma keeps_callsD:
  assumes "keeps_calls I c" and "I i w"
  shows "I i (snd (kc_Get c k w))" "I i (snd (kc_Create c x w))" "I i (snd (kc_Update c x w))"
  using assms unfolding keeps_calls_def by blast+

lemma upsert_keeps:
  assumes c: "keeps_calls I c" and ev: "\<And>x w. I i w \<Longrightarrow> I i (po_created p x w)" "\<And>x w. I i w \<Longrightarrow> I i (po_updated p x w)"
    and i: "I i w"
  shows "I i (snd (upsert c p d w))"
proof -
  obtain res w' where u: "upsert c p d w = (res, w')" by force
  note K = keeps_callsD [OF c]
  have "I i w'"
    using u
  proof (cases rule: upsert_cases)
    case (create d1 e)
    then show ?thesis using K(2) [OF ev(1) [OF K(1) [OF i]]] by (metis snd_conv)
  next
    case (update d1 ex u1)
    then show ?thesis using K(3) [OF ev(2) [OF K(1) [OF i]]] by (metis snd_conv)
  qed (simp_all add: i K(1) [OF i])
  then show ?thesis using u by simp
qed

text \<open>Stages that keep a relation.\<close>

definition kept_by :: "(TlnDB \<Rightarrow> 'w \<Rightarrow> bool) \<Rightarrow> 'w stage \<Rightarrow> bool" where
  "kept_by I f \<longleftrightarrow> (\<forall>s e s'. I (rs_inst s) (rs_world s) \<longrightarrow> f s = (e, s') \<longrightarrow> I (rs_inst s') (rs_world s'))"

lemma kept_byI:
  "(\<And>s e s'. I (rs_inst s) (rs_world s) \<Longrightarrow> f s = (e, s') \<Longrightarrow> I (rs_inst s') (rs_world s')) \<Longrightarrow> kept_by I f"
  unfolding kept_by_def by blast

lemma kept_byD: "kept_by I f \<Longrightarrow> I (rs_inst s) (rs_world s) \<Longrightarrow> f s = (e, s') \<Longrightarrow> I (rs_inst s') (rs_world s')"
  unfolding kept_by_def by blast

lemma kept_run: "(\<And>f. f \<in> set fs \<Longrightarrow> kept_by I f) \<Longrightarrow> kept_by I (run fs)"
proof (induction fs)
  case Nil
  show ?case by (rule kept_byI) simp
next
  case (Cons f fs)
  have f: "kept_by I f" "kept_by I (run fs)" using Cons by simp_all
  show ?case
  proof (rule kept_byI)
    fix s e s'
    assume i: "I (rs_inst s) (rs_world s)" and r: "run (f # fs) s = (e, s')"
    obtain e1 s1 where f1: "f s = (e1, s1)" by force
    note i1 = kept_byD [OF f(1) i f1]
    show "I (rs_inst s') (rs_world s')" using r f1 i1 kept_byD [OF f(2) i1] by (cases e1) auto
  qed
qed

lemma kept_only_if: "kept_by I f \<Longrightarrow> kept_by I (only_if b f)"
  by (rule kept_byI) (auto simp: only_if_def dest: kept_byD split: if_splits)

definition keeps_cou :: "(TlnDB \<Rightarrow> 'w \<Rightarrow> bool) \<Rightarrow> (TlnDB \<Rightarrow> 'o \<Rightarrow> 'w \<Rightarrow> (error + 'o) \<times> 'w) \<Rightarrow> bool" where
  "keeps_cou I cou \<longleftrightarrow> (\<forall>i j d w. I i w \<longrightarrow> I i (snd (cou j d w)))"

lemma keeps_couD: "keeps_cou I cou \<Longrightarrow> I i w \<Longrightarrow> cou j d w = (res, w') \<Longrightarrow> I i w'"
  unfolding keeps_cou_def by (metis snd_conv)

lemma kept_ensure:
  assumes "keeps_cou I cou"
  shows "kept_by I (ensure what kindName nameOf cou build)"
proof (rule kept_byI)
  fix s e s'
  assume i: "I (rs_inst s) (rs_world s)" and run: "ensure what kindName nameOf cou build s = (e, s')"
  obtain res w where c: "cou (rs_inst s) (build (rs_inst s)) (rs_world s) = (res, w)" by force
  then have "I (rs_inst s) w" using keeps_couD [OF assms i] by blast
  then show "I (rs_inst s') (rs_world s')" using run c by (auto simp: ensure_def split: sum.splits)
qed

locale resource_invariant =
  fixes r :: "'w reconciler" and I :: "TlnDB \<Rightarrow> 'w \<Rightarrow> bool"
  assumes clients: "keeps_calls I (r_ConfigMap r)" "keeps_calls I (r_ServiceAccount r)" "keeps_calls I (r_Role r)"
      "keeps_calls I (r_RoleBinding r)" "keeps_calls I (r_StatefulSet r)" "keeps_calls I (r_Service r)"
      "keeps_calls I (r_Ingress r)" "keeps_calls I (r_NetworkPolicy r)" "keeps_calls I (r_PDB r)" "keeps_calls I (r_HPA r)"
    and unstructured: "keeps_calls I (r_Unstructured r g)"
    and delete: "I i w \<Longrightarrow> I i (snd (kc_Delete (r_StatefulSet r) x w))"
    and event: "I i w \<Longrightarrow> I i (r_Eventf r j ty re msg w)"
    and now: "I i w \<Longrightarrow> I i (snd (r_Now r w))"
    and cond: "I i w \<Longrightarrow> I i (snd (r_SetStatusCondition r cs c w))"
    and status: "I (i\<lparr>db_Status := st\<rparr>) w = I i w"
    and patch: "I m w \<Longrightarrow> sta_Phase (db_Status m) = sta_Phase (db_Status b) \<Longrightarrow> r_StatusPatch r m b w = (res, w') \<Longrightarrow>
        I m w' \<and> (\<forall>j. res = Inr j \<longrightarrow> I j w')"
begin

lemma kept_condition: "kept_by I (condition r t st re msg)"
proof (rule kept_byI)
  fix s e s'
  assume i: "I (rs_inst s) (rs_world s)" and run: "condition r t st re msg s = (e, s')"
  obtain cs w1 where c: "r_SetStatusCondition r (sta_Conditions (db_Status (rs_inst s)))
      (mkCondition (rs_inst s) t st re msg) (rs_world s) = (cs, w1)" by force
  let ?m = "(rs_inst s)\<lparr>db_Status := (db_Status (rs_inst s))\<lparr>sta_Conditions := cs\<rparr>\<rparr>"
  have "I ?m w1" using cond [OF i] c status by (metis snd_conv)
  moreover obtain res w2 where p: "r_StatusPatch r ?m (rs_inst s) w1 = (res, w2)" by force
  ultimately have "I ?m w2" "\<And>j. res = Inr j \<Longrightarrow> I j w2" using patch [OF _ _ p] by simp_all
  then show "I (rs_inst s') (rs_world s')"
    using run c p by (auto simp: condition_def setCondition_def Let_def split: sum.splits)
qed

text \<open>Every create-or-update method keeps the relation, for whatever copy.\<close>

lemma upserts_keep:
  "keeps_cou I (createOrUpdateConfigMap r)" "keeps_cou I (createOrUpdateServiceAccount r)"
  "keeps_cou I (createOrUpdateRole r)" "keeps_cou I (createOrUpdateRoleBinding r)"
  "keeps_cou I (createOrUpdateStatefulSet r)" "keeps_cou I (createOrUpdateService r)"
  "keeps_cou I (createOrUpdateIngress r)" "keeps_cou I (createOrUpdateNetworkPolicy r)"
  "keeps_cou I (createOrUpdatePDB r)" "keeps_cou I (createOrUpdateHPA r)"
  unfolding keeps_cou_def upsert_eqs by (simp_all add: policy_defs upsert_keeps clients event)

lemma ServiceMonitor_keeps: "keeps_cou I (createOrUpdateServiceMonitor r)"
  unfolding keeps_cou_def
proof (intro allI impI)
  fix i j d w
  assume i: "I i w"
  note K = keeps_callsD [OF unstructured]
  have get: "I i w1" if "kc_Get (r_Unstructured r g) k w = (x, w1)" for g k x w1
    using K(1) [OF i] that by (metis snd_conv)
  show "I i (snd (createOrUpdateServiceMonitor r j d w))"
    by (auto simp: createOrUpdateServiceMonitor_def Let_def split: prod.split sum.split dest!: get intro: K(2,3))
qed

lemma kept_Config: "kept_by I (stageConfig r)"
proof (rule kept_byI)
  fix s e s'
  assume i: "I (rs_inst s) (rs_world s)" and run: "stageConfig r s = (e, s')"
  show "I (rs_inst s') (rs_world s')"
  proof (cases "spec_ConfigFrom (db_Spec (rs_inst s))")
    case None
    obtain res w where c: "createOrUpdateConfigMap r (rs_inst s) (BuildConfigMap (r_lib r) (rs_inst s)) (rs_world s) = (res, w)"
      by force
    then have "I (rs_inst s) w" using keeps_couD [OF upserts_keep(1) i] by blast
    then show ?thesis
      using run None c
      by (auto simp: stageConfig_def stageRenderedConfig_def split: sum.splits elim!: kept_byD [OF kept_condition, rotated])
  next
    case (Some n)
    obtain g w where g: "kc_Get (r_ConfigMap r) (db_Namespace (rs_inst s), n) (rs_world s) = (g, w)" by force
    have iw: "I (rs_inst s) w" using keeps_callsD(1) [OF clients(1) i] g by (metis snd_conv)
    let ?msg = "''referenced ConfigMap '' @ Quote (lib_IsPrint (r_lib r)) n @ '' not found''"
    obtain e1 s1 where c1: "condition r ConditionConfigMapReady ConditionFalse ''ExternalConfigMapNotFound'' ?msg
        (s\<lparr>rs_world := w\<rparr>) = (e1, s1)" by force
    have "I (rs_inst s1) (rs_world s1)" using kept_byD [OF kept_condition _ c1] iw by simp
    then show ?thesis
      using run Some g c1 iw
      by (auto simp: stageConfig_def stageExternalConfig_def Let_def split: sum.splits if_splits option.splits
          elim!: kept_byD [OF kept_condition, rotated])
  qed
qed

lemma kept_prune: "kept_by I (stagePruneFollowers r)"
proof (rule kept_byI)
  fix s e s'
  assume i: "I (rs_inst s) (rs_world s)" and run: "stagePruneFollowers r s = (e, s')"
  obtain g w where g: "kc_Get (r_StatefulSet r) (db_Namespace (rs_inst s), FollowerStatefulSetName (rs_inst s)) (rs_world s) = (g, w)"
    by force
  have iw: "I (rs_inst s) w" using keeps_callsD(1) [OF clients(5) i] g by (metis snd_conv)
  have "rs_inst s' = rs_inst s" "rs_world s' = w \<or> (\<exists>ex. rs_world s' = snd (kc_Delete (r_StatefulSet r) ex w))"
    using run g
    by (auto simp: stagePruneFollowers_def deleteStatefulSetIfExists_def split: sum.splits if_splits option.splits prod.splits)
      (metis snd_conv)+
  then show "I (rs_inst s') (rs_world s')" using iw delete [OF iw] by auto
qed

lemma kept_Workloads: "kept_by I (stageWorkloads r)"
proof -
  note ens = kept_ensure [OF upserts_keep(5)] kept_ensure [OF upserts_keep(6)] kept_condition
  have fol: "kept_by I (stageFollowers r h addr ret)" for h addr ret
    by (rule kept_byI)
      (auto simp: stageFollowers_def ensureStatefulSet_def dest: kept_byD [OF ens(1)] kept_byD [OF kept_prune] split: if_splits)
  have rep: "kept_by I (run [ensureStatefulSet r ''leader StatefulSet'' (\<lambda>inst. BuildLeaderStatefulSet (r_lib r) inst h ret),
      stageFollowers r h addr ret, ensureService r ''write Service'' BuildWriteService,
      ensureService r ''read Service'' BuildReadService,
      condition r ConditionServiceReady ConditionTrue ''ServiceReady'' ''Services reconciled''])" for h addr ret
    using ens fol by (intro kept_run) (auto simp: ensureStatefulSet_def ensureService_def)
  have alone: "kept_by I (run [ensureStatefulSet r ''StatefulSet'' (\<lambda>inst. BuildStatefulSet (r_lib r) inst h),
      ensureService r ''service'' BuildService,
      condition r ConditionServiceReady ConditionTrue ''ServiceReady'' ''Service reconciled''])" for h
    using ens by (intro kept_run) (auto simp: ensureStatefulSet_def ensureService_def)
  show ?thesis
  proof (rule kept_byI)
    fix s e s'
    assume i: "I (rs_inst s) (rs_world s)" and run: "stageWorkloads r s = (e, s')"
    show "I (rs_inst s') (rs_world s')"
    proof (cases "Replicated (rs_inst s)")
      case True
      show ?thesis
        by (rule kept_byD [OF rep i]) (use run True in \<open>simp only: stageWorkloads_def stageReplicated_def Let_def if_True\<close>)
    next
      case False
      show ?thesis
        by (rule kept_byD [OF alone i]) (use run False in \<open>simp only: stageWorkloads_def stageStandalone_def Let_def if_False\<close>)
    qed
  qed
qed

lemma kept_ServiceMonitor: "kept_by I (stageServiceMonitor r)"
  unfolding stageServiceMonitor_def
proof (rule kept_only_if, rule kept_byI, goal_cases)
  case (1 s e s')
  obtain res w where c: "createOrUpdateServiceMonitor r (rs_inst s) (BuildServiceMonitor (rs_inst s)) (rs_world s) = (res, w)"
    by force
  then have "I (rs_inst s) w" using keeps_couD [OF ServiceMonitor_keeps 1(1)] by blast
  then show ?case using 1(2) c by (cases res) (auto elim!: kept_byD [OF kept_condition, rotated])
qed

lemma patchStatus_keeps:
  assumes "I m w" and "sta_Phase (db_Status m) = sta_Phase (db_Status b)" and "patchStatus r m b w = (e, i, w')"
  shows "I i w'"
proof -
  obtain res w1 where p: "r_StatusPatch r m b w = (res, w1)" by force
  then show ?thesis
    using assms(3) patch [OF assms(1,2) p] by (auto simp: patchStatus_def split: sum.splits if_splits)
qed

lemma kept_Persist: "kept_by I (stagePersist r)"
proof (rule kept_byI)
  fix s e s'
  assume i: "I (rs_inst s) (rs_world s)" and run: "stagePersist r s = (e, s')"
  obtain t w1 where t: "r_Now r (rs_world s) = (t, w1)" by force
  let ?m = "(rs_inst s)\<lparr>db_Status := (db_Status (rs_inst s))\<lparr>sta_ManagedResources := sort (rs_managed s),
      sta_CurrentImage := ImageRef (spec_Image (db_Spec (rs_inst s))), sta_LastUpdateTime := Some t,
      sta_ObservedGeneration := om_Generation (db_Meta (rs_inst s))\<rparr>\<rparr>"
  have "I ?m w1" using now [OF i] t status by (metis snd_conv)
  moreover obtain e1 i1 w2 where p: "patchStatus r ?m (rs_inst s) w1 = (e1, i1, w2)" by (metis prod_cases3)
  ultimately have "I i1 w2" using patchStatus_keeps [OF _ _ p] by simp
  then show "I (rs_inst s') (rs_world s')" using run t p by (auto simp: stagePersist_def Let_def)
qed

lemma reconcileResources_keeps:
  assumes i: "I inst w" and run: "reconcileResources r inst w = (e, i', w')"
  shows "I i' w'"
proof -
  note ens = upserts_keep [THEN kept_ensure]
  have all: "kept_by I (run [stageRBAC r, stageConfig r, stageHeadless r, stageWorkloads r, stageIngress r,
      stageNetworkPolicy r, stageServiceMonitor r, stagePDB r, stageHPA r, stagePersist r])"
    using kept_Config kept_Workloads kept_ServiceMonitor kept_Persist kept_condition ens
    by (intro kept_run)
      (auto simp: stageRBAC_def stageHeadless_def ensureService_def stageIngress_def stageNetworkPolicy_def stagePDB_def
        stageHPA_def simp del: run.simps intro!: kept_only_if kept_run)
  obtain s' where s': "run [stageRBAC r, stageConfig r, stageHeadless r, stageWorkloads r, stageIngress r,
      stageNetworkPolicy r, stageServiceMonitor r, stagePDB r, stageHPA r, stagePersist r]
      \<lparr>rs_inst = inst, rs_managed = [], rs_hash = [], rs_world = w\<rparr> = (e, s')" "i' = rs_inst s'" "w' = rs_world s'"
    using run by (auto simp: reconcileResources_def simp del: run.simps split: prod.splits)
  show ?thesis using kept_byD [OF all _ s'(1)] i s'(2,3) by simp
qed

end

subsection \<open>Reconcile\<close>

text \<open>
  A property of the world that every call keeps, if calls that write an instance write the
  requested one only. The relation for the resources pairs it with the key.
\<close>

locale call_invariant =
  fixes r :: "'w reconciler" and k :: nsname and J :: "'w \<Rightarrow> bool"
  assumes calls: "keeps_calls (\<lambda>_. J) (r_ConfigMap r)" "keeps_calls (\<lambda>_. J) (r_ServiceAccount r)"
      "keeps_calls (\<lambda>_. J) (r_Role r)" "keeps_calls (\<lambda>_. J) (r_RoleBinding r)" "keeps_calls (\<lambda>_. J) (r_StatefulSet r)"
      "keeps_calls (\<lambda>_. J) (r_Service r)" "keeps_calls (\<lambda>_. J) (r_Ingress r)" "keeps_calls (\<lambda>_. J) (r_NetworkPolicy r)"
      "keeps_calls (\<lambda>_. J) (r_PDB r)" "keeps_calls (\<lambda>_. J) (r_HPA r)"
    and unstructured_calls: "keeps_calls (\<lambda>_. J) (r_Unstructured r g)"
    and delete_set: "J w \<Longrightarrow> J (snd (kc_Delete (r_StatefulSet r) x w))"
    and record_event: "J w \<Longrightarrow> J (r_Eventf r j ty re msg w)"
    and read_clock: "J w \<Longrightarrow> J (snd (r_Now r w))"
    and set_condition: "J w \<Longrightarrow> J (snd (r_SetStatusCondition r cs c w))"
    and get_instance: "J w \<Longrightarrow> J (snd (kc_Get (r_TlnDB r) k w))"
    and got_key: "fst (kc_Get (r_TlnDB r) k w) = Inr i \<Longrightarrow> meta_key (db_Meta i) = k"
    and update_instance: "J w \<Longrightarrow> meta_key (db_Meta i) = k \<Longrightarrow> J (snd (kc_Update (r_TlnDB r) i w))"
    and patch_instance: "J w \<Longrightarrow> meta_key (db_Meta i) = k \<Longrightarrow> J (snd (r_StatusPatch r i b w))"
    and patched_key: "fst (r_StatusPatch r i b w) = Inr j \<Longrightarrow> meta_key (db_Meta j) = meta_key (db_Meta i)"
    and finalizer_keys: "meta_key (r_AddFinalizer r m f) = meta_key m" "meta_key (r_RemoveFinalizer r m f) = meta_key m"
begin

lemma pair_calls: "keeps_calls (\<lambda>_. J) c \<Longrightarrow> keeps_calls (\<lambda>i w. meta_key (db_Meta i) = k \<and> J w) c"
  unfolding keeps_calls_def by blast

end

sublocale call_invariant \<subseteq> resource_invariant r "\<lambda>i w. meta_key (db_Meta i) = k \<and> J w"
proof
  fix m w b res w'
  assume "meta_key (db_Meta m) = k \<and> J w" "r_StatusPatch r m b w = (res, w')"
  then show "(meta_key (db_Meta m) = k \<and> J w') \<and> (\<forall>j. res = Inr j \<longrightarrow> meta_key (db_Meta j) = k \<and> J w')"
    using patch_instance [of w m b] patched_key [of m b w] by auto
qed (simp_all add: pair_calls calls unstructured_calls delete_set record_event read_clock set_condition)

context call_invariant begin

lemma patchStatus_pair:
  assumes "J w" and "meta_key (db_Meta m) = k" and "patchStatus r m b w = (e, i, w')"
  shows "J w' \<and> meta_key (db_Meta i) = k"
proof -
  obtain res w1 where p: "r_StatusPatch r m b w = (res, w1)" by force
  then show ?thesis
    using assms patch_instance [of w m b] patched_key [of m b w] by (auto simp: patchStatus_def split: sum.splits if_splits)
qed

lemma setPhase_pair:
  assumes "J w" and "meta_key (db_Meta inst) = k" and "setPhase r inst ph w = (e, i, w')"
  shows "J w' \<and> meta_key (db_Meta i) = k"
proof -
  obtain t w1 where t: "r_Now r w = (t, w1)" by force
  have j: "J w1" using read_clock [OF assms(1)] t by (metis snd_conv)
  have "patchStatus r (inst\<lparr>db_Status := (db_Status inst)\<lparr>sta_Phase := ph, sta_LastUpdateTime := Some t\<rparr>\<rparr>) inst w1 = (e, i, w')"
    using assms(3) t by (simp add: setPhase_def Let_def)
  from patchStatus_pair [OF j _ this] show ?thesis using assms(2) by simp
qed

lemma updateInstance_pair:
  assumes "J w" and "meta_key (db_Meta i) = k" and "updateInstance r i w = (e, j, w')"
  shows "J w'"
  using update_instance [OF assms(1,2)] assms(3) by (auto simp: updateInstance_def split: prod.splits sum.splits)

lemma syncStatus_keeps:
  assumes j: "J w" and key: "meta_key (db_Meta inst) = k" and run: "syncStatus r inst w = (res, i, w')"
  shows "J w'"
proof -
  obtain g w1 where g: "kc_Get (r_StatefulSet r) (db_Namespace inst, primaryStatefulSetName inst) w = (g, w1)" by force
  have j1: "J w1" using keeps_callsD(1) [OF calls(5), of w] j g by (metis snd_conv)
  show ?thesis
  proof (cases g)
    case (Inl e)
    then show ?thesis using run g j1 by (auto simp: syncStatus_def split: if_splits)
  next
    case (Inr sts)
    let ?ph = "phaseOf sts (desiredReplicas inst)" and ?n = "st_ReadyReplicas (sts_Status sts)"
    let ?i = "inst\<lparr>db_Status := (db_Status inst)\<lparr>sta_ReadyReplicas := ?n, sta_Phase := ?ph\<rparr>\<rparr>"
    obtain i2 w2 where c: "setConditionOnInstance r ?i ConditionStatefulSetReady (readyCondition ?ph ?n (desiredReplicas inst)) w1 = (i2, w2)"
      by force
    then have c2: "J w2" "meta_key (db_Meta i2) = k"
      using set_condition [OF j1] key by (auto simp: setConditionOnInstance_def split: prod.splits) (metis snd_conv)
    obtain e i3 w3 where p: "patchStatus r i2 inst w2 = (e, i3, w3)" by (metis prod_cases3)
    have "w' = w3" using run g Inr c p by (auto simp: syncStatus_def Let_def split: option.splits if_splits)
    then show ?thesis using patchStatus_pair [OF c2 p] by simp
  qed
qed

lemma reconcileDeletion_keeps:
  assumes j: "J w" and key: "meta_key (db_Meta inst) = k" and run: "reconcileDeletion r inst w = (res, i, w')"
  shows "J w'"
proof -
  obtain e1 i1 w1 where p: "setPhase r inst PhaseTerminating w = (e1, i1, w1)" by (metis prod_cases3)
  note P = setPhase_pair [OF j key p]
  let ?i = "i1\<lparr>db_Meta := r_RemoveFinalizer r (db_Meta i1) FinalizerName\<rparr>"
  obtain e2 i2 w2 where u: "updateInstance r ?i w1 = (e2, i2, w2)" by (metis prod_cases3)
  have "J w2" using updateInstance_pair [OF _ _ u] P finalizer_keys(2) by simp
  then show ?thesis
    using run p u P j by (auto simp: reconcileDeletion_def Let_def split: if_splits option.splits)
qed

lemma reconcilePresent_keeps:
  assumes j: "J w" and key: "meta_key (db_Meta inst) = k" and run: "reconcilePresent r inst w = (res, i, w')"
  shows "J w'"
proof -
  obtain e i1 w1 where rr: "reconcileResources r inst w = (e, i1, w1)" by (metis prod_cases3)
  have K: "meta_key (db_Meta i1) = k" "J w1" using reconcileResources_keeps [OF _ rr] j key by simp_all
  show ?thesis
  proof (cases e)
    case None
    then show ?thesis using run rr syncStatus_keeps [OF K(2,1)] by (simp add: reconcilePresent_def)
  next
    case (Some err)
    let ?w = "r_Eventf r i1 ''Warning'' ''ReconcileError'' (''Failed to reconcile resources: '' @ Error err) w1"
    obtain e2 i2 w2 where p: "setPhase r i1 PhaseFailed ?w = (e2, i2, w2)" by (metis prod_cases3)
    then show ?thesis
      using run rr Some setPhase_pair [OF record_event [OF K(2)] K(1) p] by (auto simp: reconcilePresent_def Let_def)
  qed
qed

lemma reconcileInstance_keeps:
  assumes j: "J w" and key: "meta_key (db_Meta inst) = k" and run: "reconcileInstance r inst w = (res, i, w')"
  shows "J w'"
proof -
  let ?i = "inst\<lparr>db_Meta := r_AddFinalizer r (db_Meta inst) FinalizerName\<rparr>"
  obtain e1 i1 w1 where u: "updateInstance r ?i w = (e1, i1, w1)" by (metis prod_cases3)
  obtain e2 i2 w2 where p: "setPhase r inst PhaseProvisioning w = (e2, i2, w2)" by (metis prod_cases3)
  have "J w1" using updateInstance_pair [OF j _ u] key finalizer_keys(1) by simp
  moreover note setPhase_pair [OF j key p]
  ultimately show ?thesis
    using run u p reconcileDeletion_keeps [OF j key] reconcilePresent_keeps j key
    by (auto simp: reconcileInstance_def Let_def split: if_splits option.splits)
qed

lemma Reconcile_keeps:
  assumes j: "J w"
  shows "J (snd (Reconcile r k w))"
proof -
  obtain g w1 where g: "kc_Get (r_TlnDB r) k w = (g, w1)" by force
  have j1: "J w1" using get_instance [OF j] g by simp
  show ?thesis
  proof (cases g)
    case (Inl e)
    then show ?thesis using g j1 by (simp add: Reconcile_def)
  next
    case (Inr inst)
    then have "meta_key (db_Meta inst) = k" using got_key [of w inst] g by simp
    moreover obtain res i w2 where ri: "reconcileInstance r inst w1 = (res, i, w2)" by (metis prod_cases3)
    ultimately show ?thesis using reconcileInstance_keeps [OF j1 _ ri] g Inr by (simp add: Reconcile_def)
  qed
qed

end

end
