(* ===== verification/Lifecycle.thy ===== *)
theory Lifecycle
  imports Liveness Invariants
begin

section \<open>The life of an instance, with others at work\<close>

text \<open>
  \<^verbatim>\<open>Reconcile\<close> is not alone: users edit, delete and recreate instances between any two of its
  calls. Here every call may be preceded and followed by such interference (\<open>drifts\<close>), a
  status patch is a merge patch against whatever is stored by then, and an Update may hit
  an instance that was marked for deletion in the meantime. The system is the step
  relation \<open>life_step\<close>; an invariant relates phase, finalizer and deletion timestamp of
  every stored instance in every reachable state.
\<close>

subsection \<open>What others do\<close>

abbreviation fin :: "TlnDB \<Rightarrow> bool" where
  "fin i \<equiv> FinalizerName \<in> set (om_Finalizers (db_Meta i))"
abbreviation deleting :: "TlnDB \<Rightarrow> bool" where
  "deleting i \<equiv> om_DeletionTimestamp (db_Meta i) \<noteq> None"
abbreviation phase :: "TlnDB \<Rightarrow> string" where
  "phase i \<equiv> sta_Phase (db_Status i)"

text \<open>
  One entry of the store. Edits leave the status and the operator's finalizer alone and
  never revoke a deletion; an instance that carries the finalizer stays; one without it
  may disappear and be created again, with an empty status.
\<close>

fun drift :: "TlnDB option \<Rightarrow> TlnDB option \<Rightarrow> bool" where
  "drift None None \<longleftrightarrow> True"
| "drift None (Some j) \<longleftrightarrow> phase j = []"
| "drift (Some i) None \<longleftrightarrow> \<not> fin i"
| "drift (Some i) (Some j) \<longleftrightarrow>
     (phase j = phase i \<and> (fin i \<longrightarrow> fin j) \<and> (deleting i \<longrightarrow> deleting j)) \<or> (\<not> fin i \<and> phase j = [])"

definition drifts :: "instances \<Rightarrow> instances \<Rightarrow> bool" where
  "drifts d d' \<longleftrightarrow> (\<forall>k. drift (d k) (d' k))"

lemma drift_refl: "drift x x"
  by (cases x) simp_all

lemma drift_trans: "drift x y \<Longrightarrow> drift y z \<Longrightarrow> drift x z"
  by (cases x; cases y; cases z) auto

lemma drifts_refl [simp]: "drifts d d"
  by (simp add: drifts_def drift_refl)

lemma drifts_trans: "drifts d d1 \<Longrightarrow> drifts d1 d2 \<Longrightarrow> drifts d d2"
  unfolding drifts_def using drift_trans by blast

subsection \<open>What the calls do\<close>

definition calm :: "('w \<Rightarrow> instances) \<Rightarrow> ('o, 'w) kclient \<Rightarrow> bool" where
  "calm D c \<longleftrightarrow>
     (\<forall>k w. drifts (D w) (D (snd (kc_Get c k w)))) \<and> (\<forall>x w. drifts (D w) (D (snd (kc_Create c x w)))) \<and>
     (\<forall>x w. drifts (D w) (D (snd (kc_Update c x w)))) \<and> (\<forall>x w. drifts (D w) (D (snd (kc_Delete c x w))))"

text \<open>
  A merge patch of the status from \<open>b\<close> to \<open>m\<close>: the phase is written only if the two differ.
\<close>

definition applies :: "TlnDB \<Rightarrow> TlnDB \<Rightarrow> instances \<Rightarrow> instances \<Rightarrow> bool" where
  "applies m b d d' \<longleftrightarrow>
     (\<exists>cur j. d (meta_key (db_Meta m)) = Some cur \<and> d' = d(meta_key (db_Meta m) \<mapsto> j) \<and>
        (fin j \<longleftrightarrow> fin cur) \<and> (deleting j \<longleftrightarrow> deleting cur) \<and>
        phase j = (if phase m = phase b then phase cur else phase m))"

text \<open>
  An Update of the instance: finalizers as sent, status and deletion timestamp as stored;
  an instance being deleted whose last finalizer goes is removed.
\<close>

definition writes :: "TlnDB \<Rightarrow> instances \<Rightarrow> instances \<Rightarrow> bool" where
  "writes i d d' \<longleftrightarrow>
     (\<exists>cur. d (meta_key (db_Meta i)) = Some cur \<and>
        ((\<exists>j. d' = d(meta_key (db_Meta i) \<mapsto> j) \<and> (fin j \<longleftrightarrow> fin i) \<and> (deleting j \<longleftrightarrow> deleting cur) \<and> phase j = phase cur) \<or>
         (om_Finalizers (db_Meta i) = [] \<and> deleting cur \<and> d' = d(meta_key (db_Meta i) := None))))"

definition status_life :: "('w \<Rightarrow> instances) \<Rightarrow> 'w reconciler \<Rightarrow> bool" where
  "status_life D r \<longleftrightarrow>
     (\<forall>m b w res w'. r_StatusPatch r m b w = (res, w') \<longrightarrow>
        (case res of
           Inl e \<Rightarrow> drifts (D w) (D w') \<or> (\<exists>d1 d2. drifts (D w) d1 \<and> applies m b d1 d2 \<and> drifts d2 (D w'))
         | Inr i \<Rightarrow> meta_key (db_Meta i) = meta_key (db_Meta m) \<and>
             (\<exists>d1 d2 j. drifts (D w) d1 \<and> applies m b d1 d2 \<and> d2 (meta_key (db_Meta m)) = Some j \<and>
                (fin i \<longleftrightarrow> fin j) \<and> (deleting i \<longleftrightarrow> deleting j) \<and> drifts d2 (D w'))))"

definition update_life :: "('w \<Rightarrow> instances) \<Rightarrow> 'w reconciler \<Rightarrow> bool" where
  "update_life D r \<longleftrightarrow>
     (\<forall>i w. drifts (D w) (D (snd (kc_Update (r_TlnDB r) i w))) \<or>
        (\<exists>d1 d2. drifts (D w) d1 \<and> writes i d1 d2 \<and> drifts d2 (D (snd (kc_Update (r_TlnDB r) i w)))))"

definition get_life :: "('w \<Rightarrow> instances) \<Rightarrow> 'w reconciler \<Rightarrow> bool" where
  "get_life D r \<longleftrightarrow>
     (\<forall>k w res w'. kc_Get (r_TlnDB r) k w = (res, w') \<longrightarrow>
        (case res of
           Inl e \<Rightarrow> drifts (D w) (D w')
         | Inr i \<Rightarrow> meta_key (db_Meta i) = k \<and> (\<exists>d1. drifts (D w) d1 \<and> d1 k = Some i \<and> drifts d1 (D w'))))"

definition finalizer_laws :: "'w reconciler \<Rightarrow> bool" where
  "finalizer_laws r \<longleftrightarrow>
     (\<forall>m f. r_ContainsFinalizer r m f \<longleftrightarrow> f \<in> set (om_Finalizers m)) \<and>
     (\<forall>m f. \<exists>fs. r_AddFinalizer r m f = m\<lparr>om_Finalizers := fs\<rparr> \<and> f \<in> set fs) \<and>
     (\<forall>m f. \<exists>fs. r_RemoveFinalizer r m f = m\<lparr>om_Finalizers := fs\<rparr>)"

definition quiet_helpers :: "('w \<Rightarrow> instances) \<Rightarrow> 'w reconciler \<Rightarrow> bool" where
  "quiet_helpers D r \<longleftrightarrow>
     (\<forall>cs c w. drifts (D w) (D (snd (r_SetStatusCondition r cs c w)))) \<and>
     (\<forall>i t re m w. drifts (D w) (D (r_Eventf r i t re m w))) \<and>
     (\<forall>w. drifts (D w) (D (snd (r_Now r w))))"

definition life_laws :: "('w \<Rightarrow> instances) \<Rightarrow> 'w reconciler \<Rightarrow> bool" where
  "life_laws D r \<longleftrightarrow>
     status_life D r \<and> update_life D r \<and> get_life D r \<and> finalizer_laws r \<and> quiet_helpers D r \<and>
     (\<forall>g. calm D (r_Unstructured r g)) \<and> calm D (r_ConfigMap r) \<and> calm D (r_ServiceAccount r) \<and> calm D (r_Role r) \<and>
     calm D (r_RoleBinding r) \<and> calm D (r_StatefulSet r) \<and> calm D (r_Service r) \<and> calm D (r_Ingress r) \<and>
     calm D (r_NetworkPolicy r) \<and> calm D (r_PDB r) \<and> calm D (r_HPA r)"

lemma life_lawsD:
  assumes "life_laws D r"
  shows "status_life D r" "update_life D r" "get_life D r" "finalizer_laws r" "quiet_helpers D r"
    "calm D (r_Unstructured r g)" "calm D (r_ConfigMap r)" "calm D (r_ServiceAccount r)" "calm D (r_Role r)"
    "calm D (r_RoleBinding r)" "calm D (r_StatefulSet r)" "calm D (r_Service r)" "calm D (r_Ingress r)"
    "calm D (r_NetworkPolicy r)" "calm D (r_PDB r)" "calm D (r_HPA r)"
  using assms unfolding life_laws_def by blast+

lemma calmD:
  assumes "calm D c"
  shows "drifts (D w) (D (snd (kc_Get c k w)))" "drifts (D w) (D (snd (kc_Create c x w)))"
    "drifts (D w) (D (snd (kc_Update c x w)))" "drifts (D w) (D (snd (kc_Delete c x w)))"
  using assms unfolding calm_def by blast+

lemma quiet_helpersD:
  assumes "quiet_helpers D r"
  shows "drifts (D w) (D (snd (r_SetStatusCondition r cs c w)))" "drifts (D w) (D (r_Eventf r i t re m w))"
    "drifts (D w) (D (snd (r_Now r w)))"
  using assms unfolding quiet_helpers_def by blast+

subsection \<open>The system\<close>

inductive life_step :: "('w \<Rightarrow> instances) \<Rightarrow> 'w reconciler \<Rightarrow> 'w \<Rightarrow> 'w \<Rightarrow> bool" for D r where
  handle: "life_step D r w (snd (Reconcile r k w))"
| others: "drifts (D w) (D w') \<Longrightarrow> life_step D r w w'"

inductive life_reach :: "('w \<Rightarrow> instances) \<Rightarrow> 'w reconciler \<Rightarrow> 'w \<Rightarrow> bool" for D r where
  start: "(\<And>k i. D w k = Some i \<Longrightarrow> phase i = []) \<Longrightarrow> life_reach D r w"
| step: "life_reach D r w \<Longrightarrow> life_step D r w w' \<Longrightarrow> life_reach D r w'"

inductive_cases life_stepE: "life_step D r w w'"

text \<open>The invariant of a stored instance.\<close>

definition sound :: "TlnDB \<Rightarrow> bool" where
  "sound i \<longleftrightarrow>
     phase i \<in> {[], PhaseProvisioning, PhaseRunning, PhaseDegraded, PhaseFailed, PhaseTerminating} \<and>
     (phase i = PhaseTerminating \<longrightarrow> deleting i) \<and>
     (phase i \<noteq> [] \<longrightarrow> \<not> deleting i \<longrightarrow> fin i)"

definition all_sound :: "instances \<Rightarrow> bool" where
  "all_sound d \<longleftrightarrow> (\<forall>k i. d k = Some i \<longrightarrow> sound i)"

text \<open>
  The operator's copy \<open>inst\<close> of the instance carries the finalizer, and what it says of
  finalizer and deletion is still true of the stored one.
\<close>

definition tied :: "TlnDB \<Rightarrow> instances \<Rightarrow> bool" where
  "tied inst d \<longleftrightarrow> fin inst \<and>
     (\<exists>cur. d (meta_key (db_Meta inst)) = Some cur \<and> fin cur \<and> (deleting inst \<longrightarrow> deleting cur))"

lemma sound_new: "phase j = [] \<Longrightarrow> sound j"
  by (simp add: sound_def phase_defs)

lemma sound_drift: "drift (Some i) (Some j) \<Longrightarrow> sound i \<Longrightarrow> sound j"
  using sound_new [of j] by (auto simp: sound_def)

lemma all_soundD: "all_sound d \<Longrightarrow> d k = Some i \<Longrightarrow> sound i"
  unfolding all_sound_def by blast

lemma all_sound_upd: "all_sound d \<Longrightarrow> (\<And>i. x = Some i \<Longrightarrow> sound i) \<Longrightarrow> all_sound (d(k := x))"
  unfolding all_sound_def by (auto simp: fun_upd_apply)

lemma all_sound_drifts:
  assumes "drifts d d'" and "all_sound d"
  shows "all_sound d'"
  unfolding all_sound_def
proof (intro allI impI)
  fix k j
  assume "d' k = Some j"
  then have "drift (d k) (Some j)" using assms(1) unfolding drifts_def by metis
  then show "sound j" using all_soundD [OF assms(2)] sound_drift sound_new by (cases "d k") auto
qed

lemma tied_drifts:
  assumes "drifts d d'" and "tied inst d"
  shows "tied inst d'"
proof -
  obtain cur where cur: "d (meta_key (db_Meta inst)) = Some cur" "fin cur" "deleting inst \<longrightarrow> deleting cur" and f: "fin inst"
    using assms(2) by (auto simp: tied_def)
  have "drift (Some cur) (d' (meta_key (db_Meta inst)))" using assms(1) cur(1) unfolding drifts_def by metis
  then show ?thesis using cur f unfolding tied_def by (cases "d' (meta_key (db_Meta inst))") auto
qed

text \<open>The phases the operator may write into the instance it holds.\<close>

definition may_write :: "TlnDB \<Rightarrow> string \<Rightarrow> bool" where
  "may_write inst p \<longleftrightarrow> p \<in> {PhaseProvisioning, PhaseRunning, PhaseDegraded, PhaseFailed, PhaseTerminating} \<and>
     (p = PhaseTerminating \<longrightarrow> deleting inst)"

lemma applies_effect:
  assumes ap: "applies m b d d'" and snd: "all_sound d" and t: "tied m d"
    and p: "phase m = phase b \<or> may_write m (phase m)"
  shows "all_sound d'" "tied m d'"
proof -
  obtain cur j where cur: "d (meta_key (db_Meta m)) = Some cur" "d' = d(meta_key (db_Meta m) \<mapsto> j)" "fin j \<longleftrightarrow> fin cur"
    "deleting j \<longleftrightarrow> deleting cur" "phase j = (if phase m = phase b then phase cur else phase m)"
    using ap unfolding applies_def by blast
  have c: "fin cur" "deleting m \<longrightarrow> deleting cur" "sound cur"
    using t all_soundD [OF snd cur(1)] cur(1) by (auto simp: tied_def)
  have "sound j" using c cur(3-5) p by (auto simp: sound_def may_write_def split: if_splits)
  then show "all_sound d'" unfolding cur(2) by (intro all_sound_upd [OF snd]) simp
  show "tied m d'" using t c cur by (simp add: tied_def)
qed

lemma writes_effect:
  assumes w: "writes i d d'" and snd: "all_sound d"
    and ok: "fin i \<or> (\<forall>cur. d (meta_key (db_Meta i)) = Some cur \<longrightarrow> deleting cur)"
  shows "all_sound d'"
proof -
  obtain cur where cur: "d (meta_key (db_Meta i)) = Some cur"
    and d': "(\<exists>j. d' = d(meta_key (db_Meta i) \<mapsto> j) \<and> (fin j \<longleftrightarrow> fin i) \<and> (deleting j \<longleftrightarrow> deleting cur) \<and> phase j = phase cur) \<or>
      d' = d(meta_key (db_Meta i) := None)" using w unfolding writes_def by blast
  have "sound cur" by (rule all_soundD [OF snd cur])
  then have "sound j" if "fin j \<longleftrightarrow> fin i" "deleting j \<longleftrightarrow> deleting cur" "phase j = phase cur" for j
    using that ok cur by (auto simp: sound_def)
  then show ?thesis using d' by (auto intro!: all_sound_upd [OF snd])
qed

subsection \<open>Every call keeps the invariant\<close>

lemma patch_sound:
  assumes laws: "life_laws D r" and run: "r_StatusPatch r m b w = (res, w')"
    and snd: "all_sound (D w)" and t: "tied m (D w)"
    and p: "phase m = phase b \<or> may_write m (phase m)"
  shows "all_sound (D w')" "tied m (D w')" "res = Inr i \<Longrightarrow> tied i (D w')"
    "res = Inr i \<Longrightarrow> deleting m \<Longrightarrow> deleting i" "res = Inr i \<Longrightarrow> meta_key (db_Meta i) = meta_key (db_Meta m)"
proof -
  have L: "case res of
      Inl e \<Rightarrow> drifts (D w) (D w') \<or> (\<exists>d1 d2. drifts (D w) d1 \<and> applies m b d1 d2 \<and> drifts d2 (D w'))
    | Inr i \<Rightarrow> meta_key (db_Meta i) = meta_key (db_Meta m) \<and>
        (\<exists>d1 d2 j. drifts (D w) d1 \<and> applies m b d1 d2 \<and> d2 (meta_key (db_Meta m)) = Some j \<and>
           (fin i \<longleftrightarrow> fin j) \<and> (deleting i \<longleftrightarrow> deleting j) \<and> drifts d2 (D w'))"
    using life_lawsD(1) [OF laws] run unfolding status_life_def by blast
  have ap: "all_sound d2" "tied m d2" if "drifts (D w) d1" "applies m b d1 d2" for d1 d2
    using applies_effect [OF that(2) all_sound_drifts [OF that(1) snd] tied_drifts [OF that(1) t] p] by blast+
  show "all_sound (D w')" "tied m (D w')"
    using L snd t ap all_sound_drifts tied_drifts by (cases res; simp; metis)+
  show "res = Inr i \<Longrightarrow> meta_key (db_Meta i) = meta_key (db_Meta m)" using L by simp
  have "tied i (D w') \<and> (deleting m \<longrightarrow> deleting i)" if res: "res = Inr i"
  proof -
    obtain d1 d2 j where d: "drifts (D w) d1" "applies m b d1 d2" "d2 (meta_key (db_Meta m)) = Some j"
      "fin i \<longleftrightarrow> fin j" "deleting i \<longleftrightarrow> deleting j" "drifts d2 (D w')" "meta_key (db_Meta i) = meta_key (db_Meta m)"
      using L res by auto
    have "tied i d2" "deleting m \<longrightarrow> deleting i" using ap(2) [OF d(1,2)] d(3-5,7) by (auto simp: tied_def)
    then show ?thesis using tied_drifts [OF d(6)] by blast
  qed
  then show "res = Inr i \<Longrightarrow> tied i (D w')" "res = Inr i \<Longrightarrow> deleting m \<Longrightarrow> deleting i" by blast+
qed

lemma tied_status [simp]: "tied (inst\<lparr>db_Status := st\<rparr>) d = tied inst d"
  by (simp add: tied_def)

lemma may_write_status [simp]: "may_write (inst\<lparr>db_Status := st\<rparr>) p = may_write inst p"
  by (simp add: may_write_def)

definition kept :: "TlnDB \<Rightarrow> instances \<Rightarrow> bool" where
  "kept inst d \<longleftrightarrow> all_sound d \<and> tied inst d"

lemma kept_drifts: "drifts d d' \<Longrightarrow> kept inst d \<Longrightarrow> kept inst d'"
  unfolding kept_def using all_sound_drifts tied_drifts by blast

lemma kept_status [simp]: "kept (inst\<lparr>db_Status := st\<rparr>) d = kept inst d"
  by (simp add: kept_def)

lemma patchStatus_kept:
  assumes "life_laws D r" and "patchStatus r m b w = (e, i, w')" and "kept m (D w)"
    and "phase m = phase b \<or> may_write m (phase m)"
  shows "kept i (D w')" "deleting m \<Longrightarrow> deleting i"
proof -
  obtain res w1 where p: "r_StatusPatch r m b w = (res, w1)" by force
  then have "w' = w1" "(\<exists>j. res = Inr j \<and> i = j) \<or> i = m"
    using assms(2) by (auto simp: patchStatus_def split: sum.splits if_splits)
  then show "kept i (D w')" "deleting m \<Longrightarrow> deleting i"
    using patch_sound [OF assms(1) p _ _ assms(4)] assms(3) by (auto simp: kept_def)
qed

lemma setPhase_kept:
  assumes laws: "life_laws D r" and run: "setPhase r inst p w = (e, i, w')" and k: "kept inst (D w)" and p: "may_write inst p"
  shows "kept i (D w')" "deleting inst \<Longrightarrow> deleting i"
proof -
  obtain now w1 where now: "r_Now r w = (now, w1)" by force
  let ?m = "inst\<lparr>db_Status := (db_Status inst)\<lparr>sta_Phase := p, sta_LastUpdateTime := Some now\<rparr>\<rparr>"
  have "drifts (D w) (D w1)" using quiet_helpersD(3) [OF life_lawsD(5) [OF laws]] now by (metis snd_conv)
  then have "kept ?m (D w1)" using k kept_drifts by simp
  moreover have "patchStatus r ?m inst w1 = (e, i, w')" using run now by (simp add: setPhase_def Let_def)
  ultimately show "kept i (D w')" "deleting inst \<Longrightarrow> deleting i" using patchStatus_kept [OF laws] p by force+
qed

text \<open>
  So \<open>kept\<close> is an invariant of the calls of \<^verbatim>\<open>reconcileResources\<close>, which writes no phase.
\<close>

lemma calm_keeps:
  assumes "calm D c"
  shows "keeps_calls (\<lambda>i w. kept i (D w)) c"
  by (rule keeps_callsI; erule kept_drifts [rotated]) (rule calmD [OF assms])+

lemma life_invariant:
  assumes laws: "life_laws D r"
  shows "resource_invariant r (\<lambda>i w. kept i (D w))"
proof
  fix m w b res w'
  assume k: "kept m (D w)" and ph: "sta_Phase (db_Status m) = sta_Phase (db_Status b)" and p: "r_StatusPatch r m b w = (res, w')"
  have "all_sound (D w)" "tied m (D w)" using k by (simp_all add: kept_def)
  from patch_sound [OF laws p this] ph show "kept m (D w') \<and> (\<forall>j. res = Inr j \<longrightarrow> kept j (D w'))" by (simp add: kept_def)
next
  fix i w x
  show "kept i (D w) \<Longrightarrow> kept i (D (snd (kc_Delete (r_StatefulSet r) x w)))"
    using kept_drifts calmD(4) [OF life_lawsD(11) [OF laws]] by blast
next
  fix i w j ty re msg
  show "kept i (D w) \<Longrightarrow> kept i (D (r_Eventf r j ty re msg w))"
    using kept_drifts quiet_helpersD(2) [OF life_lawsD(5) [OF laws]] by blast
next
  fix i w
  show "kept i (D w) \<Longrightarrow> kept i (D (snd (r_Now r w)))"
    using kept_drifts quiet_helpersD(3) [OF life_lawsD(5) [OF laws]] by blast
next
  fix i w cs c
  show "kept i (D w) \<Longrightarrow> kept i (D (snd (r_SetStatusCondition r cs c w)))"
    using kept_drifts quiet_helpersD(1) [OF life_lawsD(5) [OF laws]] by blast
qed (simp_all add: calm_keeps life_lawsD [OF laws])

lemmas reconcileResources_kept = resource_invariant.reconcileResources_keeps [OF life_invariant]

subsection \<open>Reconcile\<close>

lemma syncStatus_kept:
  assumes laws: "life_laws D r" and k: "kept inst (D w)" and run: "syncStatus r inst w = (res, i, w')"
  shows "all_sound (D w')"
proof -
  obtain g w1 where g: "kc_Get (r_StatefulSet r) (db_Namespace inst, primaryStatefulSetName inst) w = (g, w1)" by force
  have "drifts (D w) (D w1)" using calmD(1) [OF life_lawsD(11) [OF laws]] g by (metis snd_conv)
  then have k1: "kept inst (D w1)" using k kept_drifts by blast
  show ?thesis
  proof (cases g)
    case (Inl e)
    then show ?thesis using run g k1 by (auto simp: syncStatus_def kept_def split: if_splits)
  next
    case (Inr sts)
    let ?ph = "phaseOf sts (desiredReplicas inst)" and ?n = "st_ReadyReplicas (sts_Status sts)"
    let ?j1 = "inst\<lparr>db_Status := (db_Status inst)\<lparr>sta_ReadyReplicas := ?n, sta_Phase := ?ph\<rparr>\<rparr>"
    obtain st re msg where fn: "readyCondition ?ph ?n (desiredReplicas inst) = (st, re, msg)" by (metis prod_cases3)
    obtain cs w2 where c: "r_SetStatusCondition r (sta_Conditions (db_Status ?j1)) (mkCondition ?j1 ConditionStatefulSetReady st re msg) w1
        = (cs, w2)" by force
    let ?m = "?j1\<lparr>db_Status := (db_Status ?j1)\<lparr>sta_Conditions := cs\<rparr>\<rparr>"
    have set: "setConditionOnInstance r ?j1 ConditionStatefulSetReady (readyCondition ?ph ?n (desiredReplicas inst)) w1 = (?m, w2)"
      using c unfolding fn setConditionOnInstance_def by simp
    have "drifts (D w1) (D w2)" using quiet_helpersD(1) [OF life_lawsD(5) [OF laws]] c by (metis snd_conv)
    then have "kept ?m (D w2)" using k1 kept_drifts by simp
    moreover have "may_write ?m (phase ?m)" by (auto simp: may_write_def phaseOf_def phase_defs)
    moreover obtain e i' w3 where p: "patchStatus r ?m inst w2 = (e, i', w3)" by (metis prod_cases3)
    ultimately have "kept i' (D w3)" using patchStatus_kept(1) [OF laws p] by blast
    moreover have "w' = w3" using run g Inr set p by (auto simp: syncStatus_def Let_def split: option.splits if_splits)
    ultimately show ?thesis by (simp add: kept_def)
  qed
qed

lemma updateInstance_sound:
  assumes laws: "life_laws D r" and snd: "all_sound (D w)"
    and ok: "fin i \<or> (\<forall>d cur. drifts (D w) d \<longrightarrow> d (meta_key (db_Meta i)) = Some cur \<longrightarrow> deleting cur)"
    and run: "updateInstance r i w = (e, i', w')"
  shows "all_sound (D w')"
proof -
  have w': "w' = snd (kc_Update (r_TlnDB r) i w)"
    using run by (auto simp: updateInstance_def split: prod.splits sum.splits)
  have "drifts (D w) (D w') \<or> (\<exists>d1 d2. drifts (D w) d1 \<and> writes i d1 d2 \<and> drifts d2 (D w'))"
    using life_lawsD(2) [OF laws] unfolding w' update_life_def by blast
  then show ?thesis
  proof (elim disjE exE conjE)
    fix d1 d2
    assume d: "drifts (D w) d1" "writes i d1 d2" "drifts d2 (D w')"
    have "all_sound d2" using writes_effect [OF d(2) all_sound_drifts [OF d(1) snd]] ok d(1) by blast
    then show ?thesis using all_sound_drifts d(3) by blast
  qed (rule all_sound_drifts [OF _ snd])
qed

lemma finalizer_lawsD:
  assumes "finalizer_laws r"
  shows "r_ContainsFinalizer r m f \<longleftrightarrow> f \<in> set (om_Finalizers m)"
    and "\<exists>fs. r_AddFinalizer r m f = m\<lparr>om_Finalizers := fs\<rparr> \<and> f \<in> set fs"
    and "\<exists>fs. r_RemoveFinalizer r m f = m\<lparr>om_Finalizers := fs\<rparr>"
  using assms unfolding finalizer_laws_def by blast+

lemma reconcileDeletion_sound:
  assumes laws: "life_laws D r" and k: "kept inst (D w)" and del: "deleting inst"
    and run: "reconcileDeletion r inst w = (res, i, w')"
  shows "all_sound (D w')"
proof -
  obtain e1 i1 w1 where p: "setPhase r inst PhaseTerminating w = (e1, i1, w1)" by (metis prod_cases3)
  have k1: "kept i1 (D w1)" "deleting i1"
    using setPhase_kept [OF laws p k] del by (simp_all add: may_write_def)
  obtain fs where fs: "r_RemoveFinalizer r (db_Meta i1) FinalizerName = (db_Meta i1)\<lparr>om_Finalizers := fs\<rparr>"
    using finalizer_lawsD(3) [OF life_lawsD(4) [OF laws]] by blast
  let ?i = "i1\<lparr>db_Meta := (db_Meta i1)\<lparr>om_Finalizers := fs\<rparr>\<rparr>"
  obtain e2 i2 w2 where u: "updateInstance r ?i w1 = (e2, i2, w2)" by (metis prod_cases3)
  have "deleting cur" if "drifts (D w1) d" "d (meta_key (db_Meta ?i)) = Some cur" for d cur
    using kept_drifts [OF that(1) k1(1)] that(2) k1(2) by (simp add: kept_def tied_def meta_key_def)
  then have "all_sound (D w2)"
    using updateInstance_sound [OF laws _ _ u] k1(1) unfolding kept_def by blast
  moreover have "w' = w1 \<or> w' = w2 \<or> w' = w"
    using run p u fs by (auto simp: reconcileDeletion_def split: option.splits if_splits)
  ultimately show ?thesis using k k1 by (auto simp: kept_def)
qed

lemma reconcilePresent_sound:
  assumes laws: "life_laws D r" and k: "kept inst (D w)" and run: "reconcilePresent r inst w = (res, i, w')"
  shows "all_sound (D w')"
proof -
  obtain e1 i1 w1 where r: "reconcileResources r inst w = (e1, i1, w1)" by (metis prod_cases3)
  have k1: "kept i1 (D w1)" by (rule reconcileResources_kept [OF laws k r])
  show ?thesis
  proof (cases e1)
    case None
    then show ?thesis using run r syncStatus_kept [OF laws k1] by (simp add: reconcilePresent_def)
  next
    case (Some e)
    let ?w = "r_Eventf r i1 ''Warning'' ''ReconcileError'' (''Failed to reconcile resources: '' @ Error e) w1"
    obtain e2 i2 w2 where p: "setPhase r i1 PhaseFailed ?w = (e2, i2, w2)" by (metis prod_cases3)
    have "kept i1 (D ?w)" using kept_drifts [OF quiet_helpersD(2) [OF life_lawsD(5) [OF laws]] k1] .
    moreover have "may_write i1 PhaseFailed" by (simp add: may_write_def phase_defs)
    ultimately have "kept i2 (D w2)" by (rule setPhase_kept(1) [OF laws p])
    then show ?thesis using run r Some p by (simp add: reconcilePresent_def Let_def kept_def)
  qed
qed

lemma Reconcile_sound:
  assumes laws: "life_laws D r" and snd: "all_sound (D w)"
  shows "all_sound (D (snd (Reconcile r k w)))"
proof -
  obtain g w1 where g: "kc_Get (r_TlnDB r) k w = (g, w1)" by force
  note G = life_lawsD(3) [OF laws, unfolded get_life_def, rule_format, OF g]
  show ?thesis
  proof (cases g)
    case (Inl e)
    then have "all_sound (D w1)" using G all_sound_drifts snd by auto
    then show ?thesis using g Inl by (simp add: Reconcile_def)
  next
    case (Inr inst)
    then obtain d1 where d1: "drifts (D w) d1" "d1 k = Some inst" "drifts d1 (D w1)" and key: "meta_key (db_Meta inst) = k"
      using G by auto
    have s1: "all_sound (D w1)" using all_sound_drifts d1 snd by blast
    have kept: "kept inst (D w1)" if "fin inst"
    proof -
      have "tied inst d1" using that d1(2) key by (simp add: tied_def)
      then show ?thesis using tied_drifts [OF d1(3)] s1 by (simp add: kept_def)
    qed
    note fin_iff = finalizer_lawsD(1) [OF life_lawsD(4) [OF laws], of "db_Meta inst" FinalizerName]
    obtain res i w' where run: "reconcileInstance r inst w1 = (res, i, w')" by (metis prod_cases3)
    have "all_sound (D w')"
    proof (cases "fin inst")
      case False
      obtain fs where fs: "r_AddFinalizer r (db_Meta inst) FinalizerName = (db_Meta inst)\<lparr>om_Finalizers := fs\<rparr>" "FinalizerName \<in> set fs"
        using finalizer_lawsD(2) [OF life_lawsD(4) [OF laws]] by blast
      let ?i = "inst\<lparr>db_Meta := (db_Meta inst)\<lparr>om_Finalizers := fs\<rparr>\<rparr>"
      obtain e i2 w2 where u: "updateInstance r ?i w1 = (e, i2, w2)" by (metis prod_cases3)
      have "all_sound (D w2)" using updateInstance_sound [OF laws s1 _ u] fs(2) by simp
      moreover have "w' = w1 \<or> w' = w2"
        using run False fin_iff fs u
        by (auto simp: reconcileInstance_def reconcileDeletion_def Let_def split: if_splits option.splits)
      ultimately show ?thesis using s1 by blast
    next
      case True
      note k = kept [OF True]
      obtain e1 i1 w2 where p: "setPhase r inst PhaseProvisioning w1 = (e1, i1, w2)" by (metis prod_cases3)
      have k1: "kept i1 (D w2)" by (rule setPhase_kept(1) [OF laws p k]) (simp add: may_write_def phase_defs)
      show ?thesis
        using run True fin_iff p k1 k reconcileDeletion_sound [OF laws k] reconcilePresent_sound [OF laws k]
          reconcilePresent_sound [OF laws k1]
        by (auto simp: reconcileInstance_def kept_def split: if_splits option.splits)
    qed
    then show ?thesis using g Inr run by (simp add: Reconcile_def)
  qed
qed

subsection \<open>A server with merge patches\<close>

text \<open>
  The in-memory server with status patches that are merged into what is stored.
\<close>

definition merge_StatusPatch :: "TlnDB \<Rightarrow> TlnDB \<Rightarrow> mem \<Rightarrow> (error + TlnDB) \<times> mem" where
  "merge_StatusPatch m b w = (case mem_instances w (meta_key (db_Meta m)) of
     None \<Rightarrow> (Inl (NotFoundErr ''not found''), w)
   | Some cur \<Rightarrow>
       (let j = cur\<lparr>db_Status := (db_Status m)\<lparr>sta_Phase := (if phase m = phase b then phase cur else phase m)\<rparr>\<rparr>
        in (Inr j, w\<lparr>mem_dbs := (mem_dbs w)(meta_key (db_Meta m) \<mapsto> j)\<rparr>)))"

definition life_env :: "mem reconciler" where
  "life_env = mem_reconciler\<lparr>r_StatusPatch := merge_StatusPatch\<rparr>"

lemma mem_calm: "calm mem_instances (mem_client K into out key)"
  using keeps_instancesD [OF mem_keeps_instances [of K into out key]] by (simp add: calm_def)

lemma life_env_status: "status_life mem_instances life_env"
  unfolding status_life_def
proof (intro allI impI)
  fix m b w res w'
  assume run: "r_StatusPatch life_env m b w = (res, w')"
  let ?k = "meta_key (db_Meta m)"
  show "case res of
      Inl e \<Rightarrow> drifts (mem_instances w) (mem_instances w') \<or>
        (\<exists>d1 d2. drifts (mem_instances w) d1 \<and> applies m b d1 d2 \<and> drifts d2 (mem_instances w'))
    | Inr i \<Rightarrow> meta_key (db_Meta i) = ?k \<and>
        (\<exists>d1 d2 j. drifts (mem_instances w) d1 \<and> applies m b d1 d2 \<and> d2 ?k = Some j \<and>
           (fin i \<longleftrightarrow> fin j) \<and> (deleting i \<longleftrightarrow> deleting j) \<and> drifts d2 (mem_instances w'))"
  proof (cases "mem_instances w ?k")
    case None
    then show ?thesis using run by (auto simp: life_env_def merge_StatusPatch_def)
  next
    case (Some cur)
    let ?j = "cur\<lparr>db_Status := (db_Status m)\<lparr>sta_Phase := (if phase m = phase b then phase cur else phase m)\<rparr>\<rparr>"
    have k: "meta_key (db_Meta ?j) = ?k" using mem_instancesD [OF Some] by simp
    have r: "res = Inr ?j" "w' = w\<lparr>mem_dbs := (mem_dbs w)(?k \<mapsto> ?j)\<rparr>"
      using run Some by (auto simp: life_env_def merge_StatusPatch_def Let_def)
    have w': "mem_instances w' = (mem_instances w)(?k \<mapsto> ?j)" unfolding r(2) using k by (rule mem_instances_upd)
    have "applies m b (mem_instances w) (mem_instances w')" unfolding applies_def w' using Some by (intro exI [of _ cur] exI [of _ ?j]) simp
    moreover have "mem_instances w' ?k = Some ?j" by (simp add: w')
    ultimately show ?thesis unfolding r(1) sum.case using k drifts_refl by blast
  qed
qed

lemma life_env_update: "update_life mem_instances life_env"
  unfolding update_life_def
proof (intro allI)
  fix i w
  let ?k = "meta_key (db_Meta i)" and ?w' = "snd (kc_Update (r_TlnDB life_env) i w)"
  show "drifts (mem_instances w) (mem_instances ?w') \<or>
      (\<exists>d1 d2. drifts (mem_instances w) d1 \<and> writes i d1 d2 \<and> drifts d2 (mem_instances ?w'))"
  proof (cases "mem_instances w ?k")
    case None
    then show ?thesis by (simp add: life_env_def mem_TlnDB_def mem_Update_def)
  next
    case (Some cur)
    let ?j = "i\<lparr>db_Spec := fillSpec (db_Spec i), db_Status := db_Status cur, db_Meta := (db_Meta i)\<lparr>om_DeletionTimestamp := om_DeletionTimestamp (db_Meta cur)\<rparr>\<rparr>"
    have k: "meta_key (db_Meta ?j) = ?k" by (simp add: meta_key_def)
    have "mem_instances ?w' = (if om_Finalizers (db_Meta i) = [] \<and> deleting cur then (mem_instances w)(?k := None)
        else (mem_instances w)(?k \<mapsto> ?j))"
      using Some mem_instances_upd [OF k, of w] mem_instances_remove [of w ?k]
      by (auto simp: life_env_def mem_TlnDB_def mem_Update_def Let_def)
    then have "writes i (mem_instances w) (mem_instances ?w')"
      unfolding writes_def using Some by (intro exI [of _ cur]) (auto intro!: exI [of _ ?j])
    then show ?thesis using drifts_refl by blast
  qed
qed

lemma life_env_laws: "life_laws mem_instances life_env"
proof -
  have "get_life mem_instances life_env"
    unfolding get_life_def life_env_def
    by (auto simp: mem_TlnDB_def mem_instances_def split: option.splits if_splits intro!: exI [of _ "mem_instances _"])
  moreover have "finalizer_laws life_env" by (auto simp: finalizer_laws_def life_env_def)
  moreover have "quiet_helpers mem_instances life_env"
    by (simp add: quiet_helpers_def life_env_def mem_SetStatusCondition_def)
  ultimately show ?thesis
    using life_env_status life_env_update unfolding life_laws_def by (simp add: life_env_def mem_calm)
qed

interpretation life_run: resource_invariant life_env "\<lambda>i w. kept i (mem_instances w)"
  by (rule life_invariant [OF life_env_laws])

subsection \<open>The property\<close>

text \<open>
  C6: the life of an instance. Start with instances whose status is empty, and let \<^verbatim>\<open>Reconcile\<close>
  run on any of them in any order while others create, edit, delete and recreate
  instances between any two of its calls. In every state that can be reached, every stored
  instance has one of the five phases the operator writes or none (never Pending), is
  Terminating only if it is being deleted, and, once it has a phase and is not being
  deleted, carries the finalizer, so its deletion will pass through the operator.
\<close>

theorem lifecycle_invariant:
  assumes "life_laws D r" and "life_reach D r w" and "D w k = Some inst"
  shows "sta_Phase (db_Status inst) \<in> {[], PhaseProvisioning, PhaseRunning, PhaseDegraded, PhaseFailed, PhaseTerminating} \<and>
    (sta_Phase (db_Status inst) = PhaseTerminating \<longrightarrow> om_DeletionTimestamp (db_Meta inst) \<noteq> None) \<and>
    (sta_Phase (db_Status inst) \<noteq> [] \<longrightarrow> om_DeletionTimestamp (db_Meta inst) = None \<longrightarrow>
       FinalizerName \<in> set (om_Finalizers (db_Meta inst)))"
proof -
  have "all_sound (D w)"
    using assms(2)
  proof (induction rule: life_reach.induct)
    case (start w)
    then show ?case unfolding all_sound_def using sound_new by blast
  next
    case (step w w')
    from step.hyps(2) show ?case
      by (cases rule: life_stepE) (use step.IH Reconcile_sound [OF assms(1)] all_sound_drifts in blast)+
  qed
  then have "sound inst" using assms(3) by (rule all_soundD)
  then show ?thesis by (auto simp: sound_def)
qed


theorem lifecycle_invariant_witness:
  "\<exists>inst. mem_instances (snd (Reconcile life_env (''ns1'', ''db1'') unfinalized_demo)) (''ns1'', ''db1'') = Some inst \<and>
     (sta_Phase (db_Status inst) = PhaseTerminating \<longrightarrow> om_DeletionTimestamp (db_Meta inst) \<noteq> None)"
proof -
  let ?w = "snd (Reconcile life_env (''ns1'', ''db1'') unfinalized_demo)"
  have "life_reach mem_instances life_env unfinalized_demo"
    by (rule life_reach.start)
      (auto simp: mem_instances_def unfinalized_demo_def zero_defs split: option.splits if_splits)
  then have reach: "life_reach mem_instances life_env ?w" by (rule life_reach.step [OF _ life_step.handle])
  have "\<exists>inst. mem_instances ?w (''ns1'', ''db1'') = Some inst"
    by (simp add: Reconcile_def reconcileInstance_def updateInstance_def life_env_def mem_Update_def mem_TlnDB_def
        mem_instances_def unfinalized_demo_def meta_key_def zero_defs Let_def)
  then show ?thesis using lifecycle_invariant [OF life_env_laws reach] by blast
qed

end
