(* ===== verification/Manager.thy ===== *)
theory Manager
  imports Lifecycle
begin

section \<open>Start-up and watches (cmd/main.go, SetupWithManager)\<close>

text \<open>
  The process: scheme registration, command line, manager options, and the sequence of
  calls that ends in the manager's loop; and the watches the controller registers.
  Package \<^verbatim>\<open>flag\<close> of the standard library is modelled (\<open>parseFlags\<close>); controller-runtime and
  the flags other packages bind to the command line are parameters.
\<close>

subsection \<open>Watches\<close>

record watch_plan =
  wp_For :: string
  wp_Owns :: "kind list"

definition watches :: watch_plan where
  "watches = \<lparr>wp_For = ''TlnDB'',
     wp_Owns = [StatefulSetKind, ServiceKind, ConfigMapKind, ServiceAccountKind, RoleKind, RoleBindingKind, IngressKind,
                NetworkPolicyKind, PDBKind, HPAKind]\<rparr>"

text \<open>\<open>complete\<close> is the builder's \<^verbatim>\<open>Complete\<close>: it registers controller and watches with the manager.\<close>

definition SetupWithManager :: "(watch_plan \<Rightarrow> 'm \<Rightarrow> error option \<times> 'm) \<Rightarrow> 'm \<Rightarrow> error option \<times> 'm" where
  "SetupWithManager complete mgr = complete watches mgr"

text \<open>
  The requests controller-runtime queues when an object of kind \<open>K\<close> with metadata \<open>m\<close>
  changes: for the kinds that are owned, one for each controlling owner of the watched
  kind; for other kinds none. \<^verbatim>\<open>SetControllerReference\<close> adds such an owner.
\<close>

definition enqueue_laws :: "(watch_plan \<Rightarrow> kind \<Rightarrow> ObjectMeta \<Rightarrow> nsname list) \<Rightarrow> bool" where
  "enqueue_laws enq \<longleftrightarrow>
     (\<forall>p K m ref. K \<in> set (wp_Owns p) \<longrightarrow> ref \<in> set (om_OwnerReferences m) \<longrightarrow> or_Controller ref = Some True \<longrightarrow>
        or_Kind ref = wp_For p \<longrightarrow> (om_Namespace m, or_Name ref) \<in> set (enq p K m)) \<and>
     (\<forall>p K m. K \<notin> set (wp_Owns p) \<longrightarrow> enq p K m = []) \<and>
     (\<forall>p K m. om_OwnerReferences m = [] \<longrightarrow> enq p K m = [])"

definition reference_laws :: "'w reconciler \<Rightarrow> bool" where
  "reference_laws r \<longleftrightarrow>
     (\<forall>i m m'. r_SetControllerReference r i m = Inr m' \<longrightarrow>
        om_Namespace m' = om_Namespace m \<and>
        (\<exists>ref \<in> set (om_OwnerReferences m'). or_Controller ref = Some True \<and> or_Kind ref = ''TlnDB'' \<and> or_Name ref = db_Name i))"

definition sample_enqueue :: "watch_plan \<Rightarrow> kind \<Rightarrow> ObjectMeta \<Rightarrow> nsname list" where
  "sample_enqueue p K m =
     (if K \<in> set (wp_Owns p)
      then map (\<lambda>ref. (om_Namespace m, or_Name ref))
             (filter (\<lambda>ref. or_Controller ref = Some True \<and> or_Kind ref = wp_For p) (om_OwnerReferences m))
      else [])"

lemma sample_enqueue_laws: "enqueue_laws sample_enqueue"
  by (auto simp: enqueue_laws_def sample_enqueue_def)

lemma mem_reference_laws: "reference_laws mem_reconciler"
  by (simp add: reference_laws_def mem_owner_def)

subsection \<open>The command line\<close>

record options =
  opt_metricsAddr :: string
  opt_probeAddr :: string
  opt_enableLeaderElection :: bool
  opt_secureMetrics :: bool
  opt_enableHTTP2 :: bool
  opt_extra :: "(string \<times> string) list"

definition defaultOptions :: options where
  "defaultOptions = \<lparr>opt_metricsAddr = ''0'', opt_probeAddr = '':8081'', opt_enableLeaderElection = False,
     opt_secureMetrics = True, opt_enableHTTP2 = False, opt_extra = []\<rparr>"

text \<open>
  The flags other packages bind (zap's logging flags, the client's \<^verbatim>\<open>kubeconfig\<close>): whether a
  name is bound, whether it is a boolean flag, and which values it accepts.
\<close>

type_synonym extra_flags = "string \<Rightarrow> (bool \<times> (string \<Rightarrow> bool)) option"

definition ParseBool :: "string \<Rightarrow> bool option" where
  "ParseBool s =
     (if s \<in> {''1'', ''t'', ''T'', ''TRUE'', ''true'', ''True''} then Some True
      else if s \<in> {''0'', ''f'', ''F'', ''FALSE'', ''false'', ''False''} then Some False
      else None)"

definition isBoolFlag :: "extra_flags \<Rightarrow> string \<Rightarrow> bool" where
  "isBoolFlag extra n =
     (if n \<in> {''metrics-bind-address'', ''health-probe-bind-address''} then False
      else if n \<in> {''leader-elect'', ''metrics-secure'', ''enable-http2''} then True
      else case extra n of Some (b, _) \<Rightarrow> b | None \<Rightarrow> False)"

definition isDefined :: "extra_flags \<Rightarrow> string \<Rightarrow> bool" where
  "isDefined extra n \<longleftrightarrow>
     n \<in> {''metrics-bind-address'', ''health-probe-bind-address'', ''leader-elect'', ''metrics-secure'', ''enable-http2''}
     \<or> extra n \<noteq> None"

text \<open>The Set methods of the flag values; None is an invalid value.\<close>

definition setFlag :: "extra_flags \<Rightarrow> string \<Rightarrow> string \<Rightarrow> options \<Rightarrow> options option" where
  "setFlag extra n v opts =
     (if n = ''metrics-bind-address'' then Some (opts\<lparr>opt_metricsAddr := v\<rparr>)
      else if n = ''health-probe-bind-address'' then Some (opts\<lparr>opt_probeAddr := v\<rparr>)
      else if n = ''leader-elect'' then map_option (\<lambda>b. opts\<lparr>opt_enableLeaderElection := b\<rparr>) (ParseBool v)
      else if n = ''metrics-secure'' then map_option (\<lambda>b. opts\<lparr>opt_secureMetrics := b\<rparr>) (ParseBool v)
      else if n = ''enable-http2'' then map_option (\<lambda>b. opts\<lparr>opt_enableHTTP2 := b\<rparr>) (ParseBool v)
      else case extra n of
             Some (_, accepts) \<Rightarrow> if accepts v then Some (opts\<lparr>opt_extra := opt_extra opts @ [(n, v)]\<rparr>) else None
           | None \<Rightarrow> None)"

text \<open>A flag's name and, after the first equals sign, its value.\<close>

definition splitFlag :: "string \<Rightarrow> string \<times> string option" where
  "splitFlag name =
     (case dropWhile (\<lambda>c. c \<noteq> CHR ''='') name of
        [] \<Rightarrow> (name, None)
      | _ # v \<Rightarrow> (takeWhile (\<lambda>c. c \<noteq> CHR ''='') name, Some v))"

text \<open>
  \<^verbatim>\<open>flag.Parse\<close> on \<^verbatim>\<open>flag.CommandLine\<close>, whose error handling is to exit: status 0 after a request
  for help, 2 otherwise. The result is the options and the arguments that are not flags.
\<close>

fun parseFlags :: "extra_flags \<Rightarrow> string list \<Rightarrow> options \<Rightarrow> int + (options \<times> string list)" where
  "parseFlags extra [] opts = Inr (opts, [])"
| "parseFlags extra (s # args) opts =
     (if length s < 2 \<or> hd s \<noteq> CHR ''-'' then Inr (opts, s # args)
      else if s = ''--'' then Inr (opts, args)
      else let name = (if s ! 1 = CHR ''-'' then drop 2 s else drop 1 s)
           in if name = [] \<or> hd name = CHR ''-'' \<or> hd name = CHR ''='' then Inl 2
              else let (n, v) = splitFlag name
                   in if \<not> isDefined extra n then Inl (if n = ''help'' \<or> n = ''h'' then 0 else 2)
                      else if isBoolFlag extra n
                      then (case setFlag extra n (case v of None \<Rightarrow> ''true'' | Some x \<Rightarrow> x) opts of
                              None \<Rightarrow> Inl 2 | Some opts' \<Rightarrow> parseFlags extra args opts')
                      else (case v of
                              Some x \<Rightarrow> (case setFlag extra n x opts of
                                          None \<Rightarrow> Inl 2 | Some opts' \<Rightarrow> parseFlags extra args opts')
                            | None \<Rightarrow>
                                (case args of
                                   [] \<Rightarrow> Inl 2
                                 | x # args' \<Rightarrow> (case setFlag extra n x opts of
                                                 None \<Rightarrow> Inl 2 | Some opts' \<Rightarrow> parseFlags extra args' opts'))))"

subsection \<open>The manager\<close>

record tls_config =
  tls_NextProtos :: "string list"
  tls_MinVersion :: int

definition VersionTLS12 :: int where "VersionTLS12 = 771"

definition tlsOpts :: "options \<Rightarrow> (tls_config \<Rightarrow> tls_config) list" where
  "tlsOpts opts =
     (if \<not> opt_enableHTTP2 opts
      then [\<lambda>c. c\<lparr>tls_NextProtos := [''http/1.1''], tls_MinVersion := VersionTLS12\<rparr>]
      else [])"

definition operatorNamespace :: "(string \<Rightarrow> string) \<Rightarrow> string" where
  "operatorNamespace getenv =
     (let ns = getenv ''TLNDB_OPERATOR_NAMESPACE'' in if ns = [] then ''tln-db-operator-system'' else ns)"

record manager_options =
  mo_MetricsBindAddress :: string
  mo_SecureServing :: bool
  mo_MetricsTLSOpts :: "(tls_config \<Rightarrow> tls_config) list"
  mo_WebhookTLSOpts :: "(tls_config \<Rightarrow> tls_config) list"
  mo_HealthProbeBindAddress :: string
  mo_LeaderElection :: bool
  mo_LeaderElectionID :: string
  mo_LeaderElectionNamespace :: string
  mo_LeaderElectionReleaseOnCancel :: bool

definition managerOptions :: "options \<Rightarrow> string \<Rightarrow> manager_options" where
  "managerOptions opts ns = \<lparr>
     mo_MetricsBindAddress = opt_metricsAddr opts, mo_SecureServing = opt_secureMetrics opts,
     mo_MetricsTLSOpts = tlsOpts opts, mo_WebhookTLSOpts = tlsOpts opts,
     mo_HealthProbeBindAddress = opt_probeAddr opts,
     mo_LeaderElection = opt_enableLeaderElection opts,
     mo_LeaderElectionID = ''tlndb-operator-leader.db.tlndb.io'',
     mo_LeaderElectionNamespace = ns, mo_LeaderElectionReleaseOnCancel = True\<rparr>"

text \<open>
  The operator's own API group: its group and version, and the types its package registers
  with the scheme builder when it is initialised.
\<close>

record group_version =
  gv_Group :: string
  gv_Version :: string

definition GroupVersion :: group_version where
  "GroupVersion = \<lparr>gv_Group = ''db.tlndb.io'', gv_Version = ''v1alpha1''\<rparr>"

record scheme_builder =
  sb_GroupVersion :: group_version
  sb_types :: "string list"

definition Register :: "string list \<Rightarrow> scheme_builder \<Rightarrow> scheme_builder" where
  "Register objects b = b\<lparr>sb_types := sb_types b @ objects\<rparr>"

definition SchemeBuilder :: scheme_builder where
  "SchemeBuilder = Register [''TlnDB'', ''TlnDBList''] \<lparr>sb_GroupVersion = GroupVersion, sb_types = []\<rparr>"

text \<open>
  What the process uses of controller-runtime, over a state \<open>'m\<close>. \<open>h_AddClientGo\<close> registers the
  Kubernetes types with the scheme, \<open>h_AddToScheme\<close> what a builder holds; \<open>h_GetConfig\<close> is false when no cluster configuration is
  found, on which \<^verbatim>\<open>GetConfigOrDie\<close> exits with status 1.
\<close>

record 'm host =
  h_extra :: extra_flags
  h_Getenv :: "string \<Rightarrow> string"
  h_AddClientGo :: "'m \<Rightarrow> error option \<times> 'm"
  h_AddToScheme :: "scheme_builder \<Rightarrow> 'm \<Rightarrow> error option \<times> 'm"
  h_GetConfig :: "'m \<Rightarrow> bool \<times> 'm"
  h_NewManager :: "manager_options \<Rightarrow> 'm \<Rightarrow> error option \<times> 'm"
  h_Complete :: "watch_plan \<Rightarrow> 'm \<Rightarrow> error option \<times> 'm"
  h_AddHealthzCheck :: "string \<Rightarrow> 'm \<Rightarrow> error option \<times> 'm"
  h_AddReadyzCheck :: "string \<Rightarrow> 'm \<Rightarrow> error option \<times> 'm"
  h_Start :: "'m \<Rightarrow> error option \<times> 'm"

text \<open>Steps in sequence; the first error ends the process with the given status.\<close>

primrec steps :: "int \<Rightarrow> ('m \<Rightarrow> error option \<times> 'm) list \<Rightarrow> 'm \<Rightarrow> int \<times> 'm" where
  "steps status [] m = (0, m)"
| "steps status (f # fs) m = (case f m of (Some e, m') \<Rightarrow> (status, m') | (None, m') \<Rightarrow> steps status fs m')"

text \<open>\<^verbatim>\<open>init\<close>: \<^verbatim>\<open>utilruntime.Must\<close> panics on an error, which ends the process with status 2.\<close>

definition init_scheme :: "'m host \<Rightarrow> 'm \<Rightarrow> int \<times> 'm" where
  "init_scheme h m = steps 2 [h_AddClientGo h, h_AddToScheme h SchemeBuilder] m"

definition run_manager :: "'m host \<Rightarrow> options \<Rightarrow> 'm \<Rightarrow> int \<times> 'm" where
  "run_manager h opts m =
     (case h_GetConfig h m of
        (False, m) \<Rightarrow> (1, m)
      | (True, m) \<Rightarrow>
          steps 1 [h_NewManager h (managerOptions opts (operatorNamespace (h_Getenv h))),
                   SetupWithManager (h_Complete h),
                   h_AddHealthzCheck h ''healthz'',
                   h_AddReadyzCheck h ''readyz'',
                   h_Start h] m)"

definition main :: "'m host \<Rightarrow> string list \<Rightarrow> 'm \<Rightarrow> int \<times> 'm" where
  "main h args m =
     (case init_scheme h m of
        (status, m) \<Rightarrow>
          if status \<noteq> 0 then (status, m)
          else (case parseFlags (h_extra h) args defaultOptions of
                  Inl status \<Rightarrow> (status, m)
                | Inr (opts, _) \<Rightarrow> run_manager h opts m))"

subsection \<open>Facts about the command line\<close>

definition showBool :: "bool \<Rightarrow> string" where
  "showBool b = (if b then ''true'' else ''false'')"

definition renderFlags :: "options \<Rightarrow> string list" where
  "renderFlags opts =
     [''--metrics-bind-address='' @ opt_metricsAddr opts, ''--health-probe-bind-address='' @ opt_probeAddr opts,
      ''--leader-elect='' @ showBool (opt_enableLeaderElection opts),
      ''--metrics-secure='' @ showBool (opt_secureMetrics opts), ''--enable-http2='' @ showBool (opt_enableHTTP2 opts)]"

lemma ParseBool_showBool [simp]: "ParseBool (showBool b) = Some b"
  by (simp add: ParseBool_def showBool_def)

lemma steps_zero: "status \<noteq> 0 \<Longrightarrow> fst (steps status (f # fs) m) = 0 \<longleftrightarrow> fst (f m) = None \<and> fst (steps status fs (snd (f m))) = 0"
  by (simp split: prod.split option.split)

text \<open>
  The command line is read back as it was written. For any option values, including
  addresses with equals signs or leading dashes, the five flags written out are parsed to
  exactly those values, and the arguments that follow the first one that is not a flag
  are left alone.
\<close>

theorem flags_roundtrip:
  assumes "opt_extra opts = []" and "\<forall>a \<in> set rest. hd a \<noteq> CHR ''-''"
  shows "parseFlags extra (renderFlags opts @ rest) defaultOptions = Inr (opts, rest)"
proof -
  have "parseFlags extra rest opts' = Inr (opts', rest)" for opts' using assms(2) by (cases rest) auto
  then show ?thesis
    using assms(1)
    by (cases opts) (simp add: renderFlags_def splitFlag_def isDefined_def isBoolFlag_def setFlag_def defaultOptions_def)
qed

theorem flags_roundtrip_witness:
  "parseFlags (\<lambda>_. None) [''--metrics-bind-address=:8443'', ''--health-probe-bind-address=--a=b'', ''--leader-elect=true'',
     ''--metrics-secure=true'', ''--enable-http2=false'', ''x''] defaultOptions
   = Inr (defaultOptions\<lparr>opt_metricsAddr := '':8443'', opt_probeAddr := ''--a=b'', opt_enableLeaderElection := True\<rparr>, [''x''])"
  using flags_roundtrip [of "defaultOptions\<lparr>opt_metricsAddr := '':8443'', opt_probeAddr := ''--a=b'', opt_enableLeaderElection := True\<rparr>"
      "[''x'']" "\<lambda>_. None"]
  by (simp add: renderFlags_def showBool_def defaultOptions_def)

lemma setFlag_http2:
  "setFlag extra n v opts = Some opts' \<Longrightarrow> n \<noteq> ''enable-http2'' \<Longrightarrow> opt_enableHTTP2 opts' = opt_enableHTTP2 opts"
  by (auto simp: setFlag_def split: if_splits option.splits prod.splits)

text \<open>The flag an argument names, if it is one.\<close>

definition flagName :: "string \<Rightarrow> string" where
  "flagName a = fst (splitFlag (dropWhile (\<lambda>c. c = CHR ''-'') a))"

lemma name_eq:
  assumes "\<not> length s < 2" and "hd s = CHR ''-''" and "name = (if s ! 1 = CHR ''-'' then drop 2 s else drop 1 s)"
    and "name \<noteq> []" and "hd name \<noteq> CHR ''-''"
  shows "dropWhile (\<lambda>c. c = CHR ''-'') s = name"
proof -
  obtain a b t where s: "s = a # b # t" using assms(1) by (cases s; cases "tl s") auto
  show ?thesis using assms(2-5) unfolding s by (cases t) (auto split: if_splits)
qed

lemma parseFlags_http2:
  "parseFlags extra args opts = Inr (opts', rest) \<Longrightarrow> \<forall>a \<in> set args. flagName a \<noteq> ''enable-http2'' \<Longrightarrow>
     opt_enableHTTP2 opts' = opt_enableHTTP2 opts"
proof (induction extra args opts rule: parseFlags.induct)
  case (1 extra opts)
  then show ?case by simp
next
  case (2 extra s args opts)
  let ?name = "if s ! 1 = CHR ''-'' then drop 2 s else drop 1 s"
  obtain n v where nv: "splitFlag ?name = (n, v)" by force
  show ?case
  proof (cases "length s < 2 \<or> hd s \<noteq> CHR ''-'' \<or> s = ''--''")
    case True
    then show ?thesis using "2.prems"(1) by (auto split: if_splits)
  next
    case False
    have ok: "?name \<noteq> []" "hd ?name \<noteq> CHR ''-''" "hd ?name \<noteq> CHR ''=''" "isDefined extra n"
      using "2.prems"(1) False nv by (auto simp: Let_def split: if_splits)
    have "flagName s = n" using name_eq [of s ?name] False ok nv by (simp add: flagName_def)
    then have n: "n \<noteq> ''enable-http2''" using "2.prems"(2) by auto
    note IH = "2.IH" [OF _ _ refl _ nv [symmetric] refl]
    show ?thesis
      using "2.prems" False ok nv n IH setFlag_http2 [of extra n _ opts]
      by (auto simp: Let_def split: if_splits option.splits list.splits)
  qed
qed

text \<open>
  HTTP/2 is off unless asked for. If no argument names the flag \<^verbatim>\<open>enable-http2\<close>, then whatever
  else the command line says, the TLS configuration of both the metrics and the webhook
  server ends up offering HTTP/1.1 only, with TLS 1.2 as its minimum.
\<close>

theorem http2_off_by_default:
  assumes "parseFlags extra args defaultOptions = Inr (opts, rest)"
    and "\<forall>a \<in> set args. flagName a \<noteq> ''enable-http2''"
  shows "fold (\<lambda>f c. f c) (mo_MetricsTLSOpts (managerOptions opts ns)) c
           = c\<lparr>tls_NextProtos := [''http/1.1''], tls_MinVersion := VersionTLS12\<rparr> \<and>
         fold (\<lambda>f c. f c) (mo_WebhookTLSOpts (managerOptions opts ns)) c
           = c\<lparr>tls_NextProtos := [''http/1.1''], tls_MinVersion := VersionTLS12\<rparr>"
  using parseFlags_http2 [OF assms] by (simp add: managerOptions_def tlsOpts_def defaultOptions_def)

theorem http2_off_by_default_witness:
  "\<exists>opts. parseFlags (\<lambda>_. None) [''--leader-elect'', ''-metrics-bind-address'', '':8443''] defaultOptions = Inr (opts, []) \<and>
     tls_NextProtos (fold (\<lambda>f c. f c) (mo_MetricsTLSOpts (managerOptions opts ''ns'')) \<lparr>tls_NextProtos = [''h2''], tls_MinVersion = 0\<rparr>)
       = [''http/1.1'']"
proof -
  let ?args = "[''--leader-elect'', ''-metrics-bind-address'', '':8443'']"
  have p: "parseFlags (\<lambda>_. None) ?args defaultOptions
      = Inr (defaultOptions\<lparr>opt_enableLeaderElection := True, opt_metricsAddr := '':8443''\<rparr>, [])"
    by (simp add: splitFlag_def isDefined_def isBoolFlag_def setFlag_def ParseBool_def)
  have "\<forall>a \<in> set ?args. flagName a \<noteq> ''enable-http2''" by (simp add: flagName_def splitFlag_def)
  from http2_off_by_default [OF p this] show ?thesis using p by simp
qed

subsection \<open>The process\<close>

lemma parseFlags_status: "parseFlags extra args opts = Inl st \<Longrightarrow> st \<in> {0, 2}"
proof (induction extra args opts rule: parseFlags.induct)
  case (1 extra opts)
  then show ?case by simp
next
  case (2 extra s args opts)
  let ?name = "if s ! 1 = CHR ''-'' then drop 2 s else drop 1 s"
  obtain n v where nv: "splitFlag ?name = (n, v)" by force
  show ?case
  proof (cases "length s < 2 \<or> hd s \<noteq> CHR ''-'' \<or> s = ''--''")
    case True
    then show ?thesis using "2.prems" by (auto split: if_splits)
  next
    case False
    note IH = "2.IH" [OF _ _ refl _ nv [symmetric] refl]
    show ?thesis
      using "2.prems" False nv IH
      by (auto simp: Let_def split: if_splits option.splits list.splits)
  qed
qed

text \<open>
  C37: the exit status. The process ends with status 0 exactly if help was asked for, or if
  both API groups could be registered, the command line was well formed, a cluster
  configuration was found, and then, in this order, the manager could be created with the
  options read, the controller be registered with its watches, both health checks be
  added, and the manager's loop returned without error. Otherwise it ends with status 1,
  or 2 when registration or the command line is at fault.
\<close>

theorem main_exit_status:
  "(main h args m = (0, m') \<longleftrightarrow>
     (\<exists>m1 m2. h_AddClientGo h m = (None, m1) \<and> h_AddToScheme h SchemeBuilder m1 = (None, m2) \<and>
        (parseFlags (h_extra h) args defaultOptions = Inl 0 \<and> m' = m2 \<or>
         (\<exists>opts rest m3 m4 m5 m6 m7. parseFlags (h_extra h) args defaultOptions = Inr (opts, rest) \<and>
            h_GetConfig h m2 = (True, m3) \<and>
            h_NewManager h (managerOptions opts (operatorNamespace (h_Getenv h))) m3 = (None, m4) \<and>
            h_Complete h watches m4 = (None, m5) \<and> h_AddHealthzCheck h ''healthz'' m5 = (None, m6) \<and>
            h_AddReadyzCheck h ''readyz'' m6 = (None, m7) \<and> h_Start h m7 = (None, m'))))) \<and>
   fst (main h args m) \<in> {0, 1, 2}"
proof -
  have steps: "fst (steps st fs x) \<in> {0, st}" for st fs and x :: 'a
    by (induction fs arbitrary: x) (auto split: prod.split option.split)
  have man: "fst (run_manager h opts x) \<in> {0, 1}" for opts x
    using steps [of 1] by (auto simp: run_manager_def simp del: steps.simps split: prod.split bool.split)
  obtain st m2 where init: "init_scheme h m = (st, m2)" by force
  have st: "st \<in> {0, 2}" using steps [of 2] init by (metis init_scheme_def fst_conv)
  have "fst (main h args m) \<in> {0, 1, 2}"
  proof (cases "parseFlags (h_extra h) args defaultOptions")
    case (Inl x)
    then show ?thesis using init st parseFlags_status [OF Inl] by (auto simp: main_def)
  next
    case (Inr p)
    then show ?thesis using init st man [of "fst p" m2] by (cases p) (auto simp: main_def)
  qed
  moreover have "main h args m = (0, m') \<longleftrightarrow> (\<exists>m1 m2. h_AddClientGo h m = (None, m1) \<and>
        h_AddToScheme h SchemeBuilder m1 = (None, m2) \<and>
        (parseFlags (h_extra h) args defaultOptions = Inl 0 \<and> m' = m2 \<or>
         (\<exists>opts rest m3 m4 m5 m6 m7. parseFlags (h_extra h) args defaultOptions = Inr (opts, rest) \<and>
            h_GetConfig h m2 = (True, m3) \<and>
            h_NewManager h (managerOptions opts (operatorNamespace (h_Getenv h))) m3 = (None, m4) \<and>
            h_Complete h watches m4 = (None, m5) \<and> h_AddHealthzCheck h ''healthz'' m5 = (None, m6) \<and>
            h_AddReadyzCheck h ''readyz'' m6 = (None, m7) \<and> h_Start h m7 = (None, m'))))"
    by (auto simp: main_def init_scheme_def run_manager_def SetupWithManager_def split: prod.splits option.splits bool.splits sum.splits)
  ultimately show ?thesis by blast
qed

text \<open>
  C36: owned objects are watched. Whenever an object of a kind the operator writes changes,
  and it carries the controller reference the operator sets, the instance is queued
  again, for every kind but the ServiceMonitor: changes of a ServiceMonitor queue
  nothing, nor do changes of a ConfigMap that has no owner, such as one the instance only
  refers to.
\<close>

theorem watches_cover:
  assumes "enqueue_laws enq" and "reference_laws r"
    and "r_SetControllerReference r inst meta = Inr meta'" and "om_Namespace meta = db_Namespace inst"
    and "om_OwnerReferences unowned = []"
  shows "(K \<noteq> MonitorKind \<longrightarrow> (db_Namespace inst, db_Name inst) \<in> set (enq watches K meta')) \<and>
    enq watches MonitorKind meta' = [] \<and> enq watches ConfigMapKind unowned = []"
proof -
  have "K \<in> set (wp_Owns watches)" if "K \<noteq> MonitorKind" using that by (cases K) (simp_all add: watches_def)
  moreover obtain ref where "ref \<in> set (om_OwnerReferences meta')" "or_Controller ref = Some True"
    "or_Kind ref = wp_For watches" "or_Name ref = db_Name inst" "om_Namespace meta' = db_Namespace inst"
    using assms(2-4) unfolding reference_laws_def by (fastforce simp: watches_def)
  moreover have "MonitorKind \<notin> set (wp_Owns watches)" by (simp add: watches_def)
  ultimately show ?thesis using assms(1,5) unfolding enqueue_laws_def by metis
qed

theorem watches_cover_witness:
  "(''ns1'', ''db1'') \<in> set (sample_enqueue watches StatefulSetKind
      ((sts_Meta (BuildStatefulSet sample_lib demo ''h''))\<lparr>om_OwnerReferences := [mem_owner demo]\<rparr>))"
proof -
  let ?m = "sts_Meta (BuildStatefulSet sample_lib demo ''h'')"
  have "r_SetControllerReference mem_reconciler demo ?m = Inr (?m\<lparr>om_OwnerReferences := [mem_owner demo]\<rparr>)" by simp
  moreover have "om_Namespace ?m = db_Namespace demo" "om_OwnerReferences ?m = []" by (simp_all add: child_namespaces child_fresh)
  ultimately show ?thesis using watches_cover [OF sample_enqueue_laws mem_reference_laws] by fastforce
qed

end
