(* ===== verification/Permissions.thy ===== *)
theory Permissions
  imports Manager
begin

section \<open>The permissions of the operator (RBAC markers of tlndb\_controller.go)\<close>

text \<open>
  The operator declares the permissions it runs with in kubebuilder markers above the
  reconciler, from which its ClusterRole is generated. Here: the markers as RBAC rules, an
  environment in which every call of the client is first checked against a set of
  permissions (\<open>restricted\<close>), the set of permissions that the code uses (\<open>needed\<close>), and
  the result that nothing outside that set is ever asked for.
\<close>

subsection \<open>The markers\<close>

definition all_verbs :: "string list" where
  "all_verbs = [''get'', ''list'', ''watch'', ''create'', ''update'', ''patch'', ''delete'']"

definition marker :: "string \<Rightarrow> string list \<Rightarrow> string list \<Rightarrow> PolicyRule" where
  "marker grp res verbs = \<lparr>pr_APIGroups = [grp], pr_Resources = res, pr_ResourceNames = [], pr_Verbs = verbs\<rparr>"

definition markers :: "PolicyRule list" where
  "markers =
     [marker ''db.tlndb.io'' [''tlndbs''] all_verbs,
      marker ''db.tlndb.io'' [''tlndbs/status''] [''get'', ''update'', ''patch''],
      marker ''db.tlndb.io'' [''tlndbs/finalizers''] [''update''],
      marker ''apps'' [''statefulsets''] all_verbs,
      marker ''core'' [''services'', ''configmaps'', ''secrets'', ''persistentvolumeclaims'', ''serviceaccounts'', ''events''] all_verbs,
      marker ''rbac.authorization.k8s.io'' [''roles'', ''rolebindings''] all_verbs,
      marker ''networking.k8s.io'' [''ingresses'', ''networkpolicies''] all_verbs,
      marker ''policy'' [''poddisruptionbudgets''] all_verbs,
      marker ''autoscaling'' [''horizontalpodautoscalers''] all_verbs,
      marker ''monitoring.coreos.com'' [''servicemonitors''] all_verbs,
      marker ''coordination.k8s.io'' [''leases''] all_verbs]"

text \<open>The group \<^verbatim>\<open>core\<close> of a marker is the legacy group, whose name is empty.\<close>

definition marker_rules :: "PolicyRule list" where
  "marker_rules = map (\<lambda>r. r\<lparr>pr_APIGroups := map (\<lambda>g. if g = ''core'' then '''' else g) (pr_APIGroups r)\<rparr>) markers"

subsection \<open>Checked calls\<close>

type_synonym permission = "string \<times> string \<times> string"

definition granted :: "PolicyRule list \<Rightarrow> permission set" where
  "granted rules = {(grp, res, verb). \<forall>obj. rules_allow rules grp res obj verb}"

fun resource_of :: "kind \<Rightarrow> string \<times> string" where
  "resource_of ConfigMapKind = ('''', ''configmaps'')"
| "resource_of ServiceAccountKind = ('''', ''serviceaccounts'')"
| "resource_of RoleKind = (''rbac.authorization.k8s.io'', ''roles'')"
| "resource_of RoleBindingKind = (''rbac.authorization.k8s.io'', ''rolebindings'')"
| "resource_of StatefulSetKind = (''apps'', ''statefulsets'')"
| "resource_of ServiceKind = ('''', ''services'')"
| "resource_of IngressKind = (''networking.k8s.io'', ''ingresses'')"
| "resource_of NetworkPolicyKind = (''networking.k8s.io'', ''networkpolicies'')"
| "resource_of PDBKind = (''policy'', ''poddisruptionbudgets'')"
| "resource_of HPAKind = (''autoscaling'', ''horizontalpodautoscalers'')"
| "resource_of MonitorKind = (''monitoring.coreos.com'', ''servicemonitors'')"

declare resource_of.simps [simp del]

definition may :: "permission set \<Rightarrow> string \<times> string \<Rightarrow> string \<Rightarrow> bool" where
  "may P gr verb \<longleftrightarrow> (fst gr, snd gr, verb) \<in> P"

definition forbidden :: error where "forbidden = OtherErr ''forbidden''"

text \<open>
  A checked client. Reads go through the manager's cache, which lists and watches; an
  object created with an owner reference that blocks the owner's deletion needs the
  permission to update the owner's finalizers.
\<close>

definition checked :: "permission set \<Rightarrow> string \<times> string \<Rightarrow> ('o, 'w) kclient \<Rightarrow> ('o, 'w) kclient" where
  "checked P gr c = \<lparr>
     kc_Get = (\<lambda>k w. if may P gr ''get'' \<and> may P gr ''list'' \<and> may P gr ''watch'' then kc_Get c k w else (Inl forbidden, w)),
     kc_Create = (\<lambda>x w. if may P gr ''create'' \<and> may P (''db.tlndb.io'', ''tlndbs/finalizers'') ''update'' then kc_Create c x w
                        else (Inl forbidden, w)),
     kc_Update = (\<lambda>x w. if may P gr ''update'' then kc_Update c x w else (Inl forbidden, w)),
     kc_Delete = (\<lambda>x w. if may P gr ''delete'' then kc_Delete c x w else (Some forbidden, w))\<rparr>"

text \<open>The whole environment; an event that may not be written is lost, kinds no rule can name are out of reach.\<close>

definition restricted :: "permission set \<Rightarrow> 'w reconciler \<Rightarrow> 'w reconciler" where
  "restricted P r = r\<lparr>
     r_TlnDB := checked P (''db.tlndb.io'', ''tlndbs'') (r_TlnDB r),
     r_StatusPatch := (\<lambda>m b w. if may P (''db.tlndb.io'', ''tlndbs/status'') ''patch'' then r_StatusPatch r m b w
                               else (Inl forbidden, w)),
     r_ConfigMap := checked P (resource_of ConfigMapKind) (r_ConfigMap r),
     r_ServiceAccount := checked P (resource_of ServiceAccountKind) (r_ServiceAccount r),
     r_Role := checked P (resource_of RoleKind) (r_Role r),
     r_RoleBinding := checked P (resource_of RoleBindingKind) (r_RoleBinding r),
     r_StatefulSet := checked P (resource_of StatefulSetKind) (r_StatefulSet r),
     r_Service := checked P (resource_of ServiceKind) (r_Service r),
     r_Ingress := checked P (resource_of IngressKind) (r_Ingress r),
     r_NetworkPolicy := checked P (resource_of NetworkPolicyKind) (r_NetworkPolicy r),
     r_PDB := checked P (resource_of PDBKind) (r_PDB r),
     r_HPA := checked P (resource_of HPAKind) (r_HPA r),
     r_Unstructured := (\<lambda>g. checked (if g = ServiceMonitorKind then P else {}) (resource_of MonitorKind) (r_Unstructured r g)),
     r_Eventf := (\<lambda>i t reason msg w. if may P ('''', ''events'') ''create'' \<and> may P ('''', ''events'') ''patch''
                                     then r_Eventf r i t reason msg w else w)\<rparr>"

subsection \<open>What the code needs\<close>

inductive_set needed :: "permission set" where
  upserts: "v \<in> {''get'', ''list'', ''watch'', ''create'', ''update''} \<Longrightarrow> (fst (resource_of K), snd (resource_of K), v) \<in> needed"
| prune: "(''apps'', ''statefulsets'', ''delete'') \<in> needed"
| instances: "v \<in> {''get'', ''list'', ''watch'', ''update''} \<Longrightarrow> (''db.tlndb.io'', ''tlndbs'', v) \<in> needed"
| status: "(''db.tlndb.io'', ''tlndbs/status'', ''patch'') \<in> needed"
| finalizers: "(''db.tlndb.io'', ''tlndbs/finalizers'', ''update'') \<in> needed"
| events: "v \<in> {''create'', ''patch''} \<Longrightarrow> ('''', ''events'', v) \<in> needed"

text \<open>\<^verbatim>\<open>GroupVersionKind\<close> reads the object's kind, and the other accessors leave that alone.\<close>

definition gvk_laws :: "'w reconciler \<Rightarrow> bool" where
  "gvk_laws r \<longleftrightarrow>
     (\<forall>u s. jpath [''kind''] (us_Object u) = Some (JStr s) \<longrightarrow> r_GroupVersionKind r u = s) \<and>
     (\<forall>i u u'. r_SetControllerReferenceU r i u = Inr u' \<longrightarrow> r_GroupVersionKind r u' = r_GroupVersionKind r u) \<and>
     (\<forall>v u. r_GroupVersionKind r (r_SetResourceVersion r v u) = r_GroupVersionKind r u)"

lemma may_needed: "needed \<subseteq> P \<Longrightarrow> (fst gr, snd gr, v) \<in> needed \<Longrightarrow> may P gr v"
  unfolding may_def by blast

lemma needed_may:
  assumes "needed \<subseteq> P"
  shows "may P (resource_of K) ''get''" "may P (resource_of K) ''list''" "may P (resource_of K) ''watch''"
    "may P (resource_of K) ''create''" "may P (resource_of K) ''update''"
    "may P (resource_of StatefulSetKind) ''delete''"
    "may P (''db.tlndb.io'', ''tlndbs'') ''get''" "may P (''db.tlndb.io'', ''tlndbs'') ''list''"
    "may P (''db.tlndb.io'', ''tlndbs'') ''watch''" "may P (''db.tlndb.io'', ''tlndbs'') ''update''"
    "may P (''db.tlndb.io'', ''tlndbs/status'') ''patch''" "may P (''db.tlndb.io'', ''tlndbs/finalizers'') ''update''"
    "may P ('''', ''events'') ''create''" "may P ('''', ''events'') ''patch''"
  by (rule may_needed [OF assms]; simp add: needed.intros resource_of.simps(5))+

text \<open>With these permissions the calls the code makes are the unchecked ones.\<close>

lemma restricted_calls:
  assumes "needed \<subseteq> P"
  shows "kc_Get (checked P (resource_of K) c) = kc_Get c" "kc_Create (checked P (resource_of K) c) = kc_Create c"
    "kc_Update (checked P (resource_of K) c) = kc_Update c"
    "kc_Delete (checked P (resource_of StatefulSetKind) c) = kc_Delete c"
    "kc_Get (checked P (''db.tlndb.io'', ''tlndbs'') c) = kc_Get c"
    "kc_Update (checked P (''db.tlndb.io'', ''tlndbs'') c) = kc_Update c"
  using needed_may [OF assms] by (simp_all add: checked_def)

lemma restricted_fields [simp]:
  "r_lib (restricted P r) = r_lib r"
  "r_TlnDB (restricted P r) = checked P (''db.tlndb.io'', ''tlndbs'') (r_TlnDB r)"
  "r_ConfigMap (restricted P r) = checked P (resource_of ConfigMapKind) (r_ConfigMap r)"
  "r_ServiceAccount (restricted P r) = checked P (resource_of ServiceAccountKind) (r_ServiceAccount r)"
  "r_Role (restricted P r) = checked P (resource_of RoleKind) (r_Role r)"
  "r_RoleBinding (restricted P r) = checked P (resource_of RoleBindingKind) (r_RoleBinding r)"
  "r_StatefulSet (restricted P r) = checked P (resource_of StatefulSetKind) (r_StatefulSet r)"
  "r_Service (restricted P r) = checked P (resource_of ServiceKind) (r_Service r)"
  "r_Ingress (restricted P r) = checked P (resource_of IngressKind) (r_Ingress r)"
  "r_NetworkPolicy (restricted P r) = checked P (resource_of NetworkPolicyKind) (r_NetworkPolicy r)"
  "r_PDB (restricted P r) = checked P (resource_of PDBKind) (r_PDB r)"
  "r_HPA (restricted P r) = checked P (resource_of HPAKind) (r_HPA r)"
  "r_Unstructured (restricted P r) ServiceMonitorKind = checked P (resource_of MonitorKind) (r_Unstructured r ServiceMonitorKind)"
  "r_SetControllerReference (restricted P r) = r_SetControllerReference r"
  "r_SetControllerReferenceU (restricted P r) = r_SetControllerReferenceU r"
  "r_GroupVersionKind (restricted P r) = r_GroupVersionKind r"
  "r_GetName (restricted P r) = r_GetName r" "r_GetNamespace (restricted P r) = r_GetNamespace r"
  "r_GetResourceVersion (restricted P r) = r_GetResourceVersion r"
  "r_SetResourceVersion (restricted P r) = r_SetResourceVersion r"
  "r_ContainsFinalizer (restricted P r) = r_ContainsFinalizer r" "r_AddFinalizer (restricted P r) = r_AddFinalizer r"
  "r_RemoveFinalizer (restricted P r) = r_RemoveFinalizer r" "r_SetStatusCondition (restricted P r) = r_SetStatusCondition r"
  "r_Now (restricted P r) = r_Now r"
  by (simp_all add: restricted_def)

lemma restricted_status:
  assumes "needed \<subseteq> P"
  shows "r_StatusPatch (restricted P r) = r_StatusPatch r" "r_Eventf (restricted P r) = r_Eventf r"
  using needed_may [OF assms] by (simp_all add: restricted_def)

lemma restricted_updateExisting:
  assumes "needed \<subseteq> P"
  shows "updateExisting (checked P (resource_of K) c) = updateExisting c"
  by (simp add: updateExisting_def restricted_calls [OF assms] fun_eq_iff)

lemma restricted_upserts:
  assumes P: "needed \<subseteq> P"
  shows "createOrUpdateConfigMap (restricted P r) = createOrUpdateConfigMap r"
    "createOrUpdateServiceAccount (restricted P r) = createOrUpdateServiceAccount r"
    "createOrUpdateRole (restricted P r) = createOrUpdateRole r"
    "createOrUpdateRoleBinding (restricted P r) = createOrUpdateRoleBinding r"
    "createOrUpdateStatefulSet (restricted P r) = createOrUpdateStatefulSet r"
    "deleteStatefulSetIfExists (restricted P r) = deleteStatefulSetIfExists r"
    "createOrUpdateService (restricted P r) = createOrUpdateService r"
    "createOrUpdateIngress (restricted P r) = createOrUpdateIngress r"
    "createOrUpdateNetworkPolicy (restricted P r) = createOrUpdateNetworkPolicy r"
    "createOrUpdatePDB (restricted P r) = createOrUpdatePDB r"
    "createOrUpdateHPA (restricted P r) = createOrUpdateHPA r"
  by (simp_all only: fun_eq_iff createOrUpdateConfigMap_def createOrUpdateServiceAccount_def createOrUpdateRole_def
      createOrUpdateRoleBinding_def createOrUpdateStatefulSet_def deleteStatefulSetIfExists_def createOrUpdateService_def
      createOrUpdateIngress_def createOrUpdateNetworkPolicy_def createOrUpdatePDB_def createOrUpdateHPA_def
      restricted_fields restricted_calls [OF P] restricted_status [OF P] restricted_updateExisting [OF P] simp_thms)

lemma restricted_ServiceMonitor:
  assumes P: "needed \<subseteq> P" and g: "gvk_laws r"
  shows "createOrUpdateServiceMonitor (restricted P r) inst (BuildServiceMonitor j) w
    = createOrUpdateServiceMonitor r inst (BuildServiceMonitor j) w"
proof -
  let ?d = "case r_SetControllerReferenceU r inst (BuildServiceMonitor j) of Inl e \<Rightarrow> BuildServiceMonitor j | Inr d \<Rightarrow> d"
  have "r_GroupVersionKind r (BuildServiceMonitor j) = ServiceMonitorKind"
    using g by (simp add: gvk_laws_def BuildServiceMonitor_def Let_def)
  then have G: "r_GroupVersionKind r ?d = ServiceMonitorKind" "r_GroupVersionKind r (r_SetResourceVersion r v ?d) = ServiceMonitorKind" for v
    using g by (auto simp: gvk_laws_def split: sum.split)
  show ?thesis
    by (simp only: createOrUpdateServiceMonitor_def Let_def restricted_fields restricted_calls [OF P] G simp_thms)
qed

text \<open>Hence every operation of the reconciler, bottom up.\<close>

lemma restricted_helpers:
  assumes P: "needed \<subseteq> P"
  shows "patchStatus (restricted P r) = patchStatus r" "setPhase (restricted P r) = setPhase r"
    "setConditionOnInstance (restricted P r) = setConditionOnInstance r" "condition (restricted P r) = condition r"
  by (simp_all only: fun_eq_iff patchStatus_def setPhase_def setConditionOnInstance_def condition_def setCondition_def
      restricted_status [OF P] restricted_fields simp_thms)

lemma restricted_stages:
  assumes P: "needed \<subseteq> P" and g: "gvk_laws r"
  shows "stageRBAC (restricted P r) = stageRBAC r" "stageConfig (restricted P r) = stageConfig r"
    "stageHeadless (restricted P r) = stageHeadless r" "stageWorkloads (restricted P r) = stageWorkloads r"
    "stageIngress (restricted P r) = stageIngress r" "stageNetworkPolicy (restricted P r) = stageNetworkPolicy r"
    "stageServiceMonitor (restricted P r) = stageServiceMonitor r" "stagePDB (restricted P r) = stagePDB r"
    "stageHPA (restricted P r) = stageHPA r" "stagePersist (restricted P r) = stagePersist r"
proof -
  note R = restricted_fields restricted_upserts [OF P] restricted_helpers [OF P] restricted_calls [OF P] restricted_ServiceMonitor [OF P g]
  show "stageRBAC (restricted P r) = stageRBAC r" by (simp only: fun_eq_iff simp_thms stageRBAC_def R)
  show "stageConfig (restricted P r) = stageConfig r"
    by (simp only: fun_eq_iff simp_thms stageConfig_def stageExternalConfig_def stageRenderedConfig_def R)
  show "stageHeadless (restricted P r) = stageHeadless r" by (simp only: fun_eq_iff simp_thms stageHeadless_def ensureService_def R)
  have F: "stageFollowers (restricted P r) = stageFollowers r"
    by (simp only: fun_eq_iff simp_thms stageFollowers_def stagePruneFollowers_def ensureStatefulSet_def R)
  show "stageWorkloads (restricted P r) = stageWorkloads r"
    by (simp only: fun_eq_iff simp_thms stageWorkloads_def stageReplicated_def stageStandalone_def ensureService_def ensureStatefulSet_def F R)
  show "stageIngress (restricted P r) = stageIngress r" by (simp only: fun_eq_iff simp_thms stageIngress_def R)
  show "stageNetworkPolicy (restricted P r) = stageNetworkPolicy r" by (simp only: fun_eq_iff simp_thms stageNetworkPolicy_def R)
  show "stageServiceMonitor (restricted P r) = stageServiceMonitor r" by (simp only: fun_eq_iff simp_thms stageServiceMonitor_def R)
  show "stagePDB (restricted P r) = stagePDB r" by (simp only: fun_eq_iff simp_thms stagePDB_def R)
  show "stageHPA (restricted P r) = stageHPA r" by (simp only: fun_eq_iff simp_thms stageHPA_def R)
  show "stagePersist (restricted P r) = stagePersist r" by (simp only: fun_eq_iff simp_thms stagePersist_def R)
qed

lemma Reconcile_restricted:
  assumes P: "needed \<subseteq> P" and g: "gvk_laws r"
  shows "Reconcile (restricted P r) = Reconcile r"
proof -
  note R = restricted_fields restricted_helpers [OF P] restricted_calls [OF P] restricted_status [OF P]
  have "reconcileResources (restricted P r) = reconcileResources r"
    by (simp only: fun_eq_iff simp_thms reconcileResources_def restricted_stages [OF P g])
  moreover have "syncStatus (restricted P r) = syncStatus r" by (simp only: fun_eq_iff simp_thms syncStatus_def R)
  ultimately have "reconcilePresent (restricted P r) = reconcilePresent r" by (simp only: fun_eq_iff simp_thms reconcilePresent_def R)
  moreover have "updateInstance (restricted P r) = updateInstance r" by (simp only: fun_eq_iff simp_thms updateInstance_def R)
  ultimately have "reconcileInstance (restricted P r) = reconcileInstance r"
    by (simp only: fun_eq_iff simp_thms reconcileInstance_def reconcileDeletion_def R)
  then show ?thesis by (simp only: fun_eq_iff simp_thms Reconcile_def R)
qed

subsection \<open>The properties\<close>

lemma marker_allows:
  assumes "marker grp rs vs \<in> set marker_rules" and "res \<in> set rs" and "v \<in> set vs"
  shows "rules_allow marker_rules grp res obj v"
  using assms by (force simp: rules_allow_def list_ex_iff marker_def)

lemma core_allows:
  assumes "res \<in> {''configmaps'', ''events''}" and "v \<in> set all_verbs"
  shows "rules_allow marker_rules '''' res obj v"
  by (rule marker_allows [of _ "[''services'', ''configmaps'', ''secrets'', ''persistentvolumeclaims'', ''serviceaccounts'', ''events'']" all_verbs])
    (use assms in \<open>auto simp: marker_rules_def markers_def marker_def\<close>)

lemma leases_allowed:
  assumes "v \<in> set all_verbs"
  shows "rules_allow marker_rules ''coordination.k8s.io'' ''leases'' obj v"
  by (rule marker_allows [of _ "[''leases'']" all_verbs]) (use assms in \<open>simp_all add: marker_rules_def markers_def marker_def\<close>)

lemma markers_needed: "needed \<subseteq> granted marker_rules"
proof -
  have "(g, res, v) \<in> granted marker_rules" if "(g, res, v) \<in> needed" for g res v
    using that
  proof cases
    case (upserts K)
    then show ?thesis
      by (cases K) (auto simp: resource_of.simps granted_def rules_allow_def marker_rules_def markers_def marker_def all_verbs_def)
  qed (auto simp: granted_def rules_allow_def marker_rules_def markers_def marker_def all_verbs_def)
  then show ?thesis by auto
qed

lemma mem_gvk_laws: "gvk_laws mem_reconciler"
  by (simp add: gvk_laws_def mem_GroupVersionKind_def)

text \<open>
  C31: the operator runs with what its markers ask for. With exactly the permissions of the
  markers every call of \<^verbatim>\<open>Reconcile\<close> behaves as with none of its calls checked; the manager
  can list and watch every kind the controller watches and take the lease of the leader
  election; and the Role the operator creates for an instance grants nothing that the
  operator may not do itself, which is the condition under which the API server lets it
  create that Role.
\<close>

theorem markers_suffice:
  assumes "gvk_laws r"
  shows "Reconcile (restricted (granted marker_rules) r) k w = Reconcile r k w \<and>
    (\<forall>K v. K \<in> set (wp_Owns watches) \<longrightarrow> v \<in> {''list'', ''watch''} \<longrightarrow> may (granted marker_rules) (resource_of K) v) \<and>
    {(''coordination.k8s.io'', ''leases'', v) |v. v \<in> {''get'', ''create'', ''update''}} \<subseteq> granted marker_rules \<and>
    (\<forall>grp res obj verb. rules_allow (role_Rules (BuildRole inst)) grp res obj verb \<longrightarrow> rules_allow marker_rules grp res obj verb)"
proof (intro conjI allI impI)
  show "Reconcile (restricted (granted marker_rules) r) k w = Reconcile r k w"
    using Reconcile_restricted [OF markers_needed assms] by simp
  show "may (granted marker_rules) (resource_of K) v" if "v \<in> {''list'', ''watch''}" for K v
    using needed_may(2,3) [OF markers_needed, of K] that by auto
  show "{(''coordination.k8s.io'', ''leases'', v) |v. v \<in> {''get'', ''create'', ''update''}} \<subseteq> granted marker_rules"
    by (auto simp: granted_def all_verbs_def intro!: leases_allowed)
  show "rules_allow marker_rules grp res obj verb" if "rules_allow (role_Rules (BuildRole inst)) grp res obj verb" for grp res obj verb
  proof -
    have "grp = ''''" "res \<in> {''configmaps'', ''events''}" "verb \<in> set all_verbs"
      using that by (auto simp: rules_allow_def BuildRole_def all_verbs_def)
    then show ?thesis using core_allows by simp
  qed
qed

theorem markers_suffice_witness:
  "Reconcile (restricted (granted marker_rules) mem_reconciler) (''ns1'', ''db1'') mem_demo
     = Reconcile mem_reconciler (''ns1'', ''db1'') mem_demo \<and>
   rules_allow marker_rules '''' ''configmaps'' (ConfigMapName demo) ''get''"
proof -
  note S = markers_suffice [OF mem_gvk_laws, of "(''ns1'', ''db1'')" mem_demo demo]
  have "rules_allow (role_Rules (BuildRole demo)) '''' ''configmaps'' (ConfigMapName demo) ''get''"
    by (simp add: rules_allow_def BuildRole_def)
  then show ?thesis using S by blast
qed

text \<open>What is not among the needed permissions.\<close>

lemma needed_excludes:
  "\<forall>g res v. (g, res, v) \<in> needed \<longrightarrow> res \<notin> {''secrets'', ''persistentvolumeclaims''} \<and>
     (v = ''delete'' \<longrightarrow> res = ''statefulsets'') \<and> (res = ''tlndbs'' \<longrightarrow> v \<noteq> ''create'')"
proof (intro allI impI)
  fix g res v
  assume n: "(g, res, v) \<in> needed"
  have K: "snd (resource_of K) \<notin> {''secrets'', ''persistentvolumeclaims'', ''tlndbs''}" for K by (cases K) (simp_all add: resource_of.simps)
  show "res \<notin> {''secrets'', ''persistentvolumeclaims''} \<and> (v = ''delete'' \<longrightarrow> res = ''statefulsets'') \<and>
      (res = ''tlndbs'' \<longrightarrow> v \<noteq> ''create'')"
    using n by cases (use K in auto)
qed

text \<open>
  How much of that it uses. Whatever permissions the operator is given, as long as they
  include those of \<open>needed\<close> (reading, creating and updating the managed kinds, deleting
  StatefulSets, reading and updating instances, patching their status, updating their
  finalizers and writing events), \<^verbatim>\<open>Reconcile\<close> behaves as if nothing were checked. It never
  reads or writes Secrets or claims, deletes nothing but StatefulSets, and never creates
  or deletes an instance.
\<close>

theorem least_permissions:
  assumes "needed \<subseteq> P" and "gvk_laws r"
  shows "Reconcile (restricted P r) k w = Reconcile r k w \<and>
    (\<forall>g res v. (g, res, v) \<in> needed \<longrightarrow> res \<notin> {''secrets'', ''persistentvolumeclaims''} \<and>
       (v = ''delete'' \<longrightarrow> res = ''statefulsets'') \<and> (res = ''tlndbs'' \<longrightarrow> v \<noteq> ''create''))"
  using Reconcile_restricted [OF assms] needed_excludes by simp

text \<open>An operator that has no access to Secrets, on a run that creates everything.\<close>

theorem least_permissions_witness:
  "Reconcile (restricted (granted marker_rules - {p. fst (snd p) = ''secrets''}) mem_reconciler) (''ns1'', ''db1'') mem_demo
     = Reconcile mem_reconciler (''ns1'', ''db1'') mem_demo"
proof -
  have "fst (snd p) \<noteq> ''secrets''" if "p \<in> needed" for p
    using least_permissions [OF order_refl mem_gvk_laws] that by (metis insertI1 prod.collapse)
  then have "needed \<subseteq> granted marker_rules - {p. fst (snd p) = ''secrets''}" using markers_needed by blast
  from least_permissions [OF this mem_gvk_laws] show ?thesis by blast
qed

end
