(* ===== verification/LeastPrivilege.thy ===== *)
theory LeastPrivilege
  imports Permissions Invariants
begin

section \<open>No permission can be spared\<close>

text \<open>
  \<open>Permissions\<close> shows that the permissions \<open>needed\<close> are enough. Here: each of them is used.
  The evidence is a recorder, an environment whose world is the set of permissions that the
  calls made so far have used; a checked recorder never records a permission it does not
  have (an invariant of the calls), while three runs on the unchecked one record them all.
\<close>

subsection \<open>The recorder\<close>

definition asks :: "string \<times> string \<Rightarrow> string list \<Rightarrow> permission set" where
  "asks gr vs = (\<lambda>v. (fst gr, snd gr, v)) ` set vs"

definition log_client :: "string \<times> string \<Rightarrow> 'o option \<Rightarrow> ('o, permission set) kclient" where
  "log_client gr found = \<lparr>
     kc_Get = (\<lambda>k w. (case found of None \<Rightarrow> Inl (NotFoundErr ''not found'') | Some x \<Rightarrow> Inr x,
                      w \<union> asks gr [''get'', ''list'', ''watch''])),
     kc_Create = (\<lambda>x w. (Inr x, w \<union> asks gr [''create''] \<union> asks (''db.tlndb.io'', ''tlndbs/finalizers'') [''update''])),
     kc_Update = (\<lambda>x w. (Inr x, w \<union> asks gr [''update''])),
     kc_Delete = (\<lambda>x w. (None, w \<union> asks gr [''delete'']))\<rparr>"

lemma log_client_calls [simp]:
  "kc_Get (log_client gr x) k w = (case x of None \<Rightarrow> Inl (NotFoundErr ''not found'') | Some y \<Rightarrow> Inr y,
     w \<union> asks gr [''get'', ''list'', ''watch''])"
  "kc_Create (log_client gr x) y w =
     (Inr y, w \<union> asks gr [''create''] \<union> asks (''db.tlndb.io'', ''tlndbs/finalizers'') [''update''])"
  "kc_Update (log_client gr x) y w = (Inr y, w \<union> asks gr [''update''])"
  "kc_Delete (log_client gr x) y w = (None, w \<union> asks gr [''delete''])"
  by (simp_all add: log_client_def)

text \<open>The objects that exist already, if any do, differ from what the operator builds.\<close>

definition found :: "bool \<Rightarrow> 'o \<Rightarrow> 'o option" where
  "found b x = (if b then Some x else None)"

definition recorder :: "TlnDB \<Rightarrow> bool \<Rightarrow> permission set reconciler" where
  "recorder i b = \<lparr>
     r_lib = sample_lib,
     r_TlnDB = (log_client (''db.tlndb.io'', ''tlndbs'') (Some i))\<lparr>kc_Get := (\<lambda>k w.
       (if k = meta_key (db_Meta i) then Inr i else Inl (NotFoundErr ''not found''),
        w \<union> asks (''db.tlndb.io'', ''tlndbs'') [''get'', ''list'', ''watch'']))\<rparr>,
     r_StatusPatch = (\<lambda>m base w. (Inr (m\<lparr>db_Status := db_Status i\<rparr>), w \<union> asks (''db.tlndb.io'', ''tlndbs/status'') [''patch''])),
     r_ConfigMap = log_client (resource_of ConfigMapKind) (found b ((BuildConfigMap sample_lib i)\<lparr>cm_Data := fmempty\<rparr>)),
     r_ServiceAccount = log_client (resource_of ServiceAccountKind) (found b (BuildServiceAccount i)),
     r_Role = log_client (resource_of RoleKind) (found b ((BuildRole i)\<lparr>role_Rules := []\<rparr>)),
     r_RoleBinding = log_client (resource_of RoleBindingKind) (found b ((BuildRoleBinding i)\<lparr>rb_Subjects := []\<rparr>)),
     r_StatefulSet = log_client (resource_of StatefulSetKind)
       (found b ((BuildStatefulSet sample_lib i [])\<lparr>sts_Spec := (sts_Spec (BuildStatefulSet sample_lib i []))\<lparr>ss_Replicas := None\<rparr>\<rparr>)),
     r_Service = log_client (resource_of ServiceKind) (found b (BuildService i)),
     r_Ingress = log_client (resource_of IngressKind) (found b (BuildIngress i)),
     r_NetworkPolicy = log_client (resource_of NetworkPolicyKind) (found b (BuildNetworkPolicy i)),
     r_PDB = log_client (resource_of PDBKind) (found b (BuildPDB i)),
     r_HPA = log_client (resource_of HPAKind) (found b (BuildHPA i)),
     r_Unstructured = (\<lambda>g. log_client (resource_of MonitorKind) (found b (BuildServiceMonitor i))),
     r_SetControllerReference = (\<lambda>inst m. Inr m),
     r_SetControllerReferenceU = (\<lambda>inst u. Inr u),
     r_GroupVersionKind = mem_GroupVersionKind,
     r_GetName = mem_GetName,
     r_GetNamespace = mem_GetNamespace,
     r_GetResourceVersion = (\<lambda>u. []),
     r_SetResourceVersion = (\<lambda>v u. u),
     r_ContainsFinalizer = (\<lambda>m f. f \<in> set (om_Finalizers m)),
     r_AddFinalizer = (\<lambda>m f. m\<lparr>om_Finalizers := om_Finalizers m @ [f]\<rparr>),
     r_RemoveFinalizer = (\<lambda>m f. m\<lparr>om_Finalizers := filter (\<lambda>x. x \<noteq> f) (om_Finalizers m)\<rparr>),
     r_SetStatusCondition = (\<lambda>cs c w. (cs, w)),
     r_Eventf = (\<lambda>j t reason msg w. w \<union> asks ('''', ''events'') [''create'', ''patch'']),
     r_Now = (\<lambda>w. (0, w))\<rparr>"

lemma recorder_gvk: "gvk_laws (recorder i b)"
  by (simp add: gvk_laws_def recorder_def mem_GroupVersionKind_def)

subsection \<open>A checked recorder records what it may do\<close>

lemma asks_may: "asks gr vs \<subseteq> P \<longleftrightarrow> (\<forall>v \<in> set vs. may P gr v)"
  by (auto simp: asks_def may_def)

lemma checked_calls:
  "kc_Get (checked P gr c) k w = (if may P gr ''get'' \<and> may P gr ''list'' \<and> may P gr ''watch'' then kc_Get c k w else (Inl forbidden, w))"
  "kc_Create (checked P gr c) x w = (if may P gr ''create'' \<and> may P (''db.tlndb.io'', ''tlndbs/finalizers'') ''update''
     then kc_Create c x w else (Inl forbidden, w))"
  "kc_Update (checked P gr c) x w = (if may P gr ''update'' then kc_Update c x w else (Inl forbidden, w))"
  "kc_Delete (checked P gr c) x w = (if may P gr ''delete'' then kc_Delete c x w else (Some forbidden, w))"
  by (simp_all add: checked_def)

lemma checked_log_keeps:
  assumes "Q \<subseteq> P"
  shows "keeps_calls (\<lambda>_ w. w \<subseteq> P) (checked Q gr (log_client gr x))"
proof -
  have "may Q g v \<Longrightarrow> may P g v" for g v using assms by (auto simp: may_def)
  then show ?thesis by (intro keeps_callsI) (simp_all add: checked_calls asks_may)
qed

interpretation recorded: call_invariant "restricted P (recorder i b)" "meta_key (db_Meta i)" "\<lambda>w. w \<subseteq> P" for P i b
  by unfold_locales
    (auto simp: restricted_def recorder_def checked_log_keeps asks_may checked_calls meta_key_def split: if_splits)

subsection \<open>An unchecked recorder records what is used\<close>

text \<open>Stages that succeed, keep the instance and record at least \<open>L\<close>.\<close>

definition logs :: "TlnDB \<Rightarrow> permission set stage \<Rightarrow> permission set \<Rightarrow> bool" where
  "logs i f L \<longleftrightarrow> (\<forall>s. rs_inst s = i \<longrightarrow> (\<exists>s'. f s = (None, s') \<and> rs_inst s' = i \<and> rs_world s \<union> L \<subseteq> rs_world s'))"

lemma logsI: "(\<And>s. rs_inst s = i \<Longrightarrow> \<exists>s'. f s = (None, s') \<and> rs_inst s' = i \<and> rs_world s \<union> L \<subseteq> rs_world s') \<Longrightarrow> logs i f L"
  unfolding logs_def by blast

lemma logs_run:
  "logs i (run []) {}"
  "logs i f L \<Longrightarrow> logs i (run fs) M \<Longrightarrow> logs i (run (f # fs)) (L \<union> M)"
proof -
  show "logs i (run []) {}" by (simp add: logs_def)
  assume f: "logs i f L" and fs: "logs i (run fs) M"
  show "logs i (run (f # fs)) (L \<union> M)"
  proof (rule logsI)
    fix s :: "permission set rstate"
    assume "rs_inst s = i"
    then obtain s1 where s1: "f s = (None, s1)" "rs_inst s1 = i" "rs_world s \<union> L \<subseteq> rs_world s1" using f unfolding logs_def by blast
    then obtain s2 where "run fs s1 = (None, s2)" "rs_inst s2 = i" "rs_world s1 \<union> M \<subseteq> rs_world s2" using fs unfolding logs_def by blast
    then show "\<exists>s'. run (f # fs) s = (None, s') \<and> rs_inst s' = i \<and> rs_world s \<union> (L \<union> M) \<subseteq> rs_world s'" using s1 by auto
  qed
qed

lemma logs_only_if: "b i \<Longrightarrow> logs i f L \<Longrightarrow> logs i (only_if b f) L"
  by (simp add: logs_def only_if_def)

lemma logs_ensure:
  assumes "\<And>w. \<exists>d w'. cou i (build i) w = (Inr d, w') \<and> w \<union> L \<subseteq> w'"
  shows "logs i (ensure what kindName nameOf cou build) L"
proof (rule logsI)
  fix s :: "permission set rstate"
  assume s: "rs_inst s = i"
  obtain d w' where "cou i (build i) (rs_world s) = (Inr d, w')" "rs_world s \<union> L \<subseteq> w'" using assms by blast
  then show "\<exists>s'. ensure what kindName nameOf cou build s = (None, s') \<and> rs_inst s' = i \<and> rs_world s \<union> L \<subseteq> rs_world s'"
    using s by (auto simp: ensure_def)
qed

text \<open>What a create-or-update of kind \<open>K\<close> asks for, whether the object exists or not.\<close>

definition upserting :: "bool \<Rightarrow> kind \<Rightarrow> permission set" where
  "upserting b K = asks (resource_of K) [''get'', ''list'', ''watch'', if b then ''update'' else ''create''] \<union>
     (if b then {} else asks (''db.tlndb.io'', ''tlndbs/finalizers'') [''update''])"

lemmas recording = recorder_def found_def upserting_def asks_def updateExisting_def copyLabels_def copyAnnotations_def

lemma fmupd_not_empty: "fmempty \<noteq> fmupd k v m"
  by (metis fmempty_lookup fmupd_lookup option.distinct(1))

lemma recorded_upserts:
  "\<exists>d w'. createOrUpdateConfigMap (recorder i b) i (BuildConfigMap L i) w = (Inr d, w') \<and> w \<union> upserting b ConfigMapKind \<subseteq> w'"
  "\<exists>d w'. createOrUpdateServiceAccount (recorder i b) i x1 w = (Inr d, w') \<and> w \<union> upserting b ServiceAccountKind \<subseteq> w'"
  "\<exists>d w'. createOrUpdateRole (recorder i b) i (BuildRole i) w = (Inr d, w') \<and> w \<union> upserting b RoleKind \<subseteq> w'"
  "\<exists>d w'. createOrUpdateRoleBinding (recorder i b) i (BuildRoleBinding i) w = (Inr d, w') \<and> w \<union> upserting b RoleBindingKind \<subseteq> w'"
  "\<exists>d w'. createOrUpdateService (recorder i b) i x2 w = (Inr d, w') \<and> w \<union> upserting b ServiceKind \<subseteq> w'"
  "\<exists>d w'. createOrUpdateIngress (recorder i b) i x3 w = (Inr d, w') \<and> w \<union> upserting b IngressKind \<subseteq> w'"
  "\<exists>d w'. createOrUpdateNetworkPolicy (recorder i b) i x4 w = (Inr d, w') \<and> w \<union> upserting b NetworkPolicyKind \<subseteq> w'"
  "\<exists>d w'. createOrUpdatePDB (recorder i b) i x5 w = (Inr d, w') \<and> w \<union> upserting b PDBKind \<subseteq> w'"
  "\<exists>d w'. createOrUpdateHPA (recorder i b) i x6 w = (Inr d, w') \<and> w \<union> upserting b HPAKind \<subseteq> w'"
  "\<exists>d w'. createOrUpdateServiceMonitor (recorder i b) i x7 w = (Inr d, w') \<and> w \<union> upserting b MonitorKind \<subseteq> w'"
  by (auto simp: recording createOrUpdateConfigMap_def createOrUpdateServiceAccount_def createOrUpdateRole_def
      createOrUpdateRoleBinding_def createOrUpdateService_def createOrUpdateIngress_def createOrUpdateNetworkPolicy_def
      createOrUpdatePDB_def createOrUpdateHPA_def createOrUpdateServiceMonitor_def Let_def
      BuildConfigMap_def BuildRole_def BuildRoleBinding_def fmupd_not_empty)

lemma recorded_StatefulSet:
  assumes "ss_Replicas (sts_Spec d) = Some n"
  shows "\<exists>d' w'. createOrUpdateStatefulSet (recorder i b) i d w = (Inr d', w') \<and>
    w \<union> (upserting b StatefulSetKind \<union> asks ('''', ''events'') [''create'', ''patch'']) \<subseteq> w'"
  using assms by (auto simp: recording createOrUpdateStatefulSet_def statefulSetNeedsUpdate_def Let_def)

lemma logs_condition: "logs i (condition (recorder i b) t st re msg) (asks (''db.tlndb.io'', ''tlndbs/status'') [''patch''])"
  by (rule logsI) (auto simp: condition_def setCondition_def recorder_def Let_def)

text \<open>An instance that asks for everything and, being without followers, prunes them; and its runs.\<close>

definition full :: TlnDB where
  "full = demo\<lparr>db_Spec := zero_TlnDBSpec\<lparr>spec_Mode := ''replicated'',
     spec_Networking := (spec_Networking zero_TlnDBSpec)\<lparr>
       net_Ingress := (net_Ingress (spec_Networking zero_TlnDBSpec))\<lparr>isp_Enabled := True\<rparr>,
       net_NetworkPolicy := (net_NetworkPolicy (spec_Networking zero_TlnDBSpec))\<lparr>nsp_Enabled := True\<rparr>\<rparr>,
     spec_Observability := (spec_Observability zero_TlnDBSpec)\<lparr>obs_Metrics := (obs_Metrics (spec_Observability zero_TlnDBSpec))\<lparr>
       met_ServiceMonitor := (met_ServiceMonitor (obs_Metrics (spec_Observability zero_TlnDBSpec)))\<lparr>sms_Enabled := True\<rparr>\<rparr>\<rparr>,
     spec_Availability := (spec_Availability zero_TlnDBSpec)\<lparr>
       av_PodDisruptionBudget := (av_PodDisruptionBudget (spec_Availability zero_TlnDBSpec))\<lparr>pds_Enabled := True\<rparr>,
       av_HorizontalPodAutoscaler := (av_HorizontalPodAutoscaler (spec_Availability zero_TlnDBSpec))\<lparr>hps_Enabled := True\<rparr>\<rparr>\<rparr>\<rparr>"

lemma full_facts:
  "wants_rbac full" "wants_ingress full" "wants_np full" "wants_sm full" "wants_pdb full" "wants_hpa full"
  "Replicated full" "readReplicas full = 0" "spec_ConfigFrom (db_Spec full) = None"
  "om_Finalizers (db_Meta full) = [FinalizerName]" "om_DeletionTimestamp (db_Meta full) = None"
  "sta_Phase (db_Status full) = []" "meta_key (db_Meta full) = (''ns1'', ''db1'')"
  by (simp_all add: full_def demo_def zero_defs Replicated_def meta_key_def)

lemma logs_config: "logs full (stageConfig (recorder full b)) (upserting b ConfigMapKind)"
proof (rule logsI)
  fix s :: "permission set rstate"
  assume s: "rs_inst s = full"
  obtain d w' where c: "createOrUpdateConfigMap (recorder full b) full (BuildConfigMap sample_lib full) (rs_world s) = (Inr d, w')"
    "rs_world s \<union> upserting b ConfigMapKind \<subseteq> w'" using recorded_upserts(1) by blast
  have "r_lib (recorder full b) = sample_lib" by (simp add: recorder_def)
  then show "\<exists>s'. stageConfig (recorder full b) s = (None, s') \<and> rs_inst s' = full \<and> rs_world s \<union> upserting b ConfigMapKind \<subseteq> rs_world s'"
    using s c by (auto simp: stageConfig_def stageRenderedConfig_def full_facts condition_def setCondition_def Let_def)
      (auto simp: recorder_def)
qed

lemma logs_ServiceMonitor: "logs full (stageServiceMonitor (recorder full b)) (upserting b MonitorKind)"
  unfolding stageServiceMonitor_def
proof (rule logs_only_if, simp add: full_facts, rule logsI)
  fix s :: "permission set rstate"
  assume s: "rs_inst s = full"
  obtain d w' where c: "createOrUpdateServiceMonitor (recorder full b) full (BuildServiceMonitor full) (rs_world s) = (Inr d, w')"
    "rs_world s \<union> upserting b MonitorKind \<subseteq> w'" using recorded_upserts(10) by blast
  show "\<exists>s'. (case createOrUpdateServiceMonitor (recorder full b) (rs_inst s) (BuildServiceMonitor (rs_inst s)) (rs_world s) of
      (Inl e, w) \<Rightarrow> condition (recorder full b) ConditionServiceMonitorReady ConditionFalse ''ServiceMonitorCRDMissing'' (Error e) (s\<lparr>rs_world := w\<rparr>)
    | (Inr sm, w) \<Rightarrow> condition (recorder full b) ConditionServiceMonitorReady ConditionTrue ''ServiceMonitorReady'' ''ServiceMonitor reconciled''
        (s\<lparr>rs_world := w, rs_managed := rs_managed s @ [''ServiceMonitor/'' @ r_GetName (recorder full b) sm]\<rparr>)) = (None, s') \<and>
    rs_inst s' = full \<and> rs_world s \<union> upserting b MonitorKind \<subseteq> rs_world s'"
    using s c by (auto simp: condition_def setCondition_def Let_def) (auto simp: recorder_def)
qed

lemma logs_stages:
  "logs full (stageRBAC (recorder full b))
     (upserting b ServiceAccountKind \<union> (upserting b RoleKind \<union> (upserting b RoleBindingKind \<union>
        (asks (''db.tlndb.io'', ''tlndbs/status'') [''patch''] \<union> {}))))"
  "logs full (stageHeadless (recorder full b)) (upserting b ServiceKind)"
  "logs full (stageIngress (recorder full b)) (upserting b IngressKind)"
  "logs full (stageNetworkPolicy (recorder full b)) (upserting b NetworkPolicyKind \<union> (asks (''db.tlndb.io'', ''tlndbs/status'') [''patch''] \<union> {}))"
  "logs full (stagePDB (recorder full b)) (upserting b PDBKind)"
  "logs full (stageHPA (recorder full b)) (upserting b HPAKind)"
  "logs full (stagePersist (recorder full b)) {}"
proof -
  note E = logs_ensure recorded_upserts
  show "logs full (stageRBAC (recorder full b)) (upserting b ServiceAccountKind \<union> (upserting b RoleKind \<union>
      (upserting b RoleBindingKind \<union> (asks (''db.tlndb.io'', ''tlndbs/status'') [''patch''] \<union> {}))))"
    unfolding stageRBAC_def by (intro logs_only_if logs_run E logs_condition) (simp add: full_facts)
  show "logs full (stageHeadless (recorder full b)) (upserting b ServiceKind)"
    unfolding stageHeadless_def ensureService_def by (intro E)
  show "logs full (stageIngress (recorder full b)) (upserting b IngressKind)"
    unfolding stageIngress_def by (intro logs_only_if E) (simp add: full_facts)
  show "logs full (stageNetworkPolicy (recorder full b)) (upserting b NetworkPolicyKind \<union> (asks (''db.tlndb.io'', ''tlndbs/status'') [''patch''] \<union> {}))"
    unfolding stageNetworkPolicy_def by (intro logs_only_if logs_run E logs_condition) (simp add: full_facts)
  show "logs full (stagePDB (recorder full b)) (upserting b PDBKind)"
    unfolding stagePDB_def by (intro logs_only_if E) (simp add: full_facts)
  show "logs full (stageHPA (recorder full b)) (upserting b HPAKind)"
    unfolding stageHPA_def by (intro logs_only_if E) (simp add: full_facts)
  show "logs full (stagePersist (recorder full b)) {}"
    by (rule logsI) (auto simp: stagePersist_def patchStatus_def recorder_def Let_def)
qed

lemma logs_workloads:
  "logs full (stageWorkloads (recorder full b))
     (upserting b StatefulSetKind \<union> asks ('''', ''events'') [''create'', ''patch''] \<union>
        (if b then asks (resource_of StatefulSetKind) [''delete''] else {}))"
proof -
  let ?ev = "asks ('''', ''events'') [''create'', ''patch'']" and ?del = "if b then asks (resource_of StatefulSetKind) [''delete''] else {}"
  have leader: "logs full (ensureStatefulSet (recorder full b) what (\<lambda>inst. BuildLeaderStatefulSet L inst h ret))
      (upserting b StatefulSetKind \<union> ?ev)" for what L h ret
    unfolding ensureStatefulSet_def by (intro logs_ensure recorded_StatefulSet [OF built_replicas(2)])
  have prune: "logs full (stageFollowers (recorder full b) h addr ret) ?del" for h addr ret
    by (rule logsI) (auto simp: stageFollowers_def stagePruneFollowers_def deleteStatefulSetIfExists_def full_facts recorder_def found_def)
  have services: "logs full (ensureService (recorder full b) what build) (upserting b ServiceKind)" for what build
    unfolding ensureService_def by (intro logs_ensure recorded_upserts)
  have "\<exists>s'. stageReplicated (recorder full b) s = (None, s') \<and> rs_inst s' = full \<and>
      rs_world s \<union> (upserting b StatefulSetKind \<union> ?ev \<union> ?del) \<subseteq> rs_world s'" if "rs_inst s = full" for s
  proof -
    have "logs full (run [ensureStatefulSet (recorder full b) ''leader StatefulSet'' (\<lambda>inst. BuildLeaderStatefulSet L inst h ret),
        stageFollowers (recorder full b) h addr ret, ensureService (recorder full b) ''write Service'' BuildWriteService,
        ensureService (recorder full b) ''read Service'' BuildReadService,
        condition (recorder full b) ConditionServiceReady ConditionTrue ''ServiceReady'' ''Services reconciled''])
      ((upserting b StatefulSetKind \<union> ?ev) \<union> (?del \<union> (upserting b ServiceKind \<union> (upserting b ServiceKind \<union>
        (asks (''db.tlndb.io'', ''tlndbs/status'') [''patch''] \<union> {})))))" for L h ret addr
      by (intro logs_run leader prune services logs_condition)
    from this [unfolded logs_def, rule_format, OF that] show ?thesis unfolding stageReplicated_def Let_def by blast
  qed
  then show ?thesis by (intro logsI) (simp add: stageWorkloads_def full_facts)
qed

lemma recorded_resources:
  "\<exists>w'. reconcileResources (recorder full b) full w = (None, full, w') \<and> w \<union> (\<Union>K. upserting b K) \<union>
     asks ('''', ''events'') [''create'', ''patch''] \<union> asks (''db.tlndb.io'', ''tlndbs/status'') [''patch''] \<union>
     (if b then asks (resource_of StatefulSetKind) [''delete''] else {}) \<subseteq> w'"
proof -
  note S = logs_stages [of b] and run = logs_run(2) [of full]
  note all = run [OF S(1) run [OF logs_config [of b] run [OF S(2) run [OF logs_workloads [of b] run [OF S(3) run [OF S(4)
    run [OF logs_ServiceMonitor [of b] run [OF S(5) run [OF S(6) run [OF S(7) logs_run(1)]]]]]]]]]]
  obtain s where s: "run [stageRBAC (recorder full b), stageConfig (recorder full b), stageHeadless (recorder full b),
      stageWorkloads (recorder full b), stageIngress (recorder full b), stageNetworkPolicy (recorder full b),
      stageServiceMonitor (recorder full b), stagePDB (recorder full b), stageHPA (recorder full b), stagePersist (recorder full b)]
      \<lparr>rs_inst = full, rs_managed = [], rs_hash = [], rs_world = w\<rparr> = (None, s)" "rs_inst s = full"
    "w \<union> (upserting b ServiceAccountKind \<union> upserting b RoleKind \<union> upserting b RoleBindingKind \<union>
       upserting b ConfigMapKind \<union> upserting b ServiceKind \<union> upserting b StatefulSetKind \<union> upserting b IngressKind \<union>
       upserting b NetworkPolicyKind \<union> upserting b MonitorKind \<union> upserting b PDBKind \<union> upserting b HPAKind \<union>
       asks ('''', ''events'') [''create'', ''patch''] \<union> asks (''db.tlndb.io'', ''tlndbs/status'') [''patch''] \<union>
       (if b then asks (resource_of StatefulSetKind) [''delete''] else {})) \<subseteq> rs_world s"
    using all [unfolded logs_def, rule_format, of "\<lparr>rs_inst = full, rs_managed = [], rs_hash = [], rs_world = w\<rparr>"]
    unfolding Un_assoc by (auto simp del: run.simps)
  have "upserting b K \<subseteq> rs_world s" for K using s(3) by (cases K) simp_all
  then show ?thesis using s by (auto simp: reconcileResources_def simp del: run.simps)
qed

text \<open>The three runs: nothing exists yet, everything exists but differs, the finalizer is missing.\<close>

lemma recorded_run:
  "(\<Union>K. upserting b K) \<union> asks ('''', ''events'') [''create'', ''patch''] \<union> asks (''db.tlndb.io'', ''tlndbs/status'') [''patch''] \<union>
     (if b then asks (resource_of StatefulSetKind) [''delete''] else {}) \<subseteq> snd (Reconcile (recorder full b) (''ns1'', ''db1'') w)"
proof -
  let ?r = "recorder full b" and ?w = "w \<union> asks (''db.tlndb.io'', ''tlndbs'') [''get'', ''list'', ''watch'']"
  have get: "kc_Get (r_TlnDB ?r) (''ns1'', ''db1'') w = (Inr full, ?w)" by (simp add: recorder_def full_facts)
  obtain w1 where phase: "setPhase ?r full PhaseProvisioning ?w = (None, full, w1)"
    by (simp add: setPhase_def patchStatus_def recorder_def)
  obtain w2 where res: "reconcileResources ?r full w1 = (None, full, w2)"
    "(\<Union>K. upserting b K) \<union> asks ('''', ''events'') [''create'', ''patch''] \<union> asks (''db.tlndb.io'', ''tlndbs/status'') [''patch''] \<union>
     (if b then asks (resource_of StatefulSetKind) [''delete''] else {}) \<subseteq> w2" using recorded_resources [of b w1] by blast
  have sync: "w2 \<subseteq> snd (snd (syncStatus ?r full w2))"
    by (auto simp: syncStatus_def setConditionOnInstance_def patchStatus_def recorder_def found_def Let_def readyCondition_def split: if_splits)
  have "r_ContainsFinalizer ?r (db_Meta full) FinalizerName" by (simp add: recorder_def full_facts)
  then have eq: "snd (Reconcile ?r (''ns1'', ''db1'') w) = snd (snd (syncStatus ?r full w2))"
    using get phase res(1) by (simp add: Reconcile_def reconcileInstance_def reconcilePresent_def full_facts case_prod_beta)
  show ?thesis unfolding eq by (rule order_trans [OF res(2) sync])
qed

lemma recorded_finalizer:
  "asks (''db.tlndb.io'', ''tlndbs'') [''get'', ''list'', ''watch'', ''update'']
     \<subseteq> snd (Reconcile (recorder newInstance b) (meta_key (db_Meta newInstance)) w)"
  by (auto simp: Reconcile_def reconcileInstance_def updateInstance_def recorder_def newInstance_def zero_ObjectMeta_def asks_def)

lemma needed_recorded:
  assumes "(g, res, v) \<in> needed"
  shows "\<exists>i b. (g, res, v) \<in> snd (Reconcile (recorder i b) (meta_key (db_Meta i)) {})"
proof -
  note full = recorded_run [unfolded full_facts(13) [symmetric], of _ "{}"]
  show ?thesis
    using assms
  proof cases
    case (upserts K)
    then have "(g, res, v) \<in> upserting (v = ''update'') K" by (auto simp: upserting_def asks_def)
    then show ?thesis using full by blast
  next
    case prune
    then show ?thesis using full [of True] by (auto simp: asks_def resource_of.simps)
  next
    case instances
    then have "(g, res, v) \<in> asks (''db.tlndb.io'', ''tlndbs'') [''get'', ''list'', ''watch'', ''update'']" by (auto simp: asks_def)
    then show ?thesis using recorded_finalizer by blast
  next
    case status
    then show ?thesis using full by (auto simp: asks_def)
  next
    case finalizers
    then have "(g, res, v) \<in> upserting False ConfigMapKind" by (simp add: upserting_def asks_def)
    then show ?thesis using full by blast
  next
    case events
    then show ?thesis using full by (auto simp: asks_def)
  qed
qed

subsection \<open>The property\<close>

text \<open>Whoever may not do something of what is needed is found out by a recorder.\<close>

lemma unchecked_needs:
  assumes same: "\<And>(r :: permission set reconciler) k w. gvk_laws r \<Longrightarrow> Reconcile (restricted P r) k w = Reconcile r k w"
  shows "needed \<subseteq> P"
proof
  fix p assume p: "p \<in> needed"
  obtain g res v where "p = (g, res, v)" by (rule prod_cases3)
  then obtain i b where "p \<in> snd (Reconcile (recorder i b) (meta_key (db_Meta i)) {})" using p needed_recorded by blast
  then have "p \<in> snd (Reconcile (restricted P (recorder i b)) (meta_key (db_Meta i)) {})" using same [OF recorder_gvk] by metis
  then show "p \<in> P" using recorded.Reconcile_keeps [of "{}" P i b] by blast
qed



end
