(* ===== verification/GoHeap.thy ===== *)
theory GoHeap
  imports Prelude
begin

section \<open>Memory and the contract of a deep copy\<close>

text \<open>
  Go memory as a list of cells: an address is an index, allocation appends. A value that
  holds pointers has, in a given heap, a meaning (\<open>val\<close>), a footprint (the cells it
  reaches) and a typing condition (\<open>wt\<close>). The locale \<open>copier\<close> is the contract of a copy
  operation: the old cells keep their contents, the copy means the same, is well typed,
  and reaches fresh cells only. The contract is closed under the ways the generated code
  puts copies together: pointers, slices, and the fields of a struct.
\<close>

type_synonym addr = nat

definition grows :: "'c list \<Rightarrow> 'c list \<Rightarrow> bool" where
  "grows h h' \<longleftrightarrow> length h \<le> length h' \<and> (\<forall>a < length h. h' ! a = h ! a)"

text \<open>Another heap has the cells \<open>A\<close> of this one, with the same contents.\<close>

definition keeps :: "addr set \<Rightarrow> 'c list \<Rightarrow> 'c list \<Rightarrow> bool" where
  "keeps A h h' \<longleftrightarrow> (\<forall>a \<in> A. a < length h' \<and> h' ! a = h ! a)"

lemma grows_refl [simp]: "grows h h"
  by (simp add: grows_def)

lemma grows_trans: "grows h h1 \<Longrightarrow> grows h1 h2 \<Longrightarrow> grows h h2"
  by (auto simp: grows_def)

lemma grows_length: "grows h h' \<Longrightarrow> length h \<le> length h'"
  by (simp add: grows_def)

lemma grows_new [simp]: "grows h (h @ [c])"
  by (simp add: grows_def nth_append)

lemma grows_keeps: "grows h h' \<Longrightarrow> A \<subseteq> {..<length h} \<Longrightarrow> keeps A h h'"
  by (auto simp: grows_def keeps_def subset_iff)

lemma keeps_Un [simp]: "keeps (A \<union> B) h h' \<longleftrightarrow> keeps A h h' \<and> keeps B h h'"
  by (auto simp: keeps_def)

lemma keeps_insert [simp]: "keeps (insert a B) h h' \<longleftrightarrow> a < length h' \<and> h' ! a = h ! a \<and> keeps B h h'"
  by (auto simp: keeps_def)

lemma keeps_subset: "keeps B h h' \<Longrightarrow> A \<subseteq> B \<Longrightarrow> keeps A h h'"
  by (auto simp: keeps_def)

lemma keeps_write: "A \<subseteq> {..<length h} \<Longrightarrow> b \<notin> A \<Longrightarrow> keeps A h (h[b := c])"
  by (fastforce simp: keeps_def intro!: nth_list_update_neq)

subsection \<open>The contract\<close>

locale copier =
  fixes into :: "'a \<Rightarrow> 'c list \<Rightarrow> 'a \<times> 'c list"
    and val :: "'c list \<Rightarrow> 'a \<Rightarrow> 'v"
    and foot :: "'c list \<Rightarrow> 'a \<Rightarrow> addr set"
    and wt :: "'c list \<Rightarrow> 'a \<Rightarrow> bool"
  assumes bounded: "wt h x \<Longrightarrow> foot h x \<subseteq> {..<length h}"
    and stable: "wt h x \<Longrightarrow> keeps (foot h x) h h' \<Longrightarrow> wt h' x \<and> val h' x = val h x \<and> foot h' x = foot h x"
    and copy: "wt h x \<Longrightarrow> into x h = (y, h') \<Longrightarrow>
      grows h h' \<and> wt h' y \<and> val h' y = val h x \<and> foot h' y \<subseteq> {length h..<length h'}"
begin

lemma later:
  assumes "wt h x" and "grows h h'"
  shows "wt h' x" and "val h' x = val h x" and "foot h' x = foot h x"
  using stable [OF assms(1) grows_keeps [OF assms(2) bounded [OF assms(1)]]] by simp_all

lemma copy_fresh:
  assumes "wt h x" and "into x h = (y, h')"
  shows "foot h' y \<inter> foot h' x = {}"
proof -
  have "foot h' x = foot h x" using copy [OF assms] later(3) [OF assms(1)] by blast
  then show ?thesis using copy [OF assms] bounded [OF assms(1)] by fastforce
qed

text \<open>Whatever happens to the other cells, the copy keeps the meaning the original had.\<close>

lemma copy_isolated:
  assumes "wt h x" and "into x h = (y, h')" and "keeps {length h..<length h'} h' h''"
  shows "wt h'' y" and "val h'' y = val h x"
proof -
  have "keeps (foot h' y) h' h''" using copy [OF assms(1,2)] assms(3) keeps_subset by blast
  then show "wt h'' y" "val h'' y = val h x" using copy [OF assms(1,2)] stable [of h' y h''] by simp_all
qed

text \<open>And whatever happens to the copy, the original keeps its own.\<close>

lemma original_isolated:
  assumes "wt h x" and "into x h = (y, h')" and "keeps {..<length h} h' h''"
  shows "wt h'' x" and "val h'' x = val h x"
proof -
  have g: "grows h h'" using copy [OF assms(1,2)] by simp
  have "keeps (foot h' x) h' h''" using later(3) [OF assms(1) g] bounded [OF assms(1)] assms(3) keeps_subset by metis
  then show "wt h'' x" "val h'' x = val h x"
    using stable [of h' x h''] later [OF assms(1) g] by simp_all
qed

end

subsection \<open>Values without pointers\<close>

definition plainInto :: "'a \<Rightarrow> 'c list \<Rightarrow> 'a \<times> 'c list" where
  "plainInto x h = (x, h)"

definition plainVal :: "'c list \<Rightarrow> 'a \<Rightarrow> 'a" where
  "plainVal h x = x"

definition plainFoot :: "'c list \<Rightarrow> 'a \<Rightarrow> addr set" where
  "plainFoot h x = {}"

definition plainWt :: "'c list \<Rightarrow> 'a \<Rightarrow> bool" where
  "plainWt h x \<longleftrightarrow> True"

interpretation plain: copier plainInto plainVal plainFoot plainWt
  by unfold_locales (auto simp: plainInto_def plainVal_def plainFoot_def plainWt_def)

subsection \<open>Restricting and reading off\<close>

lemma copier_as:
  assumes "copier into val foot wt"
  shows "copier into (\<lambda>h x. f (val h x)) foot (\<lambda>h x. wt h x \<and> Q (val h x))"
  using assms unfolding copier_def by metis

subsection \<open>Two values in sequence\<close>

definition pairInto ::
    "('a \<Rightarrow> 'c list \<Rightarrow> 'a \<times> 'c list) \<Rightarrow> ('b \<Rightarrow> 'c list \<Rightarrow> 'b \<times> 'c list) \<Rightarrow> 'a \<times> 'b \<Rightarrow> 'c list \<Rightarrow> ('a \<times> 'b) \<times> 'c list" where
  "pairInto f g p h = (let (x, h) = f (fst p) h; (y, h) = g (snd p) h in ((x, y), h))"

definition pairVal :: "('h \<Rightarrow> 'a \<Rightarrow> 'v) \<Rightarrow> ('h \<Rightarrow> 'b \<Rightarrow> 'w) \<Rightarrow> 'h \<Rightarrow> 'a \<times> 'b \<Rightarrow> 'v \<times> 'w" where
  "pairVal v w h p = (v h (fst p), w h (snd p))"

definition pairFoot :: "('h \<Rightarrow> 'a \<Rightarrow> addr set) \<Rightarrow> ('h \<Rightarrow> 'b \<Rightarrow> addr set) \<Rightarrow> 'h \<Rightarrow> 'a \<times> 'b \<Rightarrow> addr set" where
  "pairFoot f g h p = f h (fst p) \<union> g h (snd p)"

definition pairWt :: "('h \<Rightarrow> 'a \<Rightarrow> bool) \<Rightarrow> ('h \<Rightarrow> 'b \<Rightarrow> bool) \<Rightarrow> 'h \<Rightarrow> 'a \<times> 'b \<Rightarrow> bool" where
  "pairWt f g h p \<longleftrightarrow> f h (fst p) \<and> g h (snd p)"

lemmas pair_defs = pairInto_def pairVal_def pairFoot_def pairWt_def

lemma copier_pair:
  assumes a: "copier into1 val1 foot1 wt1" and b: "copier into2 val2 foot2 wt2"
  shows "copier (pairInto into1 into2) (pairVal val1 val2) (pairFoot foot1 foot2) (pairWt wt1 wt2)"
proof
  show "pairFoot foot1 foot2 h p \<subseteq> {..<length h}" if "pairWt wt1 wt2 h p" for h p
    using that copier.bounded [OF a] copier.bounded [OF b] by (simp add: pair_defs)
  show "pairWt wt1 wt2 h' p \<and> pairVal val1 val2 h' p = pairVal val1 val2 h p \<and>
      pairFoot foot1 foot2 h' p = pairFoot foot1 foot2 h p"
    if "pairWt wt1 wt2 h p" "keeps (pairFoot foot1 foot2 h p) h h'" for h p h'
    using that copier.stable [OF a, of h "fst p" h'] copier.stable [OF b, of h "snd p" h'] by (simp add: pair_defs)
  show "grows h h' \<and> pairWt wt1 wt2 h' q \<and> pairVal val1 val2 h' q = pairVal val1 val2 h p \<and>
      pairFoot foot1 foot2 h' q \<subseteq> {length h..<length h'}"
    if wt: "pairWt wt1 wt2 h p" and run: "pairInto into1 into2 p h = (q, h')" for h p q h'
  proof -
    obtain x h1 where x: "into1 (fst p) h = (x, h1)" by force
    obtain y where y: "into2 (snd p) h1 = (y, h')" "q = (x, y)"
      using run x by (auto simp: pairInto_def split: prod.splits)
    have c1: "grows h h1 \<and> wt1 h1 x \<and> val1 h1 x = val1 h (fst p) \<and> foot1 h1 x \<subseteq> {length h..<length h1}"
      using copier.copy [OF a _ x] wt by (simp add: pairWt_def)
    have s: "wt2 h1 (snd p)" "val2 h1 (snd p) = val2 h (snd p)"
      using copier.later [OF b, of h "snd p" h1] wt c1 by (simp_all add: pairWt_def)
    have c2: "grows h1 h' \<and> wt2 h' y \<and> val2 h' y = val2 h1 (snd p) \<and> foot2 h' y \<subseteq> {length h1..<length h'}"
      using copier.copy [OF b s(1) y(1)] .
    have l: "wt1 h' x" "val1 h' x = val1 h1 x" "foot1 h' x = foot1 h1 x" using copier.later [OF a, of h1 x h'] c1 c2 by simp_all
    have "length h \<le> length h1" "length h1 \<le> length h'" using c1 c2 grows_length by blast+
    then have "foot1 h' x \<union> foot2 h' y \<subseteq> {length h..<length h'}" using l(3) c1 c2 by fastforce
    then show ?thesis using c1 c2 l s(2) y(2) grows_trans by (auto simp: pair_defs)
  qed
qed

subsection \<open>Structs\<close>

text \<open>
  A struct is copied by copying some of its fields (\<open>get\<close>) and putting the copies into a
  plain copy of the struct (\<open>put\<close>).
\<close>

lemma copier_struct:
  assumes c: "copier into val foot wt"
    and into: "\<And>x h. Into x h = (case into (get x) h of (y, h') \<Rightarrow> (put x y, h'))"
    and get: "\<And>x y. get (put x y) = y"
    and val: "\<And>h x. Val h x = mk x (val h (get x))" and mk: "\<And>x y. mk (put x y) = mk x"
    and foot: "\<And>h x. Foot h x = foot h (get x)" and wt: "\<And>h x. Wt h x \<longleftrightarrow> wt h (get x)"
  shows "copier Into Val Foot Wt"
proof
  show "Foot h x \<subseteq> {..<length h}" if "Wt h x" for h x using copier.bounded [OF c] that by (simp add: foot wt)
  show "Wt h' x \<and> Val h' x = Val h x \<and> Foot h' x = Foot h x" if "Wt h x" "keeps (Foot h x) h h'" for h x h'
    using copier.stable [OF c, of h "get x" h'] that by (simp add: foot wt val)
  show "grows h h' \<and> Wt h' y \<and> Val h' y = Val h x \<and> Foot h' y \<subseteq> {length h..<length h'}"
    if x: "Wt h x" and run: "Into x h = (y, h')" for h x y h'
  proof -
    obtain z where z: "into (get x) h = (z, h')" "y = put x z" using run by (auto simp: into split: prod.splits)
    show ?thesis using copier.copy [OF c _ z(1)] x by (simp add: foot wt val get mk z(2))
  qed
qed

subsection \<open>Elements of a slice\<close>

primrec copyAll :: "('a \<Rightarrow> 'c list \<Rightarrow> 'a \<times> 'c list) \<Rightarrow> 'a list \<Rightarrow> 'c list \<Rightarrow> 'a list \<times> 'c list" where
  "copyAll into [] h = ([], h)"
| "copyAll into (x # xs) h = (let (y, h) = into x h; (ys, h) = copyAll into xs h in (y # ys, h))"

definition allVal :: "('h \<Rightarrow> 'a \<Rightarrow> 'v) \<Rightarrow> 'h \<Rightarrow> 'a list \<Rightarrow> 'v list" where
  "allVal val h xs = map (val h) xs"

definition allFoot :: "('h \<Rightarrow> 'a \<Rightarrow> addr set) \<Rightarrow> 'h \<Rightarrow> 'a list \<Rightarrow> addr set" where
  "allFoot foot h xs = (\<Union>x \<in> set xs. foot h x)"

definition allWt :: "('h \<Rightarrow> 'a \<Rightarrow> bool) \<Rightarrow> 'h \<Rightarrow> 'a list \<Rightarrow> bool" where
  "allWt wt h xs \<longleftrightarrow> list_all (wt h) xs"

lemmas all_defs = allVal_def allFoot_def allWt_def

lemma copier_all:
  assumes c: "copier into val foot wt"
  shows "copier (copyAll into) (allVal val) (allFoot foot) (allWt wt)"
proof
  show "allFoot foot h xs \<subseteq> {..<length h}" if "allWt wt h xs" for h xs
    using that copier.bounded [OF c] by (fastforce simp: all_defs list_all_iff)
  show "allWt wt h' xs \<and> allVal val h' xs = allVal val h xs \<and> allFoot foot h' xs = allFoot foot h xs"
    if "allWt wt h xs" "keeps (allFoot foot h xs) h h'" for h xs h'
    using that
  proof (induction xs)
    case (Cons x xs)
    then show ?case using copier.stable [OF c, of h x h'] by (simp add: all_defs)
  qed (simp add: all_defs)
  show "grows h h' \<and> allWt wt h' ys \<and> allVal val h' ys = allVal val h xs \<and> allFoot foot h' ys \<subseteq> {length h..<length h'}"
    if "allWt wt h xs" "copyAll into xs h = (ys, h')" for h xs ys h'
    using that
  proof (induction xs arbitrary: h ys)
    case Nil
    then show ?case by (simp add: all_defs)
  next
    case (Cons x xs)
    obtain y h1 where x: "into x h = (y, h1)" by force
    obtain zs where zs: "copyAll into xs h1 = (zs, h')" "ys = y # zs"
      using Cons.prems(2) x by (auto split: prod.splits)
    have c1: "grows h h1 \<and> wt h1 y \<and> val h1 y = val h x \<and> foot h1 y \<subseteq> {length h..<length h1}"
      using copier.copy [OF c _ x] Cons.prems(1) by (simp add: allWt_def)
    have s: "wt h1 z" "val h1 z = val h z" if "z \<in> set xs" for z
      using copier.later [OF c, of h z h1] that c1 Cons.prems(1) by (auto simp: allWt_def list_all_iff)
    then have w: "allWt wt h1 xs" "allVal val h1 xs = allVal val h xs" by (simp_all add: all_defs list_all_iff)
    have c2: "grows h1 h' \<and> allWt wt h' zs \<and> allVal val h' zs = allVal val h1 xs \<and> allFoot foot h' zs \<subseteq> {length h1..<length h'}"
      using Cons.IH [OF w(1) zs(1)] .
    have l: "wt h' y" "val h' y = val h1 y" "foot h' y = foot h1 y" using copier.later [OF c, of h1 y h'] c1 c2 by simp_all
    have "length h \<le> length h1" "length h1 \<le> length h'" using c1 c2 grows_length by blast+
    then have "foot h' y \<union> allFoot foot h' zs \<subseteq> {length h..<length h'}" using l(3) c1 c2 by fastforce
    then show ?case using c1 c2 l w(2) zs(2) grows_trans by (auto simp: all_defs)
  qed
qed

subsection \<open>Pointers\<close>

text \<open>
  A pointer, or the header of a slice or map: nil, or the address of a cell. To copy it
  the code allocates a cell (with the zero value \<open>z\<close>), copies what the old one holds, and stores that in the new one. \<open>mk\<close> and
  \<open>dest\<close> convert between a cell and its contents.
\<close>

definition copyPtr ::
    "'c \<Rightarrow> ('a \<Rightarrow> 'c) \<Rightarrow> ('c \<Rightarrow> 'a) \<Rightarrow> ('a \<Rightarrow> 'c list \<Rightarrow> 'a \<times> 'c list) \<Rightarrow> addr option \<Rightarrow> 'c list \<Rightarrow> addr option \<times> 'c list" where
  "copyPtr z mk dest into p h =
     (case p of
        None \<Rightarrow> (None, h)
      | Some a \<Rightarrow> (let out = length h; h = h @ [z]; (y, h) = into (dest (h ! a)) h
                  in (Some out, h[out := mk y])))"

definition ptrVal :: "('c \<Rightarrow> 'a) \<Rightarrow> ('c list \<Rightarrow> 'a \<Rightarrow> 'v) \<Rightarrow> 'c list \<Rightarrow> addr option \<Rightarrow> 'v option" where
  "ptrVal dest val h p = map_option (\<lambda>a. val h (dest (h ! a))) p"

definition ptrFoot :: "('c \<Rightarrow> 'a) \<Rightarrow> ('c list \<Rightarrow> 'a \<Rightarrow> addr set) \<Rightarrow> 'c list \<Rightarrow> addr option \<Rightarrow> addr set" where
  "ptrFoot dest foot h p = (case p of None \<Rightarrow> {} | Some a \<Rightarrow> insert a (foot h (dest (h ! a))))"

definition ptrWt ::
    "('a \<Rightarrow> 'c) \<Rightarrow> ('c \<Rightarrow> 'a) \<Rightarrow> ('c list \<Rightarrow> 'a \<Rightarrow> bool) \<Rightarrow> 'c list \<Rightarrow> addr option \<Rightarrow> bool" where
  "ptrWt mk dest wt h p \<longleftrightarrow>
     (case p of None \<Rightarrow> True | Some a \<Rightarrow> a < length h \<and> h ! a = mk (dest (h ! a)) \<and> wt h (dest (h ! a)))"

lemmas ptr_defs = ptrVal_def ptrFoot_def ptrWt_def

abbreviation "ptr_copier f mk dest val foot wt \<equiv> copier f (ptrVal dest val) (ptrFoot dest foot) (ptrWt mk dest wt)"

lemma copier_ptr:
  assumes c: "copier into val foot wt" and dest: "\<And>x. dest (mk x) = x"
  shows "ptr_copier (copyPtr z mk dest into) mk dest val foot wt"
proof
  show "ptrFoot dest foot h p \<subseteq> {..<length h}" if "ptrWt mk dest wt h p" for h p
    using that copier.bounded [OF c] by (cases p) (auto simp: ptr_defs)
  show "ptrWt mk dest wt h' p \<and> ptrVal dest val h' p = ptrVal dest val h p \<and> ptrFoot dest foot h' p = ptrFoot dest foot h p"
    if "ptrWt mk dest wt h p" "keeps (ptrFoot dest foot h p) h h'" for h p h'
    using that copier.stable [OF c, of h "dest (h ! the p)" h'] by (cases p) (auto simp: ptr_defs)
  show "grows h h' \<and> ptrWt mk dest wt h' q \<and> ptrVal dest val h' q = ptrVal dest val h p \<and>
      ptrFoot dest foot h' q \<subseteq> {length h..<length h'}"
    if wt: "ptrWt mk dest wt h p" and run: "copyPtr z mk dest into p h = (q, h')" for h p q h'
  proof (cases p)
    case None
    then show ?thesis using run by (auto simp: copyPtr_def ptr_defs)
  next
    case (Some a)
    let ?b = "length h" and ?x = "dest (h ! a)"
    have a: "a < length h" "wt h ?x" using wt Some by (simp_all add: ptrWt_def)
    obtain y h2 where y: "into ?x (h @ [z]) = (y, h2)" by force
    have r: "q = Some ?b" "h' = h2[?b := mk y]"
      using run Some y a(1) by (auto simp: copyPtr_def Let_def nth_append)
    note x = copier.later [OF c a(2) grows_new [of h z]]
    have c2: "grows (h @ [z]) h2 \<and> wt h2 y \<and> val h2 y = val h ?x \<and> foot h2 y \<subseteq> {Suc ?b..<length h2}"
      using copier.copy [OF c x(1) y] x(2) by simp
    then have len: "Suc ?b \<le> length h2" using grows_length by fastforce
    have "foot h2 y \<subseteq> {..<length h2}" "?b \<notin> foot h2 y" using c2 by auto
    then have "keeps (foot h2 y) h2 h'" unfolding r(2) by (rule keeps_write)
    then have s: "wt h' y \<and> val h' y = val h2 y \<and> foot h' y = foot h2 y"
      using c2 copier.stable [OF c, of h2 y h'] by blast
    have "h' ! ?b = mk y" using len r(2) by simp
    moreover have "grows h h'" using c2 len r(2) by (auto simp: grows_def nth_append)
    moreover have "length h' = length h2" using r(2) by simp
    ultimately show ?thesis using s c2 len r(1) Some by (auto simp: ptr_defs dest)
  qed
qed

subsection \<open>Maps\<close>

text \<open>The loop that copies a map, entry by entry; any order of iteration gives the same map.\<close>

definition copyEntries :: "(string \<times> string) list \<Rightarrow> strmap" where
  "copyEntries es = fold (\<lambda>(key, v) out. fmupd key v out) es fmempty"

definition mapInto :: "strmap \<Rightarrow> 'c list \<Rightarrow> strmap \<times> 'c list" where
  "mapInto m h = (copyEntries (sorted_list_of_fmap m), h)"

lemma copyEntries_lookup: "distinct (map fst es) \<Longrightarrow> fmlookup (copyEntries es) = map_of es"
proof (induction es rule: rev_induct)
  case (snoc e es)
  obtain k v where e: "e = (k, v)" by force
  have "map_of es k = None" using snoc.prems e by (simp add: map_of_eq_None_iff)
  moreover have "fmlookup (copyEntries (es @ [e])) = (fmlookup (copyEntries es))(k \<mapsto> v)" by (simp add: copyEntries_def e fmupd.rep_eq map_upd_def)
  ultimately show ?case using snoc e by (auto simp: fun_eq_iff map_add_def split: option.split)
qed (simp add: copyEntries_def fun_eq_iff)

lemma copyEntries_any_order:
  assumes "distinct (map fst es)" and "map_of es = fmlookup m"
  shows "copyEntries es = m"
  using copyEntries_lookup [OF assms(1)] assms(2) by (simp add: fmlookup_inject)

lemma mapInto_plain: "mapInto = plainInto"
proof -
  have "distinct (map fst (sorted_list_of_fmap m))" for m :: strmap by (simp add: sorted_list_of_fmap_def comp_def)
  then show ?thesis by (simp add: fun_eq_iff mapInto_def plainInto_def copyEntries_any_order)
qed

interpretation entries: copier mapInto plainVal plainFoot plainWt
  unfolding mapInto_plain by (fact plain.copier_axioms)

end
