(* ===== verification/ApiMemory.thy ===== *)
theory ApiMemory
  imports GoHeap ApiTypes
begin

section \<open>The API structs in memory\<close>

text \<open>
  The structs of \<^verbatim>\<open>tlndb_types.go\<close> as Go lays them out: a pointer, slice or map field holds
  nil or an address, a nested struct is part of its parent. \<open>ApiTypes\<close> has the same structs as
  values; the theory \<open>DeepCopy\<close> relates the two. Structs without pointers (\<open>HealthSpec\<close>,
  \<open>ReplicationSpec\<close>, \<open>TlnDBConfig\<close>) are the same in both. A value of a struct type of the Kubernetes packages is of type \<open>'e\<close>, a
  parameter; a \<^verbatim>\<open>LocalObjectReference\<close> is its name, since the generated code copies it by
  assignment.
\<close>

record ImageSpec_mem =
  m_img_Repository :: string
  m_img_Tag :: string
  m_img_Digest :: string
  m_img_PullPolicy :: string
  m_img_PullSecrets :: "addr option"

record 'e PersistenceSpec_mem =
  m_per_Enabled :: "addr option"
  m_per_Size :: 'e
  m_per_StorageClassName :: "addr option"
  m_per_AccessModes :: "addr option"
  m_per_ExistingClaim :: string

record 'e StorageSpec_mem =
  m_sto_Persistence :: "'e PersistenceSpec_mem"

record ServiceSpec_mem =
  m_ssp_Type :: string
  m_ssp_Annotations :: "addr option"
  m_ssp_Labels :: "addr option"

record IngressSpec_mem =
  m_isp_Enabled :: bool
  m_isp_ClassName :: "addr option"
  m_isp_Host :: string
  m_isp_Path :: string
  m_isp_TLSSecretName :: string
  m_isp_Annotations :: "addr option"

record NetworkPolicySpec_mem =
  m_nsp_Enabled :: bool
  m_nsp_IngressRules :: "addr option"
  m_nsp_EgressRules :: "addr option"

record NetworkingSpec_mem =
  m_net_Service :: ServiceSpec_mem
  m_net_Ingress :: IngressSpec_mem
  m_net_NetworkPolicy :: NetworkPolicySpec_mem

record ServiceMonitorSpec_mem =
  m_sms_Enabled :: bool
  m_sms_Interval :: string
  m_sms_Labels :: "addr option"

record MetricsSpec_mem =
  m_met_Enabled :: "addr option"
  m_met_Port :: int32
  m_met_Path :: string
  m_met_ServiceMonitor :: ServiceMonitorSpec_mem

record ObservabilitySpec_mem =
  m_obs_Metrics :: MetricsSpec_mem
  m_obs_Health :: HealthSpec

record PDBSpec_mem =
  m_pds_Enabled :: bool
  m_pds_MinAvailable :: "addr option"
  m_pds_MaxUnavailable :: "addr option"

record HPASpec_mem =
  m_hps_Enabled :: bool
  m_hps_MinReplicas :: "addr option"
  m_hps_MaxReplicas :: int32
  m_hps_CPUUtilization :: "addr option"
  m_hps_MemoryUtilization :: "addr option"

record AvailabilitySpec_mem =
  m_av_PodDisruptionBudget :: PDBSpec_mem
  m_av_HorizontalPodAutoscaler :: HPASpec_mem

record SecuritySpec_mem =
  m_sec_PodSecurityContext :: "addr option"
  m_sec_ContainerSecurityContext :: "addr option"
  m_sec_FSGroup :: "addr option"

record 'e TlnDBSpec_mem =
  m_spec_Mode :: string
  m_spec_Replication :: ReplicationSpec
  m_spec_Image :: ImageSpec_mem
  m_spec_Replicas :: "addr option"
  m_spec_Config :: TlnDBConfig
  m_spec_ConfigFrom :: "addr option"
  m_spec_Env :: "addr option"
  m_spec_EnvFrom :: "addr option"
  m_spec_Resources :: 'e
  m_spec_Storage :: "'e StorageSpec_mem"
  m_spec_Networking :: NetworkingSpec_mem
  m_spec_Security :: SecuritySpec_mem
  m_spec_Observability :: ObservabilitySpec_mem
  m_spec_Availability :: AvailabilitySpec_mem
  m_spec_NodeSelector :: "addr option"
  m_spec_Tolerations :: "addr option"
  m_spec_Affinity :: "addr option"
  m_spec_PodAnnotations :: "addr option"
  m_spec_ServiceAccountName :: string
  m_spec_InitContainers :: "addr option"
  m_spec_AdditionalContainers :: "addr option"
  m_spec_AdditionalVolumes :: "addr option"
  m_spec_AdditionalVolumeMounts :: "addr option"

record TlnDBStatus_mem =
  m_sta_Phase :: string
  m_sta_Conditions :: "addr option"
  m_sta_ObservedGeneration :: int64
  m_sta_ReadyReplicas :: int32
  m_sta_CurrentImage :: string
  m_sta_ManagedResources :: "addr option"
  m_sta_LastUpdateTime :: "addr option"

record 'e TlnDB_mem =
  m_db_TypeMeta :: TypeMeta
  m_db_ObjectMeta :: 'e
  m_db_Spec :: "'e TlnDBSpec_mem"
  m_db_Status :: TlnDBStatus_mem

record 'e TlnDBList_mem =
  m_tl_TypeMeta :: TypeMeta
  m_tl_ListMeta :: 'e
  m_tl_Items :: "addr option"

text \<open>
  The cells of the heap, one constructor per type the source allocates. \<open>ZeroCell\<close> is what a
  fresh cell holds until it is assigned; the source never reads it.
\<close>

datatype 'e cell =
    ZeroCell
  | IntCell (unInt: int)
  | BoolCell (unBool: bool)
  | StrCell (unStr: string)
  | StrsCell (unStrs: "string list")
  | MapCell (unMap: strmap)
  | ExtCell (unExt: 'e)
  | ExtsCell (unExts: "'e list")
  | ItemsCell (unItems: "'e TlnDB_mem list")
  | HealthSpecCell (unHealthSpec: HealthSpec)
  | ReplicationSpecCell (unReplicationSpec: ReplicationSpec)
  | TlnDBConfigCell (unTlnDBConfig: TlnDBConfig)
  | ImageSpecCell (unImageSpec: ImageSpec_mem)
  | PersistenceSpecCell (unPersistenceSpec: "'e PersistenceSpec_mem")
  | StorageSpecCell (unStorageSpec: "'e StorageSpec_mem")
  | ServiceSpecCell (unServiceSpec: ServiceSpec_mem)
  | IngressSpecCell (unIngressSpec: IngressSpec_mem)
  | NetworkPolicySpecCell (unNetworkPolicySpec: NetworkPolicySpec_mem)
  | NetworkingSpecCell (unNetworkingSpec: NetworkingSpec_mem)
  | ServiceMonitorSpecCell (unServiceMonitorSpec: ServiceMonitorSpec_mem)
  | MetricsSpecCell (unMetricsSpec: MetricsSpec_mem)
  | ObservabilitySpecCell (unObservabilitySpec: ObservabilitySpec_mem)
  | PDBSpecCell (unPDBSpec: PDBSpec_mem)
  | HPASpecCell (unHPASpec: HPASpec_mem)
  | AvailabilitySpecCell (unAvailabilitySpec: AvailabilitySpec_mem)
  | SecuritySpecCell (unSecuritySpec: SecuritySpec_mem)
  | TlnDBSpecCell (unTlnDBSpec: "'e TlnDBSpec_mem")
  | TlnDBStatusCell (unTlnDBStatus: TlnDBStatus_mem)
  | TlnDBCell (unTlnDB: "'e TlnDB_mem")
  | TlnDBListCell (unTlnDBList: "'e TlnDBList_mem")

type_synonym 'e heap = "'e cell list"

subsection \<open>Structs of the Kubernetes packages\<close>

text \<open>
  Their meaning is a value of the corresponding type of \<open>KubeTypes\<close>, or a JSON document where
  the operator only passes it on. Their deep copies are assumed to obey the contract that is proved here for the operator's own.
\<close>

datatype extval =
    EnvVarVal (unEnvVar: EnvVar)
  | ContainerVal (unContainer: Container)
  | VolumeVal (unVolume: Volume)
  | VolumeMountVal (unVolumeMount: VolumeMount)
  | ConditionVal (unCondition: Condition)
  | MetaVal (unMeta: ObjectMeta)
  | QuantityVal (unQuantity: Quantity)
  | TimeVal (unTime: time)
  | JsonVal (unJson: json)

record 'e ext =
  ex_DeepCopyInto :: "'e \<Rightarrow> 'e heap \<Rightarrow> 'e \<times> 'e heap"
  ex_val :: "'e heap \<Rightarrow> 'e \<Rightarrow> extval"
  ex_foot :: "'e heap \<Rightarrow> 'e \<Rightarrow> addr set"
  ex_wt :: "'e heap \<Rightarrow> 'e \<Rightarrow> bool"

definition ext_laws :: "'e ext \<Rightarrow> bool" where
  "ext_laws E \<longleftrightarrow> copier (ex_DeepCopyInto E) (ex_val E) (ex_foot E) (ex_wt E)"

text \<open>A value of a particular one of these types.\<close>

definition extVal :: "'e ext \<Rightarrow> (extval \<Rightarrow> 'v) \<Rightarrow> 'e heap \<Rightarrow> 'e \<Rightarrow> 'v" where
  "extVal E f h x = f (ex_val E h x)"

definition extWt :: "'e ext \<Rightarrow> (extval \<Rightarrow> bool) \<Rightarrow> 'e heap \<Rightarrow> 'e \<Rightarrow> bool" where
  "extWt E Q h x \<longleftrightarrow> ex_wt E h x \<and> Q (ex_val E h x)"

lemma copier_ext: "ext_laws E \<Longrightarrow> copier (ex_DeepCopyInto E) (extVal E f) (ex_foot E) (extWt E Q)"
  unfolding ext_laws_def extVal_def [abs_def] extWt_def [abs_def] by (rule copier_as)

subsection \<open>Pointers, slices and maps\<close>

text \<open>
  The patterns of the generated code for a non-nil field: \<^verbatim>\<open>new(T)\<close> and assignment; \<^verbatim>\<open>make\<close> and
  \<^verbatim>\<open>copy\<close>; \<^verbatim>\<open>make\<close> and a loop over the entries of a map; \<^verbatim>\<open>new(T)\<close> and \<^verbatim>\<open>DeepCopyInto\<close>; \<^verbatim>\<open>make\<close> and a loop
  with \<^verbatim>\<open>DeepCopyInto\<close> over the elements.
\<close>

definition copyInt :: "addr option \<Rightarrow> 'e heap \<Rightarrow> addr option \<times> 'e heap" where
  "copyInt = copyPtr ZeroCell IntCell unInt plainInto"

definition copyBool :: "addr option \<Rightarrow> 'e heap \<Rightarrow> addr option \<times> 'e heap" where
  "copyBool = copyPtr ZeroCell BoolCell unBool plainInto"

definition copyStr :: "addr option \<Rightarrow> 'e heap \<Rightarrow> addr option \<times> 'e heap" where
  "copyStr = copyPtr ZeroCell StrCell unStr plainInto"

definition copyStrs :: "addr option \<Rightarrow> 'e heap \<Rightarrow> addr option \<times> 'e heap" where
  "copyStrs = copyPtr ZeroCell StrsCell unStrs plainInto"

definition copyMap :: "addr option \<Rightarrow> 'e heap \<Rightarrow> addr option \<times> 'e heap" where
  "copyMap = copyPtr ZeroCell MapCell unMap mapInto"

definition copyExt :: "'e ext \<Rightarrow> addr option \<Rightarrow> 'e heap \<Rightarrow> addr option \<times> 'e heap" where
  "copyExt E = copyPtr ZeroCell ExtCell unExt (ex_DeepCopyInto E)"

definition copyExts :: "'e ext \<Rightarrow> addr option \<Rightarrow> 'e heap \<Rightarrow> addr option \<times> 'e heap" where
  "copyExts E = copyPtr ZeroCell ExtsCell unExts (copyAll (ex_DeepCopyInto E))"

text \<open>Their meaning, footprint and typing. A nil slice or map means the empty one.\<close>

definition sliceOf :: "'a list option \<Rightarrow> 'a list" where
  "sliceOf v = (case v of None \<Rightarrow> [] | Some xs \<Rightarrow> xs)"

definition dictOf :: "strmap option \<Rightarrow> strmap" where
  "dictOf v = (case v of None \<Rightarrow> fmempty | Some m \<Rightarrow> m)"

abbreviation "intVal \<equiv> ptrVal unInt plainVal"
abbreviation "intFoot \<equiv> ptrFoot unInt plainFoot"
abbreviation "intWt \<equiv> ptrWt IntCell unInt plainWt"
abbreviation "boolVal \<equiv> ptrVal unBool plainVal"
abbreviation "boolFoot \<equiv> ptrFoot unBool plainFoot"
abbreviation "boolWt \<equiv> ptrWt BoolCell unBool plainWt"
abbreviation "strVal \<equiv> ptrVal unStr plainVal"
abbreviation "strFoot \<equiv> ptrFoot unStr plainFoot"
abbreviation "strWt \<equiv> ptrWt StrCell unStr plainWt"
abbreviation "strsVal \<equiv> ptrVal unStrs plainVal"
abbreviation "strsFoot \<equiv> ptrFoot unStrs plainFoot"
abbreviation "strsWt \<equiv> ptrWt StrsCell unStrs plainWt"
abbreviation "mapVal \<equiv> ptrVal unMap plainVal"
abbreviation "mapFoot \<equiv> ptrFoot unMap plainFoot"
abbreviation "mapWt \<equiv> ptrWt MapCell unMap plainWt"
abbreviation "extPtrVal E f \<equiv> ptrVal unExt (extVal E f)"
abbreviation "extPtrFoot E \<equiv> ptrFoot unExt (ex_foot E)"
abbreviation "extPtrWt E Q \<equiv> ptrWt ExtCell unExt (extWt E Q)"
abbreviation "extsVal E f \<equiv> ptrVal unExts (allVal (extVal E f))"
abbreviation "extsFoot E \<equiv> ptrFoot unExts (allFoot (ex_foot E))"
abbreviation "extsWt E Q \<equiv> ptrWt ExtsCell unExts (allWt (extWt E Q))"

interpretation int_ptr: copier copyInt intVal intFoot intWt
  unfolding copyInt_def by (rule copier_ptr [OF plain.copier_axioms]) simp

interpretation bool_ptr: copier copyBool boolVal boolFoot boolWt
  unfolding copyBool_def by (rule copier_ptr [OF plain.copier_axioms]) simp

interpretation str_ptr: copier copyStr strVal strFoot strWt
  unfolding copyStr_def by (rule copier_ptr [OF plain.copier_axioms]) simp

interpretation strs_slice: copier copyStrs strsVal strsFoot strsWt
  unfolding copyStrs_def by (rule copier_ptr [OF plain.copier_axioms]) simp

interpretation map_ptr: copier copyMap mapVal mapFoot mapWt
  unfolding copyMap_def by (rule copier_ptr [OF entries.copier_axioms]) simp

lemma copier_extPtr: "ext_laws E \<Longrightarrow> copier (copyExt E) (extPtrVal E f) (extPtrFoot E) (extPtrWt E Q)"
  unfolding copyExt_def by (rule copier_ptr [OF copier_ext]) simp_all

lemma copier_exts: "ext_laws E \<Longrightarrow> copier (copyExts E) (extsVal E f) (extsFoot E) (extsWt E Q)"
  unfolding copyExts_def by (rule copier_ptr [OF copier_all [OF copier_ext]]) simp_all

end
