(* ===== verification/DeepCopy.thy ===== *)
theory DeepCopy
  imports ApiMemory
begin

section \<open>The generated deep copies (zz\_generated.deepcopy.go)\<close>

text \<open>
  \<^verbatim>\<open>DeepCopyInto\<close> and \<^verbatim>\<open>DeepCopy\<close> of every API struct, on the memory of \<open>ApiMemory\<close>.
  \<^verbatim>\<open>DeepCopyInto\<close> takes the struct \<^verbatim>\<open>in\<close> points to and returns the one \<^verbatim>\<open>out\<close> points to afterwards
  (the two never overlap). For each struct: its meaning as a value of \<open>ApiTypes\<close>, its footprint, its
  typing, and the proof of the \<open>copier\<close> contract from those of its fields. The controller
  calls \<^verbatim>\<open>DeepCopy\<close> to keep the state an instance had before it changes it
  (\<^verbatim>\<open>client.MergeFrom(instance.DeepCopy())\<close>); the properties below say that this works, and
  justify that elsewhere instances are values and a copy is the identity.
\<close>

record TlnDBList =
  tl_TypeMeta :: TypeMeta
  tl_ListMeta :: json
  tl_Items :: "(TypeMeta \<times> TlnDB) list"

subsection \<open>ImageSpec\<close>

definition ImageSpec_DeepCopyInto :: "ImageSpec_mem \<Rightarrow> 'e heap \<Rightarrow> ImageSpec_mem \<times> 'e heap" where
  "ImageSpec_DeepCopyInto i h =
     (let out = i;
          (p, h) = copyStrs (m_img_PullSecrets i) h; out = out\<lparr>m_img_PullSecrets := p\<rparr>
      in (out, h))"

definition ImageSpec_val :: "'e heap \<Rightarrow> ImageSpec_mem \<Rightarrow> ImageSpec" where
  "ImageSpec_val h x = \<lparr>
     img_Repository = m_img_Repository x,
     img_Tag = m_img_Tag x,
     img_Digest = m_img_Digest x,
     img_PullPolicy = m_img_PullPolicy x,
     img_PullSecrets = sliceOf (strsVal h (m_img_PullSecrets x))\<rparr>"

definition ImageSpec_foot :: "'e heap \<Rightarrow> ImageSpec_mem \<Rightarrow> addr set" where
  "ImageSpec_foot h x =
     strsFoot h (m_img_PullSecrets x)"

definition ImageSpec_wt :: "'e heap \<Rightarrow> ImageSpec_mem \<Rightarrow> bool" where
  "ImageSpec_wt h x \<longleftrightarrow>
     strsWt h (m_img_PullSecrets x)"

lemmas ImageSpec_defs = ImageSpec_DeepCopyInto_def ImageSpec_val_def ImageSpec_foot_def ImageSpec_wt_def

interpretation at_ImageSpec: copier ImageSpec_DeepCopyInto ImageSpec_val ImageSpec_foot ImageSpec_wt
  by (rule copier_struct [OF strs_slice.copier_axioms,
      where get = "\<lambda>x. m_img_PullSecrets x"
        and put = "\<lambda>x p1. x\<lparr>m_img_PullSecrets := p1\<rparr>"
        and mk = "\<lambda>x v1. \<lparr>img_Repository = m_img_Repository x, img_Tag = m_img_Tag x, img_Digest =
            m_img_Digest x, img_PullPolicy = m_img_PullPolicy x, img_PullSecrets = sliceOf v1\<rparr>"])
    (simp_all add: ImageSpec_defs pair_defs Un_assoc split: prod.split)

subsection \<open>PersistenceSpec\<close>

definition PersistenceSpec_DeepCopyInto :: "'e ext \<Rightarrow> 'e PersistenceSpec_mem \<Rightarrow> 'e heap \<Rightarrow> 'e PersistenceSpec_mem \<times> 'e heap" where
  "PersistenceSpec_DeepCopyInto E i h =
     (let out = i;
          (p, h) = copyBool (m_per_Enabled i) h; out = out\<lparr>m_per_Enabled := p\<rparr>;
          (p, h) = ex_DeepCopyInto E (m_per_Size i) h; out = out\<lparr>m_per_Size := p\<rparr>;
          (p, h) = copyStr (m_per_StorageClassName i) h; out = out\<lparr>m_per_StorageClassName := p\<rparr>;
          (p, h) = copyStrs (m_per_AccessModes i) h; out = out\<lparr>m_per_AccessModes := p\<rparr>
      in (out, h))"

definition PersistenceSpec_val :: "'e ext \<Rightarrow> 'e heap \<Rightarrow> 'e PersistenceSpec_mem \<Rightarrow> PersistenceSpec" where
  "PersistenceSpec_val E h x = \<lparr>
     per_Enabled = boolVal h (m_per_Enabled x),
     per_Size = extVal E unQuantity h (m_per_Size x),
     per_StorageClassName = strVal h (m_per_StorageClassName x),
     per_AccessModes = sliceOf (strsVal h (m_per_AccessModes x)),
     per_ExistingClaim = m_per_ExistingClaim x\<rparr>"

definition PersistenceSpec_foot :: "'e ext \<Rightarrow> 'e heap \<Rightarrow> 'e PersistenceSpec_mem \<Rightarrow> addr set" where
  "PersistenceSpec_foot E h x =
     boolFoot h (m_per_Enabled x) \<union>
     ex_foot E h (m_per_Size x) \<union>
     strFoot h (m_per_StorageClassName x) \<union>
     strsFoot h (m_per_AccessModes x)"

definition PersistenceSpec_wt :: "'e ext \<Rightarrow> 'e heap \<Rightarrow> 'e PersistenceSpec_mem \<Rightarrow> bool" where
  "PersistenceSpec_wt E h x \<longleftrightarrow>
     boolWt h (m_per_Enabled x) \<and>
     extWt E is_QuantityVal h (m_per_Size x) \<and>
     strWt h (m_per_StorageClassName x) \<and>
     strsWt h (m_per_AccessModes x)"

lemmas PersistenceSpec_defs = PersistenceSpec_DeepCopyInto_def PersistenceSpec_val_def PersistenceSpec_foot_def PersistenceSpec_wt_def

lemma copier_PersistenceSpec:
  assumes E: "ext_laws E"
  shows "copier (PersistenceSpec_DeepCopyInto E) (PersistenceSpec_val E) (PersistenceSpec_foot E) (PersistenceSpec_wt E)"
  by (rule copier_struct [OF copier_pair [OF bool_ptr.copier_axioms
      copier_pair [OF copier_ext [OF E, of unQuantity is_QuantityVal]
      copier_pair [OF str_ptr.copier_axioms
      strs_slice.copier_axioms]]],
      where get = "\<lambda>x. (m_per_Enabled x, m_per_Size x, m_per_StorageClassName x, m_per_AccessModes x)"
        and put = "\<lambda>x (p1, p2, p3, p4). x\<lparr>m_per_Enabled := p1, m_per_Size := p2, m_per_StorageClassName :=
            p3, m_per_AccessModes := p4\<rparr>"
        and mk = "\<lambda>x (v1, v2, v3, v4). \<lparr>per_Enabled = v1, per_Size = v2, per_StorageClassName = v3,
            per_AccessModes = sliceOf v4, per_ExistingClaim = m_per_ExistingClaim x\<rparr>"])
    (simp_all add: PersistenceSpec_defs pair_defs Un_assoc split: prod.split)

subsection \<open>StorageSpec\<close>

definition StorageSpec_DeepCopyInto :: "'e ext \<Rightarrow> 'e StorageSpec_mem \<Rightarrow> 'e heap \<Rightarrow> 'e StorageSpec_mem \<times> 'e heap" where
  "StorageSpec_DeepCopyInto E i h =
     (let out = i;
          (p, h) = PersistenceSpec_DeepCopyInto E (m_sto_Persistence i) h; out = out\<lparr>m_sto_Persistence := p\<rparr>
      in (out, h))"

definition StorageSpec_val :: "'e ext \<Rightarrow> 'e heap \<Rightarrow> 'e StorageSpec_mem \<Rightarrow> StorageSpec" where
  "StorageSpec_val E h x = \<lparr>
     sto_Persistence = PersistenceSpec_val E h (m_sto_Persistence x)\<rparr>"

definition StorageSpec_foot :: "'e ext \<Rightarrow> 'e heap \<Rightarrow> 'e StorageSpec_mem \<Rightarrow> addr set" where
  "StorageSpec_foot E h x =
     PersistenceSpec_foot E h (m_sto_Persistence x)"

definition StorageSpec_wt :: "'e ext \<Rightarrow> 'e heap \<Rightarrow> 'e StorageSpec_mem \<Rightarrow> bool" where
  "StorageSpec_wt E h x \<longleftrightarrow>
     PersistenceSpec_wt E h (m_sto_Persistence x)"

lemmas StorageSpec_defs = StorageSpec_DeepCopyInto_def StorageSpec_val_def StorageSpec_foot_def StorageSpec_wt_def

lemma copier_StorageSpec:
  assumes E: "ext_laws E"
  shows "copier (StorageSpec_DeepCopyInto E) (StorageSpec_val E) (StorageSpec_foot E) (StorageSpec_wt E)"
  by (rule copier_struct [OF copier_PersistenceSpec [OF E],
      where get = "\<lambda>x. m_sto_Persistence x"
        and put = "\<lambda>x p1. x\<lparr>m_sto_Persistence := p1\<rparr>"
        and mk = "\<lambda>x v1. \<lparr>sto_Persistence = v1\<rparr>"])
    (simp_all add: StorageSpec_defs pair_defs Un_assoc split: prod.split)

subsection \<open>ServiceSpec\<close>

definition ServiceSpec_DeepCopyInto :: "ServiceSpec_mem \<Rightarrow> 'e heap \<Rightarrow> ServiceSpec_mem \<times> 'e heap" where
  "ServiceSpec_DeepCopyInto i h =
     (let out = i;
          (p, h) = copyMap (m_ssp_Annotations i) h; out = out\<lparr>m_ssp_Annotations := p\<rparr>;
          (p, h) = copyMap (m_ssp_Labels i) h; out = out\<lparr>m_ssp_Labels := p\<rparr>
      in (out, h))"

definition ServiceSpec_val :: "'e heap \<Rightarrow> ServiceSpec_mem \<Rightarrow> ServiceSpec" where
  "ServiceSpec_val h x = \<lparr>
     ssp_Type = m_ssp_Type x,
     ssp_Annotations = dictOf (mapVal h (m_ssp_Annotations x)),
     ssp_Labels = dictOf (mapVal h (m_ssp_Labels x))\<rparr>"

definition ServiceSpec_foot :: "'e heap \<Rightarrow> ServiceSpec_mem \<Rightarrow> addr set" where
  "ServiceSpec_foot h x =
     mapFoot h (m_ssp_Annotations x) \<union>
     mapFoot h (m_ssp_Labels x)"

definition ServiceSpec_wt :: "'e heap \<Rightarrow> ServiceSpec_mem \<Rightarrow> bool" where
  "ServiceSpec_wt h x \<longleftrightarrow>
     mapWt h (m_ssp_Annotations x) \<and>
     mapWt h (m_ssp_Labels x)"

lemmas ServiceSpec_defs = ServiceSpec_DeepCopyInto_def ServiceSpec_val_def ServiceSpec_foot_def ServiceSpec_wt_def

interpretation at_ServiceSpec: copier ServiceSpec_DeepCopyInto ServiceSpec_val ServiceSpec_foot ServiceSpec_wt
  by (rule copier_struct [OF copier_pair [OF map_ptr.copier_axioms
      map_ptr.copier_axioms],
      where get = "\<lambda>x. (m_ssp_Annotations x, m_ssp_Labels x)"
        and put = "\<lambda>x (p1, p2). x\<lparr>m_ssp_Annotations := p1, m_ssp_Labels := p2\<rparr>"
        and mk = "\<lambda>x (v1, v2). \<lparr>ssp_Type = m_ssp_Type x, ssp_Annotations = dictOf v1, ssp_Labels = dictOf
            v2\<rparr>"])
    (simp_all add: ServiceSpec_defs pair_defs Un_assoc split: prod.split)

subsection \<open>IngressSpec\<close>

definition IngressSpec_DeepCopyInto :: "IngressSpec_mem \<Rightarrow> 'e heap \<Rightarrow> IngressSpec_mem \<times> 'e heap" where
  "IngressSpec_DeepCopyInto i h =
     (let out = i;
          (p, h) = copyStr (m_isp_ClassName i) h; out = out\<lparr>m_isp_ClassName := p\<rparr>;
          (p, h) = copyMap (m_isp_Annotations i) h; out = out\<lparr>m_isp_Annotations := p\<rparr>
      in (out, h))"

definition IngressSpec_val :: "'e heap \<Rightarrow> IngressSpec_mem \<Rightarrow> IngressSpec" where
  "IngressSpec_val h x = \<lparr>
     isp_Enabled = m_isp_Enabled x,
     isp_ClassName = strVal h (m_isp_ClassName x),
     isp_Host = m_isp_Host x,
     isp_Path = m_isp_Path x,
     isp_TLSSecretName = m_isp_TLSSecretName x,
     isp_Annotations = dictOf (mapVal h (m_isp_Annotations x))\<rparr>"

definition IngressSpec_foot :: "'e heap \<Rightarrow> IngressSpec_mem \<Rightarrow> addr set" where
  "IngressSpec_foot h x =
     strFoot h (m_isp_ClassName x) \<union>
     mapFoot h (m_isp_Annotations x)"

definition IngressSpec_wt :: "'e heap \<Rightarrow> IngressSpec_mem \<Rightarrow> bool" where
  "IngressSpec_wt h x \<longleftrightarrow>
     strWt h (m_isp_ClassName x) \<and>
     mapWt h (m_isp_Annotations x)"

lemmas IngressSpec_defs = IngressSpec_DeepCopyInto_def IngressSpec_val_def IngressSpec_foot_def IngressSpec_wt_def

interpretation at_IngressSpec: copier IngressSpec_DeepCopyInto IngressSpec_val IngressSpec_foot IngressSpec_wt
  by (rule copier_struct [OF copier_pair [OF str_ptr.copier_axioms
      map_ptr.copier_axioms],
      where get = "\<lambda>x. (m_isp_ClassName x, m_isp_Annotations x)"
        and put = "\<lambda>x (p1, p2). x\<lparr>m_isp_ClassName := p1, m_isp_Annotations := p2\<rparr>"
        and mk = "\<lambda>x (v1, v2). \<lparr>isp_Enabled = m_isp_Enabled x, isp_ClassName = v1, isp_Host = m_isp_Host x,
            isp_Path = m_isp_Path x, isp_TLSSecretName = m_isp_TLSSecretName x, isp_Annotations = dictOf v2\<rparr>"])
    (simp_all add: IngressSpec_defs pair_defs Un_assoc split: prod.split)

subsection \<open>NetworkPolicySpec\<close>

definition NetworkPolicySpec_DeepCopyInto :: "'e ext \<Rightarrow> NetworkPolicySpec_mem \<Rightarrow> 'e heap \<Rightarrow> NetworkPolicySpec_mem \<times> 'e heap" where
  "NetworkPolicySpec_DeepCopyInto E i h =
     (let out = i;
          (p, h) = copyExts E (m_nsp_IngressRules i) h; out = out\<lparr>m_nsp_IngressRules := p\<rparr>;
          (p, h) = copyExts E (m_nsp_EgressRules i) h; out = out\<lparr>m_nsp_EgressRules := p\<rparr>
      in (out, h))"

definition NetworkPolicySpec_val :: "'e ext \<Rightarrow> 'e heap \<Rightarrow> NetworkPolicySpec_mem \<Rightarrow> NetworkPolicySpec" where
  "NetworkPolicySpec_val E h x = \<lparr>
     nsp_Enabled = m_nsp_Enabled x,
     nsp_IngressRules = sliceOf (extsVal E unJson h (m_nsp_IngressRules x)),
     nsp_EgressRules = sliceOf (extsVal E unJson h (m_nsp_EgressRules x))\<rparr>"

definition NetworkPolicySpec_foot :: "'e ext \<Rightarrow> 'e heap \<Rightarrow> NetworkPolicySpec_mem \<Rightarrow> addr set" where
  "NetworkPolicySpec_foot E h x =
     extsFoot E h (m_nsp_IngressRules x) \<union>
     extsFoot E h (m_nsp_EgressRules x)"

definition NetworkPolicySpec_wt :: "'e ext \<Rightarrow> 'e heap \<Rightarrow> NetworkPolicySpec_mem \<Rightarrow> bool" where
  "NetworkPolicySpec_wt E h x \<longleftrightarrow>
     extsWt E is_JsonVal h (m_nsp_IngressRules x) \<and>
     extsWt E is_JsonVal h (m_nsp_EgressRules x)"

lemmas NetworkPolicySpec_defs = NetworkPolicySpec_DeepCopyInto_def NetworkPolicySpec_val_def NetworkPolicySpec_foot_def NetworkPolicySpec_wt_def

lemma copier_NetworkPolicySpec:
  assumes E: "ext_laws E"
  shows "copier (NetworkPolicySpec_DeepCopyInto E) (NetworkPolicySpec_val E) (NetworkPolicySpec_foot E) (NetworkPolicySpec_wt E)"
  by (rule copier_struct [OF copier_pair [OF copier_exts [OF E, of unJson is_JsonVal]
      copier_exts [OF E, of unJson is_JsonVal]],
      where get = "\<lambda>x. (m_nsp_IngressRules x, m_nsp_EgressRules x)"
        and put = "\<lambda>x (p1, p2). x\<lparr>m_nsp_IngressRules := p1, m_nsp_EgressRules := p2\<rparr>"
        and mk = "\<lambda>x (v1, v2). \<lparr>nsp_Enabled = m_nsp_Enabled x, nsp_IngressRules = sliceOf v1,
            nsp_EgressRules = sliceOf v2\<rparr>"])
    (simp_all add: NetworkPolicySpec_defs pair_defs Un_assoc split: prod.split)

subsection \<open>NetworkingSpec\<close>

definition NetworkingSpec_DeepCopyInto :: "'e ext \<Rightarrow> NetworkingSpec_mem \<Rightarrow> 'e heap \<Rightarrow> NetworkingSpec_mem \<times> 'e heap" where
  "NetworkingSpec_DeepCopyInto E i h =
     (let out = i;
          (p, h) = ServiceSpec_DeepCopyInto (m_net_Service i) h; out = out\<lparr>m_net_Service := p\<rparr>;
          (p, h) = IngressSpec_DeepCopyInto (m_net_Ingress i) h; out = out\<lparr>m_net_Ingress := p\<rparr>;
          (p, h) = NetworkPolicySpec_DeepCopyInto E (m_net_NetworkPolicy i) h; out = out\<lparr>m_net_NetworkPolicy := p\<rparr>
      in (out, h))"

definition NetworkingSpec_val :: "'e ext \<Rightarrow> 'e heap \<Rightarrow> NetworkingSpec_mem \<Rightarrow> NetworkingSpec" where
  "NetworkingSpec_val E h x = \<lparr>
     net_Service = ServiceSpec_val h (m_net_Service x),
     net_Ingress = IngressSpec_val h (m_net_Ingress x),
     net_NetworkPolicy = NetworkPolicySpec_val E h (m_net_NetworkPolicy x)\<rparr>"

definition NetworkingSpec_foot :: "'e ext \<Rightarrow> 'e heap \<Rightarrow> NetworkingSpec_mem \<Rightarrow> addr set" where
  "NetworkingSpec_foot E h x =
     ServiceSpec_foot h (m_net_Service x) \<union>
     IngressSpec_foot h (m_net_Ingress x) \<union>
     NetworkPolicySpec_foot E h (m_net_NetworkPolicy x)"

definition NetworkingSpec_wt :: "'e ext \<Rightarrow> 'e heap \<Rightarrow> NetworkingSpec_mem \<Rightarrow> bool" where
  "NetworkingSpec_wt E h x \<longleftrightarrow>
     ServiceSpec_wt h (m_net_Service x) \<and>
     IngressSpec_wt h (m_net_Ingress x) \<and>
     NetworkPolicySpec_wt E h (m_net_NetworkPolicy x)"

lemmas NetworkingSpec_defs = NetworkingSpec_DeepCopyInto_def NetworkingSpec_val_def NetworkingSpec_foot_def NetworkingSpec_wt_def

lemma copier_NetworkingSpec:
  assumes E: "ext_laws E"
  shows "copier (NetworkingSpec_DeepCopyInto E) (NetworkingSpec_val E) (NetworkingSpec_foot E) (NetworkingSpec_wt E)"
  by (rule copier_struct [OF copier_pair [OF at_ServiceSpec.copier_axioms
      copier_pair [OF at_IngressSpec.copier_axioms
      copier_NetworkPolicySpec [OF E]]],
      where get = "\<lambda>x. (m_net_Service x, m_net_Ingress x, m_net_NetworkPolicy x)"
        and put = "\<lambda>x (p1, p2, p3). x\<lparr>m_net_Service := p1, m_net_Ingress := p2, m_net_NetworkPolicy :=
            p3\<rparr>"
        and mk = "\<lambda>x (v1, v2, v3). \<lparr>net_Service = v1, net_Ingress = v2, net_NetworkPolicy = v3\<rparr>"])
    (simp_all add: NetworkingSpec_defs pair_defs Un_assoc split: prod.split)

subsection \<open>ServiceMonitorSpec\<close>

definition ServiceMonitorSpec_DeepCopyInto :: "ServiceMonitorSpec_mem \<Rightarrow> 'e heap \<Rightarrow> ServiceMonitorSpec_mem \<times> 'e heap" where
  "ServiceMonitorSpec_DeepCopyInto i h =
     (let out = i;
          (p, h) = copyMap (m_sms_Labels i) h; out = out\<lparr>m_sms_Labels := p\<rparr>
      in (out, h))"

definition ServiceMonitorSpec_val :: "'e heap \<Rightarrow> ServiceMonitorSpec_mem \<Rightarrow> ServiceMonitorSpec" where
  "ServiceMonitorSpec_val h x = \<lparr>
     sms_Enabled = m_sms_Enabled x,
     sms_Interval = m_sms_Interval x,
     sms_Labels = dictOf (mapVal h (m_sms_Labels x))\<rparr>"

definition ServiceMonitorSpec_foot :: "'e heap \<Rightarrow> ServiceMonitorSpec_mem \<Rightarrow> addr set" where
  "ServiceMonitorSpec_foot h x =
     mapFoot h (m_sms_Labels x)"

definition ServiceMonitorSpec_wt :: "'e heap \<Rightarrow> ServiceMonitorSpec_mem \<Rightarrow> bool" where
  "ServiceMonitorSpec_wt h x \<longleftrightarrow>
     mapWt h (m_sms_Labels x)"

lemmas ServiceMonitorSpec_defs = ServiceMonitorSpec_DeepCopyInto_def ServiceMonitorSpec_val_def ServiceMonitorSpec_foot_def ServiceMonitorSpec_wt_def

interpretation at_ServiceMonitorSpec: copier ServiceMonitorSpec_DeepCopyInto ServiceMonitorSpec_val ServiceMonitorSpec_foot ServiceMonitorSpec_wt
  by (rule copier_struct [OF map_ptr.copier_axioms,
      where get = "\<lambda>x. m_sms_Labels x"
        and put = "\<lambda>x p1. x\<lparr>m_sms_Labels := p1\<rparr>"
        and mk = "\<lambda>x v1. \<lparr>sms_Enabled = m_sms_Enabled x, sms_Interval = m_sms_Interval x, sms_Labels =
            dictOf v1\<rparr>"])
    (simp_all add: ServiceMonitorSpec_defs pair_defs Un_assoc split: prod.split)

subsection \<open>MetricsSpec\<close>

definition MetricsSpec_DeepCopyInto :: "MetricsSpec_mem \<Rightarrow> 'e heap \<Rightarrow> MetricsSpec_mem \<times> 'e heap" where
  "MetricsSpec_DeepCopyInto i h =
     (let out = i;
          (p, h) = copyBool (m_met_Enabled i) h; out = out\<lparr>m_met_Enabled := p\<rparr>;
          (p, h) = ServiceMonitorSpec_DeepCopyInto (m_met_ServiceMonitor i) h; out = out\<lparr>m_met_ServiceMonitor := p\<rparr>
      in (out, h))"

definition MetricsSpec_val :: "'e heap \<Rightarrow> MetricsSpec_mem \<Rightarrow> MetricsSpec" where
  "MetricsSpec_val h x = \<lparr>
     met_Enabled = boolVal h (m_met_Enabled x),
     met_Port = m_met_Port x,
     met_Path = m_met_Path x,
     met_ServiceMonitor = ServiceMonitorSpec_val h (m_met_ServiceMonitor x)\<rparr>"

definition MetricsSpec_foot :: "'e heap \<Rightarrow> MetricsSpec_mem \<Rightarrow> addr set" where
  "MetricsSpec_foot h x =
     boolFoot h (m_met_Enabled x) \<union>
     ServiceMonitorSpec_foot h (m_met_ServiceMonitor x)"

definition MetricsSpec_wt :: "'e heap \<Rightarrow> MetricsSpec_mem \<Rightarrow> bool" where
  "MetricsSpec_wt h x \<longleftrightarrow>
     boolWt h (m_met_Enabled x) \<and>
     ServiceMonitorSpec_wt h (m_met_ServiceMonitor x)"

lemmas MetricsSpec_defs = MetricsSpec_DeepCopyInto_def MetricsSpec_val_def MetricsSpec_foot_def MetricsSpec_wt_def

interpretation at_MetricsSpec: copier MetricsSpec_DeepCopyInto MetricsSpec_val MetricsSpec_foot MetricsSpec_wt
  by (rule copier_struct [OF copier_pair [OF bool_ptr.copier_axioms
      at_ServiceMonitorSpec.copier_axioms],
      where get = "\<lambda>x. (m_met_Enabled x, m_met_ServiceMonitor x)"
        and put = "\<lambda>x (p1, p2). x\<lparr>m_met_Enabled := p1, m_met_ServiceMonitor := p2\<rparr>"
        and mk = "\<lambda>x (v1, v2). \<lparr>met_Enabled = v1, met_Port = m_met_Port x, met_Path = m_met_Path x,
            met_ServiceMonitor = v2\<rparr>"])
    (simp_all add: MetricsSpec_defs pair_defs Un_assoc split: prod.split)

subsection \<open>ObservabilitySpec\<close>

definition ObservabilitySpec_DeepCopyInto :: "ObservabilitySpec_mem \<Rightarrow> 'e heap \<Rightarrow> ObservabilitySpec_mem \<times> 'e heap" where
  "ObservabilitySpec_DeepCopyInto i h =
     (let out = i;
          (p, h) = MetricsSpec_DeepCopyInto (m_obs_Metrics i) h; out = out\<lparr>m_obs_Metrics := p\<rparr>;
          out = out\<lparr>m_obs_Health := m_obs_Health i\<rparr>
      in (out, h))"

definition ObservabilitySpec_val :: "'e heap \<Rightarrow> ObservabilitySpec_mem \<Rightarrow> ObservabilitySpec" where
  "ObservabilitySpec_val h x = \<lparr>
     obs_Metrics = MetricsSpec_val h (m_obs_Metrics x),
     obs_Health = m_obs_Health x\<rparr>"

definition ObservabilitySpec_foot :: "'e heap \<Rightarrow> ObservabilitySpec_mem \<Rightarrow> addr set" where
  "ObservabilitySpec_foot h x =
     MetricsSpec_foot h (m_obs_Metrics x)"

definition ObservabilitySpec_wt :: "'e heap \<Rightarrow> ObservabilitySpec_mem \<Rightarrow> bool" where
  "ObservabilitySpec_wt h x \<longleftrightarrow>
     MetricsSpec_wt h (m_obs_Metrics x)"

lemmas ObservabilitySpec_defs = ObservabilitySpec_DeepCopyInto_def ObservabilitySpec_val_def ObservabilitySpec_foot_def ObservabilitySpec_wt_def

interpretation at_ObservabilitySpec: copier ObservabilitySpec_DeepCopyInto ObservabilitySpec_val ObservabilitySpec_foot ObservabilitySpec_wt
  by (rule copier_struct [OF at_MetricsSpec.copier_axioms,
      where get = "\<lambda>x. m_obs_Metrics x"
        and put = "\<lambda>x p1. x\<lparr>m_obs_Metrics := p1\<rparr>"
        and mk = "\<lambda>x v1. \<lparr>obs_Metrics = v1, obs_Health = m_obs_Health x\<rparr>"])
    (simp_all add: ObservabilitySpec_defs pair_defs Un_assoc split: prod.split)

subsection \<open>PDBSpec\<close>

definition PDBSpec_DeepCopyInto :: "PDBSpec_mem \<Rightarrow> 'e heap \<Rightarrow> PDBSpec_mem \<times> 'e heap" where
  "PDBSpec_DeepCopyInto i h =
     (let out = i;
          (p, h) = copyInt (m_pds_MinAvailable i) h; out = out\<lparr>m_pds_MinAvailable := p\<rparr>;
          (p, h) = copyInt (m_pds_MaxUnavailable i) h; out = out\<lparr>m_pds_MaxUnavailable := p\<rparr>
      in (out, h))"

definition PDBSpec_val :: "'e heap \<Rightarrow> PDBSpec_mem \<Rightarrow> PDBSpec" where
  "PDBSpec_val h x = \<lparr>
     pds_Enabled = m_pds_Enabled x,
     pds_MinAvailable = intVal h (m_pds_MinAvailable x),
     pds_MaxUnavailable = intVal h (m_pds_MaxUnavailable x)\<rparr>"

definition PDBSpec_foot :: "'e heap \<Rightarrow> PDBSpec_mem \<Rightarrow> addr set" where
  "PDBSpec_foot h x =
     intFoot h (m_pds_MinAvailable x) \<union>
     intFoot h (m_pds_MaxUnavailable x)"

definition PDBSpec_wt :: "'e heap \<Rightarrow> PDBSpec_mem \<Rightarrow> bool" where
  "PDBSpec_wt h x \<longleftrightarrow>
     intWt h (m_pds_MinAvailable x) \<and>
     intWt h (m_pds_MaxUnavailable x)"

lemmas PDBSpec_defs = PDBSpec_DeepCopyInto_def PDBSpec_val_def PDBSpec_foot_def PDBSpec_wt_def

interpretation at_PDBSpec: copier PDBSpec_DeepCopyInto PDBSpec_val PDBSpec_foot PDBSpec_wt
  by (rule copier_struct [OF copier_pair [OF int_ptr.copier_axioms
      int_ptr.copier_axioms],
      where get = "\<lambda>x. (m_pds_MinAvailable x, m_pds_MaxUnavailable x)"
        and put = "\<lambda>x (p1, p2). x\<lparr>m_pds_MinAvailable := p1, m_pds_MaxUnavailable := p2\<rparr>"
        and mk = "\<lambda>x (v1, v2). \<lparr>pds_Enabled = m_pds_Enabled x, pds_MinAvailable = v1, pds_MaxUnavailable =
            v2\<rparr>"])
    (simp_all add: PDBSpec_defs pair_defs Un_assoc split: prod.split)

subsection \<open>HPASpec\<close>

definition HPASpec_DeepCopyInto :: "HPASpec_mem \<Rightarrow> 'e heap \<Rightarrow> HPASpec_mem \<times> 'e heap" where
  "HPASpec_DeepCopyInto i h =
     (let out = i;
          (p, h) = copyInt (m_hps_MinReplicas i) h; out = out\<lparr>m_hps_MinReplicas := p\<rparr>;
          (p, h) = copyInt (m_hps_CPUUtilization i) h; out = out\<lparr>m_hps_CPUUtilization := p\<rparr>;
          (p, h) = copyInt (m_hps_MemoryUtilization i) h; out = out\<lparr>m_hps_MemoryUtilization := p\<rparr>
      in (out, h))"

definition HPASpec_val :: "'e heap \<Rightarrow> HPASpec_mem \<Rightarrow> HPASpec" where
  "HPASpec_val h x = \<lparr>
     hps_Enabled = m_hps_Enabled x,
     hps_MinReplicas = intVal h (m_hps_MinReplicas x),
     hps_MaxReplicas = m_hps_MaxReplicas x,
     hps_CPUUtilization = intVal h (m_hps_CPUUtilization x),
     hps_MemoryUtilization = intVal h (m_hps_MemoryUtilization x)\<rparr>"

definition HPASpec_foot :: "'e heap \<Rightarrow> HPASpec_mem \<Rightarrow> addr set" where
  "HPASpec_foot h x =
     intFoot h (m_hps_MinReplicas x) \<union>
     intFoot h (m_hps_CPUUtilization x) \<union>
     intFoot h (m_hps_MemoryUtilization x)"

definition HPASpec_wt :: "'e heap \<Rightarrow> HPASpec_mem \<Rightarrow> bool" where
  "HPASpec_wt h x \<longleftrightarrow>
     intWt h (m_hps_MinReplicas x) \<and>
     intWt h (m_hps_CPUUtilization x) \<and>
     intWt h (m_hps_MemoryUtilization x)"

lemmas HPASpec_defs = HPASpec_DeepCopyInto_def HPASpec_val_def HPASpec_foot_def HPASpec_wt_def

interpretation at_HPASpec: copier HPASpec_DeepCopyInto HPASpec_val HPASpec_foot HPASpec_wt
  by (rule copier_struct [OF copier_pair [OF int_ptr.copier_axioms
      copier_pair [OF int_ptr.copier_axioms
      int_ptr.copier_axioms]],
      where get = "\<lambda>x. (m_hps_MinReplicas x, m_hps_CPUUtilization x, m_hps_MemoryUtilization x)"
        and put = "\<lambda>x (p1, p2, p3). x\<lparr>m_hps_MinReplicas := p1, m_hps_CPUUtilization := p2,
            m_hps_MemoryUtilization := p3\<rparr>"
        and mk = "\<lambda>x (v1, v2, v3). \<lparr>hps_Enabled = m_hps_Enabled x, hps_MinReplicas = v1, hps_MaxReplicas =
            m_hps_MaxReplicas x, hps_CPUUtilization = v2, hps_MemoryUtilization = v3\<rparr>"])
    (simp_all add: HPASpec_defs pair_defs Un_assoc split: prod.split)

subsection \<open>AvailabilitySpec\<close>

definition AvailabilitySpec_DeepCopyInto :: "AvailabilitySpec_mem \<Rightarrow> 'e heap \<Rightarrow> AvailabilitySpec_mem \<times> 'e heap" where
  "AvailabilitySpec_DeepCopyInto i h =
     (let out = i;
          (p, h) = PDBSpec_DeepCopyInto (m_av_PodDisruptionBudget i) h; out = out\<lparr>m_av_PodDisruptionBudget := p\<rparr>;
          (p, h) = HPASpec_DeepCopyInto (m_av_HorizontalPodAutoscaler i) h; out = out\<lparr>m_av_HorizontalPodAutoscaler := p\<rparr>
      in (out, h))"

definition AvailabilitySpec_val :: "'e heap \<Rightarrow> AvailabilitySpec_mem \<Rightarrow> AvailabilitySpec" where
  "AvailabilitySpec_val h x = \<lparr>
     av_PodDisruptionBudget = PDBSpec_val h (m_av_PodDisruptionBudget x),
     av_HorizontalPodAutoscaler = HPASpec_val h (m_av_HorizontalPodAutoscaler x)\<rparr>"

definition AvailabilitySpec_foot :: "'e heap \<Rightarrow> AvailabilitySpec_mem \<Rightarrow> addr set" where
  "AvailabilitySpec_foot h x =
     PDBSpec_foot h (m_av_PodDisruptionBudget x) \<union>
     HPASpec_foot h (m_av_HorizontalPodAutoscaler x)"

definition AvailabilitySpec_wt :: "'e heap \<Rightarrow> AvailabilitySpec_mem \<Rightarrow> bool" where
  "AvailabilitySpec_wt h x \<longleftrightarrow>
     PDBSpec_wt h (m_av_PodDisruptionBudget x) \<and>
     HPASpec_wt h (m_av_HorizontalPodAutoscaler x)"

lemmas AvailabilitySpec_defs = AvailabilitySpec_DeepCopyInto_def AvailabilitySpec_val_def AvailabilitySpec_foot_def AvailabilitySpec_wt_def

interpretation at_AvailabilitySpec: copier AvailabilitySpec_DeepCopyInto AvailabilitySpec_val AvailabilitySpec_foot AvailabilitySpec_wt
  by (rule copier_struct [OF copier_pair [OF at_PDBSpec.copier_axioms
      at_HPASpec.copier_axioms],
      where get = "\<lambda>x. (m_av_PodDisruptionBudget x, m_av_HorizontalPodAutoscaler x)"
        and put = "\<lambda>x (p1, p2). x\<lparr>m_av_PodDisruptionBudget := p1, m_av_HorizontalPodAutoscaler := p2\<rparr>"
        and mk = "\<lambda>x (v1, v2). \<lparr>av_PodDisruptionBudget = v1, av_HorizontalPodAutoscaler = v2\<rparr>"])
    (simp_all add: AvailabilitySpec_defs pair_defs Un_assoc split: prod.split)

subsection \<open>SecuritySpec\<close>

definition SecuritySpec_DeepCopyInto :: "'e ext \<Rightarrow> SecuritySpec_mem \<Rightarrow> 'e heap \<Rightarrow> SecuritySpec_mem \<times> 'e heap" where
  "SecuritySpec_DeepCopyInto E i h =
     (let out = i;
          (p, h) = copyExt E (m_sec_PodSecurityContext i) h; out = out\<lparr>m_sec_PodSecurityContext := p\<rparr>;
          (p, h) = copyExt E (m_sec_ContainerSecurityContext i) h; out = out\<lparr>m_sec_ContainerSecurityContext := p\<rparr>;
          (p, h) = copyInt (m_sec_FSGroup i) h; out = out\<lparr>m_sec_FSGroup := p\<rparr>
      in (out, h))"

definition SecuritySpec_val :: "'e ext \<Rightarrow> 'e heap \<Rightarrow> SecuritySpec_mem \<Rightarrow> SecuritySpec" where
  "SecuritySpec_val E h x = \<lparr>
     sec_PodSecurityContext = extPtrVal E unJson h (m_sec_PodSecurityContext x),
     sec_ContainerSecurityContext = extPtrVal E unJson h (m_sec_ContainerSecurityContext x),
     sec_FSGroup = intVal h (m_sec_FSGroup x)\<rparr>"

definition SecuritySpec_foot :: "'e ext \<Rightarrow> 'e heap \<Rightarrow> SecuritySpec_mem \<Rightarrow> addr set" where
  "SecuritySpec_foot E h x =
     extPtrFoot E h (m_sec_PodSecurityContext x) \<union>
     extPtrFoot E h (m_sec_ContainerSecurityContext x) \<union>
     intFoot h (m_sec_FSGroup x)"

definition SecuritySpec_wt :: "'e ext \<Rightarrow> 'e heap \<Rightarrow> SecuritySpec_mem \<Rightarrow> bool" where
  "SecuritySpec_wt E h x \<longleftrightarrow>
     extPtrWt E is_JsonVal h (m_sec_PodSecurityContext x) \<and>
     extPtrWt E is_JsonVal h (m_sec_ContainerSecurityContext x) \<and>
     intWt h (m_sec_FSGroup x)"

lemmas SecuritySpec_defs = SecuritySpec_DeepCopyInto_def SecuritySpec_val_def SecuritySpec_foot_def SecuritySpec_wt_def

lemma copier_SecuritySpec:
  assumes E: "ext_laws E"
  shows "copier (SecuritySpec_DeepCopyInto E) (SecuritySpec_val E) (SecuritySpec_foot E) (SecuritySpec_wt E)"
  by (rule copier_struct [OF copier_pair [OF copier_extPtr [OF E, of unJson is_JsonVal]
      copier_pair [OF copier_extPtr [OF E, of unJson is_JsonVal]
      int_ptr.copier_axioms]],
      where get = "\<lambda>x. (m_sec_PodSecurityContext x, m_sec_ContainerSecurityContext x, m_sec_FSGroup x)"
        and put = "\<lambda>x (p1, p2, p3). x\<lparr>m_sec_PodSecurityContext := p1, m_sec_ContainerSecurityContext := p2,
            m_sec_FSGroup := p3\<rparr>"
        and mk = "\<lambda>x (v1, v2, v3). \<lparr>sec_PodSecurityContext = v1, sec_ContainerSecurityContext = v2,
            sec_FSGroup = v3\<rparr>"])
    (simp_all add: SecuritySpec_defs pair_defs Un_assoc split: prod.split)

subsection \<open>TlnDBSpec\<close>

definition TlnDBSpec_DeepCopyInto :: "'e ext \<Rightarrow> 'e TlnDBSpec_mem \<Rightarrow> 'e heap \<Rightarrow> 'e TlnDBSpec_mem \<times> 'e heap" where
  "TlnDBSpec_DeepCopyInto E i h =
     (let out = i;
          out = out\<lparr>m_spec_Replication := m_spec_Replication i\<rparr>;
          (p, h) = ImageSpec_DeepCopyInto (m_spec_Image i) h; out = out\<lparr>m_spec_Image := p\<rparr>;
          (p, h) = copyInt (m_spec_Replicas i) h; out = out\<lparr>m_spec_Replicas := p\<rparr>;
          out = out\<lparr>m_spec_Config := m_spec_Config i\<rparr>;
          (p, h) = copyStr (m_spec_ConfigFrom i) h; out = out\<lparr>m_spec_ConfigFrom := p\<rparr>;
          (p, h) = copyExts E (m_spec_Env i) h; out = out\<lparr>m_spec_Env := p\<rparr>;
          (p, h) = copyExts E (m_spec_EnvFrom i) h; out = out\<lparr>m_spec_EnvFrom := p\<rparr>;
          (p, h) = ex_DeepCopyInto E (m_spec_Resources i) h; out = out\<lparr>m_spec_Resources := p\<rparr>;
          (p, h) = StorageSpec_DeepCopyInto E (m_spec_Storage i) h; out = out\<lparr>m_spec_Storage := p\<rparr>;
          (p, h) = NetworkingSpec_DeepCopyInto E (m_spec_Networking i) h; out = out\<lparr>m_spec_Networking := p\<rparr>;
          (p, h) = SecuritySpec_DeepCopyInto E (m_spec_Security i) h; out = out\<lparr>m_spec_Security := p\<rparr>;
          (p, h) = ObservabilitySpec_DeepCopyInto (m_spec_Observability i) h; out = out\<lparr>m_spec_Observability := p\<rparr>;
          (p, h) = AvailabilitySpec_DeepCopyInto (m_spec_Availability i) h; out = out\<lparr>m_spec_Availability := p\<rparr>;
          (p, h) = copyMap (m_spec_NodeSelector i) h; out = out\<lparr>m_spec_NodeSelector := p\<rparr>;
          (p, h) = copyExts E (m_spec_Tolerations i) h; out = out\<lparr>m_spec_Tolerations := p\<rparr>;
          (p, h) = copyExt E (m_spec_Affinity i) h; out = out\<lparr>m_spec_Affinity := p\<rparr>;
          (p, h) = copyMap (m_spec_PodAnnotations i) h; out = out\<lparr>m_spec_PodAnnotations := p\<rparr>;
          (p, h) = copyExts E (m_spec_InitContainers i) h; out = out\<lparr>m_spec_InitContainers := p\<rparr>;
          (p, h) = copyExts E (m_spec_AdditionalContainers i) h; out = out\<lparr>m_spec_AdditionalContainers := p\<rparr>;
          (p, h) = copyExts E (m_spec_AdditionalVolumes i) h; out = out\<lparr>m_spec_AdditionalVolumes := p\<rparr>;
          (p, h) = copyExts E (m_spec_AdditionalVolumeMounts i) h; out = out\<lparr>m_spec_AdditionalVolumeMounts := p\<rparr>
      in (out, h))"

definition TlnDBSpec_val :: "'e ext \<Rightarrow> 'e heap \<Rightarrow> 'e TlnDBSpec_mem \<Rightarrow> TlnDBSpec" where
  "TlnDBSpec_val E h x = \<lparr>
     spec_Mode = m_spec_Mode x,
     spec_Replication = m_spec_Replication x,
     spec_Image = ImageSpec_val h (m_spec_Image x),
     spec_Replicas = intVal h (m_spec_Replicas x),
     spec_Config = m_spec_Config x,
     spec_ConfigFrom = strVal h (m_spec_ConfigFrom x),
     spec_Env = sliceOf (extsVal E unEnvVar h (m_spec_Env x)),
     spec_EnvFrom = sliceOf (extsVal E unJson h (m_spec_EnvFrom x)),
     spec_Resources = extVal E unJson h (m_spec_Resources x),
     spec_Storage = StorageSpec_val E h (m_spec_Storage x),
     spec_Networking = NetworkingSpec_val E h (m_spec_Networking x),
     spec_Security = SecuritySpec_val E h (m_spec_Security x),
     spec_Observability = ObservabilitySpec_val h (m_spec_Observability x),
     spec_Availability = AvailabilitySpec_val h (m_spec_Availability x),
     spec_NodeSelector = dictOf (mapVal h (m_spec_NodeSelector x)),
     spec_Tolerations = sliceOf (extsVal E unJson h (m_spec_Tolerations x)),
     spec_Affinity = extPtrVal E unJson h (m_spec_Affinity x),
     spec_PodAnnotations = dictOf (mapVal h (m_spec_PodAnnotations x)),
     spec_ServiceAccountName = m_spec_ServiceAccountName x,
     spec_InitContainers = sliceOf (extsVal E unContainer h (m_spec_InitContainers x)),
     spec_AdditionalContainers = sliceOf (extsVal E unContainer h (m_spec_AdditionalContainers x)),
     spec_AdditionalVolumes = sliceOf (extsVal E unVolume h (m_spec_AdditionalVolumes x)),
     spec_AdditionalVolumeMounts = sliceOf (extsVal E unVolumeMount h (m_spec_AdditionalVolumeMounts x))\<rparr>"

definition TlnDBSpec_foot :: "'e ext \<Rightarrow> 'e heap \<Rightarrow> 'e TlnDBSpec_mem \<Rightarrow> addr set" where
  "TlnDBSpec_foot E h x =
     ImageSpec_foot h (m_spec_Image x) \<union>
     intFoot h (m_spec_Replicas x) \<union>
     strFoot h (m_spec_ConfigFrom x) \<union>
     extsFoot E h (m_spec_Env x) \<union>
     extsFoot E h (m_spec_EnvFrom x) \<union>
     ex_foot E h (m_spec_Resources x) \<union>
     StorageSpec_foot E h (m_spec_Storage x) \<union>
     NetworkingSpec_foot E h (m_spec_Networking x) \<union>
     SecuritySpec_foot E h (m_spec_Security x) \<union>
     ObservabilitySpec_foot h (m_spec_Observability x) \<union>
     AvailabilitySpec_foot h (m_spec_Availability x) \<union>
     mapFoot h (m_spec_NodeSelector x) \<union>
     extsFoot E h (m_spec_Tolerations x) \<union>
     extPtrFoot E h (m_spec_Affinity x) \<union>
     mapFoot h (m_spec_PodAnnotations x) \<union>
     extsFoot E h (m_spec_InitContainers x) \<union>
     extsFoot E h (m_spec_AdditionalContainers x) \<union>
     extsFoot E h (m_spec_AdditionalVolumes x) \<union>
     extsFoot E h (m_spec_AdditionalVolumeMounts x)"

definition TlnDBSpec_wt :: "'e ext \<Rightarrow> 'e heap \<Rightarrow> 'e TlnDBSpec_mem \<Rightarrow> bool" where
  "TlnDBSpec_wt E h x \<longleftrightarrow>
     ImageSpec_wt h (m_spec_Image x) \<and>
     intWt h (m_spec_Replicas x) \<and>
     strWt h (m_spec_ConfigFrom x) \<and>
     extsWt E is_EnvVarVal h (m_spec_Env x) \<and>
     extsWt E is_JsonVal h (m_spec_EnvFrom x) \<and>
     extWt E is_JsonVal h (m_spec_Resources x) \<and>
     StorageSpec_wt E h (m_spec_Storage x) \<and>
     NetworkingSpec_wt E h (m_spec_Networking x) \<and>
     SecuritySpec_wt E h (m_spec_Security x) \<and>
     ObservabilitySpec_wt h (m_spec_Observability x) \<and>
     AvailabilitySpec_wt h (m_spec_Availability x) \<and>
     mapWt h (m_spec_NodeSelector x) \<and>
     extsWt E is_JsonVal h (m_spec_Tolerations x) \<and>
     extPtrWt E is_JsonVal h (m_spec_Affinity x) \<and>
     mapWt h (m_spec_PodAnnotations x) \<and>
     extsWt E is_ContainerVal h (m_spec_InitContainers x) \<and>
     extsWt E is_ContainerVal h (m_spec_AdditionalContainers x) \<and>
     extsWt E is_VolumeVal h (m_spec_AdditionalVolumes x) \<and>
     extsWt E is_VolumeMountVal h (m_spec_AdditionalVolumeMounts x)"

lemmas TlnDBSpec_defs = TlnDBSpec_DeepCopyInto_def TlnDBSpec_val_def TlnDBSpec_foot_def TlnDBSpec_wt_def

lemma copier_TlnDBSpec:
  assumes E: "ext_laws E"
  shows "copier (TlnDBSpec_DeepCopyInto E) (TlnDBSpec_val E) (TlnDBSpec_foot E) (TlnDBSpec_wt E)"
  by (rule copier_struct [OF copier_pair [OF at_ImageSpec.copier_axioms
      copier_pair [OF int_ptr.copier_axioms
      copier_pair [OF str_ptr.copier_axioms
      copier_pair [OF copier_exts [OF E, of unEnvVar is_EnvVarVal]
      copier_pair [OF copier_exts [OF E, of unJson is_JsonVal]
      copier_pair [OF copier_ext [OF E, of unJson is_JsonVal]
      copier_pair [OF copier_StorageSpec [OF E]
      copier_pair [OF copier_NetworkingSpec [OF E]
      copier_pair [OF copier_SecuritySpec [OF E]
      copier_pair [OF at_ObservabilitySpec.copier_axioms
      copier_pair [OF at_AvailabilitySpec.copier_axioms
      copier_pair [OF map_ptr.copier_axioms
      copier_pair [OF copier_exts [OF E, of unJson is_JsonVal]
      copier_pair [OF copier_extPtr [OF E, of unJson is_JsonVal]
      copier_pair [OF map_ptr.copier_axioms
      copier_pair [OF copier_exts [OF E, of unContainer is_ContainerVal]
      copier_pair [OF copier_exts [OF E, of unContainer is_ContainerVal]
      copier_pair [OF copier_exts [OF E, of unVolume is_VolumeVal]
      copier_exts [OF E, of unVolumeMount is_VolumeMountVal]]]]]]]]]]]]]]]]]]],
      where get = "\<lambda>x. (m_spec_Image x, m_spec_Replicas x, m_spec_ConfigFrom x, m_spec_Env x, m_spec_EnvFrom x,
            m_spec_Resources x, m_spec_Storage x, m_spec_Networking x, m_spec_Security x, m_spec_Observability x,
            m_spec_Availability x, m_spec_NodeSelector x, m_spec_Tolerations x, m_spec_Affinity x,
            m_spec_PodAnnotations x, m_spec_InitContainers x, m_spec_AdditionalContainers x,
            m_spec_AdditionalVolumes x, m_spec_AdditionalVolumeMounts x)"
        and put = "\<lambda>x (p1, p2, p3, p4, p5, p6, p7, p8, p9, p10, p11, p12, p13, p14, p15, p16, p17, p18, p19).
            x\<lparr>m_spec_Image := p1, m_spec_Replicas := p2, m_spec_ConfigFrom := p3, m_spec_Env := p4,
            m_spec_EnvFrom := p5, m_spec_Resources := p6, m_spec_Storage := p7, m_spec_Networking := p8,
            m_spec_Security := p9, m_spec_Observability := p10, m_spec_Availability := p11, m_spec_NodeSelector :=
            p12, m_spec_Tolerations := p13, m_spec_Affinity := p14, m_spec_PodAnnotations := p15,
            m_spec_InitContainers := p16, m_spec_AdditionalContainers := p17, m_spec_AdditionalVolumes := p18,
            m_spec_AdditionalVolumeMounts := p19\<rparr>"
        and mk = "\<lambda>x (v1, v2, v3, v4, v5, v6, v7, v8, v9, v10, v11, v12, v13, v14, v15, v16, v17, v18, v19).
            \<lparr>spec_Mode = m_spec_Mode x, spec_Replication = m_spec_Replication x, spec_Image = v1,
            spec_Replicas = v2, spec_Config = m_spec_Config x, spec_ConfigFrom = v3, spec_Env = sliceOf v4,
            spec_EnvFrom = sliceOf v5, spec_Resources = v6, spec_Storage = v7, spec_Networking = v8, spec_Security =
            v9, spec_Observability = v10, spec_Availability = v11, spec_NodeSelector = dictOf v12, spec_Tolerations
            = sliceOf v13, spec_Affinity = v14, spec_PodAnnotations = dictOf v15, spec_ServiceAccountName =
            m_spec_ServiceAccountName x, spec_InitContainers = sliceOf v16, spec_AdditionalContainers = sliceOf v17,
            spec_AdditionalVolumes = sliceOf v18, spec_AdditionalVolumeMounts = sliceOf v19\<rparr>"])
    (simp_all add: TlnDBSpec_defs pair_defs Un_assoc split: prod.split)

subsection \<open>TlnDBStatus\<close>

definition TlnDBStatus_DeepCopyInto :: "'e ext \<Rightarrow> TlnDBStatus_mem \<Rightarrow> 'e heap \<Rightarrow> TlnDBStatus_mem \<times> 'e heap" where
  "TlnDBStatus_DeepCopyInto E i h =
     (let out = i;
          (p, h) = copyExts E (m_sta_Conditions i) h; out = out\<lparr>m_sta_Conditions := p\<rparr>;
          (p, h) = copyStrs (m_sta_ManagedResources i) h; out = out\<lparr>m_sta_ManagedResources := p\<rparr>;
          (p, h) = copyExt E (m_sta_LastUpdateTime i) h; out = out\<lparr>m_sta_LastUpdateTime := p\<rparr>
      in (out, h))"

definition TlnDBStatus_val :: "'e ext \<Rightarrow> 'e heap \<Rightarrow> TlnDBStatus_mem \<Rightarrow> TlnDBStatus" where
  "TlnDBStatus_val E h x = \<lparr>
     sta_Phase = m_sta_Phase x,
     sta_Conditions = sliceOf (extsVal E unCondition h (m_sta_Conditions x)),
     sta_ObservedGeneration = m_sta_ObservedGeneration x,
     sta_ReadyReplicas = m_sta_ReadyReplicas x,
     sta_CurrentImage = m_sta_CurrentImage x,
     sta_ManagedResources = sliceOf (strsVal h (m_sta_ManagedResources x)),
     sta_LastUpdateTime = extPtrVal E unTime h (m_sta_LastUpdateTime x)\<rparr>"

definition TlnDBStatus_foot :: "'e ext \<Rightarrow> 'e heap \<Rightarrow> TlnDBStatus_mem \<Rightarrow> addr set" where
  "TlnDBStatus_foot E h x =
     extsFoot E h (m_sta_Conditions x) \<union>
     strsFoot h (m_sta_ManagedResources x) \<union>
     extPtrFoot E h (m_sta_LastUpdateTime x)"

definition TlnDBStatus_wt :: "'e ext \<Rightarrow> 'e heap \<Rightarrow> TlnDBStatus_mem \<Rightarrow> bool" where
  "TlnDBStatus_wt E h x \<longleftrightarrow>
     extsWt E is_ConditionVal h (m_sta_Conditions x) \<and>
     strsWt h (m_sta_ManagedResources x) \<and>
     extPtrWt E is_TimeVal h (m_sta_LastUpdateTime x)"

lemmas TlnDBStatus_defs = TlnDBStatus_DeepCopyInto_def TlnDBStatus_val_def TlnDBStatus_foot_def TlnDBStatus_wt_def

lemma copier_TlnDBStatus:
  assumes E: "ext_laws E"
  shows "copier (TlnDBStatus_DeepCopyInto E) (TlnDBStatus_val E) (TlnDBStatus_foot E) (TlnDBStatus_wt E)"
  by (rule copier_struct [OF copier_pair [OF copier_exts [OF E, of unCondition is_ConditionVal]
      copier_pair [OF strs_slice.copier_axioms
      copier_extPtr [OF E, of unTime is_TimeVal]]],
      where get = "\<lambda>x. (m_sta_Conditions x, m_sta_ManagedResources x, m_sta_LastUpdateTime x)"
        and put = "\<lambda>x (p1, p2, p3). x\<lparr>m_sta_Conditions := p1, m_sta_ManagedResources := p2,
            m_sta_LastUpdateTime := p3\<rparr>"
        and mk = "\<lambda>x (v1, v2, v3). \<lparr>sta_Phase = m_sta_Phase x, sta_Conditions = sliceOf v1,
            sta_ObservedGeneration = m_sta_ObservedGeneration x, sta_ReadyReplicas = m_sta_ReadyReplicas x,
            sta_CurrentImage = m_sta_CurrentImage x, sta_ManagedResources = sliceOf v2, sta_LastUpdateTime =
            v3\<rparr>"])
    (simp_all add: TlnDBStatus_defs pair_defs Un_assoc split: prod.split)

subsection \<open>TlnDB\<close>

definition TlnDB_DeepCopyInto :: "'e ext \<Rightarrow> 'e TlnDB_mem \<Rightarrow> 'e heap \<Rightarrow> 'e TlnDB_mem \<times> 'e heap" where
  "TlnDB_DeepCopyInto E i h =
     (let out = i;
          out = out\<lparr>m_db_TypeMeta := m_db_TypeMeta i\<rparr>;
          (p, h) = ex_DeepCopyInto E (m_db_ObjectMeta i) h; out = out\<lparr>m_db_ObjectMeta := p\<rparr>;
          (p, h) = TlnDBSpec_DeepCopyInto E (m_db_Spec i) h; out = out\<lparr>m_db_Spec := p\<rparr>;
          (p, h) = TlnDBStatus_DeepCopyInto E (m_db_Status i) h; out = out\<lparr>m_db_Status := p\<rparr>
      in (out, h))"

definition TlnDB_val :: "'e ext \<Rightarrow> 'e heap \<Rightarrow> 'e TlnDB_mem \<Rightarrow> (TypeMeta \<times> TlnDB)" where
  "TlnDB_val E h x = (m_db_TypeMeta x,
     \<lparr>db_Meta = extVal E unMeta h (m_db_ObjectMeta x),
      db_Spec = TlnDBSpec_val E h (m_db_Spec x),
      db_Status = TlnDBStatus_val E h (m_db_Status x)\<rparr>)"

definition TlnDB_foot :: "'e ext \<Rightarrow> 'e heap \<Rightarrow> 'e TlnDB_mem \<Rightarrow> addr set" where
  "TlnDB_foot E h x =
     ex_foot E h (m_db_ObjectMeta x) \<union>
     TlnDBSpec_foot E h (m_db_Spec x) \<union>
     TlnDBStatus_foot E h (m_db_Status x)"

definition TlnDB_wt :: "'e ext \<Rightarrow> 'e heap \<Rightarrow> 'e TlnDB_mem \<Rightarrow> bool" where
  "TlnDB_wt E h x \<longleftrightarrow>
     extWt E is_MetaVal h (m_db_ObjectMeta x) \<and>
     TlnDBSpec_wt E h (m_db_Spec x) \<and>
     TlnDBStatus_wt E h (m_db_Status x)"

lemmas TlnDB_defs = TlnDB_DeepCopyInto_def TlnDB_val_def TlnDB_foot_def TlnDB_wt_def

lemma copier_TlnDB:
  assumes E: "ext_laws E"
  shows "copier (TlnDB_DeepCopyInto E) (TlnDB_val E) (TlnDB_foot E) (TlnDB_wt E)"
  by (rule copier_struct [OF copier_pair [OF copier_ext [OF E, of unMeta is_MetaVal]
      copier_pair [OF copier_TlnDBSpec [OF E]
      copier_TlnDBStatus [OF E]]],
      where get = "\<lambda>x. (m_db_ObjectMeta x, m_db_Spec x, m_db_Status x)"
        and put = "\<lambda>x (p1, p2, p3). x\<lparr>m_db_ObjectMeta := p1, m_db_Spec := p2, m_db_Status := p3\<rparr>"
        and mk = "\<lambda>x (v1, v2, v3). (m_db_TypeMeta x, \<lparr>db_Meta = v1, db_Spec = v2, db_Status = v3\<rparr>)"])
    (simp_all add: TlnDB_defs pair_defs Un_assoc split: prod.split)

text \<open>The slice of items of a list.\<close>

definition copyItems :: "'e ext \<Rightarrow> addr option \<Rightarrow> 'e heap \<Rightarrow> addr option \<times> 'e heap" where
  "copyItems E = copyPtr ZeroCell ItemsCell unItems (copyAll (TlnDB_DeepCopyInto E))"

abbreviation "itemsVal E \<equiv> ptrVal unItems (allVal (TlnDB_val E))"
abbreviation "itemsFoot E \<equiv> ptrFoot unItems (allFoot (TlnDB_foot E))"
abbreviation "itemsWt E \<equiv> ptrWt ItemsCell unItems (allWt (TlnDB_wt E))"

lemma copier_items: "ext_laws E \<Longrightarrow> copier (copyItems E) (itemsVal E) (itemsFoot E) (itemsWt E)"
  unfolding copyItems_def by (rule copier_ptr [OF copier_all [OF copier_TlnDB]]) simp_all

subsection \<open>TlnDBList\<close>

definition TlnDBList_DeepCopyInto :: "'e ext \<Rightarrow> 'e TlnDBList_mem \<Rightarrow> 'e heap \<Rightarrow> 'e TlnDBList_mem \<times> 'e heap" where
  "TlnDBList_DeepCopyInto E i h =
     (let out = i;
          out = out\<lparr>m_tl_TypeMeta := m_tl_TypeMeta i\<rparr>;
          (p, h) = ex_DeepCopyInto E (m_tl_ListMeta i) h; out = out\<lparr>m_tl_ListMeta := p\<rparr>;
          (p, h) = copyItems E (m_tl_Items i) h; out = out\<lparr>m_tl_Items := p\<rparr>
      in (out, h))"

definition TlnDBList_val :: "'e ext \<Rightarrow> 'e heap \<Rightarrow> 'e TlnDBList_mem \<Rightarrow> TlnDBList" where
  "TlnDBList_val E h x = \<lparr>
     tl_TypeMeta = m_tl_TypeMeta x,
     tl_ListMeta = extVal E unJson h (m_tl_ListMeta x),
     tl_Items = sliceOf (itemsVal E h (m_tl_Items x))\<rparr>"

definition TlnDBList_foot :: "'e ext \<Rightarrow> 'e heap \<Rightarrow> 'e TlnDBList_mem \<Rightarrow> addr set" where
  "TlnDBList_foot E h x =
     ex_foot E h (m_tl_ListMeta x) \<union>
     itemsFoot E h (m_tl_Items x)"

definition TlnDBList_wt :: "'e ext \<Rightarrow> 'e heap \<Rightarrow> 'e TlnDBList_mem \<Rightarrow> bool" where
  "TlnDBList_wt E h x \<longleftrightarrow>
     extWt E is_JsonVal h (m_tl_ListMeta x) \<and>
     itemsWt E h (m_tl_Items x)"

lemmas TlnDBList_defs = TlnDBList_DeepCopyInto_def TlnDBList_val_def TlnDBList_foot_def TlnDBList_wt_def

lemma copier_TlnDBList:
  assumes E: "ext_laws E"
  shows "copier (TlnDBList_DeepCopyInto E) (TlnDBList_val E) (TlnDBList_foot E) (TlnDBList_wt E)"
  by (rule copier_struct [OF copier_pair [OF copier_ext [OF E, of unJson is_JsonVal]
      copier_items [OF E]],
      where get = "\<lambda>x. (m_tl_ListMeta x, m_tl_Items x)"
        and put = "\<lambda>x (p1, p2). x\<lparr>m_tl_ListMeta := p1, m_tl_Items := p2\<rparr>"
        and mk = "\<lambda>x (v1, v2). \<lparr>tl_TypeMeta = m_tl_TypeMeta x, tl_ListMeta = v1, tl_Items = sliceOf
            v2\<rparr>"])
    (simp_all add: TlnDBList_defs pair_defs Un_assoc split: prod.split)

subsection \<open>DeepCopy\<close>

definition HealthSpec_DeepCopyInto :: "HealthSpec \<Rightarrow> 'e heap \<Rightarrow> HealthSpec \<times> 'e heap" where
  "HealthSpec_DeepCopyInto i h = (let out = i in (out, h))"

definition ReplicationSpec_DeepCopyInto :: "ReplicationSpec \<Rightarrow> 'e heap \<Rightarrow> ReplicationSpec \<times> 'e heap" where
  "ReplicationSpec_DeepCopyInto i h = (let out = i in (out, h))"

definition TlnDBConfig_DeepCopyInto :: "TlnDBConfig \<Rightarrow> 'e heap \<Rightarrow> TlnDBConfig \<times> 'e heap" where
  "TlnDBConfig_DeepCopyInto i h = (let out = i in (out, h))"

definition HealthSpec_DeepCopy :: "addr option \<Rightarrow> 'e heap \<Rightarrow> addr option \<times> 'e heap" where
  "HealthSpec_DeepCopy i h = copyPtr ZeroCell HealthSpecCell unHealthSpec HealthSpec_DeepCopyInto i h"

definition ReplicationSpec_DeepCopy :: "addr option \<Rightarrow> 'e heap \<Rightarrow> addr option \<times> 'e heap" where
  "ReplicationSpec_DeepCopy i h = copyPtr ZeroCell ReplicationSpecCell unReplicationSpec ReplicationSpec_DeepCopyInto i h"

definition TlnDBConfig_DeepCopy :: "addr option \<Rightarrow> 'e heap \<Rightarrow> addr option \<times> 'e heap" where
  "TlnDBConfig_DeepCopy i h = copyPtr ZeroCell TlnDBConfigCell unTlnDBConfig TlnDBConfig_DeepCopyInto i h"

definition ImageSpec_DeepCopy :: "addr option \<Rightarrow> 'e heap \<Rightarrow> addr option \<times> 'e heap" where
  "ImageSpec_DeepCopy i h = copyPtr ZeroCell ImageSpecCell unImageSpec ImageSpec_DeepCopyInto i h"

definition PersistenceSpec_DeepCopy :: "'e ext \<Rightarrow> addr option \<Rightarrow> 'e heap \<Rightarrow> addr option \<times> 'e heap" where
  "PersistenceSpec_DeepCopy E i h = copyPtr ZeroCell PersistenceSpecCell unPersistenceSpec (PersistenceSpec_DeepCopyInto E) i h"

definition StorageSpec_DeepCopy :: "'e ext \<Rightarrow> addr option \<Rightarrow> 'e heap \<Rightarrow> addr option \<times> 'e heap" where
  "StorageSpec_DeepCopy E i h = copyPtr ZeroCell StorageSpecCell unStorageSpec (StorageSpec_DeepCopyInto E) i h"

definition ServiceSpec_DeepCopy :: "addr option \<Rightarrow> 'e heap \<Rightarrow> addr option \<times> 'e heap" where
  "ServiceSpec_DeepCopy i h = copyPtr ZeroCell ServiceSpecCell unServiceSpec ServiceSpec_DeepCopyInto i h"

definition IngressSpec_DeepCopy :: "addr option \<Rightarrow> 'e heap \<Rightarrow> addr option \<times> 'e heap" where
  "IngressSpec_DeepCopy i h = copyPtr ZeroCell IngressSpecCell unIngressSpec IngressSpec_DeepCopyInto i h"

definition NetworkPolicySpec_DeepCopy :: "'e ext \<Rightarrow> addr option \<Rightarrow> 'e heap \<Rightarrow> addr option \<times> 'e heap" where
  "NetworkPolicySpec_DeepCopy E i h = copyPtr ZeroCell NetworkPolicySpecCell unNetworkPolicySpec (NetworkPolicySpec_DeepCopyInto E) i h"

definition NetworkingSpec_DeepCopy :: "'e ext \<Rightarrow> addr option \<Rightarrow> 'e heap \<Rightarrow> addr option \<times> 'e heap" where
  "NetworkingSpec_DeepCopy E i h = copyPtr ZeroCell NetworkingSpecCell unNetworkingSpec (NetworkingSpec_DeepCopyInto E) i h"

definition ServiceMonitorSpec_DeepCopy :: "addr option \<Rightarrow> 'e heap \<Rightarrow> addr option \<times> 'e heap" where
  "ServiceMonitorSpec_DeepCopy i h = copyPtr ZeroCell ServiceMonitorSpecCell unServiceMonitorSpec ServiceMonitorSpec_DeepCopyInto i h"

definition MetricsSpec_DeepCopy :: "addr option \<Rightarrow> 'e heap \<Rightarrow> addr option \<times> 'e heap" where
  "MetricsSpec_DeepCopy i h = copyPtr ZeroCell MetricsSpecCell unMetricsSpec MetricsSpec_DeepCopyInto i h"

definition ObservabilitySpec_DeepCopy :: "addr option \<Rightarrow> 'e heap \<Rightarrow> addr option \<times> 'e heap" where
  "ObservabilitySpec_DeepCopy i h = copyPtr ZeroCell ObservabilitySpecCell unObservabilitySpec ObservabilitySpec_DeepCopyInto i h"

definition PDBSpec_DeepCopy :: "addr option \<Rightarrow> 'e heap \<Rightarrow> addr option \<times> 'e heap" where
  "PDBSpec_DeepCopy i h = copyPtr ZeroCell PDBSpecCell unPDBSpec PDBSpec_DeepCopyInto i h"

definition HPASpec_DeepCopy :: "addr option \<Rightarrow> 'e heap \<Rightarrow> addr option \<times> 'e heap" where
  "HPASpec_DeepCopy i h = copyPtr ZeroCell HPASpecCell unHPASpec HPASpec_DeepCopyInto i h"

definition AvailabilitySpec_DeepCopy :: "addr option \<Rightarrow> 'e heap \<Rightarrow> addr option \<times> 'e heap" where
  "AvailabilitySpec_DeepCopy i h = copyPtr ZeroCell AvailabilitySpecCell unAvailabilitySpec AvailabilitySpec_DeepCopyInto i h"

definition SecuritySpec_DeepCopy :: "'e ext \<Rightarrow> addr option \<Rightarrow> 'e heap \<Rightarrow> addr option \<times> 'e heap" where
  "SecuritySpec_DeepCopy E i h = copyPtr ZeroCell SecuritySpecCell unSecuritySpec (SecuritySpec_DeepCopyInto E) i h"

definition TlnDBSpec_DeepCopy :: "'e ext \<Rightarrow> addr option \<Rightarrow> 'e heap \<Rightarrow> addr option \<times> 'e heap" where
  "TlnDBSpec_DeepCopy E i h = copyPtr ZeroCell TlnDBSpecCell unTlnDBSpec (TlnDBSpec_DeepCopyInto E) i h"

definition TlnDBStatus_DeepCopy :: "'e ext \<Rightarrow> addr option \<Rightarrow> 'e heap \<Rightarrow> addr option \<times> 'e heap" where
  "TlnDBStatus_DeepCopy E i h = copyPtr ZeroCell TlnDBStatusCell unTlnDBStatus (TlnDBStatus_DeepCopyInto E) i h"

definition TlnDB_DeepCopy :: "'e ext \<Rightarrow> addr option \<Rightarrow> 'e heap \<Rightarrow> addr option \<times> 'e heap" where
  "TlnDB_DeepCopy E i h = copyPtr ZeroCell TlnDBCell unTlnDB (TlnDB_DeepCopyInto E) i h"

definition TlnDBList_DeepCopy :: "'e ext \<Rightarrow> addr option \<Rightarrow> 'e heap \<Rightarrow> addr option \<times> 'e heap" where
  "TlnDBList_DeepCopy E i h = copyPtr ZeroCell TlnDBListCell unTlnDBList (TlnDBList_DeepCopyInto E) i h"

text \<open>Every exported copy operation obeys the contract.\<close>

lemma plain_copies:
  "HealthSpec_DeepCopyInto = plainInto"
  "ReplicationSpec_DeepCopyInto = plainInto"
  "TlnDBConfig_DeepCopyInto = plainInto"
  by (simp_all add: fun_eq_iff plainInto_def HealthSpec_DeepCopyInto_def ReplicationSpec_DeepCopyInto_def TlnDBConfig_DeepCopyInto_def)

lemma copier_DeepCopy:
  assumes E: "ext_laws E"
  shows "ptr_copier HealthSpec_DeepCopy HealthSpecCell unHealthSpec plainVal plainFoot plainWt"
    and "ptr_copier ReplicationSpec_DeepCopy ReplicationSpecCell unReplicationSpec plainVal plainFoot plainWt"
    and "ptr_copier TlnDBConfig_DeepCopy TlnDBConfigCell unTlnDBConfig plainVal plainFoot plainWt"
    and "ptr_copier ImageSpec_DeepCopy ImageSpecCell unImageSpec ImageSpec_val ImageSpec_foot ImageSpec_wt"
    and "ptr_copier (PersistenceSpec_DeepCopy E) PersistenceSpecCell unPersistenceSpec (PersistenceSpec_val E) (PersistenceSpec_foot E) (PersistenceSpec_wt E)"
    and "ptr_copier (StorageSpec_DeepCopy E) StorageSpecCell unStorageSpec (StorageSpec_val E) (StorageSpec_foot E) (StorageSpec_wt E)"
    and "ptr_copier ServiceSpec_DeepCopy ServiceSpecCell unServiceSpec ServiceSpec_val ServiceSpec_foot ServiceSpec_wt"
    and "ptr_copier IngressSpec_DeepCopy IngressSpecCell unIngressSpec IngressSpec_val IngressSpec_foot IngressSpec_wt"
    and "ptr_copier (NetworkPolicySpec_DeepCopy E) NetworkPolicySpecCell unNetworkPolicySpec (NetworkPolicySpec_val E) (NetworkPolicySpec_foot E) (NetworkPolicySpec_wt E)"
    and "ptr_copier (NetworkingSpec_DeepCopy E) NetworkingSpecCell unNetworkingSpec (NetworkingSpec_val E) (NetworkingSpec_foot E) (NetworkingSpec_wt E)"
    and "ptr_copier ServiceMonitorSpec_DeepCopy ServiceMonitorSpecCell unServiceMonitorSpec ServiceMonitorSpec_val ServiceMonitorSpec_foot ServiceMonitorSpec_wt"
    and "ptr_copier MetricsSpec_DeepCopy MetricsSpecCell unMetricsSpec MetricsSpec_val MetricsSpec_foot MetricsSpec_wt"
    and "ptr_copier ObservabilitySpec_DeepCopy ObservabilitySpecCell unObservabilitySpec ObservabilitySpec_val ObservabilitySpec_foot ObservabilitySpec_wt"
    and "ptr_copier PDBSpec_DeepCopy PDBSpecCell unPDBSpec PDBSpec_val PDBSpec_foot PDBSpec_wt"
    and "ptr_copier HPASpec_DeepCopy HPASpecCell unHPASpec HPASpec_val HPASpec_foot HPASpec_wt"
    and "ptr_copier AvailabilitySpec_DeepCopy AvailabilitySpecCell unAvailabilitySpec AvailabilitySpec_val AvailabilitySpec_foot AvailabilitySpec_wt"
    and "ptr_copier (SecuritySpec_DeepCopy E) SecuritySpecCell unSecuritySpec (SecuritySpec_val E) (SecuritySpec_foot E) (SecuritySpec_wt E)"
    and "ptr_copier (TlnDBSpec_DeepCopy E) TlnDBSpecCell unTlnDBSpec (TlnDBSpec_val E) (TlnDBSpec_foot E) (TlnDBSpec_wt E)"
    and "ptr_copier (TlnDBStatus_DeepCopy E) TlnDBStatusCell unTlnDBStatus (TlnDBStatus_val E) (TlnDBStatus_foot E) (TlnDBStatus_wt E)"
    and "ptr_copier (TlnDB_DeepCopy E) TlnDBCell unTlnDB (TlnDB_val E) (TlnDB_foot E) (TlnDB_wt E)"
    and "ptr_copier (TlnDBList_DeepCopy E) TlnDBListCell unTlnDBList (TlnDBList_val E) (TlnDBList_foot E) (TlnDBList_wt E)"
  unfolding plain_copies HealthSpec_DeepCopy_def [abs_def] ReplicationSpec_DeepCopy_def [abs_def] TlnDBConfig_DeepCopy_def [abs_def]
    ImageSpec_DeepCopy_def [abs_def] PersistenceSpec_DeepCopy_def [abs_def] StorageSpec_DeepCopy_def [abs_def]
    ServiceSpec_DeepCopy_def [abs_def] IngressSpec_DeepCopy_def [abs_def] NetworkPolicySpec_DeepCopy_def [abs_def]
    NetworkingSpec_DeepCopy_def [abs_def] ServiceMonitorSpec_DeepCopy_def [abs_def] MetricsSpec_DeepCopy_def [abs_def]
    ObservabilitySpec_DeepCopy_def [abs_def] PDBSpec_DeepCopy_def [abs_def] HPASpec_DeepCopy_def [abs_def]
    AvailabilitySpec_DeepCopy_def [abs_def] SecuritySpec_DeepCopy_def [abs_def] TlnDBSpec_DeepCopy_def [abs_def]
    TlnDBStatus_DeepCopy_def [abs_def] TlnDB_DeepCopy_def [abs_def] TlnDBList_DeepCopy_def [abs_def]
  by (rule copier_ptr; simp add: plain.copier_axioms at_ImageSpec.copier_axioms copier_PersistenceSpec [OF E]
      copier_StorageSpec [OF E] at_ServiceSpec.copier_axioms at_IngressSpec.copier_axioms
      copier_NetworkPolicySpec [OF E] copier_NetworkingSpec [OF E] at_ServiceMonitorSpec.copier_axioms
      at_MetricsSpec.copier_axioms at_ObservabilitySpec.copier_axioms at_PDBSpec.copier_axioms
      at_HPASpec.copier_axioms at_AvailabilitySpec.copier_axioms copier_SecuritySpec [OF E]
      copier_TlnDBSpec [OF E] copier_TlnDBStatus [OF E] copier_TlnDB [OF E]
      copier_TlnDBList [OF E])+

text \<open>
  \<^verbatim>\<open>DeepCopyObject\<close> returns an interface value: nil, or a pointer with its dynamic type. A nil
  pointer must become a nil interface.
\<close>

datatype object = TlnDBObject addr | TlnDBListObject addr

definition TlnDB_DeepCopyObject :: "'e ext \<Rightarrow> addr option \<Rightarrow> 'e heap \<Rightarrow> object option \<times> 'e heap" where
  "TlnDB_DeepCopyObject E i h =
     (case TlnDB_DeepCopy E i h of
        (Some c, h) \<Rightarrow> (Some (TlnDBObject c), h)
      | (None, h) \<Rightarrow> (None, h))"

definition TlnDBList_DeepCopyObject :: "'e ext \<Rightarrow> addr option \<Rightarrow> 'e heap \<Rightarrow> object option \<times> 'e heap" where
  "TlnDBList_DeepCopyObject E i h =
     (case TlnDBList_DeepCopy E i h of
        (Some c, h) \<Rightarrow> (Some (TlnDBListObject c), h)
      | (None, h) \<Rightarrow> (None, h))"

subsection \<open>Objects\<close>

text \<open>Meaning, footprint and typing of a pointer to an instance or a list.\<close>

definition instanceVal :: "'e ext \<Rightarrow> 'e heap \<Rightarrow> addr option \<Rightarrow> (TypeMeta \<times> TlnDB) option" where
  "instanceVal E = ptrVal unTlnDB (TlnDB_val E)"

definition instanceFoot :: "'e ext \<Rightarrow> 'e heap \<Rightarrow> addr option \<Rightarrow> addr set" where
  "instanceFoot E = ptrFoot unTlnDB (TlnDB_foot E)"

definition instanceWt :: "'e ext \<Rightarrow> 'e heap \<Rightarrow> addr option \<Rightarrow> bool" where
  "instanceWt E = ptrWt TlnDBCell unTlnDB (TlnDB_wt E)"

definition listVal :: "'e ext \<Rightarrow> 'e heap \<Rightarrow> addr option \<Rightarrow> TlnDBList option" where
  "listVal E = ptrVal unTlnDBList (TlnDBList_val E)"

definition listFoot :: "'e ext \<Rightarrow> 'e heap \<Rightarrow> addr option \<Rightarrow> addr set" where
  "listFoot E = ptrFoot unTlnDBList (TlnDBList_foot E)"

definition listWt :: "'e ext \<Rightarrow> 'e heap \<Rightarrow> addr option \<Rightarrow> bool" where
  "listWt E = ptrWt TlnDBListCell unTlnDBList (TlnDBList_wt E)"

definition objectVal :: "'e ext \<Rightarrow> 'e heap \<Rightarrow> object \<Rightarrow> (TypeMeta \<times> TlnDB) option + TlnDBList option" where
  "objectVal E h o' = (case o' of TlnDBObject a \<Rightarrow> Inl (instanceVal E h (Some a)) | TlnDBListObject a \<Rightarrow> Inr (listVal E h (Some a)))"

definition objectFoot :: "'e ext \<Rightarrow> 'e heap \<Rightarrow> object \<Rightarrow> addr set" where
  "objectFoot E h o' = (case o' of TlnDBObject a \<Rightarrow> instanceFoot E h (Some a) | TlnDBListObject a \<Rightarrow> listFoot E h (Some a))"

lemma copier_instance: "ext_laws E \<Longrightarrow> copier (TlnDB_DeepCopy E) (instanceVal E) (instanceFoot E) (instanceWt E)"
  unfolding instanceVal_def instanceFoot_def instanceWt_def by (rule copier_DeepCopy)

lemma copier_list: "ext_laws E \<Longrightarrow> copier (TlnDBList_DeepCopy E) (listVal E) (listFoot E) (listWt E)"
  unfolding listVal_def listFoot_def listWt_def by (rule copier_DeepCopy)

lemma DeepCopy_not_nil:
  "TlnDB_DeepCopy E (Some a) h = (q, h') \<Longrightarrow> \<exists>c. q = Some c"
  "TlnDBList_DeepCopy E (Some a) h = (q, h') \<Longrightarrow> \<exists>c. q = Some c"
  by (auto simp: TlnDB_DeepCopy_def TlnDBList_DeepCopy_def copyPtr_def Let_def split: prod.splits)

text \<open>
  A later heap that differs from this one in the cells \<open>A\<close> and in new cells only: what a
  program may do that holds pointers to the cells \<open>A\<close> and nothing else.
\<close>

definition only_writes :: "addr set \<Rightarrow> 'c list \<Rightarrow> 'c list \<Rightarrow> bool" where
  "only_writes A h h' \<longleftrightarrow> length h \<le> length h' \<and> (\<forall>b < length h. b \<notin> A \<longrightarrow> h' ! b = h ! b)"

lemma only_writes_keeps:
  "only_writes A h h' \<Longrightarrow> B \<subseteq> {..<length h} \<Longrightarrow> A \<inter> B = {} \<Longrightarrow> keeps B h h'"
  by (fastforce simp: only_writes_def keeps_def)

lemma copier_separate:
  assumes c: "copier into val foot wt" and wt: "wt h x" and run: "into x h = (y, h')"
  shows "only_writes (foot h' x) h' h1 \<Longrightarrow> val h1 y = val h x"
    and "only_writes (foot h' y) h' h2 \<Longrightarrow> val h2 x = val h x"
proof -
  have cp: "grows h h' \<and> wt h' y \<and> val h' y = val h x" using copier.copy [OF c wt run] by simp
  note ori = copier.later [OF c wt, of h']
  have dis: "foot h' y \<inter> foot h' x = {}" using copier.copy_fresh [OF c wt run] .
  show "val h1 y = val h x" if "only_writes (foot h' x) h' h1"
    using only_writes_keeps [OF that copier.bounded [OF c]] dis cp copier.stable [OF c, of h' y h1] by (metis Int_commute)
  show "val h2 x = val h x" if "only_writes (foot h' y) h' h2"
    using only_writes_keeps [OF that copier.bounded [OF c]] dis cp ori copier.stable [OF c, of h' x h2] by metis
qed

subsection \<open>A concrete heap\<close>

text \<open>A sample of the structs of the Kubernetes packages: a value, or a pointer to a string.\<close>

definition sample_ext :: "(extval \<times> addr option) ext" where
  "sample_ext = \<lparr>
     ex_DeepCopyInto = (\<lambda>x h. case copyStr (snd x) h of (p, h) \<Rightarrow> ((fst x, p), h)),
     ex_val = (\<lambda>h x. case strVal h (snd x) of None \<Rightarrow> fst x | Some s \<Rightarrow> JsonVal (JStr s)),
     ex_foot = (\<lambda>h x. strFoot h (snd x)),
     ex_wt = (\<lambda>h x. strWt h (snd x))\<rparr>"

lemma sample_ext_laws: "ext_laws sample_ext"
  unfolding ext_laws_def sample_ext_def ext.simps
  by (rule copier_struct [OF str_ptr.copier_axioms, where get = snd and put = "\<lambda>x p. (fst x, p)"
        and mk = "\<lambda>x v. case v of None \<Rightarrow> fst x | Some s \<Rightarrow> JsonVal (JStr s)"])
    (simp_all add: fun_eq_iff split: prod.split option.split)

definition zero_mem :: "'e \<Rightarrow> 'e \<Rightarrow> 'e \<Rightarrow> addr option \<Rightarrow> addr option \<Rightarrow> 'e TlnDB_mem" where
  "zero_mem meta q res replicas secrets = \<lparr>m_db_TypeMeta = \<lparr>tm_Kind = ''TlnDB'', tm_APIVersion = ''db.tlndb.io/v1alpha1''\<rparr>,
     m_db_ObjectMeta = meta,
     m_db_Spec = \<lparr>m_spec_Mode = ''standalone'', m_spec_Replication = \<lparr>rep_ReadReplicas = 0, rep_OplogRetention = 0\<rparr>,
       m_spec_Image = \<lparr>m_img_Repository = [], m_img_Tag = [], m_img_Digest = [], m_img_PullPolicy = [], m_img_PullSecrets = secrets\<rparr>,
       m_spec_Replicas = replicas,
       m_spec_Config = \<lparr>cfg_DBPath = [], cfg_TCP = [], cfg_HTTP = [], cfg_Socket = [], cfg_ExtraConfig = []\<rparr>,
       m_spec_ConfigFrom = None, m_spec_Env = None, m_spec_EnvFrom = None, m_spec_Resources = res,
       m_spec_Storage = \<lparr>m_sto_Persistence = \<lparr>m_per_Enabled = None, m_per_Size = q, m_per_StorageClassName = None,
         m_per_AccessModes = None, m_per_ExistingClaim = []\<rparr>\<rparr>,
       m_spec_Networking = \<lparr>
         m_net_Service = \<lparr>m_ssp_Type = [], m_ssp_Annotations = None, m_ssp_Labels = None\<rparr>,
         m_net_Ingress = \<lparr>m_isp_Enabled = False, m_isp_ClassName = None, m_isp_Host = [], m_isp_Path = [],
           m_isp_TLSSecretName = [], m_isp_Annotations = None\<rparr>,
         m_net_NetworkPolicy = \<lparr>m_nsp_Enabled = False, m_nsp_IngressRules = None, m_nsp_EgressRules = None\<rparr>\<rparr>,
       m_spec_Security = \<lparr>m_sec_PodSecurityContext = None, m_sec_ContainerSecurityContext = None, m_sec_FSGroup = None\<rparr>,
       m_spec_Observability = \<lparr>m_obs_Metrics = \<lparr>m_met_Enabled = None, m_met_Port = 0, m_met_Path = [],
           m_met_ServiceMonitor = \<lparr>m_sms_Enabled = False, m_sms_Interval = [], m_sms_Labels = None\<rparr>\<rparr>,
         m_obs_Health = \<lparr>hlt_InitialDelaySeconds = 0, hlt_StartupTimeoutSeconds = 0\<rparr>\<rparr>,
       m_spec_Availability = \<lparr>
         m_av_PodDisruptionBudget = \<lparr>m_pds_Enabled = False, m_pds_MinAvailable = None, m_pds_MaxUnavailable = None\<rparr>,
         m_av_HorizontalPodAutoscaler = \<lparr>m_hps_Enabled = False, m_hps_MinReplicas = None, m_hps_MaxReplicas = 0,
           m_hps_CPUUtilization = None, m_hps_MemoryUtilization = None\<rparr>\<rparr>,
       m_spec_NodeSelector = None, m_spec_Tolerations = None, m_spec_Affinity = None, m_spec_PodAnnotations = None,
       m_spec_ServiceAccountName = [], m_spec_InitContainers = None, m_spec_AdditionalContainers = None,
       m_spec_AdditionalVolumes = None, m_spec_AdditionalVolumeMounts = None\<rparr>,
     m_db_Status = \<lparr>m_sta_Phase = [], m_sta_Conditions = None, m_sta_ObservedGeneration = 0, m_sta_ReadyReplicas = 0,
       m_sta_CurrentImage = [], m_sta_ManagedResources = None, m_sta_LastUpdateTime = None\<rparr>\<rparr>"

definition sample_heap :: "(extval \<times> addr option) heap" where
  "sample_heap =
     [IntCell 3, StrsCell [''pull''], StrCell ''limits'',
      TlnDBCell (zero_mem (MetaVal (db_Meta newInstance), None) (QuantityVal (Quantity ''1Gi''), None) (JsonVal JNull, Some 2) (Some 0) (Some 1))]"

lemmas layout_defs = sample_heap_def zero_mem_def TlnDB_defs TlnDBSpec_defs TlnDBStatus_defs ImageSpec_defs PersistenceSpec_defs
  StorageSpec_defs ServiceSpec_defs IngressSpec_defs NetworkPolicySpec_defs NetworkingSpec_defs ServiceMonitorSpec_defs
  MetricsSpec_defs ObservabilitySpec_defs PDBSpec_defs HPASpec_defs AvailabilitySpec_defs SecuritySpec_defs

lemma sample_instance:
  shows "instanceWt sample_ext sample_heap (Some 3)"
    and "instanceFoot sample_ext sample_heap (Some 3) = {0, 1, 2, 3}"
    and "map_option (\<lambda>x. spec_Replicas (db_Spec (snd x))) (instanceVal sample_ext sample_heap (Some 3)) = Some (Some 3)"
proof -
  show "instanceWt sample_ext sample_heap (Some 3)"
    by (simp add: instanceWt_def layout_defs ptrWt_def extWt_def sample_ext_def ptrVal_def plainWt_def)
  show "instanceFoot sample_ext sample_heap (Some 3) = {0, 1, 2, 3}"
    by (simp add: instanceFoot_def layout_defs ptrFoot_def sample_ext_def plainFoot_def) auto
  show "map_option (\<lambda>x. spec_Replicas (db_Spec (snd x))) (instanceVal sample_ext sample_heap (Some 3)) = Some (Some 3)"
    by (simp add: instanceVal_def layout_defs ptrVal_def plainVal_def)
qed

subsection \<open>The properties\<close>

text \<open>
  C16: a deep copy is isolated from its original. \<^verbatim>\<open>DeepCopy\<close> of a pointer to an instance
  returns a pointer to a new object that means the same. Whatever a program then does
  through the original (it may overwrite every cell the original reaches, its maps, slices and pointed-to values included, and
  allocate more), the copy still means what the original meant when it was copied; and
  whatever it does through the copy, the original means what it did.
\<close>

theorem deepcopy_isolated:
  assumes "ext_laws E" and "instanceWt E h (Some a)" and "TlnDB_DeepCopy E (Some a) h = (q, h')"
    and "only_writes (instanceFoot E h' (Some a)) h' h1" and "only_writes (instanceFoot E h' q) h' h2"
  shows "q \<noteq> None \<and> instanceVal E h' q = instanceVal E h (Some a) \<and>
    instanceVal E h1 q = instanceVal E h (Some a) \<and> instanceVal E h2 (Some a) = instanceVal E h (Some a)"
  using DeepCopy_not_nil(1) [OF assms(3)] copier.copy [OF copier_instance [OF assms(1)] assms(2,3)]
    copier_separate [OF copier_instance [OF assms(1)] assms(2,3)] assms(4,5)
  by auto

theorem deepcopy_isolated_witness:
  "\<exists>c h'. TlnDB_DeepCopy sample_ext (Some 3) sample_heap = (Some c, h') \<and>
     map_option (\<lambda>x. spec_Replicas (db_Spec (snd x))) (instanceVal sample_ext (h'[0 := IntCell 7]) (Some c)) = Some (Some 3)"
proof -
  obtain q h' where run: "TlnDB_DeepCopy sample_ext (Some 3) sample_heap = (q, h')" by force
  note c = copier_instance [OF sample_ext_laws]
  have "grows sample_heap h'" using copier.copy [OF c sample_instance(1) run] by simp
  then have "instanceFoot sample_ext h' (Some 3) = {0, 1, 2, 3}"
    using copier.later(3) [OF c sample_instance(1)] sample_instance(2) by simp
  then have "only_writes (instanceFoot sample_ext h' (Some 3)) h' (h'[0 := IntCell 7])" by (simp add: only_writes_def)
  moreover have "only_writes (instanceFoot sample_ext h' q) h' h'" by (simp add: only_writes_def)
  ultimately have "q \<noteq> None \<and> instanceVal sample_ext (h'[0 := IntCell 7]) q = instanceVal sample_ext sample_heap (Some 3)"
    using deepcopy_isolated [OF sample_ext_laws sample_instance(1) run] by blast
  then show ?thesis using run sample_instance(3) by auto
qed

text \<open>
  C17: copying objects. \<^verbatim>\<open>DeepCopyObject\<close> of a nil pointer is a nil interface and allocates nothing; of an instance or a list it
  is an object of the same type that means the same and shares no cell with the
  original (for a list: no cell of any item), and no cell that existed before is changed.
\<close>

theorem deepcopy_object_separate:
  assumes "ext_laws E" and "instanceWt E h (Some a)" and "listWt E h (Some b)"
  shows "TlnDB_DeepCopyObject E None h = (None, h) \<and> TlnDBList_DeepCopyObject E None h = (None, h) \<and>
    (\<exists>c h'. TlnDB_DeepCopyObject E (Some a) h = (Some (TlnDBObject c), h') \<and> grows h h' \<and>
       objectVal E h' (TlnDBObject c) = objectVal E h (TlnDBObject a) \<and>
       objectFoot E h' (TlnDBObject c) \<inter> objectFoot E h' (TlnDBObject a) = {}) \<and>
    (\<exists>c h'. TlnDBList_DeepCopyObject E (Some b) h = (Some (TlnDBListObject c), h') \<and> grows h h' \<and>
       objectVal E h' (TlnDBListObject c) = objectVal E h (TlnDBListObject b) \<and>
       objectFoot E h' (TlnDBListObject c) \<inter> objectFoot E h' (TlnDBListObject b) = {})"
proof -
  note ci = copier_instance [OF assms(1)] and cl = copier_list [OF assms(1)]
  obtain q h1 where i: "TlnDB_DeepCopy E (Some a) h = (q, h1)" by force
  obtain p h2 where l: "TlnDBList_DeepCopy E (Some b) h = (p, h2)" by force
  obtain c where q: "q = Some c" using DeepCopy_not_nil(1) [OF i] by blast
  obtain d where p: "p = Some d" using DeepCopy_not_nil(2) [OF l] by blast
  have "TlnDB_DeepCopyObject E None h = (None, h)" "TlnDBList_DeepCopyObject E None h = (None, h)"
    by (simp_all add: TlnDB_DeepCopyObject_def TlnDBList_DeepCopyObject_def TlnDB_DeepCopy_def TlnDBList_DeepCopy_def copyPtr_def)
  moreover have "TlnDB_DeepCopyObject E (Some a) h = (Some (TlnDBObject c), h1)"
    "TlnDBList_DeepCopyObject E (Some b) h = (Some (TlnDBListObject d), h2)"
    using i l q p by (simp_all add: TlnDB_DeepCopyObject_def TlnDBList_DeepCopyObject_def)
  ultimately show ?thesis
    using copier.copy [OF ci assms(2) i] copier.copy_fresh [OF ci assms(2) i]
      copier.copy [OF cl assms(3) l] copier.copy_fresh [OF cl assms(3) l]
    by (simp add: q p objectVal_def objectFoot_def)
qed

definition sample_list :: "(extval \<times> addr option) heap" where
  "sample_list = sample_heap @
     [ItemsCell [unTlnDB (sample_heap ! 3)],
      TlnDBListCell \<lparr>m_tl_TypeMeta = \<lparr>tm_Kind = ''TlnDBList'', tm_APIVersion = ''db.tlndb.io/v1alpha1''\<rparr>,
        m_tl_ListMeta = (JsonVal JNull, None), m_tl_Items = Some 4\<rparr>]"

lemma sample_list_typed: "instanceWt sample_ext sample_list (Some 3)" "listWt sample_ext sample_list (Some 5)"
proof -
  have g: "grows sample_heap sample_list" by (simp add: sample_list_def grows_def nth_append)
  show i: "instanceWt sample_ext sample_list (Some 3)"
    using copier.later(1) [OF copier_instance [OF sample_ext_laws] sample_instance(1) g] .
  have "sample_list ! 3 = sample_heap ! 3" by (simp add: sample_list_def sample_heap_def)
  then have "TlnDB_wt sample_ext sample_list (unTlnDB (sample_heap ! 3))" using i by (simp add: instanceWt_def ptrWt_def)
  moreover have "length sample_list = 6" "sample_list ! 4 = ItemsCell [unTlnDB (sample_heap ! 3)]"
    by (simp_all add: sample_list_def sample_heap_def)
  moreover have "sample_list ! 5 = TlnDBListCell \<lparr>m_tl_TypeMeta = \<lparr>tm_Kind = ''TlnDBList'', tm_APIVersion = ''db.tlndb.io/v1alpha1''\<rparr>,
        m_tl_ListMeta = (JsonVal JNull, None), m_tl_Items = Some 4\<rparr>"
    by (simp add: sample_list_def sample_heap_def)
  ultimately show "listWt sample_ext sample_list (Some 5)"
    by (simp add: listWt_def ptrWt_def TlnDBList_wt_def allWt_def extWt_def sample_ext_def ptrVal_def)
qed

theorem deepcopy_object_separate_witness:
  "\<exists>c h'. TlnDBList_DeepCopyObject sample_ext (Some 5) sample_list = (Some (TlnDBListObject c), h') \<and>
     objectFoot sample_ext h' (TlnDBListObject c) \<inter> objectFoot sample_ext h' (TlnDBListObject 5) = {}"
  using deepcopy_object_separate [OF sample_ext_laws sample_list_typed] by blast

text \<open>
  C18: copies are well typed. After copying an instance and then a list, the copies are well
  typed (every pointer they reach points to an allocated cell of its type), the originals still are, and so is every
  instance that was well typed before.
\<close>

theorem deepcopy_well_typed:
  assumes "ext_laws E" and "instanceWt E h p" and "listWt E h l"
    and "TlnDB_DeepCopy E p h = (p', h1)" and "TlnDBList_DeepCopy E l h1 = (l', h2)" and "instanceWt E h r"
  shows "instanceWt E h2 p' \<and> listWt E h2 l' \<and> instanceWt E h2 p \<and> listWt E h2 l \<and> instanceWt E h2 r"
proof -
  note ci = copier_instance [OF assms(1)] and cl = copier_list [OF assms(1)]
  have c1: "grows h h1" "instanceWt E h1 p'" using copier.copy [OF ci assms(2,4)] by simp_all
  have l1: "listWt E h1 l" using copier.later(1) [OF cl assms(3) c1(1)] .
  have c2: "grows h1 h2" "listWt E h2 l'" using copier.copy [OF cl l1 assms(5)] by simp_all
  have g: "grows h h2" using grows_trans [OF c1(1) c2(1)] .
  show ?thesis
    using c2 copier.later(1) [OF ci c1(2) c2(1)] copier.later(1) [OF ci assms(2) g] copier.later(1) [OF cl assms(3) g]
      copier.later(1) [OF ci assms(6) g] by simp
qed

theorem deepcopy_well_typed_witness:
  "listWt sample_ext (snd (TlnDBList_DeepCopy sample_ext (Some 5) (snd (TlnDB_DeepCopy sample_ext (Some 3) sample_list))))
     (fst (TlnDBList_DeepCopy sample_ext (Some 5) (snd (TlnDB_DeepCopy sample_ext (Some 3) sample_list))))"
proof -
  obtain p h1 where p: "TlnDB_DeepCopy sample_ext (Some 3) sample_list = (p, h1)" by force
  obtain l h2 where l: "TlnDBList_DeepCopy sample_ext (Some 5) h1 = (l, h2)" by force
  show ?thesis using deepcopy_well_typed [OF sample_ext_laws sample_list_typed p l sample_list_typed(1)] by (simp add: p l)
qed

end
