(* ===== verification/Settling.thy ===== *)
theory Settling
  imports Liveness
begin

section \<open>Requests come to an end\<close>

text \<open>
  \<^verbatim>\<open>Reconcile\<close> tells the controller runtime whether it wants to be called again: with an
  error, with \<^verbatim>\<open>Requeue\<close> or with a positive \<^verbatim>\<open>RequeueAfter\<close>. Here: an instance being deleted
  is released in one call, and for a live instance the chain of calls ends as soon as the
  StatefulSet controller has brought up the pods, with the instance in phase \<^verbatim>\<open>Running\<close>.
\<close>

subsection \<open>Deletion\<close>

text \<open>The finalizer is there: the status is patched, then the instance is updated without it.\<close>

lemma reconcileDeletion_stored:
  assumes env: "env_laws V r" and up: "serving V D r" and d: "D w (db_key inst) = Some inst"
    and del: "om_DeletionTimestamp (db_Meta inst) \<noteq> None" and fin: "FinalizerName \<in> set (om_Finalizers (db_Meta inst))"
  obtains fs i' j w' where "reconcileDeletion r inst w = ((zero_Result, None), j, w')" "V w' = V w"
    "D w' = (D w)(db_key inst := (if fs = [] then None else Some i'))" "set fs = set (om_Finalizers (db_Meta inst)) - {FinalizerName}"
    "same_object i' (filled inst)" "om_Finalizers (db_Meta i') = fs" "om_DeletionTimestamp (db_Meta i') \<noteq> None"
proof -
  from setPhase_stored [OF env up same_object_refl d same_object_refl, of PhaseTerminating] obtain j w2 where
    p: "setPhase r inst PhaseTerminating w = (None, j, w2)" "same_object j inst"
      "om_Finalizers (db_Meta j) = om_Finalizers (db_Meta inst)"
      "om_DeletionTimestamp (db_Meta j) = om_DeletionTimestamp (db_Meta inst)" "D w2 = (D w)(db_key inst \<mapsto> j)" "V w2 = V w"
    by metis
  obtain fs where fs: "r_RemoveFinalizer r (db_Meta j) FinalizerName = (db_Meta j)\<lparr>om_Finalizers := fs\<rparr>"
      "set fs = set (om_Finalizers (db_Meta inst)) - {FinalizerName}"
    using servingD(1) [OF up] p(3) unfolding helper_laws_def by metis
  let ?j = "j\<lparr>db_Meta := (db_Meta j)\<lparr>om_Finalizers := fs\<rparr>\<rparr>"
  have "db_key j = db_key inst" using same_objectD [OF p(2)] by simp
  then have mk: "meta_key (db_Meta ?j) = db_key inst" "D w2 (meta_key (db_Meta ?j)) = Some j" using p(5) by (simp_all add: meta_key_def)
  have "om_ResourceVersion (db_Meta ?j) = om_ResourceVersion (db_Meta j)" by simp
  from update_stored [OF up mk(2) this] obtain i' w3 where u: "kc_Update (r_TlnDB r) ?j w2 = (Inr i', w3)"
      "D w3 = (D w2)(meta_key (db_Meta ?j) :=
         (if om_Finalizers (db_Meta ?j) = [] \<and> om_DeletionTimestamp (db_Meta j) \<noteq> None then None else Some i'))"
      "same_object i' (filled ?j)" "om_Finalizers (db_Meta i') = om_Finalizers (db_Meta ?j)"
      "om_DeletionTimestamp (db_Meta i') = om_DeletionTimestamp (db_Meta j)" by metis
  have "r_ContainsFinalizer r (db_Meta inst) FinalizerName" using fin servingD(1) [OF up] by (auto simp: helper_laws_def)
  then have "reconcileDeletion r inst w = ((zero_Result, None), i', w3)"
    using p(1) fs(1) u(1) by (simp add: reconcileDeletion_def updateInstance_def Let_def)
  moreover have "V w3 = V w" using tlndb_lawsD(3) [OF env_lawsD(3) [OF env], of ?j w2] u(1) p(6) by simp
  moreover have "D w3 = (D w)(db_key inst := (if fs = [] then None else Some i'))" using u(2) mk(1) del p(4,5) by simp
  moreover have "same_object i' (filled inst)" using u(3) p(2) by (simp add: same_object_def)
  ultimately show thesis using that [of i' w3 fs i'] fs(2) u(4,5) del p(4) by simp
qed

text \<open>
  C5: deletion is not held up. With an API server that is up, one call of \<^verbatim>\<open>Reconcile\<close> on an
  instance being deleted succeeds, asks for nothing more and touches neither the objects
  of the cluster nor any other instance. If the operator's finalizer was the only one,
  the instance is gone; if others are left, it stays with exactly those; if the
  finalizer was not there, nothing changes.
\<close>

theorem deletion_completes:
  assumes env: "env_laws V r" and up: "serving V D r" and d: "D w k = Some inst"
    and k: "meta_key (db_Meta inst) = k" and del: "om_DeletionTimestamp (db_Meta inst) \<noteq> None"
  shows "\<exists>w'. Reconcile r k w = ((zero_Result, None), w') \<and> V w' = V w \<and> (\<forall>k'. k' \<noteq> k \<longrightarrow> D w' k' = D w k') \<and>
    (if FinalizerName \<notin> set (om_Finalizers (db_Meta inst)) then D w' = D w
     else if set (om_Finalizers (db_Meta inst)) = {FinalizerName} then D w' k = None
     else \<exists>inst'. D w' k = Some inst' \<and> same_object inst' (filled inst) \<and> om_DeletionTimestamp (db_Meta inst') \<noteq> None \<and>
       set (om_Finalizers (db_Meta inst')) = set (om_Finalizers (db_Meta inst)) - {FinalizerName})"
proof -
  obtain w1 where get: "kc_Get (r_TlnDB r) k w = (Inr inst, w1)"
    using serving_instancesD(1) [OF servingD(2) [OF up] d] by (cases "kc_Get (r_TlnDB r) k w") auto
  have DV: "D w1 = D w" "V w1 = V w"
    using serving_instancesD(2) [OF servingD(2) [OF up]] tlndb_lawsD(1) [OF env_lawsD(3) [OF env]] get by (metis snd_conv)+
  have contains: "r_ContainsFinalizer r (db_Meta inst) FinalizerName \<longleftrightarrow> FinalizerName \<in> set (om_Finalizers (db_Meta inst))"
    using servingD(1) [OF up] by (auto simp: helper_laws_def)
  show ?thesis
  proof (cases "FinalizerName \<in> set (om_Finalizers (db_Meta inst))")
    case False
    then have "Reconcile r k w = ((zero_Result, None), w1)"
      using get del contains by (simp add: Reconcile_def reconcileInstance_def reconcileDeletion_def)
    then show ?thesis using False DV by simp
  next
    case True
    have key: "db_key inst = k" and dk: "D w1 (db_key inst) = Some inst" using k d DV by (simp_all add: meta_key_def)
    from reconcileDeletion_stored [OF env up dk del True] obtain fs i' j w3 where
      R: "reconcileDeletion r inst w1 = ((zero_Result, None), j, w3)" "V w3 = V w1"
        "D w3 = (D w1)(k := (if fs = [] then None else Some i'))" "set fs = set (om_Finalizers (db_Meta inst)) - {FinalizerName}"
        "same_object i' (filled inst)" "om_Finalizers (db_Meta i') = fs" "om_DeletionTimestamp (db_Meta i') \<noteq> None"
      unfolding key by metis
    have "Reconcile r k w = ((zero_Result, None), w3)" using get del R(1) by (simp add: Reconcile_def reconcileInstance_def)
    moreover have "fs = [] \<longleftrightarrow> set (om_Finalizers (db_Meta inst)) = {FinalizerName}" using R(4) True by fastforce
    ultimately show ?thesis using R DV True by auto
  qed
qed

text \<open>An instance with the operator's finalizer alone, and one that something else holds as well.\<close>

theorem deletion_completes_witness:
  "(\<exists>w'. Reconcile mem_reconciler (''ns1'', ''db1'') (empty_mem\<lparr>mem_dbs := [(''ns1'', ''db1'') \<mapsto> deleted_demo]\<rparr>)
      = ((zero_Result, None), w') \<and> mem_instances w' (''ns1'', ''db1'') = None) \<and>
   (\<exists>w' inst'. Reconcile mem_reconciler (''ns1'', ''db1'') (empty_mem\<lparr>mem_dbs := [(''ns1'', ''db1'') \<mapsto>
        deleted_demo\<lparr>db_Meta := (db_Meta deleted_demo)\<lparr>om_Finalizers := [''backup'', FinalizerName]\<rparr>\<rparr>]\<rparr>)
      = ((zero_Result, None), w') \<and> mem_instances w' (''ns1'', ''db1'') = Some inst' \<and>
      set (om_Finalizers (db_Meta inst')) = {''backup''})"
proof -
  let ?k = "(''ns1'', ''db1'')" and ?two = "deleted_demo\<lparr>db_Meta := (db_Meta deleted_demo)\<lparr>om_Finalizers := [''backup'', FinalizerName]\<rparr>\<rparr>"
  have F: "''backup'' \<noteq> FinalizerName" by (simp add: FinalizerName_def)
  have keys: "meta_key (db_Meta deleted_demo) = ?k" "meta_key (db_Meta ?two) = ?k"
    by (simp_all add: deleted_demo_def demo_def meta_key_def zero_defs)
  have one: "om_Finalizers (db_Meta deleted_demo) = [FinalizerName]" "om_DeletionTimestamp (db_Meta deleted_demo) \<noteq> None"
    by (simp_all add: deleted_demo_def demo_def)
  note two = deletion_completes [OF mem_env_laws mem_serving _ keys(2), of "empty_mem\<lparr>mem_dbs := [?k \<mapsto> ?two]\<rparr>"]
  note lone = deletion_completes [OF mem_env_laws mem_serving _ keys(1), of "empty_mem\<lparr>mem_dbs := [?k \<mapsto> deleted_demo]\<rparr>"]
  have "mem_instances (empty_mem\<lparr>mem_dbs := [?k \<mapsto> deleted_demo]\<rparr>) ?k = Some deleted_demo"
    "mem_instances (empty_mem\<lparr>mem_dbs := [?k \<mapsto> ?two]\<rparr>) ?k = Some ?two"
    using keys by (simp_all add: mem_instances_def)
  note lone [OF this(1)] two [OF this(2)]
  moreover have "set (om_Finalizers (db_Meta ?two)) \<noteq> {FinalizerName}" "om_DeletionTimestamp (db_Meta ?two) \<noteq> None"
    "FinalizerName \<in> set (om_Finalizers (db_Meta ?two))" "set (om_Finalizers (db_Meta ?two)) - {FinalizerName} = {''backup''}"
    using F one by auto
  moreover have "FinalizerName \<in> set (om_Finalizers (db_Meta deleted_demo))" "set (om_Finalizers (db_Meta deleted_demo)) = {FinalizerName}"
    using one by simp_all
  ultimately show ?thesis using one(2) by metis
qed

subsection \<open>The chain of calls\<close>

text \<open>
  The calls of \<^verbatim>\<open>Reconcile\<close> for one key: as long as a call asks for another one there is
  another one, after a pause in which the rest of the cluster works (\<open>wait\<close>). The value is
  \<^const>\<open>None\<close> when the calls go on for ever.
\<close>

definition calls_again :: "Result \<times> error option \<Rightarrow> bool" where
  "calls_again out \<longleftrightarrow> snd out \<noteq> None \<or> res_Requeue (fst out) \<or> 0 < res_RequeueAfter (fst out)"

partial_function (option) requests :: "'w reconciler \<Rightarrow> ('w \<Rightarrow> 'w) \<Rightarrow> nsname \<Rightarrow> 'w \<Rightarrow> 'w option" where
  "requests r wait k w =
     (case Reconcile r k w of (out, w') \<Rightarrow> if calls_again out then requests r wait k (wait w') else Some w')"

lemma requests_again: "Reconcile r k w = (out, w') \<Longrightarrow> calls_again out \<Longrightarrow> requests r wait k w = requests r wait k (wait w')"
  by (subst requests.simps) simp

lemma requests_stop: "Reconcile r k w = (out, w') \<Longrightarrow> \<not> calls_again out \<Longrightarrow> requests r wait k w = Some w'"
  by (subst requests.simps) simp

lemma calls_again_simps [simp]:
  "calls_again (zero_Result\<lparr>res_Requeue := True\<rparr>, None)" "calls_again (zero_Result\<lparr>res_RequeueAfter := 10 * second\<rparr>, None)"
  "\<not> calls_again (zero_Result, None)" "calls_again (res, Some e)"
  by (simp_all add: calls_again_def zero_Result_def second_def)

subsection \<open>What the pause does\<close>

text \<open>A StatefulSet whose latest spec is observed and whose pods are ready.\<close>

definition up :: "StatefulSet \<Rightarrow> bool" where
  "up s \<longleftrightarrow> om_Generation (sts_Meta s) \<le> st_ObservedGeneration (sts_Status s) \<and>
     (case ss_Replicas (sts_Spec s) of None \<Rightarrow> 1 | Some n \<Rightarrow> n) \<le> st_ReadyReplicas (sts_Status s)"

definition unwanted :: "TlnDB \<Rightarrow> nsname \<Rightarrow> bool" where
  "unwanted i k \<longleftrightarrow> Replicated i \<and> readReplicas i \<le> 0 \<and> k = (db_Namespace i, FollowerStatefulSetName i)"

text \<open>
  During a pause nobody edits the instances or the other objects; the follower set that the
  operator has deleted disappears; every other StatefulSet keeps its spec and either comes
  up or gets closer to it, as measured by \<open>left\<close>.
\<close>

definition settles :: "('w \<Rightarrow> cluster) \<Rightarrow> ('w \<Rightarrow> instances) \<Rightarrow> ('w \<Rightarrow> 'w) \<Rightarrow> (StatefulSet \<Rightarrow> nat) \<Rightarrow> TlnDB \<Rightarrow> bool" where
  "settles V D wait left i \<longleftrightarrow>
     (\<forall>w. D (wait w) = D w) \<and>
     (\<forall>w q. fst q \<noteq> StatefulSetKind \<longrightarrow> V (wait w) q = V w q) \<and>
     (\<forall>w k. unwanted i k \<longrightarrow> gone (V w) (StatefulSetKind, k) \<longrightarrow> V (wait w) (StatefulSetKind, k) = None) \<and>
     (\<forall>w k s. \<not> unwanted i k \<longrightarrow> V w (StatefulSetKind, k) = Some (KStatefulSet s) \<longrightarrow>
        (\<exists>s'. V (wait w) (StatefulSetKind, k) = Some (KStatefulSet s') \<and> sts_Spec s' = sts_Spec s \<and>
              (up s' \<or> left s' < left s)))"

lemma settlesD:
  assumes "settles V D wait left i"
  shows "D (wait w) = D w" "fst q \<noteq> StatefulSetKind \<Longrightarrow> V (wait w) q = V w q"
    "unwanted i k \<Longrightarrow> gone (V w) (StatefulSetKind, k) \<Longrightarrow> V (wait w) (StatefulSetKind, k) = None"
    "\<not> unwanted i k \<Longrightarrow> V w (StatefulSetKind, k) = Some (KStatefulSet s) \<Longrightarrow>
       \<exists>s'. V (wait w) (StatefulSetKind, k) = Some (KStatefulSet s') \<and> sts_Spec s' = sts_Spec s \<and> (up s' \<or> left s' < left s)"
  using assms unfolding settles_def by blast+

lemma settles_same:
  assumes "settles V D wait left i" and "same_object j i"
  shows "settles V D wait left j"
proof -
  have "unwanted j = unwanted i"
    using name_cong(5,10) [OF assms(2)] same_objectD [OF assms(2)] by (simp add: unwanted_def fun_eq_iff)
  then show ?thesis using assms(1) by (simp add: settles_def)
qed

lemma has_StatefulSet_wait:
  assumes "settles V D wait left i" and "\<not> unwanted i (meta_key (sts_Meta d))" and "has_StatefulSet (V w) d"
  shows "has_StatefulSet (V (wait w)) d"
proof -
  obtain s where s: "V w (StatefulSetKind, meta_key (sts_Meta d)) = Some (KStatefulSet s)" "norm_StatefulSet s = norm_StatefulSet d"
    using assms(3) by (auto simp: holds_def)
  obtain s' where "V (wait w) (StatefulSetKind, meta_key (sts_Meta d)) = Some (KStatefulSet s')" "sts_Spec s' = sts_Spec s"
    using settlesD(4) [OF assms(1,2) s(1)] by blast
  then show ?thesis using s(2) by (auto simp: holds_def norm_StatefulSet_def)
qed

lemma fits_wait: "settles V D wait left i \<Longrightarrow> fits i (V w) \<Longrightarrow> fits i (V (wait w))"
  using fits_cong [of "V (wait w)" "V w" i] settlesD(2) by fastforce

lemma prune_done_wait:
  assumes "settles V D wait left i" and "realised L i h (V w)"
  shows "prune_done i (V (wait w))"
  using assms(2) settlesD(3) [OF assms(1), of "(db_Namespace i, FollowerStatefulSetName i)" w]
  by (auto simp: prune_done_def realised_def workloads_realised_def unwanted_def)

lemma realised_wait:
  assumes st: "settles V D wait left i" and real: "realised L i h (V w)"
  shows "realised L i h (V (wait w))"
proof -
  have other: "V (wait w) (K, k) = V w (K, k)" if "K \<noteq> StatefulSetKind" for K k using settlesD(2) [OF st] that by simp
  have "workloads_realised L i h (V (wait w))"
  proof (cases "Replicated i")
    case True
    have "readReplicas i \<le> 0 \<Longrightarrow> V (wait w) (StatefulSetKind, db_Namespace i, FollowerStatefulSetName i) = None"
      using prune_done_wait [OF st real] True by (simp add: prune_done_def)
    then show ?thesis
      using real True has_StatefulSet_wait [OF st]
      by (simp add: realised_def workloads_realised_def gone_def unwanted_def child_keys name_defs holds_def [where K = ServiceKind] other)
  next
    case False
    then show ?thesis
      using real has_StatefulSet_wait [OF st]
      by (simp add: realised_def workloads_realised_def unwanted_def child_keys holds_def [where K = ServiceKind] other)
  qed
  then show ?thesis
    using real by (simp add: realised_def rbac_realised_def config_realised_def holds_def other cong: option.case_cong)
qed

subsection \<open>One call and one pause\<close>

text \<open>
  The state after a successful call: the instance is stored and realised, and \<open>s\<close> is its
  primary StatefulSet.
\<close>

definition settled :: "('w \<Rightarrow> cluster) \<Rightarrow> ('w \<Rightarrow> instances) \<Rightarrow> lib \<Rightarrow> nsname \<Rightarrow> TlnDB \<Rightarrow> 'w \<Rightarrow> StatefulSet \<Rightarrow> bool" where
  "settled V D L k i w s \<longleftrightarrow> D w k = Some i \<and> live i i \<and> db_key i = k \<and> fits i (V w) \<and> (\<exists>h. realised L i h (V w)) \<and>
     V w (StatefulSetKind, db_Namespace i, primaryStatefulSetName i) = Some (KStatefulSet s)"

lemma Reconcile_settled:
  assumes env: "env_laws V r" and up: "serving V D r" and d: "D w k = Some i" and lv: "live i i" and k: "db_key i = k"
    and f: "fits i (V w)"
  obtains res w' i' s where "Reconcile r k w = ((res, None), w')" "settled V D (r_lib r) k i' w' s" "same_object i' i"
    "sta_Phase (db_Status i') = phaseOf s (desiredReplicas i)"
    "res = (if phaseOf s (desiredReplicas i) \<noteq> PhaseRunning then zero_Result\<lparr>res_RequeueAfter := 10 * second\<rparr> else zero_Result)"
    "\<And>s0. settled V D (r_lib r) k i w s0 \<Longrightarrow> prune_done i (V w) \<Longrightarrow> s = s0"
proof -
  obtain res w' i' s h where R: "Reconcile r k w = ((res, None), w')" "D w' k = Some i'" "live i i'" "fits i (V w')"
    "realised (r_lib r) i h (V w')" "V w' (StatefulSetKind, db_Namespace i, primaryStatefulSetName i) = Some (KStatefulSet s)"
    "sta_Phase (db_Status i') = phaseOf s (desiredReplicas i)"
    "res = (if phaseOf s (desiredReplicas i) \<noteq> PhaseRunning then zero_Result\<lparr>res_RequeueAfter := 10 * second\<rparr> else zero_Result)"
    and quiet: "\<And>h0. realised (r_lib r) i h0 (V w) \<Longrightarrow> prune_done i (V w) \<Longrightarrow> agrees (V w') (V w)"
    by (rule Reconcile_live [OF env up d lv k f]) (rule that)
  have same: "same_object i' i" using R(3) by (simp add: live_def)
  have "settled V D (r_lib r) k i' w' s"
    unfolding settled_def using R(2,5,6) live_again [OF k R(3,4)] realised_cong [OF same] same_objectD [OF same] builder_cong(18) [OF same]
    by auto
  moreover have "s = s0" if "settled V D (r_lib r) k i w s0" "prune_done i (V w)" for s0
    using quiet that R(6) by (auto simp: settled_def agrees_def compared_def)
  ultimately show thesis using that R same by blast
qed

lemma settled_wait:
  assumes st: "settles V D wait left i" and s: "settled V D L k i w s"
  obtains s' where "settled V D L k i (wait w) s'" "prune_done i (V (wait w))" "up s' \<or> left s' < left s"
proof -
  obtain h where h: "realised L i h (V w)" using s by (auto simp: settled_def)
  have "\<not> unwanted i (db_Namespace i, primaryStatefulSetName i)"
    by (simp add: unwanted_def primaryStatefulSetName_def name_defs)
  from settlesD(4) [OF st this] obtain s' where
    "V (wait w) (StatefulSetKind, db_Namespace i, primaryStatefulSetName i) = Some (KStatefulSet s')" "up s' \<or> left s' < left s"
    using s by (auto simp: settled_def)
  moreover have "fits i (V (wait w))" "D (wait w) = D w" using fits_wait [OF st] settlesD(1) [OF st] s by (simp_all add: settled_def)
  ultimately show thesis
    using that [of s'] s realised_wait [OF st h] prune_done_wait [OF st h] by (auto simp: settled_def)
qed

lemma settled_up:
  assumes "settled V D L k i w s" and "up s"
  shows "phaseOf s (desiredReplicas i) = PhaseRunning"
proof -
  have "ss_Replicas (sts_Spec s) = Some (desiredReplicas i)"
    using assms(1)
    by (auto simp: settled_def realised_def workloads_realised_def holds_def norm_StatefulSet_def child_keys built_replicas
        primaryStatefulSetName_def desiredReplicas_def split: if_splits option.split)
  then show ?thesis using assms(2) by (simp add: up_def phaseOf_def)
qed

text \<open>From such a state the calls end, by induction on the work that is left.\<close>

lemma settled_requests:
  assumes env: "env_laws V r" and serv: "serving V D r" and "settles V D wait left i"
    and "settled V D (r_lib r) k i w s" and "prune_done i (V w)"
  shows "\<exists>w' i' s'. requests r wait k w = Some w' \<and> settled V D (r_lib r) k i' w' s' \<and> same_object i' i \<and>
    sta_Phase (db_Status i') = PhaseRunning"
  using assms(3-5)
proof (induction "if up s then 0 else Suc (left s)" arbitrary: w s i rule: less_induct)
  case less
  have S: "D w k = Some i" "live i i" "db_key i = k" "fits i (V w)" using less.prems(2) by (simp_all add: settled_def)
  from Reconcile_settled [OF env serv S] obtain res w1 i1 s1 where R: "Reconcile r k w = ((res, None), w1)"
    "settled V D (r_lib r) k i1 w1 s1" "same_object i1 i" "sta_Phase (db_Status i1) = phaseOf s1 (desiredReplicas i)"
    "res = (if phaseOf s1 (desiredReplicas i) \<noteq> PhaseRunning then zero_Result\<lparr>res_RequeueAfter := 10 * second\<rparr> else zero_Result)"
    "s1 = s" using less.prems(2,3) by metis
  show ?case
  proof (cases "phaseOf s (desiredReplicas i) = PhaseRunning")
    case True
    then have "requests r wait k w = Some w1" using R by (intro requests_stop) auto
    then show ?thesis using R True by (intro exI [of _ w1] exI [of _ i1] exI [of _ s]) simp
  next
    case False
    then have down: "\<not> up s" using settled_up [OF less.prems(2)] by blast
    have st: "settles V D wait left i1" by (rule settles_same [OF less.prems(1) R(3)])
    from settled_wait [OF st R(2)] obtain s2 where s2: "settled V D (r_lib r) k i1 (wait w1) s2"
      "prune_done i1 (V (wait w1))" "up s2 \<or> left s2 < left s" using R(6) by metis
    have "(if up s2 then 0 else Suc (left s2)) < (if up s then 0 else Suc (left s))" using down s2(3) by auto
    from less.hyps [OF this st s2(1,2)] obtain w' i' s' where "requests r wait k (wait w1) = Some w'"
      "settled V D (r_lib r) k i' w' s'" "same_object i' i1" "sta_Phase (db_Status i') = PhaseRunning" by blast
    moreover have "requests r wait k w = requests r wait k (wait w1)" using R False by (intro requests_again) auto
    ultimately show ?thesis using same_object_trans R(3) by metis
  qed
qed

lemma live_requests:
  assumes env: "env_laws V r" and serv: "serving V D r" and st: "settles V D wait left i"
    and S: "D w k = Some i" "live i i" "db_key i = k" "fits i (V w)"
  shows "\<exists>w' i' s'. requests r wait k w = Some w' \<and> settled V D (r_lib r) k i' w' s' \<and> same_object i' i \<and>
    sta_Phase (db_Status i') = PhaseRunning"
proof -
  from Reconcile_settled [OF env serv S] obtain res w1 i1 s1 where R: "Reconcile r k w = ((res, None), w1)"
    "settled V D (r_lib r) k i1 w1 s1" "same_object i1 i" "sta_Phase (db_Status i1) = phaseOf s1 (desiredReplicas i)"
    "res = (if phaseOf s1 (desiredReplicas i) \<noteq> PhaseRunning then zero_Result\<lparr>res_RequeueAfter := 10 * second\<rparr> else zero_Result)"
    by metis
  show ?thesis
  proof (cases "phaseOf s1 (desiredReplicas i) = PhaseRunning")
    case True
    then have "requests r wait k w = Some w1" using R by (intro requests_stop) auto
    then show ?thesis using R True by metis
  next
    case False
    have st1: "settles V D wait left i1" by (rule settles_same [OF st R(3)])
    from settled_wait [OF st1 R(2)] obtain s2 where s2: "settled V D (r_lib r) k i1 (wait w1) s2"
      "prune_done i1 (V (wait w1))" by metis
    have "requests r wait k w = requests r wait k (wait w1)" using R False by (intro requests_again) auto
    then show ?thesis using settled_requests [OF env serv st1 s2] R(3) same_object_trans by metis
  qed
qed


text \<open>In memory: every pause starts one more pod of each StatefulSet.\<close>

definition start_pod :: "StatefulSet \<Rightarrow> StatefulSet" where
  "start_pod s = (let n = (case ss_Replicas (sts_Spec s) of None \<Rightarrow> 1 | Some n \<Rightarrow> n); ready = st_ReadyReplicas (sts_Status s)
     in s\<lparr>sts_Status := \<lparr>st_ObservedGeneration = om_Generation (sts_Meta s),
                        st_ReadyReplicas = (if ready < n then ready + 1 else ready)\<rparr>\<rparr>)"

definition pods_left :: "StatefulSet \<Rightarrow> nat" where
  "pods_left s = nat ((case ss_Replicas (sts_Spec s) of None \<Rightarrow> 1 | Some n \<Rightarrow> n) - st_ReadyReplicas (sts_Status s))"

definition mem_wait :: "mem \<Rightarrow> mem" where
  "mem_wait w = w\<lparr>mem_store := (\<lambda>q. case mem_store w q of
     Some (KStatefulSet s) \<Rightarrow> Some (KStatefulSet (start_pod s)) | x \<Rightarrow> x)\<rparr>"

lemma start_pod_facts:
  "sts_Meta (start_pod s) = sts_Meta s" "sts_Spec (start_pod s) = sts_Spec s" "valid_StatefulSet (start_pod s) = valid_StatefulSet s"
  "up (start_pod s) \<or> pods_left (start_pod s) < pods_left s"
  by (auto simp: start_pod_def up_def pods_left_def valid_StatefulSet_def Let_def)

lemma mem_wait_view:
  "mem_view (mem_wait w) q = (case mem_view w q of Some (KStatefulSet s) \<Rightarrow> Some (KStatefulSet (start_pod s)) | x \<Rightarrow> x)"
  by (auto simp: mem_view_def mem_wait_def start_pod_facts split: option.split kobject.split)

lemma mem_settles:
  assumes "\<not> Replicated i"
  shows "settles mem_view mem_instances mem_wait pods_left i"
proof -
  have typed: "fst q = StatefulSetKind" if "mem_view w q = Some (KStatefulSet s)" for w q s
    using that by (auto simp: mem_view_def split: option.splits if_splits)
  have "mem_view (mem_wait w) q = mem_view w q" if "fst q \<noteq> StatefulSetKind" for w q
    using typed [of w q] that by (cases "mem_view w q") (auto simp: mem_wait_view split: kobject.split)
  then show ?thesis
    unfolding settles_def using assms start_pod_facts
    by (auto simp: unwanted_def mem_wait_view) (simp add: mem_wait_def)
qed


end
