(* ===== verification/Fleet.thy ===== *)
theory Fleet
  imports Liveness Invariants
begin

section \<open>Many instances\<close>

text \<open>
  One operator serves all instances: the manager calls \<^verbatim>\<open>Reconcile\<close> with one key after another
  (one worker, the default). Here: a call leaves other instances alone, so that whatever
  else is called in between, each instance converges as if it were alone, provided that no
  other instance lays claim to an object it relies on. When that can happen is
  characterised exactly, and so is what happens then.
\<close>

subsection \<open>Calls leave other instances alone\<close>

text \<open>A write of an instance changes that instance only.\<close>

definition private_writes :: "('w \<Rightarrow> instances) \<Rightarrow> 'w reconciler \<Rightarrow> bool" where
  "private_writes D r \<longleftrightarrow>
     (\<forall>i w k. k \<noteq> meta_key (db_Meta i) \<longrightarrow> D (snd (kc_Update (r_TlnDB r) i w)) k = D w k) \<and>
     (\<forall>i b w k. k \<noteq> meta_key (db_Meta i) \<longrightarrow> D (snd (r_StatusPatch r i b w)) k = D w k)"

text \<open>All instances but the one at \<open>k\<close> are as in \<open>d\<close>.\<close>

definition others :: "('w \<Rightarrow> instances) \<Rightarrow> nsname \<Rightarrow> instances \<Rightarrow> 'w \<Rightarrow> bool" where
  "others D k d w \<longleftrightarrow> (\<forall>k'. k' \<noteq> k \<longrightarrow> D w k' = d k')"

lemma keeps_instances_calls:
  assumes "keeps_instances D c"
  shows "keeps_calls (\<lambda>_. others D k d) c"
  by (rule keeps_callsI) (simp_all add: others_def keeps_instancesD [OF assms])

lemma helper_keys:
  assumes "helper_laws r"
  shows "meta_key (r_AddFinalizer r m f) = meta_key m" "meta_key (r_RemoveFinalizer r m f) = meta_key m"
proof -
  obtain fs gs where "r_AddFinalizer r m f = m\<lparr>om_Finalizers := fs\<rparr>" "r_RemoveFinalizer r m f = m\<lparr>om_Finalizers := gs\<rparr>"
    using assms unfolding helper_laws_def by blast
  then show "meta_key (r_AddFinalizer r m f) = meta_key m" "meta_key (r_RemoveFinalizer r m f) = meta_key m"
    by (simp_all add: meta_key_def)
qed

lemma other_instance_kept:
  assumes env: "env_laws V r" and up: "serving V D r" and priv: "private_writes D r"
  shows "call_invariant r k (others D k d)"
proof
  note S = serving_instancesD [OF servingD(2) [OF up]]
  show "others D k d w \<Longrightarrow> others D k d (snd (kc_Delete (r_StatefulSet r) y w))" for w y
    by (simp add: others_def keeps_instancesD(4) [OF servingD(8) [OF up]])
  show "others D k d w \<Longrightarrow> others D k d (r_Eventf r j ty re msg w)" for w j ty re msg by (simp add: others_def S(6))
  show "others D k d w \<Longrightarrow> others D k d (snd (r_Now r w))" for w by (simp add: others_def S(7))
  show "others D k d w \<Longrightarrow> others D k d (snd (r_SetStatusCondition r cs c w))" for w cs c by (simp add: others_def S(5))
  show "others D k d w \<Longrightarrow> others D k d (snd (kc_Get (r_TlnDB r) k w))" for w by (simp add: others_def S(2))
  show "fst (kc_Get (r_TlnDB r) k w) = Inr i \<Longrightarrow> meta_key (db_Meta i) = k" for w i
    by (rule tlndb_lawsD(2) [OF env_lawsD(3) [OF env]])
  show "others D k d w \<Longrightarrow> meta_key (db_Meta i) = k \<Longrightarrow> others D k d (snd (kc_Update (r_TlnDB r) i w))" for w i
    using priv unfolding private_writes_def others_def by metis
  show "others D k d w \<Longrightarrow> meta_key (db_Meta i) = k \<Longrightarrow> others D k d (snd (r_StatusPatch r i b w))" for w i b
    using priv unfolding private_writes_def others_def by metis
  show "fst (r_StatusPatch r i b w) = Inr j \<Longrightarrow> meta_key (db_Meta j) = meta_key (db_Meta i)" for i b w j
    using status_lawsD(2) [OF env_lawsD(2) [OF env], of i b w j] by (simp add: same_object_def meta_key_def)
  show "meta_key (r_AddFinalizer r m f) = meta_key m" "meta_key (r_RemoveFinalizer r m f) = meta_key m" for m f
    using helper_keys [OF servingD(1) [OF up]] by blast+
qed (simp_all add: keeps_instances_calls servingD [OF up])

text \<open>What the promise for an instance rests on: its own objects, and an external ConfigMap.\<close>

definition relied :: "TlnDB \<Rightarrow> kkey set" where
  "relied i = footprint (db_key i) \<union>
     (case spec_ConfigFrom (db_Spec i) of None \<Rightarrow> {} | Some n \<Rightarrow> {(ConfigMapKind, db_Namespace i, n)})"

definition independent :: "TlnDB \<Rightarrow> nsname \<Rightarrow> bool" where
  "independent i k \<longleftrightarrow> relied i \<inter> footprint k = {}"

lemma relied_keys:
  "(RoleBindingKind, db_key i) \<in> relied i" "(ServiceAccountKind, db_key i) \<in> relied i" "(RoleKind, db_key i) \<in> relied i"
  "(IngressKind, db_key i) \<in> relied i" "(NetworkPolicyKind, db_key i) \<in> relied i"
  "(ConfigMapKind, db_Namespace i, ConfigMapName i) \<in> relied i" "(ServiceKind, db_Namespace i, HeadlessServiceName i) \<in> relied i"
  "(ServiceKind, db_Namespace i, ResourceName i) \<in> relied i" "(ServiceKind, db_Namespace i, ReadServiceName i) \<in> relied i"
  "(StatefulSetKind, db_Namespace i, ResourceName i) \<in> relied i"
  "(StatefulSetKind, db_Namespace i, LeaderStatefulSetName i) \<in> relied i"
  "(StatefulSetKind, db_Namespace i, FollowerStatefulSetName i) \<in> relied i"
  "(StatefulSetKind, db_Namespace i, primaryStatefulSetName i) \<in> relied i"
  "spec_ConfigFrom (db_Spec i) = Some n \<Longrightarrow> (ConfigMapKind, db_Namespace i, n) \<in> relied i"
  by (simp_all add: relied_def footprint_def name_defs primaryStatefulSetName_def)

lemma fits_relied:
  assumes "\<And>q. q \<in> relied i \<Longrightarrow> c' q = c q"
  shows "fits i c' = fits i c"
  using assms [OF relied_keys(1)] assms [OF relied_keys(14)] unfolding fits_def by metis

lemma realised_relied:
  assumes eq: "\<And>q. q \<in> relied i \<Longrightarrow> c' q = c q" and real: "realised L i h c"
  shows "realised L i h c'"
proof -
  note K = relied_keys [THEN eq]
  have "rbac_realised i c' = rbac_realised i c" using K(1-3) by (simp add: rbac_realised_def holds_def child_keys ResourceName_def)
  moreover have "config_realised L i h c' = config_realised L i h c"
    using K(6) K(14) by (simp add: config_realised_def holds_def child_keys split: option.split)
  moreover have "workloads_realised L i h c' = workloads_realised L i h c"
    using K(8-12) by (simp add: workloads_realised_def holds_def child_keys gone_def)
  moreover have "has_Service c' (BuildHeadlessService i) = has_Service c (BuildHeadlessService i)"
    using K(7) by (simp add: holds_def child_keys)
  moreover have "has_Ingress c' (BuildIngress i) = has_Ingress c (BuildIngress i)"
    "has_NetworkPolicy c' (BuildNetworkPolicy i) = has_NetworkPolicy c (BuildNetworkPolicy i)"
    using K(4,5) by (simp_all add: holds_def child_keys ResourceName_def)
  ultimately show ?thesis using real by (simp add: realised_def)
qed

lemma independent_same: "same_object j i \<Longrightarrow> independent j k = independent i k"
  by (simp add: independent_def relied_def same_objectD cong: option.case_cong)

lemma independent_filled: "independent (filled i) k = independent i k"
  by (simp add: independent_def relied_def cong: option.case_cong)

subsection \<open>Schedules\<close>

primrec serve :: "'w reconciler \<Rightarrow> nsname list \<Rightarrow> 'w \<Rightarrow> 'w" where
  "serve r [] w = w"
| "serve r (k # ks) w = serve r ks (snd (Reconcile r k w))"

text \<open>An instance that has been dealt with: realised, and in the phase its primary set calls for.\<close>

definition settled_as :: "('w \<Rightarrow> cluster) \<Rightarrow> ('w \<Rightarrow> instances) \<Rightarrow> lib \<Rightarrow> nsname \<Rightarrow> TlnDB \<Rightarrow> 'w \<Rightarrow> bool" where
  "settled_as V D L k i w \<longleftrightarrow> (\<exists>j h sts. D w k = Some j \<and> live i j \<and> fits i (V w) \<and> realised L i h (V w) \<and>
     V w (StatefulSetKind, db_Namespace i, primaryStatefulSetName i) = Some (KStatefulSet sts) \<and>
     sta_Phase (db_Status j) = phaseOf sts (desiredReplicas i))"

definition seen_as :: "('w \<Rightarrow> cluster) \<Rightarrow> ('w \<Rightarrow> instances) \<Rightarrow> nsname \<Rightarrow> TlnDB \<Rightarrow> 'w \<Rightarrow> bool" where
  "seen_as V D k i w \<longleftrightarrow> (\<exists>j. D w k = Some j \<and> live i j \<and> fits i (V w))"

lemma settled_seen: "settled_as V D L k i w \<Longrightarrow> seen_as V D k i w"
  unfolding settled_as_def seen_as_def by blast

text \<open>A call for another key changes nothing that matters; a call for the own key makes progress.\<close>

lemma other_call:
  assumes env: "env_laws V r" and up: "serving V D r" and priv: "private_writes D r"
    and k: "k' \<noteq> k" and ind: "independent i k'"
  shows "D (snd (Reconcile r k' w)) k = D w k" "q \<in> relied i \<Longrightarrow> V (snd (Reconcile r k' w)) q = V w q"
    "fits i (V (snd (Reconcile r k' w))) = fits i (V w)"
proof -
  show "D (snd (Reconcile r k' w)) k = D w k"
    using call_invariant.Reconcile_keeps [OF other_instance_kept [OF env up priv, of k' "D w"], of w] k
    unfolding others_def by metis
  have V: "V (snd (Reconcile r k' w)) q = V w q" if "q \<in> relied i" for q
    using Reconcile_frame [OF env] ind that unfolding independent_def by blast
  then show "q \<in> relied i \<Longrightarrow> V (snd (Reconcile r k' w)) q = V w q" .
  show "fits i (V (snd (Reconcile r k' w))) = fits i (V w)" by (rule fits_relied [OF V])
qed

lemma other_call_settled:
  assumes "env_laws V r" and "serving V D r" and "private_writes D r" and "k' \<noteq> k" and "independent i k'"
    and "settled_as V D L k i w"
  shows "settled_as V D L k i (snd (Reconcile r k' w))"
proof -
  let ?w = "snd (Reconcile r k' w)"
  note O = other_call [OF assms(1-5)]
  obtain j h sts where S: "D w k = Some j" "live i j" "fits i (V w)" "realised L i h (V w)"
    "V w (StatefulSetKind, db_Namespace i, primaryStatefulSetName i) = Some (KStatefulSet sts)"
    "sta_Phase (db_Status j) = phaseOf sts (desiredReplicas i)" using assms(6) by (auto simp: settled_as_def)
  have "realised L i h (V ?w)" by (rule realised_relied [OF O(2) S(4)])
  moreover have "V ?w (StatefulSetKind, db_Namespace i, primaryStatefulSetName i) = Some (KStatefulSet sts)"
    using O(2) [OF relied_keys(13)] S(5) by simp
  ultimately show ?thesis using S O(1,3) unfolding settled_as_def by metis
qed

lemma own_call:
  assumes env: "env_laws V r" and up: "serving V D r" and k: "db_key i = k" and seen: "seen_as V D k i w"
  shows "settled_as V D (r_lib r) k i (snd (Reconcile r k w))"
proof -
  obtain j where j: "D w k = Some j" "live i j" "fits i (V w)" using seen by (auto simp: seen_as_def)
  have same: "same_object j i" using j(2) by (simp add: live_def)
  obtain res w' j' sts h where R: "Reconcile r k w = ((res, None), w')" "D w' k = Some j'" "live j j'" "fits j (V w')"
    "realised (r_lib r) j h (V w')" "V w' (StatefulSetKind, db_Namespace j, primaryStatefulSetName j) = Some (KStatefulSet sts)"
    "sta_Phase (db_Status j') = phaseOf sts (desiredReplicas j)"
    by (rule Reconcile_live [OF env up j(1) live_again [OF k j(2,3)]]) (rule that)
  have "live i j'" using R(3) same by (auto simp: live_def intro: same_object_trans)
  moreover have "fits i (V w')" using R(4) same_objectD [OF same] builder_cong(3) [OF same] by (simp add: fits_def)
  ultimately show ?thesis
    unfolding settled_as_def using R realised_cong [OF same] same_objectD [OF same] builder_cong(18) [OF same] desiredReplicas_cong [OF same]
    by auto
qed

lemma other_call_seen:
  assumes "env_laws V r" and "serving V D r" and "private_writes D r" and "k' \<noteq> k" and "independent i k'"
    and "seen_as V D k i w"
  shows "seen_as V D k i (snd (Reconcile r k' w))"
  using assms(6) other_call(1,3) [OF assms(1-5)] unfolding seen_as_def by metis

lemma settled_stays:
  assumes laws: "env_laws V r" "serving V D r" "private_writes D r" and k: "db_key i = k"
    and "settled_as V D (r_lib r) k i w" and "\<And>k'. k' \<in> set ks \<Longrightarrow> k' \<noteq> k \<Longrightarrow> independent i k'"
  shows "settled_as V D (r_lib r) k i (serve r ks w)"
  using assms(5,6)
proof (induction ks arbitrary: w)
  case (Cons k' ks)
  have "settled_as V D (r_lib r) k i (snd (Reconcile r k' w))"
    using own_call [OF laws(1,2) k settled_seen] other_call_settled [OF laws] Cons.prems by (cases "k' = k") auto
  then show ?case using Cons by simp
qed simp

lemma seen_settles:
  assumes laws: "env_laws V r" "serving V D r" "private_writes D r" and k: "db_key i = k"
    and "seen_as V D k i w" and "\<And>k'. k' \<in> set ks \<Longrightarrow> k' \<noteq> k \<Longrightarrow> independent i k'" and "k \<in> set ks"
  shows "settled_as V D (r_lib r) k i (serve r ks w)"
  using assms(5-7)
proof (induction ks arbitrary: w)
  case (Cons k' ks)
  show ?case
  proof (cases "k' = k")
    case True
    then show ?thesis
      using settled_stays [OF laws k own_call [OF laws(1,2) k Cons.prems(1)]] Cons.prems(2) by simp
  next
    case False
    then have "seen_as V D k i (snd (Reconcile r k' w))" using other_call_seen [OF laws] Cons.prems by simp
    then show ?thesis using Cons False by simp
  qed
qed simp

lemma schedule_settles:
  assumes laws: "env_laws V r" "serving V D r" "private_writes D r" and k: "meta_key (db_Meta inst) = k"
    and del: "om_DeletionTimestamp (db_Meta inst) = None"
    and "D w k = Some inst" and "fits inst (V w)"
    and "\<And>k'. k' \<in> set ks \<Longrightarrow> k' \<noteq> k \<Longrightarrow> independent inst k'" and "2 \<le> count_list ks k"
  shows "settled_as V D (r_lib r) k (if FinalizerName \<in> set (om_Finalizers (db_Meta inst)) then inst else filled inst) (serve r ks w)"
  using assms(6-9)
proof (induction ks arbitrary: w)
  case (Cons k' ks)
  let ?i = "if FinalizerName \<in> set (om_Finalizers (db_Meta inst)) then inst else filled inst"
  have ind: "independent ?i k'" if "k' \<in> set ks" "k' \<noteq> k" for k' using Cons.prems(3) that by (simp add: independent_filled)
  show ?case
  proof (cases "k' = k")
    case True
    obtain res w1 i1 where R: "Reconcile r k w = ((res, None), w1)" "D w1 k = Some i1" "live ?i i1" "fits ?i (V w1)"
      using Reconcile_any [OF laws(1,2) Cons.prems(1) k del Cons.prems(2)] by metis
    have "seen_as V D k ?i w1" using R by (auto simp: seen_as_def)
    moreover have "db_key ?i = k" using k by (simp add: meta_key_def)
    moreover have "k \<in> set ks" using Cons.prems(4) True by (cases "k \<in> set ks") (simp_all add: count_notin)
    ultimately show ?thesis using seen_settles [OF laws _ _ ind] R(1) True by simp
  next
    case False
    have "independent inst k'" using Cons.prems(3) False by simp
    note O = other_call(1,3) [OF laws False this]
    show ?thesis using Cons False by (simp add: O)
  qed
qed simp


subsection \<open>On the in-memory cluster\<close>

lemma mem_private_writes: "private_writes mem_instances mem_reconciler"
  unfolding private_writes_def
  by (auto simp: mem_TlnDB_def mem_Update_def mem_StatusPatch_def mem_instances_def Let_def split: option.split)

interpretation mem_frame: call_invariant mem_reconciler k "others mem_instances k d" for k d
  by (rule other_instance_kept [OF mem_env_laws mem_serving mem_private_writes])

text \<open>Two instances of one namespace, and a request for an instance that does not exist in between.\<close>

definition two_mem :: mem where
  "two_mem = empty_mem\<lparr>mem_dbs := [(''ns1'', ''db1'') \<mapsto> newInstance,
     (''ns1'', ''db2'') \<mapsto> newInstance\<lparr>db_Meta := zero_ObjectMeta\<lparr>om_Name := ''db2'', om_Namespace := ''ns1''\<rparr>\<rparr>]\<rparr>"


subsection \<open>Name clashes\<close>

lemma suffixes_differ:
  "a @ ''-headless'' \<noteq> b @ ''-read''" "a @ ''-read'' \<noteq> b @ ''-headless''"
  "a @ ''-leader'' \<noteq> b @ ''-follower''" "a @ ''-follower'' \<noteq> b @ ''-leader''"
  by (auto simp: append_eq_append_conv2 append_eq_Cons_conv Cons_eq_append_conv)

text \<open>
  When two instances get into each other's way. The objects \<^verbatim>\<open>Reconcile\<close> may touch for
  two keys overlap exactly if both are in one namespace and one name is the other, or the
  other followed by \<^verbatim>\<open>-headless\<close>, \<^verbatim>\<open>-read\<close>, \<^verbatim>\<open>-leader\<close> or \<^verbatim>\<open>-follower\<close>.
\<close>

theorem names_clash:
  "footprint (ns, a) \<inter> footprint (ns', b) \<noteq> {} \<longleftrightarrow>
     ns = ns' \<and> (\<exists>s. s \<in> {'''', ''-headless'', ''-read'', ''-leader'', ''-follower''} \<and> (a = b @ s \<or> b = a @ s))"
  unfolding footprint_def by (simp add: suffixes_differ) blast

text \<open>No cluster holds two instances' Services under one name: the selectors differ.\<close>

lemma services_exclude:
  assumes "has_Service c s" and "has_Service c s'" and "meta_key (svc_Meta s) = meta_key (svc_Meta s')"
  shows "ks_Selector (svc_Spec s) = ks_Selector (svc_Spec s')"
  using assms by (auto simp: holds_def norm_Service_def)

lemma client_service:
  assumes "realised L j h c"
  obtains s where "has_Service c s" "meta_key (svc_Meta s) = db_key j"
    "fmlookup (ks_Selector (svc_Spec s)) ''app.kubernetes.io/instance'' = Some (db_Name j)"
proof (cases "Replicated j")
  case True
  then show ?thesis using assms that [of "BuildWriteService j"]
    by (simp add: realised_def workloads_realised_def child_keys ResourceName_def write_svc.build_selector roleSelector_def
        lookup_SelectorLabels RoleLabelKey_def)
next
  case False
  then show ?thesis using assms that [of "BuildService j"]
    by (simp add: realised_def workloads_realised_def child_keys ResourceName_def main_svc.build_selector lookup_SelectorLabels)
qed

lemma primary_replicas:
  assumes "realised L j h c"
  obtains s where "c (StatefulSetKind, db_Namespace j, primaryStatefulSetName j) = Some (KStatefulSet s)"
    "ss_Replicas (sts_Spec s) = Some (desiredReplicas j)"
  using assms that
  by (auto simp: realised_def workloads_realised_def holds_def norm_StatefulSet_def child_keys built_replicas
      primaryStatefulSetName_def desiredReplicas_def split: if_splits option.split)

text \<open>
  C39: what happens then. An instance named like the headless Service, the read Service or
  (with other than one replica) the leader StatefulSet of another instance of its
  namespace: there is no cluster that realises both. Since a successful call of
  \<^verbatim>\<open>reconcileResources\<close> realises its instance, each such call for one of the two undoes what was
  done for the other; the operator does not look at the owner of an object it updates.
\<close>

theorem clashing_instances_unrealisable:
  assumes ns: "db_Namespace j = db_Namespace i"
    and clash: "db_Name j = HeadlessServiceName i \<or> Replicated i \<and> db_Name j = ReadServiceName i \<or>
      Replicated i \<and> \<not> Replicated j \<and> db_Name j = LeaderStatefulSetName i \<and> desiredReplicas j \<noteq> 1"
  shows "\<not> (realised L i h c \<and> realised L j h' c)"
proof
  assume both: "realised L i h c \<and> realised L j h' c"
  obtain s where s: "has_Service c s" "meta_key (svc_Meta s) = db_key j"
    "fmlookup (ks_Selector (svc_Spec s)) ''app.kubernetes.io/instance'' = Some (db_Name j)"
    using client_service both by metis
  from clash consider (headless) "db_Name j = HeadlessServiceName i" | (read) "Replicated i" "db_Name j = ReadServiceName i"
    | (leader) "Replicated i" "\<not> Replicated j" "db_Name j = LeaderStatefulSetName i" "desiredReplicas j \<noteq> 1" by blast
  then show False
  proof cases
    case headless
    have "has_Service c (BuildHeadlessService i)" using both by (simp add: realised_def)
    from services_exclude [OF s(1) this] s(2,3) headless ns show False
      by (simp add: child_keys headless_svc.build_selector lookup_SelectorLabels HeadlessServiceName_def)
  next
    case read
    have "has_Service c (BuildReadService i)" using both read(1) by (simp add: realised_def workloads_realised_def)
    from services_exclude [OF s(1) this] s(2,3) read(2) ns show False
      by (simp add: child_keys read_svc.build_selector roleSelector_def lookup_SelectorLabels RoleLabelKey_def ReadServiceName_def)
  next
    case leader
    obtain a where a: "c (StatefulSetKind, db_Namespace i, primaryStatefulSetName i) = Some (KStatefulSet a)"
      "ss_Replicas (sts_Spec a) = Some (desiredReplicas i)" using primary_replicas both by metis
    obtain b where b: "c (StatefulSetKind, db_Namespace j, primaryStatefulSetName j) = Some (KStatefulSet b)"
      "ss_Replicas (sts_Spec b) = Some (desiredReplicas j)" using primary_replicas both by metis
    from a b leader ns show False
      by (simp add: primaryStatefulSetName_def ResourceName_def desiredReplicas_def split: option.splits)
  qed
qed

theorem clashing_instances_unrealisable_witness:
  "\<forall>L c h h'. \<not> (realised L (newInstance\<lparr>db_Spec := zero_TlnDBSpec\<lparr>spec_Mode := ''replicated''\<rparr>\<rparr>) h c \<and>
     realised L (newInstance\<lparr>db_Meta := zero_ObjectMeta\<lparr>om_Name := ''db1-leader'', om_Namespace := ''ns1''\<rparr>,
       db_Spec := zero_TlnDBSpec\<lparr>spec_Replicas := Some 3\<rparr>\<rparr>) h' c)"
  by (intro allI clashing_instances_unrealisable) (simp_all add: Replicated_def desiredReplicas_def LeaderStatefulSetName_def zero_defs)

end
