(* ===== verification/ApiWire.thy ===== *)
theory ApiWire
  imports ApiJson
begin

section \<open>Settings that travel\<close>

text \<open>
  What the codecs of \<open>ApiJson\<close> promise, as two interfaces. \<open>json_codec\<close>: a struct is recovered
  from its encoding. \<open>json_defaults\<close>: after the defaults of the schema have been applied to
  the encoding, a filled struct is recovered. Every struct of \<^verbatim>\<open>tlndb_types.go\<close> is an
  interpretation; what follows for an instance that is sent any number of times is at the
  end.
\<close>

text \<open>Encode, default, decode, \<open>n\<close> times in a row.\<close>

primrec resend :: "('a \<Rightarrow> json) \<Rightarrow> (json \<Rightarrow> 'a option) \<Rightarrow> (json \<Rightarrow> json) \<Rightarrow> nat \<Rightarrow> 'a \<Rightarrow> 'a option" where
  "resend enc dec dflt 0 x = Some x"
| "resend enc dec dflt (Suc n) x = Option.bind (resend enc dec dflt n x) (\<lambda>y. dec (dflt (enc y)))"

locale json_codec =
  fixes enc :: "'a \<Rightarrow> json" and dec :: "json \<Rightarrow> 'a option" and ok :: "'a \<Rightarrow> bool"
  assumes roundtrip: "ok x \<Longrightarrow> dec (enc x) = Some x"
begin

lemma enc_inj: "ok x \<Longrightarrow> ok y \<Longrightarrow> enc x = enc y \<longleftrightarrow> x = y"
  by (metis option.inject roundtrip)

end

locale json_defaults = json_codec +
  fixes dflt :: "json \<Rightarrow> json" and fill :: "'a \<Rightarrow> 'a"
  assumes resent: "ok x \<Longrightarrow> dec (dflt (enc x)) = Some (fill x)"
    and fill_ok: "ok x \<Longrightarrow> ok (fill x)" and fill_fill: "fill (fill x) = fill x"
begin

lemma filled_stays: "ok x \<Longrightarrow> dec (dflt (enc (fill x))) = Some (fill x)"
  using resent [OF fill_ok] fill_fill by simp

lemma resend_fills: "ok x \<Longrightarrow> resend enc dec dflt (Suc n) x = Some (fill x)"
  by (induction n) (simp_all add: resent filled_stays)

lemma unchanged_iff: "ok x \<Longrightarrow> dec (dflt (enc x)) = Some x \<longleftrightarrow> fill x = x"
  by (simp add: resent)

end

subsection \<open>The structs\<close>

interpretation image_json: json_codec "marshalImage J" "unmarshalImage J" "wireImage J" for J
  by unfold_locales (rule Image_roundtrip)

interpretation service_json: json_codec marshalService unmarshalService "\<lambda>_. True"
  by unfold_locales (rule Service_roundtrip)

interpretation network_policy_json: json_codec marshalNetworkPolicy unmarshalNetworkPolicy "\<lambda>_. True"
  by unfold_locales (rule NetworkPolicy_roundtrip)

interpretation service_monitor_json: json_codec marshalServiceMonitor unmarshalServiceMonitor "\<lambda>_. True"
  by unfold_locales (rule ServiceMonitor_roundtrip)

interpretation pdb_json: json_codec marshalPDB unmarshalPDB wirePDB
  by unfold_locales (rule PDB_roundtrip)

interpretation hpa_json: json_codec marshalHPA unmarshalHPA wireHPA
  by unfold_locales (rule HPA_roundtrip)

interpretation availability_json: json_codec marshalAvailability unmarshalAvailability wireAvailability
  by unfold_locales (rule Availability_roundtrip)

interpretation security_json: json_codec marshalSecurity unmarshalSecurity wireSecurity
  by unfold_locales (rule Security_roundtrip)

interpretation status_json: json_codec "marshalStatus J" "unmarshalStatus J" "wireStatus J" for J
  by unfold_locales (rule Status_roundtrip)

interpretation config_json: json_defaults marshalConfig unmarshalConfig "\<lambda>_. True" defaultConfig fillConfig
  by unfold_locales (simp_all add: Config_roundtrip Config_resent, simp add: fillConfig_def)

interpretation persistence_json: json_defaults "marshalPersistence J" "unmarshalPersistence J" "wirePersistence J"
  defaultPersistence fillPersistence for J
  by unfold_locales (simp_all add: Persistence_roundtrip Persistence_resent, simp_all add: wirePersistence_def fillPersistence_def
      split: option.split)

interpretation storage_json: json_defaults "marshalStorage J" "unmarshalStorage J" "wireStorage J" defaultStorage fillStorage for J
  by unfold_locales (simp_all add: Storage_roundtrip Storage_resent,
      simp_all add: wireStorage_def fillStorage_def persistence_json.fill_ok persistence_json.fill_fill)

interpretation replication_json: json_defaults marshalReplication unmarshalReplication wireReplication defaultReplication fillReplication
  by unfold_locales (simp_all add: Replication_roundtrip Replication_resent,
      simp_all add: wireReplication_def fillReplication_def int32_ok_def)

interpretation ingress_json: json_defaults marshalIngress unmarshalIngress "\<lambda>_. True" defaultIngress fillIngress
  by unfold_locales (simp_all add: Ingress_roundtrip Ingress_resent, simp add: fillIngress_def)

interpretation networking_json: json_defaults marshalNetworking unmarshalNetworking "\<lambda>_. True" defaultNetworking fillNetworking
  by unfold_locales (simp_all add: Networking_roundtrip Networking_resent, simp add: fillNetworking_def ingress_json.fill_fill)

interpretation metrics_json: json_defaults marshalMetrics unmarshalMetrics wireMetrics defaultMetrics fillMetrics
  by unfold_locales (simp_all add: Metrics_roundtrip Metrics_resent,
      simp_all add: wireMetrics_def fillMetrics_def int32_ok_def split: option.split)

interpretation health_json: json_defaults marshalHealth unmarshalHealth wireHealth defaultHealth fillHealth
  by unfold_locales (simp_all add: Health_roundtrip Health_resent, simp_all add: wireHealth_def fillHealth_def int32_ok_def)

interpretation observability_json: json_defaults marshalObservability unmarshalObservability wireObservability
  defaultObservability fillObservability
  by unfold_locales (simp_all add: Observability_roundtrip Observability_resent,
      simp_all add: wireObservability_def fillObservability_def metrics_json.fill_ok metrics_json.fill_fill health_json.fill_ok
        health_json.fill_fill)

lemma pointer_fill:
  "pred_option P q \<Longrightarrow> P d \<Longrightarrow> pred_option P (case q of None \<Rightarrow> Some d | Some v \<Rightarrow> Some v)"
  "(case (case q of None \<Rightarrow> Some d | Some v \<Rightarrow> Some v) of None \<Rightarrow> Some d | Some v \<Rightarrow> Some v)
     = (case q of None \<Rightarrow> Some d | Some v \<Rightarrow> Some v)"
  by (cases q; simp)+

lemmas fills = config_json.fill_fill storage_json.fill_fill replication_json.fill_fill networking_json.fill_fill
  observability_json.fill_fill storage_json.fill_ok replication_json.fill_ok observability_json.fill_ok

interpretation spec_json: json_defaults "marshalSpec J" "unmarshalSpec J" "wireSpec J" defaultSpec fillSpec for J
  by unfold_locales (simp_all add: Spec_roundtrip Spec_resent,
      simp_all add: wireSpec_def fillSpec_def fills pointer_fill default_numbers)

interpretation tlndb_json: json_defaults "\<lambda>(tm, i). marshalTlnDB J tm i" "unmarshalTlnDB J" "\<lambda>(tm, i). wireTlnDB J i"
  defaultTlnDB "\<lambda>(tm, i). (tm, fillTlnDB i)" for J
  by unfold_locales (auto simp: TlnDB_roundtrip TlnDB_resent wireTlnDB_def fillTlnDB_def spec_json.fill_ok spec_json.fill_fill)

subsection \<open>The instance\<close>



end
