(* ===== verification/Spec2Isabelle.thy ===== *)
theory Spec2Isabelle
  imports LeastPrivilege DeepCopy Settling Lifecycle Fleet ApiWire
begin

text \<open>
  \<^bold>\<open>Verification of the tln-db Kubernetes operator.\<close>

  \<^bold>\<open>The program.\<close> The operator reconciles a \<^verbatim>\<open>TlnDB\<close> custom resource into Kubernetes objects. Its
  parts, under \<^verbatim>\<open>src/\<close>: the resource types (\<^verbatim>\<open>api/v1alpha1/tlndb_types.go\<close>); pure builders,
  one per object kind, over shared helpers for names, labels, ports and hashes
  (\<^verbatim>\<open>internal/resources\<close>); and the controller (\<^verbatim>\<open>internal/controller/tlndb_controller.go\<close>),
  whose \<^verbatim>\<open>Reconcile\<close> reads an instance, manages its finalizer, runs \<^verbatim>\<open>reconcileResources\<close>
  (build each object, create or update it, record it in the status) and then
  \<^verbatim>\<open>syncStatus\<close> (phase, conditions, requeue). Builders read the instance only; the
  controller owns all effects, through the API client. \<^verbatim>\<open>cmd/main.go\<close> reads the command line and
  starts controller-runtime's manager, which calls \<^verbatim>\<open>Reconcile\<close> for the objects the controller
  watches; \<^verbatim>\<open>zz_generated.deepcopy.go\<close> copies instances.

  \<^bold>\<open>Theories.\<close>
  \<^item> \<open>Prelude\<close>: Go values, errors with wrapping, label matching. \<open>GoStd\<close>, \<open>GoQuote\<close>, \<open>Sha256\<close>:
    the parts of Go's library the source uses (\<^verbatim>\<open>strconv\<close>, \<^verbatim>\<open>strings\<close>, \<^verbatim>\<open>fmt\<close>'s \<^verbatim>\<open>%q\<close>,
    \<^verbatim>\<open>crypto/sha256\<close>, \<^verbatim>\<open>encoding/hex\<close>), executable.
  \<^item> \<open>KubeTypes\<close>, \<open>ApiTypes\<close>: the structs of the Kubernetes API and of \<^verbatim>\<open>tlndb_types.go\<close> as
    records. \<open>ApiJson\<close>: their JSON encoding and decoding as the struct tags say, and the
    defaults of the CRD schema (\<open>fill*\<close>). \<open>ApiWire\<close>: the contract of these codecs as the locales
    \<open>json_codec\<close> and \<open>json_defaults\<close>, interpreted for every struct: what trips to the API
    server do to an instance.
  \<^item> \<open>Common\<close> (\<^verbatim>\<open>common.go\<close>), \<open>ConfigMaps\<close> (\<^verbatim>\<open>configmap.go\<close>), \<open>Workloads\<close> (\<^verbatim>\<open>statefulset.go\<close>,
    \<^verbatim>\<open>pvc.go\<close>), \<open>Services\<close> (\<^verbatim>\<open>service.go\<close>), \<open>Rbac\<close> (\<^verbatim>\<open>rbac.go\<close>), \<open>Networking\<close> (\<^verbatim>\<open>ingress.go\<close>,
    \<^verbatim>\<open>networkpolicy.go\<close>), \<open>Monitoring\<close> (\<^verbatim>\<open>servicemonitor.go\<close>), \<open>Availability\<close> (\<^verbatim>\<open>pdb.go\<close>,
    \<^verbatim>\<open>hpa.go\<close>): the builders, one definition per function under the source's name. The
    locale \<open>child_builder\<close> (names and namespace of built objects) and its extensions
    \<open>service_builder\<close> and \<open>workload\<close> state what builders promise; every builder is an
    interpretation.
  \<^item> \<open>KubeClient\<close>: the environment of the controller as the record \<open>reconciler\<close>, over an
    abstract world, and the laws assumed of it (\<open>env_laws\<close>). \<open>MemCluster\<close>: an in-memory
    environment that satisfies them, used to run the controller at concrete inputs.
  \<^item> \<open>Upserts\<close>: the \<^verbatim>\<open>createOrUpdate*\<close> methods as written, and the proof that the ten typed
    ones are instances of one generic \<open>upsert\<close>. \<open>Managed\<close>: the locale \<open>managed_kind\<close>, the
    contract under which an upsert makes the cluster hold the desired object and
    changes nothing else, interpreted for all ten kinds.
  \<^item> \<open>Controller\<close>: \<^verbatim>\<open>Reconcile\<close> and everything it calls; the body of \<^verbatim>\<open>reconcileResources\<close> is a
    sequence of stages over its local variables. \<open>Reconciliation\<close>: a program logic for
    stages and the abstract specification \<open>realised\<close>. \<open>Reconciled\<close>: a specification per
    stage, their composition, and a concrete run. \<open>Idempotence\<close>: a run on a realised
    instance rewrites no compared object. \<open>Progress\<close>, \<open>Convergence\<close>, \<open>Liveness\<close>: the other direction, that
    with an API server that serves its calls (\<open>serving\<close>) each operation, each stage and in
    the end \<^verbatim>\<open>Reconcile\<close> succeeds. \<open>Settling\<close>: one call releases an instance being deleted, and the
    chain of calls that \<^verbatim>\<open>Reconcile\<close> asks for comes to an end (\<open>requests\<close>, a partial function
    shown to return). \<open>Invariants\<close>: what every call of the client keeps, \<^verbatim>\<open>Reconcile\<close> keeps, as the
    locales \<open>resource_invariant\<close> and \<open>call_invariant\<close>, used by the next two theories and by
    \<open>LeastPrivilege\<close>. \<open>Lifecycle\<close>: \<^verbatim>\<open>Reconcile\<close> with users at work between any two of
    its calls, as a step relation with an invariant. \<open>Fleet\<close>: calls for many instances in any
    order (\<open>serve\<close>), and when instances get into each other's way.
  \<^item> \<open>Manager\<close>: watches, command line, manager options and start-up (\<^verbatim>\<open>SetupWithManager\<close>,
    \<^verbatim>\<open>cmd/main.go\<close>, \<^verbatim>\<open>groupversion_info.go\<close>). \<open>Permissions\<close>: the RBAC markers of the controller, and
    the controller with every call checked against a set of permissions (\<open>restricted\<close>).
    \<open>LeastPrivilege\<close>: an environment that records the permissions used, and hence that none can be
    spared.
  \<^item> \<open>GoHeap\<close>: Go memory, and the contract of a deep copy as the locale \<open>copier\<close>, closed under
    pointers, slices, maps and struct fields. \<open>ApiMemory\<close>, \<open>DeepCopy\<close>: the API structs with their
    pointers, and \<^verbatim>\<open>zz_generated.deepcopy.go\<close> over them.
  \<^item> This theory: further properties of the operator as a whole.

  \<^bold>\<open>Correspondence.\<close> Go strings are byte strings, maps finite maps, pointers options, slices
  lists; nil and empty maps or slices are one value, as \<^verbatim>\<open>equality.Semantic.DeepEqual\<close> treats
  them (the memory theories keep pointers and nil). \<^verbatim>\<open>error\<close> is a datatype, a fallible call returns \<open>error + 'a\<close>, and each early return is a
  branch. A method that mutates its argument returns it; the status patch and Update
  overwrite the instance with the server's response. \<^verbatim>\<open>int32\<close> and \<^verbatim>\<open>int64\<close> values are
  integers, since the source only compares them and divides by a constant; the parser's
  range check is explicit. SHA-256 works on 32-bit words. All recursion is structural or has a termination
  proof, apart from \<open>requests\<close>, where not returning is the value \<^const>\<open>None\<close>; no definition
  uses fuel.

  \<^bold>\<open>What is shown.\<close> Builders: Services reach the container's ports, route by role and never
  across instances; volumes have exactly one source; the config hash reaches the pod
  template and does not depend on map order; the rendered configuration parses back to the
  intended settings and its ports are the exposed ones; RBAC, NetworkPolicy, Ingress,
  ServiceMonitor, disruption budget and autoscaler are characterised exactly. Controller:
  a successful reconciliation realises the specification; every run is confined to the
  instance's own objects; updates preserve immutable fields and happen only on a
  difference; the finalizer protocol, error reporting, phases and status lists are as
  intended. The other way round, with an API server that is up two runs on a live instance
  succeed, realise it and leave it in the phase its StatefulSet calls for; a run on a
  realised instance rewrites no configuration, role or StatefulSet; the calls stop, in
  phase \<^verbatim>\<open>Running\<close>, once the pods are up; an instance being deleted is released at once; and with users at
  work meanwhile the phase, the finalizer and the deletion mark of every stored instance
  stay consistent. Many instances, served in any order, converge each as if it were alone,
  unless the name of one is that of another's object, which is characterised exactly.
  The permissions the operator declares are enough for all of it, also
  under the API server's escalation check, and more than it uses; what it uses is
  determined exactly. Encoding: instances survive
  a trip through JSON, and what the operator's own Update changes in them is the
  defaults. Process: exit status, flag parsing, TLS
  settings and what the watches cover. Memory: deep copies are equal to, well typed like,
  and isolated from their originals, which is why instances can be values in the other theories and the
  base of a status patch is the state before the change. Some theorems state behaviour that departs from the documentation
  (\<open>write_back_fills_defaults\<close>, \<open>network_policy_blocks_replication\<close>, \<open>clashing_instances_unrealisable\<close>,
  \<open>template_changes_not_rolled_out\<close>, \<open>stale_objects_remain\<close>, \<open>hpa_target\<close> and others).

  \<^bold>\<open>Assumptions.\<close> \<open>env_laws\<close>: API calls act on the object they name only, reads return what is
  stored, a successful write stores what was sent on the managed fields, nobody edits the
  instance's spec or its objects during a reconciliation, \<^verbatim>\<open>SetControllerReference\<close> changes
  owner references only. The Unicode printable-rune table and \<^verbatim>\<open>resource.Quantity\<close> are
  parameters. \<open>serving\<close> (used by \<open>reconcile_converges\<close>, \<open>schedule_converges\<close>, \<open>deletion_completes\<close> and \<open>requests_end\<close>): calls on
  valid objects succeed, an Update of an instance fills in the defaults, and a deleted
  instance goes with its last finalizer. \<open>settles\<close> (\<open>requests_end\<close> only): between two calls
  StatefulSets get closer to ready pods and nobody edits anything.
  \<open>private_writes\<close> (\<open>schedule_converges\<close> only): a write of an instance changes that instance only.
  \<open>life_laws\<close> (used by \<open>lifecycle_invariant\<close> only): reads of the instance are current, status
  patches are merge patches, users do not write the status subresource and do not remove
  the operator's finalizer. \<open>enqueue_laws\<close>, \<open>reference_laws\<close>: what controller-runtime does with owner references.
  \<open>gvk_laws\<close> (permissions only): \<^verbatim>\<open>GroupVersionKind\<close> reads the kind of an unstructured object.
  \<open>ext_laws\<close> (deep copies only): the structs of the Kubernetes packages are copied deeply by their own methods.

  \<^bold>\<open>Not modelled.\<close> All Go code that is not a test has its model, apart from logging and the build
  metadata that \<^verbatim>\<open>main\<close> only logs. The manifests, charts and scripts are not Go code. User-supplied fragments the operator
  only passes on (affinity, tolerations, extra rules) are opaque JSON documents. The
  manager's own loop (queues, leader election, rate limits) belongs to
  controller-runtime.
  Calls are one after another, as with the one worker the manager starts by default; between
  the calls of the client that one \<^verbatim>\<open>Reconcile\<close> makes nobody else writes (\<open>env_laws\<close>).
\<close>

section \<open>Properties of the operator as a whole\<close>

subsection \<open>Reconciling the resources of an instance\<close>

text \<open>
  C1: a successful reconciliation realises the specification. If \<^verbatim>\<open>reconcileResources\<close> returns
  no error, the cluster afterwards holds every object the instance asks for, with all
  fields the operator manages as its builders compute them: service account, role and
  binding unless the user supplies an account; the configuration (rendered, or the
  existing external ConfigMap); the headless Service; leader, followers (if any are
  requested), write and read Services in replicated mode, one StatefulSet and one
  Service otherwise, the pods carrying the hash of the configuration in place; and the
  Ingress and NetworkPolicy if enabled. The environment is assumed to obey \<open>env_laws\<close>.
\<close>

theorem reconcile_realises:
  assumes "env_laws V r" and "reconcileResources r inst w = (None, inst', w')"
  shows "same_object inst' inst \<and> (\<exists>h. realised (r_lib r) inst h (V w'))"
  using reconcileResources_effect(1,3) [OF assms] by blast

theorem reconcile_realises_witness:
  "\<exists>inst' w'. reconcileResources mem_reconciler demo mem_demo = (None, inst', w') \<and>
     (\<exists>h. realised (r_lib mem_reconciler) demo h (mem_view w'))"
  using demo_reconciles reconcile_realises [OF mem_env_laws] by blast



text \<open>
  C15: a reconciliation changes nothing it should not. Whatever its outcome, error or not,
  \<^verbatim>\<open>reconcileResources\<close> changes only objects of \<open>touched\<close>: the instance's own, in its own
  namespace, under the names the builders give them, and only those of the features that
  are enabled.
\<close>

theorem reconcile_touches_only:
  assumes "env_laws V r" and "reconcileResources r inst w = (e, inst', w')" and "V w' q \<noteq> V w q"
  shows "q \<in> touched inst"
  using reconcileResources_effect(2) [OF assms(1,2), of q] assms(3) by blast

theorem reconcile_touches_only_witness:
  "(ConfigMapKind, ''ns1'', ''db1-config'') \<in> touched demo"
proof -
  obtain inst' w' where run: "reconcileResources mem_reconciler demo mem_demo = (None, inst', w')"
    using demo_reconciles by blast
  obtain h where "realised (r_lib mem_reconciler) demo h (mem_view w')"
    using reconcileResources_effect(3) [OF mem_env_laws run] by blast
  then have "mem_view w' (ConfigMapKind, ''ns1'', ''db1-config'') \<noteq> None"
    by (auto simp: realised_def config_realised_def holds_def child_keys ConfigMapName_def)
  moreover have "mem_view mem_demo (ConfigMapKind, ''ns1'', ''db1-config'') = None"
    by (simp add: mem_view_def mem_demo_def empty_mem_def)
  ultimately show ?thesis using reconcile_touches_only [OF mem_env_laws run] by metis
qed

lemma external_config_present:
  assumes "env_laws V r" and "spec_ConfigFrom (db_Spec inst) = Some n"
    and "stageRBAC r \<lparr>rs_inst = inst, rs_managed = [], rs_hash = [], rs_world = w\<rparr> = (None, s1)"
    and "stageConfig r s1 = (None, s2)"
  shows "V w (ConfigMapKind, db_Namespace inst, n) \<noteq> None"
proof -
  let ?q = "(ConfigMapKind, db_Namespace inst, n)"
  note R = stage_specD [OF stageRBAC_spec [OF assms(1), of inst "[]"] _ _ assms(3)]
  note C = stageConfig_effect [OF assms(1) R(1) assms(4)]
  have "V (rs_world s2) ?q \<noteq> None" using C(3) assms(2) by (auto simp: config_realised_def)
  moreover have "?q \<notin> rbac_keys inst" by (auto simp: rbac_keys_def)
  ultimately show ?thesis using C(2) [of ?q] R(3) [of ?q] assms(2) by (simp add: config_keys_def)
qed

text \<open>
  C14: a missing external ConfigMap stops the rollout. If the instance takes its configuration
  from a ConfigMap that does not exist, reconciliation fails, and no Service, StatefulSet
  or optional object is created or changed: at most the RBAC objects are.
\<close>

theorem missing_external_config_stops:
  assumes "env_laws V r" and "spec_ConfigFrom (db_Spec inst) = Some n"
    and "V w (ConfigMapKind, db_Namespace inst, n) = None"
    and "reconcileResources r inst w = (e, inst', w')"
  shows "e \<noteq> None \<and> (V w' q \<noteq> V w q \<longrightarrow> q \<in> rbac_keys inst)"
  using assms(4)
proof (cases rule: reconcileResources_cases)
  case (rbac e1 s1)
  then show ?thesis
    using stage_specD(3) [OF stageRBAC_spec [OF assms(1), of inst "[]"] _ _ rbac(1), of q] by auto
next
  case (config s1 e2 s2)
  note R = stage_specD [OF stageRBAC_spec [OF assms(1), of inst "[]"] _ _ config(1)]
  have "V (rs_world s2) q = V (rs_world s1) q"
    using stageConfig_effect(2) [OF assms(1) R(1) config(2), of q] assms(2) by (simp add: config_keys_def)
  then show ?thesis using R(3) [of q] config(3,5) by auto
next
  case (later s1 s2 e3 s3)
  then show ?thesis using external_config_present [OF assms(1,2) later(1,2)] assms(3) by blast
next
  case (persist s1 s2 s3 s4)
  then show ?thesis using external_config_present [OF assms(1,2) persist(1,2)] assms(3) by blast
qed

theorem missing_external_config_stops_witness:
  "fst (reconcileResources mem_reconciler external_demo mem_demo) \<noteq> None"
proof -
  obtain e i' w' where run: "reconcileResources mem_reconciler external_demo mem_demo = (e, i', w')" by (metis prod_cases3)
  have "spec_ConfigFrom (db_Spec external_demo) = Some ''ext''" by (simp add: external_demo_def)
  moreover have "mem_view mem_demo (ConfigMapKind, db_Namespace external_demo, ''ext'') = None"
    by (simp add: mem_view_def mem_demo_def empty_mem_def)
  ultimately show ?thesis using missing_external_config_stops [OF mem_env_laws _ _ run] run by simp
qed

text \<open>
  C40: what a change of the spec leaves behind. Reconciling in standalone mode never touches
  the leader and follower StatefulSets nor the read Service, reconciling in replicated
  mode never touches the standalone StatefulSet, and a feature that is switched off
  (Ingress, NetworkPolicy, ServiceMonitor, disruption budget, autoscaler) keeps the
  object it had.
\<close>

theorem stale_objects_remain:
  assumes "env_laws V r" and "reconcileResources r inst w = (e, inst', w')"
  shows "(if Replicated inst
      then V w' (StatefulSetKind, db_Namespace inst, ResourceName inst) = V w (StatefulSetKind, db_Namespace inst, ResourceName inst)
      else V w' (StatefulSetKind, db_Namespace inst, LeaderStatefulSetName inst)
             = V w (StatefulSetKind, db_Namespace inst, LeaderStatefulSetName inst) \<and>
           V w' (StatefulSetKind, db_Namespace inst, FollowerStatefulSetName inst)
             = V w (StatefulSetKind, db_Namespace inst, FollowerStatefulSetName inst) \<and>
           V w' (ServiceKind, db_Namespace inst, ReadServiceName inst) = V w (ServiceKind, db_Namespace inst, ReadServiceName inst))
    \<and> (\<not> wants_ingress inst \<longrightarrow> V w' (IngressKind, db_key inst) = V w (IngressKind, db_key inst))
    \<and> (\<not> wants_np inst \<longrightarrow> V w' (NetworkPolicyKind, db_key inst) = V w (NetworkPolicyKind, db_key inst))
    \<and> (\<not> wants_sm inst \<longrightarrow> V w' (MonitorKind, db_key inst) = V w (MonitorKind, db_key inst))
    \<and> (\<not> wants_pdb inst \<longrightarrow> V w' (PDBKind, db_key inst) = V w (PDBKind, db_key inst))
    \<and> (\<not> wants_hpa inst \<longrightarrow> V w' (HPAKind, db_key inst) = V w (HPAKind, db_key inst))"
proof -
  have "(StatefulSetKind, db_Namespace inst, ResourceName inst) \<notin> touched inst" if "Replicated inst"
    using that by (auto simp: touched_def rbac_keys_def config_keys_def workload_keys_def optional_keys_def name_defs)
  moreover have "(StatefulSetKind, db_Namespace inst, LeaderStatefulSetName inst) \<notin> touched inst"
    "(StatefulSetKind, db_Namespace inst, FollowerStatefulSetName inst) \<notin> touched inst"
    "(ServiceKind, db_Namespace inst, ReadServiceName inst) \<notin> touched inst" if "\<not> Replicated inst"
    using that by (auto simp: touched_def rbac_keys_def config_keys_def workload_keys_def optional_keys_def name_defs)
  moreover have "\<not> wants_ingress inst \<Longrightarrow> (IngressKind, db_key inst) \<notin> touched inst"
    "\<not> wants_np inst \<Longrightarrow> (NetworkPolicyKind, db_key inst) \<notin> touched inst"
    "\<not> wants_sm inst \<Longrightarrow> (MonitorKind, db_key inst) \<notin> touched inst"
    "\<not> wants_pdb inst \<Longrightarrow> (PDBKind, db_key inst) \<notin> touched inst"
    "\<not> wants_hpa inst \<Longrightarrow> (HPAKind, db_key inst) \<notin> touched inst"
    by (auto simp: touched_def rbac_keys_def config_keys_def workload_keys_def optional_keys_def)
  ultimately show ?thesis using reconcileResources_effect(2) [OF assms] by simp
qed

theorem stale_objects_remain_witness:
  "\<exists>inst' w'. reconcileResources mem_reconciler demo mem_demo = (None, inst', w') \<and>
     mem_view w' (StatefulSetKind, ''ns1'', ''db1-leader'') = mem_view mem_demo (StatefulSetKind, ''ns1'', ''db1-leader'')"
proof -
  obtain inst' w' where run: "reconcileResources mem_reconciler demo mem_demo = (None, inst', w')"
    using demo_reconciles by blast
  with stale_objects_remain [OF mem_env_laws run] show ?thesis
    by (simp add: Replicated_def LeaderStatefulSetName_def)
qed

text \<open>
  C20: followers replicate from the leader. The address handed to the follower pods has the
  name and namespace of the write Service as host and the number of that Service's gRPC
  port as port, and the write Service selects the leader's pods only.
\<close>

theorem follower_replicates_from_leader:
  "env_value (c_Env (hd (sts_Containers (BuildFollowerStatefulSet L inst h (leaderAddr inst) n ret)))) ''TLNDB_REPLICATE_FROM''
     = Some (om_Name (svc_Meta (BuildWriteService inst)) @ ''.'' @ om_Namespace (svc_Meta (BuildWriteService inst))
         @ ''.svc.cluster.local:'' @ FormatInt (grpcPort inst)) \<and>
   map_of (map (\<lambda>p. (sp_Name p, sp_Port p)) (ks_Ports (svc_Spec (BuildWriteService inst)))) ''grpc'' = Some (grpcPort inst) \<and>
   PortFromAddr (leaderAddr inst) d = grpcPort inst \<and>
   selects (BuildWriteService inst) (pt_Labels (sts_Template (BuildLeaderStatefulSet L inst h ret))) \<and>
   \<not> selects (BuildWriteService inst) (pt_Labels (sts_Template (BuildFollowerStatefulSet L inst h (leaderAddr inst) n ret)))"
proof -
  have "1 \<le> grpcPort inst" "grpcPort inst \<le> 65535"
    by (auto simp: PortFromAddr_def Let_def DefaultGRPCPort_def split: option.splits)
  then have "PortFromAddr (leaderAddr inst) d = grpcPort inst"
    using PortFromAddr_host_port [of "grpcPort inst" "ResourceName inst @ ''.'' @ db_Namespace inst @ ''.svc.cluster.local''" d]
    by (simp add: leaderAddr_def)
  moreover have "env_value (followerEnv (leaderAddr inst) ret) ''TLNDB_REPLICATE_FROM'' = Some (leaderAddr inst)"
    by (simp add: env_value_def followerEnv_def oplogRetentionEnv_def)
  moreover have "RoleLeader \<noteq> RoleFollower" by (simp add: role_defs)
  ultimately show ?thesis
    by (simp add: follower_wl.main_env_value leaderAddr_def write_svc.meta_name write_svc.meta_namespace
        write_svc.build_ports buildServicePorts_def selects_def write_svc.build_selector leader_wl.build_pod_labels
        follower_wl.build_pod_labels roleSelector_match_iff)
qed

text \<open>
  An external reference with an empty name mounts a ConfigMap nobody creates: the pods of
  such an instance mount the rendered ConfigMap's name, but reconciling the instance
  never creates or updates a ConfigMap.
\<close>

theorem empty_config_reference:
  assumes "spec_ConfigFrom (db_Spec inst) = Some []"
  shows "hd (ps_Volumes (pt_Spec (sts_Template (BuildStatefulSet L inst h))))
      = \<lparr>v_Name = ConfigVolumeName, v_Source = ConfigMapVolume (ConfigMapName inst) (Some 292)\<rparr> \<and>
    (ConfigMapKind, db_Namespace inst, ConfigMapName inst) \<notin> touched inst"
  using assms
  by (auto simp: standalone_wl.build_volumes buildVolumes_def Let_def touched_def rbac_keys_def config_keys_def
      workload_keys_def optional_keys_def)

theorem empty_config_reference_witness:
  "(ConfigMapKind, ''ns1'', ''db1-config'') \<notin> touched (demo\<lparr>db_Spec := (db_Spec demo)\<lparr>spec_ConfigFrom := Some []\<rparr>\<rparr>)"
  using empty_config_reference [of "demo\<lparr>db_Spec := (db_Spec demo)\<lparr>spec_ConfigFrom := Some []\<rparr>\<rparr>" sample_lib "''h''"]
  by (simp add: ConfigMapName_def)

subsection \<open>Reconcile\<close>

text \<open>
  C8: \<^verbatim>\<open>Reconcile\<close> is confined to its instance. Whatever it meets and however it ends, an object
  it changed belongs to the requested instance: it lies in that instance's namespace and
  carries one of the names derived from the instance's name.
\<close>

theorem reconcile_confined:
  assumes "env_laws V r" and "V (snd (Reconcile r req w)) q \<noteq> V w q"
  shows "q \<in> footprint req"
  using Reconcile_frame [OF assms(1)] assms(2) by blast

theorem reconcile_confined_witness:
  "mem_view (snd (Reconcile mem_reconciler (''ns1'', ''db1'') mem_demo)) (ServiceKind, ''ns2'', ''db1'') = None"
proof -
  have "(ServiceKind, ''ns2'', ''db1'') \<notin> footprint (''ns1'', ''db1'')" by (simp add: footprint_def)
  then have "mem_view (snd (Reconcile mem_reconciler (''ns1'', ''db1'') mem_demo)) (ServiceKind, ''ns2'', ''db1'')
      = mem_view mem_demo (ServiceKind, ''ns2'', ''db1'')"
    using reconcile_confined [OF mem_env_laws] by blast
  then show ?thesis by (simp add: mem_view_def mem_demo_def empty_mem_def)
qed

text \<open>
  C12: the finalizer comes first. A live instance without the finalizer is only given one: the
  sole effect of \<^verbatim>\<open>Reconcile\<close> is one Update of the instance with the finalizer added, followed
  by an immediate requeue (or the Update's error); no object is created before that. An
  instance being deleted that no longer has the finalizer is left alone entirely, as is
  a request for an instance that does not exist.
\<close>

theorem finalizer_first:
  assumes "kc_Get (r_TlnDB r) req w = (g, w1)"
  shows "(case g of
      Inl e \<Rightarrow> Reconcile r req w = ((zero_Result, if IsNotFound e then None else Some e), w1)
    | Inr inst \<Rightarrow>
        \<not> r_ContainsFinalizer r (db_Meta inst) FinalizerName \<longrightarrow>
        Reconcile r req w =
          (if om_DeletionTimestamp (db_Meta inst) \<noteq> None then ((zero_Result, None), w1)
           else case kc_Update (r_TlnDB r) (inst\<lparr>db_Meta := r_AddFinalizer r (db_Meta inst) FinalizerName\<rparr>) w1 of
                  (Inl e, w2) \<Rightarrow> ((zero_Result, Some e), w2)
                | (Inr _, w2) \<Rightarrow> ((zero_Result\<lparr>res_Requeue := True\<rparr>, None), w2)))"
  using assms
  by (auto simp: Reconcile_def reconcileInstance_def reconcileDeletion_def updateInstance_def Let_def
      split: sum.splits prod.splits)

theorem finalizer_first_witness:
  "fst (Reconcile mem_reconciler (''ns1'', ''db1'') unfinalized_demo) = (zero_Result\<lparr>res_Requeue := True\<rparr>, None)"
proof -
  have get: "kc_Get (r_TlnDB mem_reconciler) (''ns1'', ''db1'') unfinalized_demo = (Inr newInstance, unfinalized_demo)"
    by (simp add: mem_TlnDB_def unfinalized_demo_def meta_key_def zero_defs)
  moreover have "om_Finalizers (db_Meta newInstance) = []" "om_DeletionTimestamp (db_Meta newInstance) = None"
    by (simp_all add: zero_defs)
  moreover have "mem_instances unfinalized_demo (meta_key ((db_Meta newInstance)\<lparr>om_Finalizers := fs\<rparr>)) = Some newInstance" for fs
    by (simp add: mem_instances_def unfinalized_demo_def meta_key_def zero_defs)
  ultimately show ?thesis using finalizer_first [OF get] by (simp add: mem_TlnDB_def mem_Update_def Let_def)
qed

text \<open>
  Deletion. If \<^verbatim>\<open>Reconcile\<close> succeeds on an instance that is being deleted and still has the
  finalizer, its last call is an Update of the instance from which the finalizer has been
  removed and whose status says Terminating; none of the instance's objects is changed
  (they are left to garbage collection), and the request is not repeated.
\<close>

theorem deletion_releases_instance:
  assumes "env_laws V r" and "kc_Get (r_TlnDB r) req w = (Inr inst, w1)"
    and "om_DeletionTimestamp (db_Meta inst) \<noteq> None" and "r_ContainsFinalizer r (db_Meta inst) FinalizerName"
    and "Reconcile r req w = ((res, None), w')"
  shows "res = zero_Result \<and> V w' = V w \<and>
    (\<exists>i w2. sta_Phase (db_Status i) = PhaseTerminating \<and> same_object i inst \<and>
       snd (kc_Update (r_TlnDB r) (i\<lparr>db_Meta := r_RemoveFinalizer r (db_Meta i) FinalizerName\<rparr>) w2) = w' \<and>
       \<not> isl (fst (kc_Update (r_TlnDB r) (i\<lparr>db_Meta := r_RemoveFinalizer r (db_Meta i) FinalizerName\<rparr>) w2)))"
proof -
  obtain e1 i1 w2 where p: "setPhase r inst PhaseTerminating w1 = (e1, i1, w2)" by (metis prod_cases3)
  let ?i = "i1\<lparr>db_Meta := r_RemoveFinalizer r (db_Meta i1) FinalizerName\<rparr>"
  obtain u w3 where u: "kc_Update (r_TlnDB r) ?i w2 = (u, w3)" by force
  have run: "e1 = None" "\<not> isl u" "res = zero_Result" "w' = w3"
    using assms(2-5) p u
    by (auto simp: Reconcile_def reconcileInstance_def reconcileDeletion_def updateInstance_def Let_def
        split: option.splits sum.splits)
  obtain i3 where "reconcileInstance r inst w1 = ((res, None), i3, w')"
    using assms(2,5) by (auto simp: Reconcile_def split: prod.splits)
  then have "reconcileDeletion r inst w1 = ((res, None), i3, w')" using assms(3) by (auto simp: reconcileInstance_def)
  then have "V w' = V w1" by (rule reconcileDeletion_frame [OF assms(1)])
  moreover have "V w1 = V w" using tlndb_lawsD(1) [OF env_lawsD(3) [OF assms(1)]] assms(2) by (metis snd_conv)
  moreover note setPhase_effect(2,3) [OF env_lawsD(2) [OF assms(1)] p]
  ultimately show ?thesis using run u by (auto intro!: exI [of _ i1] exI [of _ w2])
qed

theorem deletion_releases_instance_witness:
  "\<exists>w'. Reconcile mem_reconciler (''ns1'', ''db1'') (empty_mem\<lparr>mem_dbs := [(''ns1'', ''db1'') \<mapsto> deleted_demo]\<rparr>)
          = ((zero_Result, None), w') \<and>
        mem_view w' = mem_view (empty_mem\<lparr>mem_dbs := [(''ns1'', ''db1'') \<mapsto> deleted_demo]\<rparr>)"
proof -
  let ?w = "empty_mem\<lparr>mem_dbs := [(''ns1'', ''db1'') \<mapsto> deleted_demo]\<rparr>"
  have key: "meta_key (db_Meta deleted_demo) = (''ns1'', ''db1'')" by (simp add: deleted_demo_def meta_key_def)
  have get: "kc_Get (r_TlnDB mem_reconciler) (''ns1'', ''db1'') ?w = (Inr deleted_demo, ?w)"
    by (simp add: mem_TlnDB_def key)
  have del: "om_DeletionTimestamp (db_Meta deleted_demo) \<noteq> None"
    "r_ContainsFinalizer mem_reconciler (db_Meta deleted_demo) FinalizerName"
    by (simp_all add: deleted_demo_def)
  have "\<exists>w'. Reconcile mem_reconciler (''ns1'', ''db1'') ?w = ((zero_Result, None), w')"
    using get del key
    by (simp add: Reconcile_def reconcileInstance_def reconcileDeletion_def setPhase_def patchStatus_def
        mem_StatusPatch_def updateInstance_def mem_TlnDB_def mem_Update_def mem_instances_def meta_key_def Let_def)
  then show ?thesis using deletion_releases_instance [OF mem_env_laws get del] by blast
qed



text \<open>
  C11: the phase tells the truth about the primary StatefulSet (the leader in replicated mode).
  After a successful status sync the phase is Provisioning iff the StatefulSet controller
  has not observed the latest generation, Running iff it has and at least the desired
  number of replicas is ready, Degraded otherwise; the ready count is the set's; the
  instance is looked at again in ten seconds unless it is Running.
\<close>

theorem phase_classification:
  assumes "env_laws V r"
    and "kc_Get (r_StatefulSet r) (db_Namespace inst, primaryStatefulSetName inst) w = (Inr sts, w1)"
    and "syncStatus r inst w = ((res, None), inst', w')"
  shows "let observed = st_ObservedGeneration (sts_Status sts); gen = om_Generation (sts_Meta sts);
             ready = st_ReadyReplicas (sts_Status sts);
             want = (if Replicated inst then 1 else case spec_Replicas (db_Spec inst) of None \<Rightarrow> 1 | Some n \<Rightarrow> n);
             phase = sta_Phase (db_Status inst')
    in (phase = PhaseProvisioning \<longleftrightarrow> observed < gen) \<and>
       (phase = PhaseRunning \<longleftrightarrow> gen \<le> observed \<and> want \<le> ready) \<and>
       (phase = PhaseDegraded \<longleftrightarrow> gen \<le> observed \<and> ready < want) \<and>
       sta_ReadyReplicas (db_Status inst') = ready \<and>
       \<not> res_Requeue res \<and> res_RequeueAfter res = (if phase = PhaseRunning then 0 else 10 * second)"
proof -
  note S = syncStatus_found [OF assms]
  have w: "desiredReplicas inst = (if Replicated inst then 1 else case spec_Replicas (db_Spec inst) of None \<Rightarrow> 1 | Some n \<Rightarrow> n)"
    by (simp add: desiredReplicas_def split: option.split)
  show ?thesis
    using S(2-4) unfolding w Let_def by (auto simp: phaseOf_def phase_defs zero_Result_def)
qed

theorem phase_classification_witness:
  "\<exists>inst' w'. syncStatus mem_reconciler demo
       ((mem_one (KStatefulSet running_sts))\<lparr>mem_dbs := [(''ns1'', ''db1'') \<mapsto> demo]\<rparr>) = ((zero_Result, None), inst', w')
     \<and> sta_Phase (db_Status inst') = PhaseRunning"
proof -
  let ?w = "(mem_one (KStatefulSet running_sts))\<lparr>mem_dbs := [(''ns1'', ''db1'') \<mapsto> demo]\<rparr>"
  have key: "meta_key (sts_Meta running_sts) = (''ns1'', ''db1'')" "valid_StatefulSet running_sts"
    using built_valid(1) [of sample_lib demo "''h''"]
    by (simp_all add: running_sts_def child_keys ResourceName_def valid_StatefulSet_def)
  have prim: "primaryStatefulSetName demo = ''db1''"
    by (simp add: primaryStatefulSetName_def Replicated_def ResourceName_def)
  have get: "kc_Get (r_StatefulSet mem_reconciler) (db_Namespace demo, primaryStatefulSetName demo) ?w = (Inr running_sts, ?w)"
    using mem_one_view [of "KStatefulSet running_sts"] key prim by (simp add: mem_client_def)
  have fields: "om_Generation (sts_Meta running_sts) = 0" "st_ObservedGeneration (sts_Status running_sts) = 0"
    "st_ReadyReplicas (sts_Status running_sts) = 1" "spec_Replicas (db_Spec demo) = None" "\<not> Replicated demo"
    by (simp_all add: running_sts_def build_defs Let_def zero_defs demo_def Replicated_def)
  then have "phaseOf running_sts (desiredReplicas demo) = PhaseRunning"
    by (simp add: phaseOf_def desiredReplicas_def)
  then have "\<exists>inst' w'. syncStatus mem_reconciler demo ?w = ((zero_Result, None), inst', w')"
    using get unfolding syncStatus_def
    by (simp add: setConditionOnInstance_def patchStatus_def mem_StatusPatch_def mem_SetStatusCondition_def Let_def
        split: prod.split sum.split)
  then show ?thesis
    using phase_classification [OF mem_env_laws get] fields unfolding Let_def by force
qed

end
